(* ===== verification/Prelude.thy ===== *)
theory Prelude
  imports Main "HOL-Library.Char_ord" "HOL-Library.List_Lexorder" "HOL-Library.AList"
begin

text \<open>
  Shared vocabulary of the development.

  Go values are represented as follows everywhere below.
  \<^item> A Go \<^verbatim>\<open>string\<close> is a \<^typ>\<open>string\<close> (its bytes); \<^verbatim>\<open><\<close> on Go strings is the bytewise
    lexicographic order, which is \<open><\<close> on \<^typ>\<open>string\<close> with the orders of
    \<^verbatim>\<open>Char_ord\<close> and \<^verbatim>\<open>List_Lexorder\<close>.
  \<^item> A pointer that may be nil is an \<^verbatim>\<open>option\<close>.
  \<^item> A map that is only looked up is a partial function; a map that the code ranges over is
    an association list with distinct keys, whose order is one order in which the Go
    runtime may visit it.
  \<^item> A panic (a nil dereference included) is the left injection of a sum.
\<close>

section \<open>Collections of rules\<close>

named_theorems go_simps \<open>unfolding of the string and map primitives of the Go library\<close>
named_theorems cond_defs \<open>the constructors of status conditions\<close>

section \<open>Panics\<close>

datatype go_panic = NilDeref | Panic string

type_synonym 'a go = "go_panic + 'a"

text \<open>Sequencing: a panic ends the computation.\<close>

fun bind_go :: "'a go \<Rightarrow> ('a \<Rightarrow> 'b go) \<Rightarrow> 'b go" where
  "bind_go (Inl p) f = Inl p"
| "bind_go (Inr a) f = f a"

primrec fold_go :: "('x \<Rightarrow> 's \<Rightarrow> 's go) \<Rightarrow> 'x list \<Rightarrow> 's \<Rightarrow> 's go" where
  "fold_go f [] s = Inr s"
| "fold_go f (x # xs) s = bind_go (f x s) (fold_go f xs)"

lemma bind_go_Inr_iff: "bind_go m f = Inr b \<longleftrightarrow> (\<exists>a. m = Inr a \<and> f a = Inr b)"
  by (cases m) auto

lemma fold_go_append: "fold_go f (xs @ ys) s = bind_go (fold_go f xs s) (fold_go f ys)"
proof (induction xs arbitrary: s)
  case (Cons x xs)
  then show ?case by (cases "f x s") auto
qed simp

lemma fold_go_total:
  assumes "\<And>x s. x \<in> set xs \<Longrightarrow> I s \<Longrightarrow> \<exists>t. f x s = Inr t \<and> I t" and "I s"
  shows "\<exists>t. fold_go f xs s = Inr t \<and> I t"
  using assms
proof (induction xs arbitrary: s)
  case (Cons x xs)
  obtain t where t: "f x s = Inr t" "I t" using Cons.prems by fastforce
  with Cons.IH [OF Cons.prems(1), of t] show ?case by auto
qed simp

lemma fold_go_invariant:
  assumes "\<And>x s t. x \<in> set xs \<Longrightarrow> I s \<Longrightarrow> f x s = Inr t \<Longrightarrow> I t" and "fold_go f xs s = Inr t" and "I s"
  shows "I t"
  using assms
proof (induction xs arbitrary: s)
  case (Cons x xs)
  from Cons.prems(2) obtain u where u: "f x s = Inr u" "fold_go f xs u = Inr t"
    by (auto simp: bind_go_Inr_iff)
  have "I u" using Cons.prems(1) [OF _ Cons.prems(3) u(1)] by simp
  then show ?case using Cons.IH [OF _ u(2)] Cons.prems(1) by (meson list.set_intros(2))
qed simp

text \<open>The invariant rule for a loop over indices: the invariant may mention how far the loop has come.\<close>

lemma fold_go_upt:
  assumes "fold_go f [0..<n] s = Inr t" and "I 0 s"
    and "\<And>i s t. i < n \<Longrightarrow> I i s \<Longrightarrow> f i s = Inr t \<Longrightarrow> I (Suc i) t"
  shows "I n t"
  using assms
proof (induction n arbitrary: t)
  case (Suc n)
  from Suc.prems(1) obtain u where u: "fold_go f [0..<n] s = Inr u" "f n u = Inr t"
    by (auto simp: fold_go_append bind_go_Inr_iff)
  have "I n u" using Suc.IH [OF u(1) Suc.prems(2)] Suc.prems(3) by simp
  then show ?case using Suc.prems(3) u(2) by blast
qed simp

section \<open>Lists\<close>

lemma list_all2_right:
  assumes "list_all2 P xs ys" and "y \<in> set ys"
  obtains x where "x \<in> set xs" and "P x y"
  using assms by (induction rule: list_all2_induct) auto

lemma list_all2_left:
  assumes "list_all2 P xs ys" and "x \<in> set xs"
  obtains y where "y \<in> set ys" and "P x y"
  using assms by (induction rule: list_all2_induct) auto

text \<open>
  The loops that keep the elements whose key was not seen before: \<open>first_by key seen xs\<close>. The result has the first element of
  every key, in order.
\<close>

fun first_by :: "('a \<Rightarrow> 'k) \<Rightarrow> 'k set \<Rightarrow> 'a list \<Rightarrow> 'a list" where
  "first_by key seen [] = []"
| "first_by key seen (x # xs) =
     (if key x \<notin> seen then x # first_by key (insert (key x) seen) xs else first_by key seen xs)"

definition first_at :: "('a \<Rightarrow> 'k) \<Rightarrow> 'a list \<Rightarrow> nat \<Rightarrow> bool" where
  "first_at key xs i \<longleftrightarrow> (\<forall>j < i. key (xs ! j) \<noteq> key (xs ! i))"

lemma ex_Suc_split: "(\<exists>i. P i) \<longleftrightarrow> P 0 \<or> (\<exists>i. P (Suc i))"
  by (metis not0_implies_Suc)

lemma set_first_by: "set (first_by key N xs) = {xs ! i |i. i < length xs \<and> first_at key xs i \<and> key (xs ! i) \<notin> N}"
proof (induction xs arbitrary: N)
  case (Cons x xs)
  have step: "{(x # xs) ! i |i. i < length (x # xs) \<and> first_at key (x # xs) i \<and> key ((x # xs) ! i) \<notin> N} =
      (if key x \<notin> N then {x} else {}) \<union> {xs ! i |i. i < length xs \<and> first_at key xs i \<and> key (xs ! i) \<notin> insert (key x) N}" (is "?l = ?r")
  proof -
    have first: "first_at key (x # xs) (Suc i) \<longleftrightarrow> key (xs ! i) \<noteq> key x \<and> first_at key xs i" for i
      by (auto simp: first_at_def less_Suc_eq_0_disj)
    have "y \<in> ?l \<longleftrightarrow> y \<in> ?r" for y
      unfolding Un_iff mem_Collect_eq by (subst ex_Suc_split) (auto simp: first first_at_def [of _ _ 0])
    then show ?thesis by blast
  qed
  show ?case
  proof (cases "key x \<in> N")
    case True
    then have "insert (key x) N = N" by blast
    with True step Cons show ?thesis by simp
  next
    case False
    with step Cons show ?thesis by simp
  qed
qed simp

lemma first_by_keys: "key ` set (first_by key N xs) = key ` set xs - N"
  by (induction xs arbitrary: N) auto

lemma first_by_subset: "set (first_by key N xs) \<subseteq> set xs"
  by (auto simp: set_first_by)

lemma first_by_distinct: "distinct (map key (first_by key N xs))"
proof (induction xs arbitrary: N)
  case (Cons x xs)
  have "key x \<notin> key ` set (first_by key (insert (key x) N) xs)" by (simp add: first_by_keys)
  with Cons show ?case by simp
qed simp

section \<open>Strings\<close>

text \<open>\<^verbatim>\<open>strings.HasPrefix\<close>, \<^verbatim>\<open>strings.HasSuffix\<close>, \<^verbatim>\<open>strings.TrimPrefix\<close> of the standard library.\<close>

definition has_prefix :: "string \<Rightarrow> string \<Rightarrow> bool" where
  "has_prefix s p \<longleftrightarrow> take (length p) s = p"

definition has_suffix :: "string \<Rightarrow> string \<Rightarrow> bool" where
  "has_suffix s p \<longleftrightarrow> length p \<le> length s \<and> drop (length s - length p) s = p"

definition trim_prefix :: "string \<Rightarrow> string \<Rightarrow> string" where
  "trim_prefix s p = (if has_prefix s p then drop (length p) s else s)"

lemma has_prefix_iff: "has_prefix s p \<longleftrightarrow> (\<exists>t. s = p @ t)"
proof
  assume "has_prefix s p"
  then have "take (length p) s = p" by (simp add: has_prefix_def)
  then have "s = p @ drop (length p) s" by (metis append_take_drop_id)
  then show "\<exists>t. s = p @ t" ..
qed (auto simp: has_prefix_def)

lemma has_suffix_iff: "has_suffix s p \<longleftrightarrow> (\<exists>t. s = t @ p)"
proof
  assume "has_suffix s p"
  then have "drop (length s - length p) s = p" by (simp add: has_suffix_def)
  then have "s = take (length s - length p) s @ p" by (metis append_take_drop_id)
  then show "\<exists>t. s = t @ p" ..
qed (auto simp: has_suffix_def)

lemma has_suffix_refl [simp]: "has_suffix s s"
  by (simp add: has_suffix_def)

lemma has_suffix_trans: "has_suffix s t \<Longrightarrow> has_suffix t u \<Longrightarrow> has_suffix s u"
  by (auto simp: has_suffix_iff)

lemma has_suffix_length: "has_suffix s p \<Longrightarrow> length p \<le> length s"
  by (simp add: has_suffix_def)

text \<open>Two suffixes of one string are comparable: the shorter is a suffix of the longer.\<close>

lemma has_suffix_linear:
  assumes "has_suffix s p" and "has_suffix s q" and "length p \<le> length q"
  shows "has_suffix q p"
proof -
  from assms(1) obtain a where "s = a @ p" by (auto simp: has_suffix_iff)
  moreover from assms(2) obtain b where "s = b @ q" by (auto simp: has_suffix_iff)
  ultimately have "a @ p = b @ q" by simp
  with assms(3) obtain c where "q = c @ p"
    by (auto simp: append_eq_append_conv2)
  then show ?thesis by (auto simp: has_suffix_iff)
qed

text \<open>
  \<^verbatim>\<open>strings.Split\<close> with a one-byte separator (the only use in the modelled code) and
  \<^verbatim>\<open>strings.Join\<close>.
\<close>

fun split_on :: "char \<Rightarrow> string \<Rightarrow> string list" where
  "split_on c [] = [[]]"
| "split_on c (x # xs) =
     (if x = c then [] # split_on c xs
      else (case split_on c xs of [] \<Rightarrow> [[x]] | w # ws \<Rightarrow> (x # w) # ws))"

fun join :: "string \<Rightarrow> string list \<Rightarrow> string" where
  "join sep [] = []"
| "join sep [w] = w"
| "join sep (w # v # ws) = w @ sep @ join sep (v # ws)"

lemma split_on_nonempty [simp]: "split_on c s \<noteq> []"
  by (induction s) (auto split: list.splits)

lemma length_split_on: "length (split_on c s) = Suc (count_list s c)"
  by (induction s) (auto split: list.splits)

lemma join_split_on [simp]: "join [c] (split_on c s) = s"
proof (induction s)
  case (Cons x xs)
  obtain w ws where "split_on c xs = w # ws" by (cases "split_on c xs") auto
  with Cons show ?case by (cases ws) auto
qed simp

text \<open>\<^verbatim>\<open>%d\<close> of \<^verbatim>\<open>fmt\<close>: decimal rendering of an integer.\<close>

fun show_nat :: "nat \<Rightarrow> string" where
  "show_nat n = (if n < 10 then [char_of (48 + n)] else show_nat (n div 10) @ [char_of (48 + n mod 10)])"

declare show_nat.simps [simp del]

definition show_int :: "int \<Rightarrow> string" where
  "show_int i = (if i < 0 then CHR ''-'' # show_nat (nat (- i)) else show_nat (nat i))"

lemma digit_inj:
  assumes "a < 10" "b < 10" "(char_of (48 + a :: nat) :: char) = char_of (48 + b)"
  shows "a = b"
proof -
  have "(48 + a) mod 256 = (48 + b) mod 256"
    using assms(3) by (simp add: char_of_eq_iff take_bit_eq_mod)
  with assms(1,2) show ?thesis by simp
qed

lemma show_nat_nonempty [simp]: "show_nat n \<noteq> []"
  by (subst show_nat.simps) simp

lemma show_nat_length_gt1: "\<not> n < 10 \<Longrightarrow> length (show_nat n) > 1"
  by (subst show_nat.simps) simp

lemma show_nat_inj: "show_nat m = show_nat n \<Longrightarrow> m = n"
proof (induction m arbitrary: n rule: show_nat.induct)
  case (1 m)
  show ?case
  proof (cases "m < 10")
    case True
    have "length (show_nat m) = 1" using True by (subst show_nat.simps) simp
    with "1.prems" have n: "n < 10" using show_nat_length_gt1 [of n] by fastforce
    have "[char_of (48 + m) :: char] = [char_of (48 + n)]"
      using "1.prems" True n by (simp add: show_nat.simps [of m] show_nat.simps [of n])
    then show ?thesis using True n digit_inj by blast
  next
    case False
    then have "length (show_nat m) > 1" by (rule show_nat_length_gt1)
    with "1.prems" have n: "\<not> n < 10" by (auto simp: show_nat.simps [of n])
    from "1.prems" have eq: "show_nat (m div 10) = show_nat (n div 10)"
      and lst: "(char_of (48 + m mod 10) :: char) = char_of (48 + n mod 10)"
      using False n by (simp_all add: show_nat.simps [of m] show_nat.simps [of n])
    from "1.IH" [OF False eq] have "m div 10 = n div 10" .
    moreover from digit_inj [OF _ _ lst] have "m mod 10 = n mod 10" by simp
    ultimately show ?thesis by (metis div_mult_mod_eq)
  qed
qed

lemma show_nat_digits: "c \<in> set (show_nat n) \<Longrightarrow> \<exists>d < 10. c = char_of (48 + d :: nat)"
proof (induction n rule: show_nat.induct)
  case (1 n)
  show ?case
  proof (cases "n < 10")
    case True
    with "1.prems" show ?thesis by (subst (asm) show_nat.simps) auto
  next
    case False
    with "1.prems" have "c \<in> set (show_nat (n div 10)) \<or> c = char_of (48 + n mod 10)"
      by (subst (asm) show_nat.simps) auto
    then show ?thesis
    proof
      assume "c = char_of (48 + n mod 10)"
      then show ?thesis by (intro exI [of _ "n mod 10"]) simp
    qed (rule "1.IH" [OF False])
  qed
qed

lemma digit_range:
  assumes "d < (10 :: nat)"
  shows "(char_of (48 + d) :: char) \<noteq> CHR ''_''" "(char_of (48 + d) :: char) \<noteq> CHR ''-''"
    "(char_of (48 + d) :: char) \<noteq> CHR ''/''"
  using assms by (auto simp: char_of_eq_iff take_bit_eq_mod)

lemma show_int_no_sep [simp]: "CHR ''_'' \<notin> set (show_int i)" "CHR ''/'' \<notin> set (show_int i)"
  using digit_range [symmetric] by (auto simp: show_int_def simp del: char_of_eq_iff dest!: show_nat_digits)

lemma show_int_inj: "show_int i = show_int j \<Longrightarrow> i = j"
proof -
  have "CHR ''-'' # s \<noteq> show_nat n" for s n
    using show_nat_digits [of "CHR ''-''" n] digit_range(2) by (metis list.set_intros(1))
  then show "show_int i = show_int j \<Longrightarrow> i = j"
    by (auto simp: show_int_def split: if_splits dest!: show_nat_inj) (metis)+
qed

text \<open>A name without the separator is determined by what precedes the first separator.\<close>

lemma sep_append_inj:
  "c \<notin> set a \<Longrightarrow> c \<notin> set b \<Longrightarrow> a @ c # r = b @ c # s \<longleftrightarrow> a = b \<and> r = s"
proof (induction a arbitrary: b)
  case Nil
  then show ?case by (cases b) auto
next
  case (Cons x a)
  then show ?case by (cases b) auto
qed

section \<open>Namespaced names\<close>

text \<open>\<^verbatim>\<open>types.NamespacedName\<close>; its \<^verbatim>\<open>String\<close> method joins the two parts with a slash.\<close>

record NamespacedName =
  nn_Namespace :: string
  nn_Name :: string

abbreviation nsname :: "string \<Rightarrow> string \<Rightarrow> NamespacedName" where
  "nsname ns n \<equiv> \<lparr>nn_Namespace = ns, nn_Name = n\<rparr>"

definition nn_String :: "NamespacedName \<Rightarrow> string" where
  "nn_String n = nn_Namespace n @ ''/'' @ nn_Name n"

section \<open>Fields that may be nil\<close>

text \<open>\<open>deref_or d p\<close>: the value of a pointer, or the default the code takes when it is nil.\<close>

definition deref_or :: "'a \<Rightarrow> 'a option \<Rightarrow> 'a" where
  "deref_or d p = (case p of None \<Rightarrow> d | Some v \<Rightarrow> v)"

lemma deref_or_simps [simp]: "deref_or d None = d" "deref_or d (Some v) = v"
  by (simp_all add: deref_or_def)

end
