(* ===== verification/Conditions.thy ===== *)
theory Conditions
  imports Prelude "HOL-Library.Sublist"
begin

text \<open>
  Status conditions (\<^verbatim>\<open>internal/controller/state/conditions/conditions.go\<close>): the
  \<^verbatim>\<open>Condition\<close> struct, the constructors the graph uses, and the functions on lists of
  conditions. Constants of the Gateway API module, which is not part of the repository, are
  named by their Go identifier (\<open>Imported ''v1.RouteConditionAccepted''\<close>); constants the
  repository declares itself are given by their value (\<open>Lit ''InvalidGateway''\<close>). The lists
  of conditions of one resource draw their types from one family of constants, so comparing
  identifiers decides the comparison of the strings.
\<close>

section \<open>The data\<close>

datatype ident = Imported string | Lit string

text \<open>\<open>metav1.ConditionStatus\<close>, with the empty string of a zero \<open>Condition\<close> as \<open>StatusUnset\<close>.\<close>

datatype ConditionStatus = StatusUnset | ConditionTrue | ConditionFalse | ConditionUnknown

record Condition =
  c_Type :: ident
  c_Status :: ConditionStatus
  c_Reason :: ident
  c_Message :: string

text \<open>The zero value \<^verbatim>\<open>Condition{}\<close>, which the code uses as ``no condition''.\<close>

definition emptyCondition :: Condition where
  "emptyCondition = \<lparr>c_Type = Lit '''', c_Status = StatusUnset, c_Reason = Lit '''', c_Message = ''''\<rparr>"

section \<open>Constructors\<close>

definition NewDefaultGatewayClassConditions :: "Condition list" where [cond_defs]:
  "NewDefaultGatewayClassConditions =
    [\<lparr>c_Type = Imported ''v1.GatewayClassConditionStatusAccepted'', c_Status = ConditionTrue,
      c_Reason = Imported ''v1.GatewayClassReasonAccepted'',
      c_Message = ''The GatewayClass is accepted''\<rparr>,
     \<lparr>c_Type = Imported ''v1.GatewayClassConditionStatusSupportedVersion'', c_Status = ConditionTrue,
      c_Reason = Imported ''v1.GatewayClassReasonSupportedVersion'',
      c_Message = ''The Gateway API CRD versions are supported''\<rparr>]"

definition NewGatewayClassSupportedVersionBestEffort :: "string \<Rightarrow> Condition list" where [cond_defs]:
  "NewGatewayClassSupportedVersionBestEffort recommendedVersion =
    [\<lparr>c_Type = Imported ''v1.GatewayClassConditionStatusSupportedVersion'', c_Status = ConditionFalse,
      c_Reason = Imported ''v1.GatewayClassReasonUnsupportedVersion'',
      c_Message = ''The Gateway API CRD versions are not recommended. Recommended version is '' @ recommendedVersion\<rparr>]"

definition NewGatewayClassUnsupportedVersion :: "string \<Rightarrow> Condition list" where [cond_defs]:
  "NewGatewayClassUnsupportedVersion recommendedVersion =
    [\<lparr>c_Type = Imported ''v1.GatewayClassConditionStatusAccepted'', c_Status = ConditionFalse,
      c_Reason = Imported ''v1.GatewayClassReasonUnsupportedVersion'',
      c_Message = ''The Gateway API CRD versions are not supported. Please install version '' @ recommendedVersion\<rparr>,
     \<lparr>c_Type = Imported ''v1.GatewayClassConditionStatusSupportedVersion'', c_Status = ConditionFalse,
      c_Reason = Imported ''v1.GatewayClassReasonUnsupportedVersion'',
      c_Message = ''The Gateway API CRD versions are not supported. Please install version '' @ recommendedVersion\<rparr>]"

definition NewGatewayRefNotPermitted :: "string \<Rightarrow> Condition" where [cond_defs]:
  "NewGatewayRefNotPermitted msg =
    \<lparr>c_Type = Lit ''ResolvedRefs'', c_Status = ConditionFalse,
      c_Reason = Imported ''v1.GatewayReasonRefNotPermitted'',
      c_Message = msg\<rparr>"

definition NewGatewaySecretRefInvalid :: "string \<Rightarrow> Condition" where [cond_defs]:
  "NewGatewaySecretRefInvalid msg =
    \<lparr>c_Type = Lit ''ResolvedRefs'', c_Status = ConditionFalse,
      c_Reason = Imported ''v1.GatewayReasonInvalidClientCertificateRef'',
      c_Message = msg\<rparr>"

definition NewGatewayClassConflict :: "Condition" where [cond_defs]:
  "NewGatewayClassConflict =
    \<lparr>c_Type = Imported ''v1.GatewayClassConditionStatusAccepted'', c_Status = ConditionFalse,
      c_Reason = Lit ''GatewayClassConflict'',
      c_Message = ''The resource is ignored due to a conflicting GatewayClass resource''\<rparr>"

definition NewRouteAccepted :: "Condition" where [cond_defs]:
  "NewRouteAccepted =
    \<lparr>c_Type = Imported ''v1.RouteConditionAccepted'', c_Status = ConditionTrue,
      c_Reason = Imported ''v1.RouteReasonAccepted'',
      c_Message = ''The Route is accepted''\<rparr>"

definition NewRouteResolvedRefs :: "Condition" where [cond_defs]:
  "NewRouteResolvedRefs =
    \<lparr>c_Type = Imported ''v1.RouteConditionResolvedRefs'', c_Status = ConditionTrue,
      c_Reason = Imported ''v1.RouteReasonResolvedRefs'',
      c_Message = ''All references are resolved''\<rparr>"

definition NewDefaultRouteConditions :: "Condition list" where [cond_defs]:
  "NewDefaultRouteConditions =
    [NewRouteAccepted,
     NewRouteResolvedRefs]"

definition NewRouteNotAllowedByListeners :: "Condition" where [cond_defs]:
  "NewRouteNotAllowedByListeners =
    \<lparr>c_Type = Imported ''v1.RouteConditionAccepted'', c_Status = ConditionFalse,
      c_Reason = Imported ''v1.RouteReasonNotAllowedByListeners'',
      c_Message = ''The Route is not allowed by any listener''\<rparr>"

definition NewRouteNoMatchingListenerHostname :: "Condition" where [cond_defs]:
  "NewRouteNoMatchingListenerHostname =
    \<lparr>c_Type = Imported ''v1.RouteConditionAccepted'', c_Status = ConditionFalse,
      c_Reason = Imported ''v1.RouteReasonNoMatchingListenerHostname'',
      c_Message = ''The Listener hostname does not match the Route hostnames''\<rparr>"

definition NewRouteUnsupportedValue :: "string \<Rightarrow> Condition" where [cond_defs]:
  "NewRouteUnsupportedValue msg =
    \<lparr>c_Type = Imported ''v1.RouteConditionAccepted'', c_Status = ConditionFalse,
      c_Reason = Imported ''v1.RouteReasonUnsupportedValue'',
      c_Message = msg\<rparr>"

definition NewRouteAcceptedUnsupportedField :: "string \<Rightarrow> Condition" where [cond_defs]:
  "NewRouteAcceptedUnsupportedField msg =
    \<lparr>c_Type = Imported ''v1.RouteConditionAccepted'', c_Status = ConditionTrue,
      c_Reason = Lit ''UnsupportedField'',
      c_Message = ''The following unsupported parameters were ignored: '' @ msg\<rparr>"

definition NewRoutePartiallyInvalid :: "string \<Rightarrow> Condition" where [cond_defs]:
  "NewRoutePartiallyInvalid msg =
    \<lparr>c_Type = Imported ''v1.RouteConditionPartiallyInvalid'', c_Status = ConditionTrue,
      c_Reason = Imported ''v1.RouteReasonUnsupportedValue'',
      c_Message = ''Dropped Rule(s): '' @ msg\<rparr>"

definition NewRouteInvalidListener :: "Condition" where [cond_defs]:
  "NewRouteInvalidListener =
    \<lparr>c_Type = Imported ''v1.RouteConditionAccepted'', c_Status = ConditionFalse,
      c_Reason = Lit ''InvalidListener'',
      c_Message = ''The Listener is invalid for this parent ref''\<rparr>"

definition NewRouteHostnameConflict :: "Condition" where [cond_defs]:
  "NewRouteHostnameConflict =
    \<lparr>c_Type = Imported ''v1.RouteConditionAccepted'', c_Status = ConditionFalse,
      c_Reason = Lit ''HostnameConflict'',
      c_Message = ''Hostname(s) conflict with another Route of the same kind on the same port''\<rparr>"

definition NewRouteMultipleRoutesOnListener :: "Condition" where [cond_defs]:
  "NewRouteMultipleRoutesOnListener =
    \<lparr>c_Type = Imported ''v1.RouteConditionAccepted'', c_Status = ConditionFalse,
      c_Reason = Lit ''MultipleRoutesOnListener'',
      c_Message = ''Multiple L4 Routes are attached to the same listener, which is not supported''\<rparr>"

definition NewRouteBackendRefInvalidKind :: "string \<Rightarrow> Condition" where [cond_defs]:
  "NewRouteBackendRefInvalidKind msg =
    \<lparr>c_Type = Imported ''v1.RouteConditionResolvedRefs'', c_Status = ConditionFalse,
      c_Reason = Imported ''v1.RouteReasonInvalidKind'',
      c_Message = msg\<rparr>"

definition NewRouteBackendRefRefNotPermitted :: "string \<Rightarrow> Condition" where [cond_defs]:
  "NewRouteBackendRefRefNotPermitted msg =
    \<lparr>c_Type = Imported ''v1.RouteConditionResolvedRefs'', c_Status = ConditionFalse,
      c_Reason = Imported ''v1.RouteReasonRefNotPermitted'',
      c_Message = msg\<rparr>"

definition NewRouteBackendRefRefBackendNotFound :: "string \<Rightarrow> Condition" where [cond_defs]:
  "NewRouteBackendRefRefBackendNotFound msg =
    \<lparr>c_Type = Imported ''v1.RouteConditionResolvedRefs'', c_Status = ConditionFalse,
      c_Reason = Imported ''v1.RouteReasonBackendNotFound'',
      c_Message = msg\<rparr>"

definition NewRouteBackendRefUnsupportedValue :: "string \<Rightarrow> Condition" where [cond_defs]:
  "NewRouteBackendRefUnsupportedValue msg =
    \<lparr>c_Type = Imported ''v1.RouteConditionResolvedRefs'', c_Status = ConditionFalse,
      c_Reason = Lit ''UnsupportedValue'',
      c_Message = msg\<rparr>"

definition NewRouteBackendRefInvalidInferencePool :: "string \<Rightarrow> Condition" where [cond_defs]:
  "NewRouteBackendRefInvalidInferencePool msg =
    \<lparr>c_Type = Imported ''v1.RouteConditionResolvedRefs'', c_Status = ConditionFalse,
      c_Reason = Lit ''InvalidInferencePool'',
      c_Message = msg\<rparr>"

definition NewRouteBackendRefUnsupportedProtocol :: "string \<Rightarrow> Condition" where [cond_defs]:
  "NewRouteBackendRefUnsupportedProtocol msg =
    \<lparr>c_Type = Imported ''v1.RouteConditionResolvedRefs'', c_Status = ConditionFalse,
      c_Reason = Imported ''v1.RouteReasonUnsupportedProtocol'',
      c_Message = msg\<rparr>"

definition NewRouteInvalidGateway :: "Condition" where [cond_defs]:
  "NewRouteInvalidGateway =
    \<lparr>c_Type = Imported ''v1.RouteConditionAccepted'', c_Status = ConditionFalse,
      c_Reason = Lit ''InvalidGateway'',
      c_Message = ''The Gateway is invalid''\<rparr>"

definition NewRouteInvalidListenerSet :: "Condition" where [cond_defs]:
  "NewRouteInvalidListenerSet =
    \<lparr>c_Type = Imported ''v1.RouteConditionAccepted'', c_Status = ConditionFalse,
      c_Reason = Lit ''InvalidListenerSet'',
      c_Message = ''The ListenerSet is invalid''\<rparr>"

definition NewRouteNoMatchingParent :: "Condition" where [cond_defs]:
  "NewRouteNoMatchingParent =
    \<lparr>c_Type = Imported ''v1.RouteConditionAccepted'', c_Status = ConditionFalse,
      c_Reason = Imported ''v1.RouteReasonNoMatchingParent'',
      c_Message = ''The Listener is not found for this parent ref''\<rparr>"

definition NewRouteUnsupportedConfiguration :: "string \<Rightarrow> Condition" where [cond_defs]:
  "NewRouteUnsupportedConfiguration msg =
    \<lparr>c_Type = Imported ''v1.RouteConditionAccepted'', c_Status = ConditionFalse,
      c_Reason = Lit ''UnsupportedConfiguration'',
      c_Message = msg\<rparr>"

definition NewRouteResolvedRefsInvalidFilter :: "string \<Rightarrow> Condition" where [cond_defs]:
  "NewRouteResolvedRefsInvalidFilter msg =
    \<lparr>c_Type = Imported ''v1.RouteConditionResolvedRefs'', c_Status = ConditionFalse,
      c_Reason = Lit ''InvalidFilter'',
      c_Message = msg\<rparr>"

definition NewListenerAccepted :: "Condition" where [cond_defs]:
  "NewListenerAccepted =
    \<lparr>c_Type = Imported ''v1.ListenerConditionAccepted'', c_Status = ConditionTrue,
      c_Reason = Imported ''v1.ListenerReasonAccepted'',
      c_Message = ''The Listener is accepted''\<rparr>"

definition NewListenerProgrammed :: "Condition" where [cond_defs]:
  "NewListenerProgrammed =
    \<lparr>c_Type = Imported ''v1.ListenerConditionProgrammed'', c_Status = ConditionTrue,
      c_Reason = Imported ''v1.ListenerReasonProgrammed'',
      c_Message = ''The Listener is programmed''\<rparr>"

definition NewListenerResolvedRefs :: "Condition" where [cond_defs]:
  "NewListenerResolvedRefs =
    \<lparr>c_Type = Imported ''v1.ListenerConditionResolvedRefs'', c_Status = ConditionTrue,
      c_Reason = Imported ''v1.ListenerReasonResolvedRefs'',
      c_Message = ''All references are resolved''\<rparr>"

definition NewListenerNoConflicts :: "Condition" where [cond_defs]:
  "NewListenerNoConflicts =
    \<lparr>c_Type = Imported ''v1.ListenerConditionConflicted'', c_Status = ConditionFalse,
      c_Reason = Imported ''v1.ListenerReasonNoConflicts'',
      c_Message = ''No conflicts''\<rparr>"

definition NewListenerNotProgrammedInvalid :: "string \<Rightarrow> Condition" where [cond_defs]:
  "NewListenerNotProgrammedInvalid msg =
    \<lparr>c_Type = Imported ''v1.ListenerConditionProgrammed'', c_Status = ConditionFalse,
      c_Reason = Imported ''v1.ListenerReasonInvalid'',
      c_Message = msg\<rparr>"

definition NewListenerNotProgrammedHostnameConflict :: "string \<Rightarrow> Condition" where [cond_defs]:
  "NewListenerNotProgrammedHostnameConflict msg =
    \<lparr>c_Type = Imported ''v1.ListenerConditionProgrammed'', c_Status = ConditionFalse,
      c_Reason = Imported ''v1.ListenerReasonHostnameConflict'',
      c_Message = msg\<rparr>"

definition NewListenerNotProgrammedProtocolConflict :: "string \<Rightarrow> Condition" where [cond_defs]:
  "NewListenerNotProgrammedProtocolConflict msg =
    \<lparr>c_Type = Imported ''v1.ListenerConditionProgrammed'', c_Status = ConditionFalse,
      c_Reason = Imported ''v1.ListenerReasonProtocolConflict'',
      c_Message = msg\<rparr>"

definition NewListenerUnsupportedValue :: "string \<Rightarrow> Condition list" where [cond_defs]:
  "NewListenerUnsupportedValue msg =
    [\<lparr>c_Type = Imported ''v1.ListenerConditionAccepted'', c_Status = ConditionFalse,
      c_Reason = Lit ''UnsupportedValue'',
      c_Message = msg\<rparr>,
     NewListenerNotProgrammedInvalid msg]"

definition NewListenerInvalidCertificateRefNotAccepted :: "string \<Rightarrow> Condition list" where [cond_defs]:
  "NewListenerInvalidCertificateRefNotAccepted msg =
    [\<lparr>c_Type = Imported ''v1.ListenerConditionAccepted'', c_Status = ConditionFalse,
      c_Reason = Imported ''v1.ListenerReasonInvalidCertificateRef'',
      c_Message = msg\<rparr>,
     \<lparr>c_Type = Imported ''v1.ListenerConditionResolvedRefs'', c_Status = ConditionFalse,
      c_Reason = Imported ''v1.ListenerReasonInvalidCertificateRef'',
      c_Message = msg\<rparr>,
     NewListenerNotProgrammedInvalid msg]"

definition NewListenerAllInvalidCertificateRefs :: "string \<Rightarrow> ident \<Rightarrow> Condition list" where [cond_defs]:
  "NewListenerAllInvalidCertificateRefs msg reason =
    [\<lparr>c_Type = Imported ''v1.ListenerConditionAccepted'', c_Status = ConditionFalse,
      c_Reason = reason,
      c_Message = msg\<rparr>,
     \<lparr>c_Type = Imported ''v1.ListenerConditionResolvedRefs'', c_Status = ConditionFalse,
      c_Reason = reason,
      c_Message = msg\<rparr>,
     NewListenerNotProgrammedInvalid msg]"

definition NewListenerUnresolvedCertificateRef :: "string \<Rightarrow> ident \<Rightarrow> Condition" where [cond_defs]:
  "NewListenerUnresolvedCertificateRef msg reason =
    \<lparr>c_Type = Imported ''v1.ListenerConditionResolvedRefs'', c_Status = ConditionFalse,
      c_Reason = reason,
      c_Message = msg\<rparr>"

definition NewListenerInvalidRouteKinds :: "string \<Rightarrow> Condition list" where [cond_defs]:
  "NewListenerInvalidRouteKinds msg =
    [\<lparr>c_Type = Imported ''v1.ListenerConditionResolvedRefs'', c_Status = ConditionFalse,
      c_Reason = Imported ''v1.ListenerReasonInvalidRouteKinds'',
      c_Message = msg\<rparr>,
     NewListenerNotProgrammedInvalid msg]"

definition NewListenerProtocolConflict :: "string \<Rightarrow> Condition list" where [cond_defs]:
  "NewListenerProtocolConflict msg =
    [\<lparr>c_Type = Imported ''v1.ListenerConditionAccepted'', c_Status = ConditionFalse,
      c_Reason = Imported ''v1.ListenerReasonProtocolConflict'',
      c_Message = msg\<rparr>,
     \<lparr>c_Type = Imported ''v1.ListenerConditionConflicted'', c_Status = ConditionTrue,
      c_Reason = Imported ''v1.ListenerReasonProtocolConflict'',
      c_Message = msg\<rparr>,
     NewListenerNotProgrammedProtocolConflict msg]"

definition NewListenerHostnameConflict :: "string \<Rightarrow> Condition list" where [cond_defs]:
  "NewListenerHostnameConflict msg =
    [\<lparr>c_Type = Imported ''v1.ListenerConditionAccepted'', c_Status = ConditionFalse,
      c_Reason = Imported ''v1.ListenerReasonHostnameConflict'',
      c_Message = msg\<rparr>,
     \<lparr>c_Type = Imported ''v1.ListenerConditionConflicted'', c_Status = ConditionTrue,
      c_Reason = Imported ''v1.ListenerReasonHostnameConflict'',
      c_Message = msg\<rparr>,
     NewListenerNotProgrammedHostnameConflict msg]"

definition NewListenerUnsupportedProtocol :: "string \<Rightarrow> Condition list" where [cond_defs]:
  "NewListenerUnsupportedProtocol msg =
    [\<lparr>c_Type = Imported ''v1.ListenerConditionAccepted'', c_Status = ConditionFalse,
      c_Reason = Imported ''v1.ListenerReasonUnsupportedProtocol'',
      c_Message = msg\<rparr>,
     NewListenerNotProgrammedInvalid msg]"

definition NewListenerRefNotPermitted :: "string \<Rightarrow> Condition list" where [cond_defs]:
  "NewListenerRefNotPermitted msg =
    [\<lparr>c_Type = Imported ''v1.ListenerConditionAccepted'', c_Status = ConditionFalse,
      c_Reason = Imported ''v1.ListenerReasonRefNotPermitted'',
      c_Message = msg\<rparr>,
     \<lparr>c_Type = Imported ''v1.ListenerConditionResolvedRefs'', c_Status = ConditionFalse,
      c_Reason = Imported ''v1.ListenerReasonRefNotPermitted'',
      c_Message = msg\<rparr>,
     NewListenerNotProgrammedInvalid msg]"

definition NewListenerOverlappingTLSConfig :: "ident \<Rightarrow> string \<Rightarrow> Condition" where [cond_defs]:
  "NewListenerOverlappingTLSConfig reason msg =
    \<lparr>c_Type = Imported ''v1.ListenerConditionOverlappingTLSConfig'', c_Status = ConditionTrue,
      c_Reason = reason,
      c_Message = msg\<rparr>"

definition NewGatewayClassResolvedRefs :: "Condition" where [cond_defs]:
  "NewGatewayClassResolvedRefs =
    \<lparr>c_Type = Lit ''ResolvedRefs'', c_Status = ConditionTrue,
      c_Reason = Lit ''ResolvedRefs'',
      c_Message = ''The ParametersRef resource is resolved''\<rparr>"

definition NewGatewayClassRefNotFound :: "Condition" where [cond_defs]:
  "NewGatewayClassRefNotFound =
    \<lparr>c_Type = Lit ''ResolvedRefs'', c_Status = ConditionFalse,
      c_Reason = Lit ''ParametersRefNotFound'',
      c_Message = ''The ParametersRef resource could not be found''\<rparr>"

definition NewGatewayClassRefInvalid :: "string \<Rightarrow> Condition" where [cond_defs]:
  "NewGatewayClassRefInvalid msg =
    \<lparr>c_Type = Lit ''ResolvedRefs'', c_Status = ConditionFalse,
      c_Reason = Lit ''ParametersRefInvalid'',
      c_Message = msg\<rparr>"

definition NewGatewayClassInvalidParameters :: "string \<Rightarrow> Condition" where [cond_defs]:
  "NewGatewayClassInvalidParameters msg =
    \<lparr>c_Type = Imported ''v1.GatewayClassConditionStatusAccepted'', c_Status = ConditionTrue,
      c_Reason = Imported ''v1.GatewayClassReasonInvalidParameters'',
      c_Message = ''The GatewayClass is accepted, but ParametersRef is ignored due to an error: '' @ msg\<rparr>"

definition NewGatewayAccepted :: "Condition" where [cond_defs]:
  "NewGatewayAccepted =
    \<lparr>c_Type = Imported ''v1.GatewayConditionAccepted'', c_Status = ConditionTrue,
      c_Reason = Imported ''v1.GatewayReasonAccepted'',
      c_Message = ''The Gateway is accepted''\<rparr>"

definition NewGatewayProgrammed :: "Condition" where [cond_defs]:
  "NewGatewayProgrammed =
    \<lparr>c_Type = Imported ''v1.GatewayConditionProgrammed'', c_Status = ConditionTrue,
      c_Reason = Imported ''v1.GatewayReasonProgrammed'',
      c_Message = ''The Gateway is programmed''\<rparr>"

definition NewDefaultGatewayConditions :: "Condition list" where [cond_defs]:
  "NewDefaultGatewayConditions =
    [NewGatewayAccepted,
     NewGatewayProgrammed]"

definition NewGatewayAcceptedListenersNotValid :: "Condition" where [cond_defs]:
  "NewGatewayAcceptedListenersNotValid =
    \<lparr>c_Type = Imported ''v1.GatewayConditionAccepted'', c_Status = ConditionTrue,
      c_Reason = Imported ''v1.GatewayReasonListenersNotValid'',
      c_Message = ''The Gateway has at least one valid listener''\<rparr>"

definition NewGatewayNotProgrammedInvalid :: "string \<Rightarrow> Condition" where [cond_defs]:
  "NewGatewayNotProgrammedInvalid msg =
    \<lparr>c_Type = Imported ''v1.GatewayConditionProgrammed'', c_Status = ConditionFalse,
      c_Reason = Imported ''v1.GatewayReasonInvalid'',
      c_Message = msg\<rparr>"

definition NewGatewayNotAcceptedListenersNotValid :: "Condition list" where [cond_defs]:
  "NewGatewayNotAcceptedListenersNotValid =
    [\<lparr>c_Type = Imported ''v1.GatewayConditionAccepted'', c_Status = ConditionFalse,
      c_Reason = Imported ''v1.GatewayReasonListenersNotValid'',
      c_Message = ''The Gateway has no valid listeners''\<rparr>,
     NewGatewayNotProgrammedInvalid (''The Gateway has no valid listeners'')]"

definition NewGatewayInvalid :: "string \<Rightarrow> Condition list" where [cond_defs]:
  "NewGatewayInvalid msg =
    [\<lparr>c_Type = Imported ''v1.GatewayConditionAccepted'', c_Status = ConditionFalse,
      c_Reason = Imported ''v1.GatewayReasonInvalid'',
      c_Message = msg\<rparr>,
     NewGatewayNotProgrammedInvalid msg]"

definition NewGatewayUnsupportedValue :: "string \<Rightarrow> Condition list" where [cond_defs]:
  "NewGatewayUnsupportedValue msg =
    [\<lparr>c_Type = Imported ''v1.GatewayConditionAccepted'', c_Status = ConditionFalse,
      c_Reason = Lit ''UnsupportedValue'',
      c_Message = msg\<rparr>,
     \<lparr>c_Type = Imported ''v1.GatewayConditionProgrammed'', c_Status = ConditionFalse,
      c_Reason = Lit ''UnsupportedValue'',
      c_Message = msg\<rparr>]"

definition NewGatewayUnsupportedAddress :: "string \<Rightarrow> Condition" where [cond_defs]:
  "NewGatewayUnsupportedAddress msg =
    \<lparr>c_Type = Imported ''v1.GatewayConditionAccepted'', c_Status = ConditionFalse,
      c_Reason = Imported ''v1.GatewayReasonUnsupportedAddress'',
      c_Message = msg\<rparr>"

definition NewGatewayUnusableAddress :: "string \<Rightarrow> Condition" where [cond_defs]:
  "NewGatewayUnusableAddress msg =
    \<lparr>c_Type = Imported ''v1.GatewayConditionProgrammed'', c_Status = ConditionFalse,
      c_Reason = Imported ''v1.GatewayReasonAddressNotUsable'',
      c_Message = msg\<rparr>"

definition NewGatewayAddressNotAssigned :: "string \<Rightarrow> Condition" where [cond_defs]:
  "NewGatewayAddressNotAssigned msg =
    \<lparr>c_Type = Imported ''v1.GatewayConditionProgrammed'', c_Status = ConditionFalse,
      c_Reason = Imported ''v1.GatewayReasonAddressNotAssigned'',
      c_Message = msg\<rparr>"

definition NewGatewayInsecureFrontendValidationMode :: "string \<Rightarrow> Condition" where [cond_defs]:
  "NewGatewayInsecureFrontendValidationMode msg =
    \<lparr>c_Type = Imported ''v1.GatewayConditionInsecureFrontendValidationMode'', c_Status = ConditionTrue,
      c_Reason = Imported ''v1.GatewayReasonConfigurationChanged'',
      c_Message = msg\<rparr>"

definition NewListenerInvalidCaCertificateRef :: "string \<Rightarrow> Condition" where [cond_defs]:
  "NewListenerInvalidCaCertificateRef msg =
    \<lparr>c_Type = Imported ''v1.ListenerConditionResolvedRefs'', c_Status = ConditionFalse,
      c_Reason = Imported ''v1.ListenerReasonInvalidCACertificateRef'',
      c_Message = msg\<rparr>"

definition NewListenerInvalidCaCertificateKind :: "string \<Rightarrow> Condition" where [cond_defs]:
  "NewListenerInvalidCaCertificateKind msg =
    \<lparr>c_Type = Imported ''v1.ListenerConditionResolvedRefs'', c_Status = ConditionFalse,
      c_Reason = Imported ''v1.ListenerReasonInvalidCACertificateKind'',
      c_Message = msg\<rparr>"

definition NewListenerInvalidNoValidCACertificate :: "string \<Rightarrow> Condition list" where [cond_defs]:
  "NewListenerInvalidNoValidCACertificate msg =
    [\<lparr>c_Type = Imported ''v1.ListenerConditionAccepted'', c_Status = ConditionFalse,
      c_Reason = Imported ''v1.ListenerReasonNoValidCACertificate'',
      c_Message = msg\<rparr>,
     NewListenerNotProgrammedInvalid msg]"

definition NewGatewayResolvedRefs :: "Condition" where [cond_defs]:
  "NewGatewayResolvedRefs =
    \<lparr>c_Type = Lit ''ResolvedRefs'', c_Status = ConditionTrue,
      c_Reason = Lit ''ResolvedRefs'',
      c_Message = ''The referenced resources are resolved''\<rparr>"

definition NewGatewayRefInvalid :: "string \<Rightarrow> Condition" where [cond_defs]:
  "NewGatewayRefInvalid msg =
    \<lparr>c_Type = Lit ''ResolvedRefs'', c_Status = ConditionFalse,
      c_Reason = Lit ''ParametersRefInvalid'',
      c_Message = msg\<rparr>"

definition NewGatewayInvalidParameters :: "string \<Rightarrow> Condition" where [cond_defs]:
  "NewGatewayInvalidParameters msg =
    \<lparr>c_Type = Imported ''v1.GatewayConditionAccepted'', c_Status = ConditionTrue,
      c_Reason = Imported ''v1.GatewayReasonInvalidParameters'',
      c_Message = ''The Gateway is accepted, but ParametersRef is ignored due to an error: '' @ msg\<rparr>"

definition NewGatewayAcceptedUnsupportedField :: "string \<Rightarrow> Condition" where [cond_defs]:
  "NewGatewayAcceptedUnsupportedField msg =
    \<lparr>c_Type = Imported ''v1.GatewayConditionAccepted'', c_Status = ConditionTrue,
      c_Reason = Lit ''UnsupportedField'',
      c_Message = ''The Gateway is accepted but the following unsupported parameters were ignored: '' @ msg\<rparr>"

definition NewPolicyAccepted :: "Condition" where [cond_defs]:
  "NewPolicyAccepted =
    \<lparr>c_Type = Imported ''v1.PolicyConditionAccepted'', c_Status = ConditionTrue,
      c_Reason = Imported ''v1.PolicyReasonAccepted'',
      c_Message = ''The Policy is accepted''\<rparr>"

definition NewPolicyInvalid :: "string \<Rightarrow> Condition" where [cond_defs]:
  "NewPolicyInvalid msg =
    \<lparr>c_Type = Imported ''v1.PolicyConditionAccepted'', c_Status = ConditionFalse,
      c_Reason = Imported ''v1.PolicyReasonInvalid'',
      c_Message = msg\<rparr>"

definition NewPolicyConflicted :: "string \<Rightarrow> Condition" where [cond_defs]:
  "NewPolicyConflicted msg =
    \<lparr>c_Type = Imported ''v1.PolicyConditionAccepted'', c_Status = ConditionFalse,
      c_Reason = Imported ''v1.PolicyReasonConflicted'',
      c_Message = msg\<rparr>"

definition NewPolicyTargetNotFound :: "string \<Rightarrow> Condition" where [cond_defs]:
  "NewPolicyTargetNotFound msg =
    \<lparr>c_Type = Imported ''v1.PolicyConditionAccepted'', c_Status = ConditionFalse,
      c_Reason = Imported ''v1.PolicyReasonTargetNotFound'',
      c_Message = msg\<rparr>"

definition NewPolicyAncestorLimitReached :: "string \<Rightarrow> string \<Rightarrow> Condition" where [cond_defs]:
  "NewPolicyAncestorLimitReached policyType policyName =
    \<lparr>c_Type = Imported ''v1.PolicyConditionAccepted'', c_Status = ConditionFalse,
      c_Reason = Lit ''AncestorLimitReached'',
      c_Message = ''Policies cannot be applied because the ancestor status list has reached the maximum size. The following policies have been ignored:'' @ '' '' @ policyType @ '' '' @ policyName\<rparr>"

definition NewPolicyNotAcceptedTargetConflict :: "string \<Rightarrow> Condition" where [cond_defs]:
  "NewPolicyNotAcceptedTargetConflict msg =
    \<lparr>c_Type = Imported ''v1.PolicyConditionAccepted'', c_Status = ConditionFalse,
      c_Reason = Lit ''TargetConflict'',
      c_Message = msg\<rparr>"

definition NewPolicyNotAcceptedNginxProxyNotSet :: "string \<Rightarrow> Condition" where [cond_defs]:
  "NewPolicyNotAcceptedNginxProxyNotSet msg =
    \<lparr>c_Type = Imported ''v1.PolicyConditionAccepted'', c_Status = ConditionFalse,
      c_Reason = Lit ''NginxProxyConfigNotSet'',
      c_Message = msg\<rparr>"

definition NewBackendTLSPolicyResolvedRefs :: "Condition" where [cond_defs]:
  "NewBackendTLSPolicyResolvedRefs =
    \<lparr>c_Type = Lit ''ResolvedRefs'', c_Status = ConditionTrue,
      c_Reason = Lit ''ResolvedRefs'',
      c_Message = ''All CACertificateRefs are resolved''\<rparr>"

definition NewBackendTLSPolicyInvalidCACertificateRef :: "string \<Rightarrow> Condition" where [cond_defs]:
  "NewBackendTLSPolicyInvalidCACertificateRef message =
    \<lparr>c_Type = Lit ''ResolvedRefs'', c_Status = ConditionFalse,
      c_Reason = Imported ''v1.BackendTLSPolicyReasonInvalidCACertificateRef'',
      c_Message = message\<rparr>"

definition NewBackendTLSPolicyInvalidKind :: "string \<Rightarrow> Condition" where [cond_defs]:
  "NewBackendTLSPolicyInvalidKind message =
    \<lparr>c_Type = Lit ''ResolvedRefs'', c_Status = ConditionFalse,
      c_Reason = Imported ''v1.BackendTLSPolicyReasonInvalidKind'',
      c_Message = message\<rparr>"

definition NewBackendTLSPolicyNoValidCACertificate :: "string \<Rightarrow> Condition" where [cond_defs]:
  "NewBackendTLSPolicyNoValidCACertificate message =
    \<lparr>c_Type = Imported ''v1.PolicyConditionAccepted'', c_Status = ConditionFalse,
      c_Reason = Imported ''v1.BackendTLSPolicyReasonNoValidCACertificate'',
      c_Message = message\<rparr>"

definition NewInferencePoolAccepted :: "Condition" where [cond_defs]:
  "NewInferencePoolAccepted =
    \<lparr>c_Type = Imported ''inference.InferencePoolConditionAccepted'', c_Status = ConditionTrue,
      c_Reason = Imported ''inference.InferencePoolConditionAccepted'',
      c_Message = ''The InferencePool is accepted by the Gateway.''\<rparr>"

definition NewInferencePoolResolvedRefs :: "Condition" where [cond_defs]:
  "NewInferencePoolResolvedRefs =
    \<lparr>c_Type = Imported ''inference.InferencePoolConditionResolvedRefs'', c_Status = ConditionTrue,
      c_Reason = Imported ''inference.InferencePoolConditionResolvedRefs'',
      c_Message = ''The InferencePool references a valid ExtensionRef.''\<rparr>"

definition NewDefaultInferenceConditions :: "Condition list" where [cond_defs]:
  "NewDefaultInferenceConditions =
    [NewInferencePoolAccepted,
     NewInferencePoolResolvedRefs]"

definition NewListenerSetAccepted :: "Condition" where [cond_defs]:
  "NewListenerSetAccepted =
    \<lparr>c_Type = Imported ''v1.ListenerSetConditionAccepted'', c_Status = ConditionTrue,
      c_Reason = Imported ''v1.ListenerSetReasonAccepted'',
      c_Message = ''The ListenerSet is accepted''\<rparr>"

definition NewListenerSetProgrammed :: "Condition" where [cond_defs]:
  "NewListenerSetProgrammed =
    \<lparr>c_Type = Imported ''v1.ListenerSetConditionProgrammed'', c_Status = ConditionTrue,
      c_Reason = Imported ''v1.ListenerSetReasonProgrammed'',
      c_Message = ''The ListenerSet is programmed''\<rparr>"

definition NewDefaultListenerSetConditions :: "Condition list" where [cond_defs]:
  "NewDefaultListenerSetConditions =
    [NewListenerSetAccepted,
     NewListenerSetProgrammed]"

definition NewListenerSetNotAllowed :: "string \<Rightarrow> Condition" where [cond_defs]:
  "NewListenerSetNotAllowed msg =
    \<lparr>c_Type = Imported ''v1.ListenerSetConditionAccepted'', c_Status = ConditionFalse,
      c_Reason = Imported ''v1.ListenerSetReasonNotAllowed'',
      c_Message = msg\<rparr>"

definition NewListenerSetParentNotAccepted :: "string \<Rightarrow> Condition" where [cond_defs]:
  "NewListenerSetParentNotAccepted msg =
    \<lparr>c_Type = Imported ''v1.ListenerSetConditionAccepted'', c_Status = ConditionFalse,
      c_Reason = Imported ''v1.ListenerSetReasonParentNotAccepted'',
      c_Message = msg\<rparr>"

definition NewListenerSetListenersNotValid :: "string \<Rightarrow> Condition" where [cond_defs]:
  "NewListenerSetListenersNotValid msg =
    \<lparr>c_Type = Imported ''v1.ListenerSetConditionAccepted'', c_Status = ConditionFalse,
      c_Reason = Imported ''v1.ListenerSetReasonListenersNotValid'',
      c_Message = msg\<rparr>"

definition NewListenerSetNotProgrammedInvalid :: "string \<Rightarrow> Condition" where [cond_defs]:
  "NewListenerSetNotProgrammedInvalid msg =
    \<lparr>c_Type = Imported ''v1.ListenerSetConditionProgrammed'', c_Status = ConditionFalse,
      c_Reason = Imported ''v1.ListenerSetReasonInvalid'',
      c_Message = msg\<rparr>"

definition NewListenerSetNotProgrammedListenersNotValid :: "string \<Rightarrow> Condition" where [cond_defs]:
  "NewListenerSetNotProgrammedListenersNotValid msg =
    \<lparr>c_Type = Imported ''v1.ListenerSetConditionProgrammed'', c_Status = ConditionFalse,
      c_Reason = Imported ''v1.ListenerSetReasonListenersNotValid'',
      c_Message = msg\<rparr>"

definition NewListenerSetNotProgrammedNotAllowed :: "string \<Rightarrow> Condition" where [cond_defs]:
  "NewListenerSetNotProgrammedNotAllowed msg =
    \<lparr>c_Type = Imported ''v1.ListenerSetConditionProgrammed'', c_Status = ConditionFalse,
      c_Reason = Imported ''v1.ListenerSetReasonNotAllowed'',
      c_Message = msg\<rparr>"

definition NewListenerSetNotProgrammedParentNotAccepted :: "string \<Rightarrow> Condition" where [cond_defs]:
  "NewListenerSetNotProgrammedParentNotAccepted msg =
    \<lparr>c_Type = Imported ''v1.ListenerSetConditionProgrammed'', c_Status = ConditionFalse,
      c_Reason = Lit ''ParentNotProgrammed'',
      c_Message = msg\<rparr>"

section \<open>Functions on condition lists\<close>

text \<open>
  \<^verbatim>\<open>DeduplicateConditions\<close>. \<open>dedup_scan\<close> is the loop from the last condition to the first
  (it is given the reversed list) that fills \<^verbatim>\<open>uniqueElems\<close> with the condition and its reverse
  index; \<open>dedup_fill\<close> is the loop over that map that writes the result slice.
\<close>

fun dedup_scan ::
  "Condition list \<Rightarrow> (ident \<times> Condition \<times> nat) list \<Rightarrow> nat \<Rightarrow> (ident \<times> Condition \<times> nat) list" where
  "dedup_scan [] uniqueElems idx = uniqueElems"
| "dedup_scan (c # cs) uniqueElems idx =
     (if c_Type c \<in> set (map fst uniqueElems) then dedup_scan cs uniqueElems idx
      else dedup_scan cs (uniqueElems @ [(c_Type c, c, idx)]) (Suc idx))"

definition dedup_put :: "ident \<times> Condition \<times> nat \<Rightarrow> Condition list \<Rightarrow> Condition list" where
  "dedup_put el result =
     (case el of (_, cond, reverseIdx) \<Rightarrow> result[length result - reverseIdx - 1 := cond])"

definition dedup_fill :: "(ident \<times> Condition \<times> nat) list \<Rightarrow> Condition list" where
  "dedup_fill uniqueElems =
     fold dedup_put uniqueElems (replicate (length uniqueElems) emptyCondition)"

definition DeduplicateConditions :: "Condition list \<Rightarrow> Condition list" where
  "DeduplicateConditions conds = dedup_fill (dedup_scan (rev conds) [] 0)"

record MetaCondition =
  mc_Type :: ident
  mc_Status :: ConditionStatus
  mc_ObservedGeneration :: int
  mc_LastTransitionTime :: int
  mc_Reason :: ident
  mc_Message :: string

definition ConvertConditions :: "Condition list \<Rightarrow> int \<Rightarrow> int \<Rightarrow> MetaCondition list" where
  "ConvertConditions conds observedGeneration transitionTime =
     map (\<lambda>c. \<lparr>mc_Type = c_Type c, mc_Status = c_Status c, mc_ObservedGeneration = observedGeneration,
                mc_LastTransitionTime = transitionTime, mc_Reason = c_Reason c,
                mc_Message = c_Message c\<rparr>) conds"

fun HasMatchingCondition :: "Condition list \<Rightarrow> Condition \<Rightarrow> bool" where
  "HasMatchingCondition [] cond = False"
| "HasMatchingCondition (existing # rest) cond =
     (if c_Type existing = c_Type cond \<and> c_Status existing = c_Status cond \<and>
         c_Reason existing = c_Reason cond \<and> c_Message existing = c_Message cond
      then True else HasMatchingCondition rest cond)"

definition hasResolvedRefsConditions :: "Condition list \<Rightarrow> bool" where
  "hasResolvedRefsConditions conds \<longleftrightarrow>
     list_ex (\<lambda>c. c_Type c = Imported ''v1.ListenerConditionResolvedRefs'') conds"

definition hasConflictConditions :: "Condition list \<Rightarrow> bool" where
  "hasConflictConditions conds \<longleftrightarrow>
     list_ex (\<lambda>c. c_Type c = Imported ''v1.ListenerConditionConflicted'' \<or>
                  c_Type c = Imported ''v1.ListenerConditionOverlappingTLSConfig'') conds"

definition NewDefaultListenerConditions :: "Condition list \<Rightarrow> Condition list" where
  "NewDefaultListenerConditions existingConditions =
     [NewListenerProgrammed, NewListenerAccepted]
     @ (if \<not> hasResolvedRefsConditions existingConditions then [NewListenerResolvedRefs] else [])
     @ (if \<not> hasConflictConditions existingConditions then [NewListenerNoConflicts] else [])"

section \<open>Correctness of deduplication\<close>

text \<open>The specification: of every type keep the last condition, in the order of the list.\<close>

fun last_per_type :: "Condition list \<Rightarrow> Condition list" where
  "last_per_type [] = []"
| "last_per_type (c # cs) =
     (if c_Type c \<in> c_Type ` set cs then last_per_type cs else c # last_per_type cs)"

lemma set_last_per_type: "set (last_per_type cs) \<subseteq> set cs"
  by (induction cs) auto

lemma types_last_per_type: "c_Type ` set (last_per_type cs) = c_Type ` set cs"
  by (induction cs) auto

lemma distinct_types_last_per_type: "distinct (map c_Type (last_per_type cs))"
proof (induction cs)
  case (Cons c cs)
  then show ?case using types_last_per_type [of cs] by (auto simp del: types_last_per_type)
qed simp

lemma last_per_type_last: "c \<in> set (last_per_type (cs @ [c]))"
  by (induction cs) auto

lemma last_per_type_snoc:
  "last_per_type (cs @ [c]) = filter (\<lambda>d. c_Type d \<noteq> c_Type c) (last_per_type cs) @ [c]"
  by (induction cs) auto

text \<open>The conditions the scan keeps, in the order of the scan.\<close>

fun keep_first :: "ident set \<Rightarrow> Condition list \<Rightarrow> Condition list" where
  "keep_first seen [] = []"
| "keep_first seen (c # cs) =
     (if c_Type c \<in> seen then keep_first seen cs else c # keep_first (insert (c_Type c) seen) cs)"

lemma rev_keep_first: "rev (keep_first seen (rev cs)) = filter (\<lambda>c. c_Type c \<notin> seen) (last_per_type cs)"
proof (induction cs arbitrary: seen rule: rev_induct)
  case (snoc c cs)
  have "filter (\<lambda>d. c_Type d \<notin> insert (c_Type c) seen) (last_per_type cs) =
      filter (\<lambda>d. c_Type d \<notin> seen) (filter (\<lambda>d. c_Type d \<noteq> c_Type c) (last_per_type cs))"
    by (auto simp: filter_filter intro: filter_cong)
  moreover have "c_Type c \<in> seen \<Longrightarrow> filter (\<lambda>d. c_Type d \<notin> seen) (last_per_type cs) =
      filter (\<lambda>d. c_Type d \<notin> seen) (filter (\<lambda>d. c_Type d \<noteq> c_Type c) (last_per_type cs))"
    by (auto simp: filter_filter intro: filter_cong)
  ultimately show ?case using snoc by (auto simp: last_per_type_snoc simp del: filter_filter)
qed simp

definition tag :: "nat \<Rightarrow> Condition list \<Rightarrow> (ident \<times> Condition \<times> nat) list" where
  "tag n cs = map2 (\<lambda>c i. (c_Type c, c, i)) cs [n..<n + length cs]"

lemma tag_simps [simp]: "tag n [] = []" "tag n (c # cs) = (c_Type c, c, n) # tag (Suc n) cs"
  by (simp_all add: tag_def upt_conv_Cons del: upt_Suc)

lemma tag_append: "tag n (as @ bs) = tag n as @ tag (n + length as) bs"
  by (induction as arbitrary: n) simp_all

lemma length_tag [simp]: "length (tag n cs) = length cs"
  by (induction cs arbitrary: n) auto

lemma fst_tag [simp]: "map fst (tag n cs) = map c_Type cs"
  by (induction cs arbitrary: n) auto

lemma dedup_scan_tag:
  "dedup_scan cs (tag 0 ks) (length ks) = tag 0 (ks @ keep_first (c_Type ` set ks) cs)"
proof (induction cs arbitrary: ks)
  case (Cons c cs)
  show ?case
  proof (cases "c_Type c \<in> c_Type ` set ks")
    case True
    then have "c_Type c \<in> set (map fst (tag 0 ks))" by simp
    with True Cons show ?thesis by simp
  next
    case False
    then have "c_Type c \<notin> set (map fst (tag 0 ks))" by simp
    moreover have "tag 0 ks @ [(c_Type c, c, length ks)] = tag 0 (ks @ [c])"
      by (simp add: tag_append)
    ultimately show ?thesis using False Cons [of "ks @ [c]"] by simp
  qed
qed simp

lemma tag_indices: "(t, c, i) \<in> set (tag n cs) \<longleftrightarrow> (\<exists>j < length cs. i = n + j \<and> c = cs ! j \<and> t = c_Type c)"
proof (induction cs arbitrary: n)
  case (Cons d cs)
  show ?case
  proof
    assume "(t, c, i) \<in> set (tag n (d # cs))"
    then consider "t = c_Type d" "c = d" "i = n" | "(t, c, i) \<in> set (tag (Suc n) cs)" by auto
    then show "\<exists>j < length (d # cs). i = n + j \<and> c = (d # cs) ! j \<and> t = c_Type c"
    proof cases
      case 2
      then obtain j where "j < length cs" "i = Suc n + j" "c = cs ! j" "t = c_Type c"
        using Cons.IH by blast
      then show ?thesis by (intro exI [of _ "Suc j"]) simp
    qed auto
  next
    assume "\<exists>j < length (d # cs). i = n + j \<and> c = (d # cs) ! j \<and> t = c_Type c"
    then obtain j where j: "j < length (d # cs)" "i = n + j" "c = (d # cs) ! j" "t = c_Type c" by blast
    then show "(t, c, i) \<in> set (tag n (d # cs))"
      using Cons.IH [of "Suc n"] by (cases j) auto
  qed
qed simp

text \<open>
  The fill loop writes each element at its own index, so its result depends on the set of
  elements only, never on the order in which the map is ranged over.
\<close>

lemma dedup_put_simp: "dedup_put (t, c, i) r = r[length r - i - 1 := c]"
  by (simp add: dedup_put_def)

lemma length_fill:
  "length (fold dedup_put u r) = length r"
  by (induction u arbitrary: r) (auto simp: dedup_put_def split: prod.splits)

lemma nth_fill:
  assumes "inj_on (\<lambda>(t, c, i). i) (set u)" and "\<And>t c i. (t, c, i) \<in> set u \<Longrightarrow> i < length r"
    and "(t, c, i) \<in> set u"
  shows "fold dedup_put u r ! (length r - i - 1) = c"
  using assms
proof (induction u arbitrary: r rule: rev_induct)
  case (snoc x u)
  obtain t' c' i' where x: "x = (t', c', i')" by (cases x)
  have i': "i' < length r" using snoc.prems(2) x by fastforce
  have i: "i < length r" using snoc.prems(2,3) by blast
  show ?case
  proof (cases "(t, c, i) = x")
    case True
    with x i' show ?thesis by (simp add: length_fill dedup_put_simp)
  next
    case False
    with snoc.prems(3) have mem: "(t, c, i) \<in> set u" by auto
    have "i \<noteq> i'"
    proof
      assume "i = i'"
      with x have "(\<lambda>(t, c, i). i) x = (\<lambda>(t, c, i). i) (t, c, i)" by simp
      then have "x = (t, c, i)"
        by (rule inj_onD [OF snoc.prems(1)]) (use snoc.prems(3) in auto)
      with False show False by simp
    qed
    then have "length r - i - 1 \<noteq> length r - i' - 1" using i i' by arith
    moreover have "fold dedup_put u r ! (length r - i - 1) = c"
      using snoc.prems(1,2) mem by (intro snoc.IH) (auto intro: inj_on_subset)
    ultimately show ?thesis using x by (simp add: length_fill dedup_put_simp)
  qed
qed simp

lemma dedup_fill_tag:
  assumes "set u = set (tag 0 ks)" and "length u = length ks"
  shows "dedup_fill u = rev ks"
proof (rule nth_equalityI)
  show "length (dedup_fill u) = length (rev ks)" using assms(2) by (simp add: dedup_fill_def length_fill)
next
  fix j assume "j < length (dedup_fill u)"
  then have j: "j < length ks" using assms(2) by (simp add: dedup_fill_def length_fill)
  let ?i = "length ks - j - 1"
  have mem: "(c_Type (ks ! ?i), ks ! ?i, ?i) \<in> set u"
    using j assms(1) by (auto simp: tag_indices)
  have inj: "inj_on (\<lambda>(t, c, i). i) (set u)"
    by (auto simp: inj_on_def assms(1) tag_indices)
  have bound: "\<And>t c i. (t, c, i) \<in> set u \<Longrightarrow> i < length (replicate (length u) emptyCondition)"
    using assms by (auto simp: tag_indices)
  from nth_fill [OF inj bound mem]
  have "dedup_fill u ! (length ks - ?i - 1) = ks ! ?i"
    by (simp add: dedup_fill_def assms(2))
  moreover have "length ks - ?i - 1 = j" using j by arith
  moreover have "rev ks ! j = ks ! ?i" using j by (simp add: rev_nth)
  ultimately show "dedup_fill u ! j = rev ks ! j" by simp
qed

lemma DeduplicateConditions_eq: "DeduplicateConditions conds = last_per_type conds"
proof -
  have "dedup_scan (rev conds) [] 0 = tag 0 (keep_first {} (rev conds))"
    using dedup_scan_tag [of "rev conds" "[]"] by simp
  then have "DeduplicateConditions conds = rev (keep_first {} (rev conds))"
    by (simp add: DeduplicateConditions_def dedup_fill_tag)
  then show ?thesis by (simp add: rev_keep_first)
qed

lemma HasMatchingCondition_iff: "HasMatchingCondition conds c \<longleftrightarrow> c \<in> set conds"
  by (induction conds) (auto intro: Condition.equality)

lemma subseq_last_per_type: "subseq (last_per_type cs) cs"
  by (induction cs) auto

lemma find_snoc: "find P (xs @ [x]) = (case find P xs of None \<Rightarrow> (if P x then Some x else None) | Some y \<Rightarrow> Some y)"
  by (induction xs) auto

lemma find_last_per_type:
  "find (\<lambda>c. c_Type c = t) (last_per_type cs) = find (\<lambda>c. c_Type c = t) (rev cs)"
proof (induction cs rule: rev_induct)
  case (snoc c cs)
  have "find (\<lambda>d. c_Type d = t) (filter (\<lambda>d. c_Type d \<noteq> c_Type c) ds) =
      (if t = c_Type c then None else find (\<lambda>d. c_Type d = t) ds)" for ds
    by (induction ds) auto
  from this [of "last_per_type cs"] snoc show ?case
    by (cases "t = c_Type c") (auto simp: last_per_type_snoc find_snoc split: option.split)
qed simp

text \<open>
  C28. \<^verbatim>\<open>DeduplicateConditions\<close>, with its backward scan and index arithmetic, returns the conditions in
  their original order, has at most one condition per type, and for every type the one kept is
  the last one of the input, so a condition appended later always overrides an earlier one.
\<close>

theorem DeduplicateConditions_last_wins:
  "subseq (DeduplicateConditions conds) conds \<and>
   distinct (map c_Type (DeduplicateConditions conds)) \<and>
   find (\<lambda>c. c_Type c = t) (DeduplicateConditions conds) = find (\<lambda>c. c_Type c = t) (rev conds)"
  unfolding DeduplicateConditions_eq
  by (intro conjI subseq_last_per_type distinct_types_last_per_type find_last_per_type)

end
