(* ===== verification/Ordering.thy ===== *)
theory Ordering
  imports Prelude "HOL-Library.Product_Lexorder" "HOL-Library.Multiset"
begin

text \<open>
  Precedence: the comparison functions of \<^verbatim>\<open>internal/controller/ngfsort/sort.go\<close> and
  \<^verbatim>\<open>internal/controller/state/dataplane/sort.go\<close>, and the stable sort of the standard library
  they are used with. The locale \<open>strict_weak_order\<close> states what a comparison function must
  satisfy for \<^verbatim>\<open>sort.SliceStable\<close> to have a determined result; each comparison function of the
  code is shown to satisfy it.
\<close>

section \<open>Object metadata\<close>

text \<open>The fields of \<^verbatim>\<open>metav1.ObjectMeta\<close> the comparisons read; a timestamp is an instant.\<close>

record ObjectMeta =
  om_CreationTimestamp :: int
  om_Namespace :: string
  om_Name :: string

definition LessObjectMeta :: "ObjectMeta \<Rightarrow> ObjectMeta \<Rightarrow> bool" where
  "LessObjectMeta meta1 meta2 =
     (if om_CreationTimestamp meta1 = om_CreationTimestamp meta2 then
        (if om_Namespace meta1 = om_Namespace meta2 then om_Name meta1 < om_Name meta2
         else om_Namespace meta1 < om_Namespace meta2)
      else om_CreationTimestamp meta1 < om_CreationTimestamp meta2)"

text \<open>\<^verbatim>\<open>LessClientObject\<close> reads the same three fields through the accessors of \<^verbatim>\<open>client.Object\<close>.\<close>

definition LessClientObject :: "('o \<Rightarrow> ObjectMeta) \<Rightarrow> 'o \<Rightarrow> 'o \<Rightarrow> bool" where
  "LessClientObject meta obj1 obj2 =
     (let create1 = om_CreationTimestamp (meta obj1); create2 = om_CreationTimestamp (meta obj2)
      in if create1 = create2 then
           (if om_Namespace (meta obj1) = om_Namespace (meta obj2)
            then om_Name (meta obj1) < om_Name (meta obj2)
            else om_Namespace (meta obj1) < om_Namespace (meta obj2))
         else create1 < create2)"

section \<open>Routing rules\<close>

datatype MatchType = MatchTypeExact | MatchTypeRegularExpression

record HTTPHeaderMatch =
  hm_Name :: string
  hm_Value :: string
  hm_Type :: MatchType

record HTTPQueryParamMatch =
  qm_Name :: string
  qm_Value :: string
  qm_Type :: MatchType

record Match =
  m_Method :: "string option"
  m_Headers :: "HTTPHeaderMatch list"
  m_QueryParams :: "HTTPQueryParamMatch list"

text \<open>The filters and the backend group of a rule are carried along unread.\<close>

record ('f, 'b) MatchRule =
  mr_Filters :: 'f
  mr_Source :: ObjectMeta
  mr_Match :: Match
  mr_BackendGroup :: 'b

datatype PathType = PathTypeExact | PathTypePrefix | PathTypeRegularExpression

fun PathType_string :: "PathType \<Rightarrow> string" where
  "PathType_string PathTypeExact = ''exact''"
| "PathType_string PathTypePrefix = ''prefix''"
| "PathType_string PathTypeRegularExpression = ''regularExpression''"

record ('f, 'b, 'p) PathRule =
  pr_Path :: string
  pr_PathType :: PathType
  pr_MatchRules :: "('f, 'b) MatchRule list"
  pr_Policies :: "'p list"
  pr_GRPC :: bool
  pr_HasInferenceBackends :: bool

definition higherPriority :: "('f, 'b) MatchRule \<Rightarrow> ('f, 'b) MatchRule \<Rightarrow> bool" where
  "higherPriority rule1 rule2 =
     (let m1 = mr_Match rule1; m2 = mr_Match rule2 in
      if m_Method m1 \<noteq> None \<and> m_Method m2 = None then True
      else if m_Method m2 \<noteq> None \<and> m_Method m1 = None then False
      else if length (m_Headers m1) \<noteq> length (m_Headers m2)
        then length (m_Headers m1) > length (m_Headers m2)
      else if length (m_QueryParams m1) \<noteq> length (m_QueryParams m2)
        then length (m_QueryParams m1) > length (m_QueryParams m2)
      else LessObjectMeta (mr_Source rule1) (mr_Source rule2))"

definition pathRuleLess :: "('f, 'b, 'p) PathRule \<Rightarrow> ('f, 'b, 'p) PathRule \<Rightarrow> bool" where
  "pathRuleLess r1 r2 =
     (if length (pr_Path r1) \<noteq> length (pr_Path r2) then length (pr_Path r1) > length (pr_Path r2)
      else if pr_Path r1 \<noteq> pr_Path r2 then pr_Path r1 < pr_Path r2
      else PathType_string (pr_PathType r1) < PathType_string (pr_PathType r2))"

section \<open>The stable sort\<close>

text \<open>
  \<^verbatim>\<open>sort.SliceStable(xs, less)\<close> of the standard library, as a stable insertion sort. The
  lemma \<open>slice_stable_unique\<close> below shows that every stable sort gives this result when
  \<open>lt\<close> is a strict weak order, so the choice of algorithm is immaterial.
\<close>

fun insert_by :: "('a \<Rightarrow> 'a \<Rightarrow> bool) \<Rightarrow> 'a \<Rightarrow> 'a list \<Rightarrow> 'a list" where
  "insert_by lt x [] = [x]"
| "insert_by lt x (y # ys) = (if lt y x then y # insert_by lt x ys else x # y # ys)"

definition slice_stable :: "('a \<Rightarrow> 'a \<Rightarrow> bool) \<Rightarrow> 'a list \<Rightarrow> 'a list" where
  "slice_stable lt xs = foldr (insert_by lt) xs []"

definition sortMatchRules :: "('f, 'b) MatchRule list \<Rightarrow> ('f, 'b) MatchRule list" where
  "sortMatchRules matchRules = slice_stable higherPriority matchRules"

definition sortPathRules :: "('f, 'b, 'p) PathRule list \<Rightarrow> ('f, 'b, 'p) PathRule list" where
  "sortPathRules pathRules = slice_stable pathRuleLess pathRules"

section \<open>Strict weak orders and stable sorting\<close>

lemma mset_insert_by [simp]: "mset (insert_by lt x xs) = add_mset x (mset xs)"
  by (induction xs) auto

lemma mset_slice_stable [simp]: "mset (slice_stable lt xs) = mset xs"
  by (induction xs) (simp_all add: slice_stable_def)

lemma set_slice_stable [simp]: "set (slice_stable lt xs) = set xs"
  by (metis mset_slice_stable set_mset_mset)

lemma length_slice_stable [simp]: "length (slice_stable lt xs) = length xs"
  by (metis mset_slice_stable size_mset)

locale strict_weak_order =
  fixes lt :: "'a \<Rightarrow> 'a \<Rightarrow> bool"
  assumes irrefl: "\<not> lt x x"
    and trans: "lt x y \<Longrightarrow> lt y z \<Longrightarrow> lt x z"
    and neg_trans: "lt x z \<Longrightarrow> lt x y \<or> lt y z"
begin

definition tied :: "'a \<Rightarrow> 'a \<Rightarrow> bool" where
  "tied x y \<longleftrightarrow> \<not> lt x y \<and> \<not> lt y x"

abbreviation ordered :: "'a list \<Rightarrow> bool" where
  "ordered xs \<equiv> sorted_wrt (\<lambda>x y. \<not> lt y x) xs"

definition stable_result :: "'a list \<Rightarrow> 'a list \<Rightarrow> bool" where
  "stable_result xs ys \<longleftrightarrow>
     mset ys = mset xs \<and> ordered ys \<and> (\<forall>x. filter (tied x) ys = filter (tied x) xs)"

lemma tied_refl: "tied x x"
  by (simp add: tied_def irrefl)

lemma asym: "lt x y \<Longrightarrow> \<not> lt y x"
  using irrefl trans by blast

lemma set_insert_by: "set (insert_by lt x xs) = insert x (set xs)"
  by (metis mset_insert_by set_mset_add_mset_insert set_mset_mset)

lemma ordered_insert_by: "ordered xs \<Longrightarrow> ordered (insert_by lt x xs)"
proof (induction xs)
  case (Cons y ys)
  show ?case
  proof (cases "lt y x")
    case True
    with Cons show ?thesis by (auto simp: set_insert_by dest: asym)
  next
    case False
    have "\<not> lt z x" if "z \<in> set ys" for z
    proof
      assume "lt z x"
      with neg_trans [of z x y] False have "lt z y" by blast
      with Cons.prems that show False by simp
    qed
    with False Cons.prems show ?thesis by simp
  qed
qed simp

lemma filter_tied_insert_by:
  "ordered xs \<Longrightarrow>
     filter (tied z) (insert_by lt x xs) = (if tied z x then x # filter (tied z) xs else filter (tied z) xs)"
proof (induction xs)
  case (Cons y ys)
  show ?case
  proof (cases "lt y x \<and> tied z x")
    case True
    then have "\<not> tied z y" using neg_trans [of y x z] by (auto simp: tied_def)
    with True Cons show ?thesis by simp
  next
    case False
    with Cons show ?thesis by auto
  qed
qed simp

lemma slice_stable_stable: "stable_result xs (slice_stable lt xs)"
proof -
  have ord: "ordered (slice_stable lt xs)" for xs
    by (induction xs) (simp_all add: slice_stable_def ordered_insert_by)
  have "filter (tied x) (slice_stable lt xs) = filter (tied x) xs" for x
  proof (induction xs)
    case (Cons y ys)
    then show ?case using ord [of ys] by (simp add: slice_stable_def filter_tied_insert_by)
  qed (simp add: slice_stable_def)
  with ord show ?thesis by (simp add: stable_result_def)
qed

lemma ordered_head_unique:
  assumes "ordered (y # ys)" and "ordered (z # zs)" and "mset (y # ys) = mset (z # zs)"
    and "\<forall>x. filter (tied x) (y # ys) = filter (tied x) (z # zs)"
  shows "y = z"
proof -
  have "y \<in> set (z # zs)" and "z \<in> set (y # ys)"
    using assms(3) by (metis list.set_intros(1) set_mset_mset)+
  then have "tied y z"
    using assms(1,2) by (auto simp: tied_def irrefl)
  then have "tied z y" and "tied z z" by (auto simp: tied_def irrefl)
  with assms(4) [THEN spec, of z] show ?thesis by simp
qed

lemma stable_result_unique: "stable_result xs ys \<Longrightarrow> stable_result xs zs \<Longrightarrow> ys = zs"
proof -
  have "ys = zs" if "mset ys = mset zs" "ordered ys" "ordered zs"
    "\<forall>x. filter (tied x) ys = filter (tied x) zs" for ys zs
    using that
  proof (induction ys arbitrary: zs)
    case (Cons y ys)
    from Cons.prems(1) obtain z zs' where zs: "zs = z # zs'" by (cases zs) auto
    have "y = z"
      using ordered_head_unique [of y ys z zs'] Cons.prems unfolding zs by blast
    moreover have "ys = zs'"
    proof (rule Cons.IH)
      show "\<forall>x. filter (tied x) ys = filter (tied x) zs'"
        using Cons.prems(4) \<open>y = z\<close> unfolding zs by (metis filter.simps(2) list.inject)
    qed (use Cons.prems \<open>y = z\<close> zs in auto)
    ultimately show ?case using zs by simp
  qed simp
  then show "stable_result xs ys \<Longrightarrow> stable_result xs zs \<Longrightarrow> ys = zs"
    by (simp add: stable_result_def)
qed

lemma slice_stable_unique: "stable_result xs ys \<Longrightarrow> ys = slice_stable lt xs"
  using slice_stable_stable stable_result_unique by blast

lemma head_is_minimal: "slice_stable lt xs = y # ys \<Longrightarrow> x \<in> set xs \<Longrightarrow> \<not> lt x y"
proof -
  assume eq: "slice_stable lt xs = y # ys" and x: "x \<in> set xs"
  then have "x \<in> set (y # ys)" by (metis set_slice_stable)
  moreover have "ordered (y # ys)" using slice_stable_stable [of xs] eq by (simp add: stable_result_def)
  ultimately show "\<not> lt x y" using irrefl by auto
qed

end

text \<open>A comparison that compares keys of a linear order is a strict weak order.\<close>

locale key_order =
  fixes lt :: "'a \<Rightarrow> 'a \<Rightarrow> bool" and key :: "'a \<Rightarrow> 'k::linorder"
  assumes less_key: "lt x y \<longleftrightarrow> key x < key y"

sublocale key_order \<subseteq> strict_weak_order lt
  by unfold_locales (auto simp: less_key)

context key_order
begin

lemma tied_key: "tied x y \<longleftrightarrow> key x = key y"
  by (auto simp: tied_def less_key)

lemma sorted_keys: "sorted (map key (slice_stable lt xs))"
  using slice_stable_stable [of xs]
  by (auto simp: stable_result_def sorted_map less_key not_less elim: sorted_wrt_mono_rel [rotated])

lemma order_independent:
  assumes "mset xs = mset ys" and "distinct (map key xs)"
  shows "slice_stable lt xs = slice_stable lt ys"
proof (rule map_inj_on)
  show "map key (slice_stable lt xs) = map key (slice_stable lt ys)"
  proof -
    have "mset (map key (slice_stable lt xs)) = mset (map key (slice_stable lt ys))"
      by (simp add: assms(1))
    from properties_for_sort [OF this sorted_keys] show ?thesis
      by (simp add: sorted_keys sorted_sort_id)
  qed
  have "set ys = set xs" using assms(1) by (metis mset_eq_setD)
  then show "inj_on key (set (slice_stable lt xs) \<union> set (slice_stable lt ys))"
    using assms(2) by (simp add: distinct_map)
qed

lemma stable_by_key: "filter (\<lambda>y. key y = key x) (slice_stable lt xs) = filter (\<lambda>y. key y = key x) xs"
proof -
  have "tied x = (\<lambda>y. key y = key x)" by (auto simp: tied_key)
  then show ?thesis
    using slice_stable_stable [of xs] unfolding stable_result_def by metis
qed

end

section \<open>The comparison functions of the code\<close>

abbreviation meta_key :: "ObjectMeta \<Rightarrow> int \<times> string \<times> string" where
  "meta_key m \<equiv> (om_CreationTimestamp m, om_Namespace m, om_Name m)"

lemma LessObjectMeta_key: "LessObjectMeta m1 m2 \<longleftrightarrow> meta_key m1 < meta_key m2"
  by (auto simp: LessObjectMeta_def less_prod_def)

lemma LessClientObject_eq: "LessClientObject meta o1 o2 = LessObjectMeta (meta o1) (meta o2)"
  by (simp add: LessClientObject_def LessObjectMeta_def Let_def)

interpretation meta_order: key_order LessObjectMeta meta_key
  by unfold_locales (rule LessObjectMeta_key)

interpretation client_order: key_order "LessClientObject meta" "\<lambda>o'. meta_key (meta o')" for meta :: "'o \<Rightarrow> ObjectMeta"
  by unfold_locales (simp only: LessClientObject_eq LessObjectMeta_key)

text \<open>
  The key of a rule: a method match first, then more header matches, then more query
  parameter matches, then the older object, then namespace and name.
\<close>

abbreviation rule_key :: "('f, 'b) MatchRule \<Rightarrow> bool \<times> int \<times> int \<times> int \<times> string \<times> string" where
  "rule_key r \<equiv> (m_Method (mr_Match r) = None, - int (length (m_Headers (mr_Match r))),
     - int (length (m_QueryParams (mr_Match r))), meta_key (mr_Source r))"

lemma higherPriority_key: "higherPriority r1 r2 \<longleftrightarrow> rule_key r1 < rule_key r2"
  unfolding higherPriority_def Let_def LessObjectMeta_key
  by (auto simp: less_prod_def simp del: not_None_eq)

interpretation rule_order: key_order higherPriority rule_key
  by unfold_locales (rule higherPriority_key)

abbreviation path_key :: "('f, 'b, 'p) PathRule \<Rightarrow> int \<times> string \<times> string" where
  "path_key r \<equiv> (- int (length (pr_Path r)), pr_Path r, PathType_string (pr_PathType r))"

lemma pathRuleLess_key: "pathRuleLess r1 r2 \<longleftrightarrow> path_key r1 < path_key r2"
  by (auto simp: pathRuleLess_def less_prod_def)

interpretation path_order: key_order pathRuleLess path_key
  by unfold_locales (rule pathRuleLess_key)

section \<open>Properties\<close>

lemma path_key_distinct:
  "distinct (map (\<lambda>r. (pr_Path r, pr_PathType r)) rs) \<Longrightarrow> distinct (map path_key rs)"
proof -
  have "PathType_string t = PathType_string u \<longleftrightarrow> t = u" for t u
    by (cases t; cases u) simp_all
  then show "distinct (map (\<lambda>r. (pr_Path r, pr_PathType r)) rs) \<Longrightarrow> distinct (map path_key rs)"
    by (simp add: distinct_map inj_on_def)
qed

text \<open>
  C26. The order of the path rules of a server is reproducible. The rules come out of a Go map keyed by
  path and path type, in an unspecified order; after \<^verbatim>\<open>sortPathRules\<close> the list is the same
  for every order of iteration, no longer path follows a shorter one, and on equal paths
  exact comes before prefix and prefix before regular expression.
\<close>

theorem sortPathRules_reproducible:
  fixes rs qs :: "('f, 'b, 'p) PathRule list"
  assumes "mset qs = mset rs" and "distinct (map (\<lambda>r. (pr_Path r, pr_PathType r)) rs)"
  shows "sortPathRules qs = sortPathRules rs \<and> mset (sortPathRules rs) = mset rs \<and>
    sorted_wrt (\<lambda>r q. length (pr_Path q) \<le> length (pr_Path r) \<and>
      (pr_Path r = pr_Path q \<longrightarrow> PathType_string (pr_PathType r) < PathType_string (pr_PathType q))) (sortPathRules rs)"
proof -
  have d: "distinct (map path_key rs)" using assms(2) by (rule path_key_distinct)
  then have "distinct (map path_key (sortPathRules rs))"
    using mset_eq_imp_distinct_iff [of "map path_key (sortPathRules rs)" "map path_key rs"]
    by (simp add: sortPathRules_def)
  with path_order.sorted_keys [of rs]
  have "sorted_wrt (<) (map path_key (sortPathRules rs))"
    by (simp add: strict_sorted_iff sortPathRules_def)
  then have "sorted_wrt (\<lambda>r q. length (pr_Path q) \<le> length (pr_Path r) \<and>
      (pr_Path r = pr_Path q \<longrightarrow> PathType_string (pr_PathType r) < PathType_string (pr_PathType q))) (sortPathRules rs)"
    unfolding sorted_wrt_map by (rule sorted_wrt_mono_rel [rotated]) (auto simp: less_prod_def)
  with d assms(1) path_order.order_independent [of rs qs] show ?thesis
    by (simp add: sortPathRules_def)
qed

definition sample_path :: "string \<Rightarrow> PathType \<Rightarrow> (unit, unit, unit) PathRule" where
  "sample_path p t = \<lparr>pr_Path = p, pr_PathType = t, pr_MatchRules = [], pr_Policies = [], pr_GRPC = False,
     pr_HasInferenceBackends = False\<rparr>"

theorem sortPathRules_reproducible_witness:
  "sortPathRules [sample_path ''/'' PathTypePrefix, sample_path ''/tea'' PathTypePrefix, sample_path ''/tea'' PathTypeExact] =
   sortPathRules [sample_path ''/tea'' PathTypeExact, sample_path ''/'' PathTypePrefix, sample_path ''/tea'' PathTypePrefix]"
  using sortPathRules_reproducible
    [of "[sample_path ''/'' PathTypePrefix, sample_path ''/tea'' PathTypePrefix, sample_path ''/tea'' PathTypeExact]"
        "[sample_path ''/tea'' PathTypeExact, sample_path ''/'' PathTypePrefix, sample_path ''/tea'' PathTypePrefix]"]
  by (simp add: sample_path_def)


end
