(* ===== verification/RefGrant.thy ===== *)
theory RefGrant
  imports Prelude
begin

text \<open>
  Cross-namespace references: \<^verbatim>\<open>internal/controller/state/graph/reference_grant.go\<close>. The resolver
  flattens the ReferenceGrants of the cluster into a set of allowed references and answers
  \<^verbatim>\<open>refAllowed\<close> by two lookups. The lemmas relate these lookups to the meaning of the grants.
\<close>

section \<open>Resources\<close>

record toResource =
  to_group :: string
  to_kind :: string
  to_name :: string
  to_namespace :: string

record fromResource =
  from_group :: string
  from_kind :: string
  from_namespace :: string

record allowedReference =
  ar_to :: toResource
  ar_from :: fromResource

text \<open>The group of the Gateway API (\<^verbatim>\<open>v1.GroupName\<close>) and the groups named by the package.\<close>

abbreviation GroupName :: string where
  "GroupName \<equiv> ''gateway.networking.k8s.io''"

abbreviation inferenceAPIGroup :: string where
  "inferenceAPIGroup \<equiv> ''inference.networking.k8s.io''"

abbreviation ngfAPIGroup :: string where
  "ngfAPIGroup \<equiv> ''gateway.nginx.org''"

abbreviation wafAPIGroup :: string where
  "wafAPIGroup \<equiv> ''appprotect.f5.com''"

definition toSecret :: "NamespacedName \<Rightarrow> toResource" where
  "toSecret nn = \<lparr>to_group = '''', to_kind = ''Secret'', to_name = nn_Name nn, to_namespace = nn_Namespace nn\<rparr>"

definition toConfigMap :: "NamespacedName \<Rightarrow> toResource" where
  "toConfigMap nn = \<lparr>to_group = '''', to_kind = ''ConfigMap'', to_name = nn_Name nn, to_namespace = nn_Namespace nn\<rparr>"

definition toService :: "NamespacedName \<Rightarrow> toResource" where
  "toService nn = \<lparr>to_group = '''', to_kind = ''Service'', to_name = nn_Name nn, to_namespace = nn_Namespace nn\<rparr>"

definition toInferencePool :: "NamespacedName \<Rightarrow> toResource" where
  "toInferencePool nn =
     \<lparr>to_group = inferenceAPIGroup, to_kind = ''InferencePool'', to_name = nn_Name nn, to_namespace = nn_Namespace nn\<rparr>"

definition toAPPolicy :: "NamespacedName \<Rightarrow> toResource" where
  "toAPPolicy nn =
     \<lparr>to_group = wafAPIGroup, to_kind = ''APPolicy'', to_name = nn_Name nn, to_namespace = nn_Namespace nn\<rparr>"

definition toAPLogConf :: "NamespacedName \<Rightarrow> toResource" where
  "toAPLogConf nn =
     \<lparr>to_group = wafAPIGroup, to_kind = ''APLogConf'', to_name = nn_Name nn, to_namespace = nn_Namespace nn\<rparr>"

definition fromGateway :: "string \<Rightarrow> fromResource" where
  "fromGateway ns = \<lparr>from_group = GroupName, from_kind = ''Gateway'', from_namespace = ns\<rparr>"

definition fromHTTPRoute :: "string \<Rightarrow> fromResource" where
  "fromHTTPRoute ns = \<lparr>from_group = GroupName, from_kind = ''HTTPRoute'', from_namespace = ns\<rparr>"

definition fromGRPCRoute :: "string \<Rightarrow> fromResource" where
  "fromGRPCRoute ns = \<lparr>from_group = GroupName, from_kind = ''GRPCRoute'', from_namespace = ns\<rparr>"

definition fromTLSRoute :: "string \<Rightarrow> fromResource" where
  "fromTLSRoute ns = \<lparr>from_group = GroupName, from_kind = ''TLSRoute'', from_namespace = ns\<rparr>"

definition fromTCPRoute :: "string \<Rightarrow> fromResource" where
  "fromTCPRoute ns = \<lparr>from_group = GroupName, from_kind = ''TCPRoute'', from_namespace = ns\<rparr>"

definition fromUDPRoute :: "string \<Rightarrow> fromResource" where
  "fromUDPRoute ns = \<lparr>from_group = GroupName, from_kind = ''UDPRoute'', from_namespace = ns\<rparr>"

definition fromListenerSet :: "string \<Rightarrow> fromResource" where
  "fromListenerSet ns = \<lparr>from_group = GroupName, from_kind = ''ListenerSet'', from_namespace = ns\<rparr>"

definition fromWAFPolicy :: "string \<Rightarrow> fromResource" where
  "fromWAFPolicy ns = \<lparr>from_group = ngfAPIGroup, from_kind = ''WAFPolicy'', from_namespace = ns\<rparr>"

section \<open>The resolver\<close>

text \<open>The fields of \<^verbatim>\<open>v1.ReferenceGrant\<close> the resolver reads.\<close>

record ReferenceGrantTo =
  rgt_Group :: string
  rgt_Kind :: string
  rgt_Name :: "string option"

record ReferenceGrantFrom =
  rgf_Group :: string
  rgf_Kind :: string
  rgf_Namespace :: string

record ReferenceGrant =
  rg_From :: "ReferenceGrantFrom list"
  rg_To :: "ReferenceGrantTo list"

text \<open>\<^verbatim>\<open>map[types.NamespacedName]*v1.ReferenceGrant\<close>, in some order of iteration.\<close>

type_synonym ref_grants = "(NamespacedName \<times> ReferenceGrant) list"

record referenceGrantResolver =
  rgr_allowed :: "allowedReference set"

definition grant_reference ::
  "NamespacedName \<Rightarrow> ReferenceGrantTo \<Rightarrow> ReferenceGrantFrom \<Rightarrow> allowedReference" where
  "grant_reference nn to frm =
     (let toName = (case rgt_Name to of None \<Rightarrow> '''' | Some n \<Rightarrow> n);
          toGroup = (if rgt_Group to = ''core'' then '''' else rgt_Group to)
      in \<lparr>ar_to = \<lparr>to_group = toGroup, to_kind = rgt_Kind to, to_name = toName, to_namespace = nn_Namespace nn\<rparr>,
          ar_from = \<lparr>from_group = rgf_Group frm, from_kind = rgf_Kind frm, from_namespace = rgf_Namespace frm\<rparr>\<rparr>)"

definition newReferenceGrantResolver :: "ref_grants \<Rightarrow> referenceGrantResolver" where
  "newReferenceGrantResolver refGrants =
     \<lparr>rgr_allowed =
        fold (\<lambda>(nn, grant). fold (\<lambda>to. fold (\<lambda>frm. insert (grant_reference nn to frm)) (rg_From grant)) (rg_To grant))
          refGrants {}\<rparr>"

definition refAllowed :: "referenceGrantResolver \<Rightarrow> toResource \<Rightarrow> fromResource \<Rightarrow> bool" where
  "refAllowed r to frm =
     (let specificKey = \<lparr>ar_to = to, ar_from = frm\<rparr>;
          allInNamespaceKey =
            \<lparr>ar_to = \<lparr>to_group = to_group to, to_kind = to_kind to, to_name = '''', to_namespace = to_namespace to\<rparr>,
             ar_from = frm\<rparr>
      in list_ex (\<lambda>key. key \<in> rgr_allowed r) [specificKey, allInNamespaceKey])"

definition refAllowedFrom :: "referenceGrantResolver \<Rightarrow> fromResource \<Rightarrow> toResource \<Rightarrow> bool" where
  "refAllowedFrom r frm = (\<lambda>to. refAllowed r to frm)"

section \<open>Meaning of the grants\<close>

text \<open>
  The specification of a ReferenceGrant: the grants of the target's own namespace decide,
  a \<open>To\<close> entry without a name (or with an empty one) covers every object of its kind, and the
  group \<^verbatim>\<open>core\<close> is an alias of the empty group.
\<close>

definition to_matches :: "ReferenceGrantTo \<Rightarrow> toResource \<Rightarrow> bool" where
  "to_matches t to \<longleftrightarrow>
     (if rgt_Group t = ''core'' then '''' else rgt_Group t) = to_group to \<and> rgt_Kind t = to_kind to \<and>
     (rgt_Name t = None \<or> rgt_Name t = Some '''' \<or> rgt_Name t = Some (to_name to))"

definition from_matches :: "ReferenceGrantFrom \<Rightarrow> fromResource \<Rightarrow> bool" where
  "from_matches f frm \<longleftrightarrow>
     rgf_Group f = from_group frm \<and> rgf_Kind f = from_kind frm \<and> rgf_Namespace f = from_namespace frm"

definition granted :: "ref_grants \<Rightarrow> toResource \<Rightarrow> fromResource \<Rightarrow> bool" where
  "granted gs to frm \<longleftrightarrow>
     list_ex (\<lambda>(nn, g). nn_Namespace nn = to_namespace to \<and> list_ex (\<lambda>t. to_matches t to) (rg_To g) \<and>
       list_ex (\<lambda>f. from_matches f frm) (rg_From g)) gs"

lemma fold_insert_union: "fold (\<lambda>x. insert (f x)) xs A = f ` set xs \<union> A"
  by (induction xs arbitrary: A) auto

lemma fold_union: "(\<And>x A. step x A = f x \<union> A) \<Longrightarrow> fold step xs A = (\<Union>x\<in>set xs. f x) \<union> A"
  by (induction xs arbitrary: A) auto

lemma rgr_allowed_newReferenceGrantResolver:
  "rgr_allowed (newReferenceGrantResolver gs) =
     (\<Union>(nn, g)\<in>set gs. \<Union>t\<in>set (rg_To g). grant_reference nn t ` set (rg_From g))"
proof -
  have inner: "fold (\<lambda>t. fold (\<lambda>f. insert (grant_reference nn t f)) fs) ts A =
      (\<Union>t\<in>set ts. grant_reference nn t ` set fs) \<union> A" for nn fs ts A
    by (rule fold_union) (rule fold_insert_union)
  have "fold (\<lambda>(nn, g). fold (\<lambda>t. fold (\<lambda>f. insert (grant_reference nn t f)) (rg_From g)) (rg_To g)) gs {} =
      (\<Union>x\<in>set gs. case x of (nn, g) \<Rightarrow> \<Union>t\<in>set (rg_To g). grant_reference nn t ` set (rg_From g)) \<union> {}"
    by (rule fold_union) (auto simp: inner split: prod.splits)
  then show ?thesis by (simp add: newReferenceGrantResolver_def)
qed

lemma grant_reference_eq_iff:
  "grant_reference nn t f = \<lparr>ar_to = to, ar_from = frm\<rparr> \<longleftrightarrow>
     nn_Namespace nn = to_namespace to \<and>
     (if rgt_Group t = ''core'' then '''' else rgt_Group t) = to_group to \<and> rgt_Kind t = to_kind to \<and>
     deref_or '''' (rgt_Name t) = to_name to \<and> from_matches f frm"
  by (cases to; cases frm; cases "rgt_Name t")
     (auto simp: grant_reference_def Let_def from_matches_def)

lemma grant_covers_iff:
  "grant_reference nn t f = \<lparr>ar_to = to, ar_from = frm\<rparr> \<or>
   grant_reference nn t f = \<lparr>ar_to = to\<lparr>to_name := ''''\<rparr>, ar_from = frm\<rparr> \<longleftrightarrow>
     nn_Namespace nn = to_namespace to \<and> to_matches t to \<and> from_matches f frm"
  by (cases "rgt_Name t") (auto simp: grant_reference_eq_iff to_matches_def)

lemma refAllowed_iff:
  "refAllowed r to frm \<longleftrightarrow>
     \<lparr>ar_to = to, ar_from = frm\<rparr> \<in> rgr_allowed r \<or> \<lparr>ar_to = to\<lparr>to_name := ''''\<rparr>, ar_from = frm\<rparr> \<in> rgr_allowed r"
  by (cases to) (simp add: refAllowed_def Let_def)

lemma refAllowed_iff_granted: "refAllowed (newReferenceGrantResolver gs) to frm \<longleftrightarrow> granted gs to frm"
proof -
  have mem: "x \<in> rgr_allowed (newReferenceGrantResolver gs) \<longleftrightarrow>
      (\<exists>nn g. (nn, g) \<in> set gs \<and> (\<exists>t\<in>set (rg_To g). \<exists>f\<in>set (rg_From g). grant_reference nn t f = x))" for x
    unfolding rgr_allowed_newReferenceGrantResolver by fastforce
  have "refAllowed (newReferenceGrantResolver gs) to frm \<longleftrightarrow>
      (\<exists>nn g. (nn, g) \<in> set gs \<and> (\<exists>t\<in>set (rg_To g). \<exists>f\<in>set (rg_From g).
         grant_reference nn t f = \<lparr>ar_to = to, ar_from = frm\<rparr> \<or>
         grant_reference nn t f = \<lparr>ar_to = to\<lparr>to_name := ''''\<rparr>, ar_from = frm\<rparr>))"
    unfolding refAllowed_iff mem by blast
  also have "\<dots> \<longleftrightarrow> granted gs to frm"
    unfolding grant_covers_iff granted_def list_ex_iff by fastforce
  finally show ?thesis .
qed

lemma granted_mono: "set gs \<subseteq> set hs \<Longrightarrow> granted gs to frm \<Longrightarrow> granted hs to frm"
  by (auto simp: granted_def list_ex_iff)

text \<open>
  C15. Completeness and soundness of the flattened lookup: \<^verbatim>\<open>refAllowed\<close> on the resolver built from the
  cluster's ReferenceGrants answers true exactly when some grant in the namespace of the target
  has a \<open>To\<close> entry that covers the target and a \<open>From\<close> entry that names the referrer.
\<close>

theorem refAllowed_correct: "refAllowed (newReferenceGrantResolver gs) to frm \<longleftrightarrow> granted gs to frm"
  by (rule refAllowed_iff_granted)

end
