(* ===== verification/Hostnames.thy ===== *)
theory Hostnames
  imports Prelude
begin

text \<open>
  Hostnames of listeners and routes: the matching functions of
  \<^verbatim>\<open>internal/controller/state/graph/route_common.go\<close> and \<^verbatim>\<open>gateway_listener.go\<close>, and
  \<^verbatim>\<open>validation.go\<close>. The specification \<open>covers p h\<close> says which request hosts a hostname
  pattern stands for; the lemmas show that matching decides whether two patterns overlap and that
  the accepted hostname of a route is their intersection.
\<close>

section \<open>Operations\<close>

abbreviation wildcardHostname :: string where
  "wildcardHostname \<equiv> ''~^''"

definition getHostname :: "string option \<Rightarrow> string" where
  "getHostname h = (case h of None \<Rightarrow> '''' | Some s \<Rightarrow> s)"

definition wildcardMatch :: "string \<Rightarrow> string \<Rightarrow> bool" where
  "wildcardMatch host1 host2 \<longleftrightarrow> has_prefix host1 ''*.'' \<and> has_suffix host2 (trim_prefix host1 ''*'')"

definition match :: "string \<Rightarrow> string \<Rightarrow> bool" where
  "match listenerHost routeHost =
     (if listenerHost = '''' then True
      else if routeHost = listenerHost then True
      else if wildcardMatch listenerHost routeHost then True
      else wildcardMatch routeHost listenerHost)"

definition GetMoreSpecificHostname :: "string \<Rightarrow> string \<Rightarrow> string" where
  "GetMoreSpecificHostname hostname1 hostname2 =
     (if hostname1 = hostname2 then hostname1
      else if hostname1 = '''' then hostname2
      else if hostname2 = '''' then hostname1
      else if has_prefix hostname1 ''*.'' then
        (if has_prefix hostname2 ''*.'' then
           (let subdomains1 = split_on CHR ''.'' hostname1; subdomains2 = split_on CHR ''.'' hostname2
            in if length subdomains1 > length subdomains2 then hostname1 else hostname2)
         else hostname2)
      else if has_prefix hostname2 ''*.'' then hostname1
      else '''')"

definition findAcceptedHostnames :: "string option \<Rightarrow> string list \<Rightarrow> string list" where
  "findAcceptedHostnames listenerHostname routeHostnames =
     (let hostname = getHostname listenerHostname in
      if routeHostnames = [] then (if hostname = '''' then [wildcardHostname] else [hostname])
      else fold (\<lambda>routeHost result.
             if match hostname routeHost then result @ [GetMoreSpecificHostname hostname routeHost] else result)
           routeHostnames [])"

definition mw :: "string \<Rightarrow> string \<Rightarrow> bool" where
  "mw h1 h2 = (if has_prefix h1 ''*.'' then has_suffix h2 (drop 1 h1) else False)"

definition matchesWildcard :: "string \<Rightarrow> string \<Rightarrow> bool" where
  "matchesWildcard hostname1 hostname2 \<longleftrightarrow> mw hostname1 hostname2 \<or> mw hostname2 hostname1"

definition haveOverlap :: "string option \<Rightarrow> string option \<Rightarrow> bool" where
  "haveOverlap hostname1 hostname2 =
     (case hostname1 of None \<Rightarrow> True
      | Some h1 \<Rightarrow> (case hostname2 of None \<Rightarrow> True
          | Some h2 \<Rightarrow> (if h1 = h2 then True else matchesWildcard h1 h2)))"

text \<open>\<^verbatim>\<open>listenerHostnameMoreSpecific\<close> of the data plane package.\<close>

definition listenerHostnameMoreSpecific :: "string option \<Rightarrow> string option \<Rightarrow> bool" where
  "listenerHostnameMoreSpecific host1 host2 \<longleftrightarrow>
     (let host1Str = (case host1 of None \<Rightarrow> '''' | Some s \<Rightarrow> s); host2Str = (case host2 of None \<Rightarrow> '''' | Some s \<Rightarrow> s)
      in GetMoreSpecificHostname host1Str host2Str = host1Str)"

text \<open>
  \<^verbatim>\<open>validation.IsWildcardDNS1123Subdomain\<close> and \<^verbatim>\<open>validation.IsDNS1123Subdomain\<close> of the Kubernetes
  libraries return the messages that say what is wrong with a name.
\<close>

record dns_validation =
  IsWildcardDNS1123Subdomain :: "string \<Rightarrow> string list"
  IsDNS1123Subdomain :: "string \<Rightarrow> string list"

definition validateHostname :: "dns_validation \<Rightarrow> string \<Rightarrow> string option" where
  "validateHostname dv hostname =
     (if hostname = '''' then Some ''cannot be empty string''
      else if has_prefix hostname ''*.'' then
        (let msgs = IsWildcardDNS1123Subdomain dv hostname
         in if msgs \<noteq> [] then Some (join '','' msgs) else None)
      else
        (let msgs = IsDNS1123Subdomain dv hostname
         in if msgs \<noteq> [] then Some (join '','' msgs) else None))"

section \<open>What a hostname stands for\<close>

text \<open>
  An empty hostname stands for every host, a hostname \<open>*.d\<close> for every host below \<open>d\<close>, any
  other one for itself.
\<close>

definition covers :: "string \<Rightarrow> string \<Rightarrow> bool" where
  "covers p h \<longleftrightarrow> p = '''' \<or> p = h \<or> has_prefix p ''*.'' \<and> has_suffix h (tl p)"

lemma has_prefix_star: "has_prefix p ''*.'' \<Longrightarrow> \<exists>d. p = ''*.'' @ d"
  by (simp add: has_prefix_iff)

lemma trim_star: "has_prefix p ''*.'' \<Longrightarrow> trim_prefix p ''*'' = tl p"
  by (drule has_prefix_star) (auto simp: trim_prefix_def has_prefix_iff)

lemma wildcardMatch_iff: "wildcardMatch p h \<longleftrightarrow> has_prefix p ''*.'' \<and> has_suffix h (tl p)"
  by (auto simp: wildcardMatch_def trim_star)

lemma mw_iff: "mw p h \<longleftrightarrow> has_prefix p ''*.'' \<and> has_suffix h (tl p)"
  by (simp add: mw_def drop_Suc)

lemma wildcard_not_empty: "has_prefix p ''*.'' \<Longrightarrow> p \<noteq> ''''"
  by (auto simp: has_prefix_iff)

text \<open>Of two overlapping wildcards, the one with more labels lies below the other.\<close>

lemma wildcard_below:
  assumes "has_prefix p ''*.''" and "has_prefix q ''*.''" and "has_suffix q (tl p)" and "p \<noteq> q"
  shows "count_list p CHR ''.'' < count_list q CHR ''.'' \<and> has_suffix (tl q) (tl p)"
proof -
  obtain d where p: "p = ''*.'' @ d" using assms(1) has_prefix_star by blast
  obtain e where q: "q = ''*.'' @ e" using assms(2) has_prefix_star by blast
  from assms(3) obtain t where t: "q = t @ tl p" by (auto simp: has_suffix_iff)
  have "t \<noteq> []" using t p q by auto
  then obtain t' where t': "t = CHR ''*'' # t'" using t q by (cases t) auto
  then have tq: "tl q = t' @ tl p" using t by simp
  have "t' \<noteq> []" using t t' p q assms(4) by auto
  then obtain t'' where "t' = CHR ''.'' # t''" using tq q by (cases t') auto
  then have "count_list q CHR ''.'' > count_list p CHR ''.''"
    using t t' p by simp
  with tq show ?thesis by (auto simp: has_suffix_iff)
qed

lemma covers_below:
  "has_prefix p ''*.'' \<Longrightarrow> has_suffix q (tl p) \<Longrightarrow> p \<noteq> q \<Longrightarrow> q \<noteq> '''' \<Longrightarrow> covers q h \<Longrightarrow> covers p h"
  using wildcard_below [of p q] has_suffix_trans by (auto simp: covers_def)

lemma GetMoreSpecificHostname_wildcard:
  assumes "has_prefix p ''*.''" and "has_suffix q (tl p)" and "p \<noteq> q" and "q \<noteq> ''''"
  shows "GetMoreSpecificHostname p q = q \<and> GetMoreSpecificHostname q p = q"
proof (cases "has_prefix q ''*.''")
  case True
  with assms wildcard_below [of p q] wildcard_not_empty show ?thesis
    by (auto simp: GetMoreSpecificHostname_def Let_def length_split_on)
next
  case False
  with assms wildcard_not_empty show ?thesis by (auto simp: GetMoreSpecificHostname_def)
qed

lemma match_cases:
  assumes "match l r"
  obtains "l = ''''" | "l = r" | "has_prefix l ''*.''" "has_suffix r (tl l)" "l \<noteq> r" "r \<noteq> ''''"
    | "has_prefix r ''*.''" "has_suffix l (tl r)" "r \<noteq> l" "l \<noteq> ''''"
  using assms unfolding match_def wildcardMatch_iff
  by (auto split: if_splits simp: has_suffix_iff dest: has_prefix_star)

lemma covers_GetMoreSpecificHostname:
  assumes "match l r"
  shows "covers (GetMoreSpecificHostname l r) h \<longleftrightarrow> covers l h \<and> covers r h"
  using assms
proof (cases rule: match_cases)
  case 1
  then show ?thesis by (auto simp: GetMoreSpecificHostname_def covers_def)
next
  case 2
  then show ?thesis by (simp add: GetMoreSpecificHostname_def)
next
  case 3
  then show ?thesis using GetMoreSpecificHostname_wildcard [of l r] covers_below [of l r h] by auto
next
  case 4
  then show ?thesis using GetMoreSpecificHostname_wildcard [of r l] covers_below [of r l h] by auto
qed

lemma covers_common:
  assumes "covers p h" and "covers q h" and "p \<noteq> ''''" and "q \<noteq> ''''" and "p \<noteq> q"
  shows "mw p q \<or> mw q p"
proof -
  have lin: "has_suffix (tl q) (tl p) \<or> has_suffix (tl p) (tl q)"
    if "has_suffix h (tl p)" "has_suffix h (tl q)"
    using that has_suffix_linear nat_le_linear by blast
  have tl: "has_suffix s u" if "has_suffix (tl s) u" "s \<noteq> []" for s u
    using that by (cases s) (auto simp: has_suffix_iff)
  from assms lin tl [of q "tl p"] tl [of p "tl q"] show ?thesis
    unfolding covers_def mw_iff by metis
qed

lemma match_iff_overlap: "r \<noteq> '''' \<Longrightarrow> match l r \<longleftrightarrow> (\<exists>h. covers l h \<and> covers r h)"
proof
  assume "match l r" "r \<noteq> ''''"
  moreover have "covers r r" "covers l l" by (simp_all add: covers_def)
  ultimately show "\<exists>h. covers l h \<and> covers r h"
    by (cases rule: match_cases) (auto simp: covers_def)
next
  assume r: "r \<noteq> ''''" and "\<exists>h. covers l h \<and> covers r h"
  then obtain h where h: "covers l h" "covers r h" by blast
  show "match l r"
    using covers_common [OF h _ r] unfolding match_def wildcardMatch_iff mw_iff by auto
qed

lemma findAcceptedHostnames_eq:
  "rs \<noteq> [] \<Longrightarrow> findAcceptedHostnames l rs =
     map (GetMoreSpecificHostname (getHostname l)) (filter (match (getHostname l)) rs)"
proof -
  have "fold (\<lambda>r res. if P r then res @ [f r] else res) rs acc = acc @ map f (filter P rs)"
    for P and f :: "string \<Rightarrow> string" and acc
    by (induction rs arbitrary: acc) auto
  from this [of "match (getHostname l)" "GetMoreSpecificHostname (getHostname l)" "[]"]
  show "rs \<noteq> [] \<Longrightarrow> findAcceptedHostnames l rs =
     map (GetMoreSpecificHostname (getHostname l)) (filter (match (getHostname l)) rs)"
    by (simp add: findAcceptedHostnames_def Let_def)
qed

lemma haveOverlap_iff:
  assumes "a \<noteq> ''''" and "b \<noteq> ''''"
  shows "haveOverlap (Some a) (Some b) \<longleftrightarrow> (\<exists>h. covers a h \<and> covers b h)"
proof -
  have "haveOverlap (Some a) (Some b) \<longleftrightarrow> match a b"
    using assms(1) by (auto simp: haveOverlap_def match_def matchesWildcard_def mw_iff wildcardMatch_iff)
  with match_iff_overlap [OF assms(2)] show ?thesis by simp
qed

section \<open>Properties\<close>

text \<open>
  C14. The accepted hostnames of a route on a listener are the intersection of what the listener
  and the route ask for: a request host is covered by an accepted hostname exactly when the
  listener's hostname covers it and, unless the route names no hostname, some hostname of the
  route covers it. The catch-all name \<open>~^\<close> of the result covers every host.
\<close>

theorem findAcceptedHostnames_intersection:
  assumes "'''' \<notin> set rs" and "wildcardHostname \<notin> set rs" and "l \<noteq> Some wildcardHostname"
  shows "(\<exists>a\<in>set (findAcceptedHostnames l rs). a = wildcardHostname \<or> covers a h) \<longleftrightarrow>
    covers (getHostname l) h \<and> (rs = [] \<or> (\<exists>r\<in>set rs. covers r h))"
proof (cases "rs = []")
  case True
  with assms(3) show ?thesis
    by (cases l) (auto simp: findAcceptedHostnames_def Let_def getHostname_def covers_def)
next
  case False
  let ?l = "getHostname l"
  have "GetMoreSpecificHostname ?l r \<noteq> wildcardHostname" if "r \<in> set rs" for r
  proof -
    have "r \<noteq> wildcardHostname" "?l \<noteq> wildcardHostname"
      using that assms by (cases l; auto simp: getHostname_def)+
    then show ?thesis by (auto simp: GetMoreSpecificHostname_def Let_def)
  qed
  then have "(\<exists>a\<in>set (findAcceptedHostnames l rs). a = wildcardHostname \<or> covers a h) \<longleftrightarrow>
      (\<exists>r\<in>set rs. match ?l r \<and> covers (GetMoreSpecificHostname ?l r) h)"
    using False by (auto simp: findAcceptedHostnames_eq)
  also have "\<dots> \<longleftrightarrow> (\<exists>r\<in>set rs. covers ?l h \<and> covers r h)"
    using covers_GetMoreSpecificHostname match_iff_overlap assms(1) by metis
  finally show ?thesis using False by blast
qed

theorem findAcceptedHostnames_intersection_witness:
  "(\<exists>a\<in>set (findAcceptedHostnames (Some ''*.example.com'') [''*.a.example.com'', ''cafe.example.com'', ''b.org'']).
      a = wildcardHostname \<or> covers a ''x.a.example.com'')"
  using findAcceptedHostnames_intersection
    [of "[''*.a.example.com'', ''cafe.example.com'', ''b.org'']" "Some ''*.example.com''" "''x.a.example.com''"]
  by (simp add: getHostname_def covers_def has_prefix_def has_suffix_def)

text \<open>
  C30. \<^verbatim>\<open>match\<close> and \<^verbatim>\<open>haveOverlap\<close> decide whether two hostnames have a host in common: for non-empty
  hostnames both answer true exactly when some host is covered by both, so they agree, and an
  empty listener hostname matches every route.
\<close>

theorem hostname_overlap_decided:
  assumes "a \<noteq> ''''" and "b \<noteq> ''''"
  shows "match '''' b \<and> (match a b \<longleftrightarrow> (\<exists>h. covers a h \<and> covers b h)) \<and>
    (haveOverlap (Some a) (Some b) \<longleftrightarrow> match a b) \<and> (match a b \<longleftrightarrow> match b a)"
  using match_iff_overlap [OF assms(2)] match_iff_overlap [OF assms(1)] haveOverlap_iff [OF assms]
  by (auto simp: match_def)

theorem hostname_overlap_decided_witness:
  "match ''*.example.com'' ''*.a.example.com'' \<and> \<not> haveOverlap (Some ''a.example.com'') (Some ''b.example.com'')"
  using hostname_overlap_decided [of "''*.example.com''" "''*.a.example.com''"]
    hostname_overlap_decided [of "''a.example.com''" "''b.example.com''"]
  by (simp add: match_def wildcardMatch_def trim_prefix_def has_prefix_def has_suffix_def)

text \<open>
  C34. An empty hostname given explicitly is accepted as the catch-all hostname by the listener
  validation, and \<^verbatim>\<open>match\<close> treats it so, but \<^verbatim>\<open>haveOverlap\<close> reports no overlap between it and
  any other non-wildcard hostname, while it reports one for an absent hostname.
\<close>

theorem haveOverlap_empty_hostname:
  assumes "b \<noteq> ''''" and "\<not> has_prefix b ''*.''"
  shows "match '''' b \<and> haveOverlap None (Some b) \<and> \<not> haveOverlap (Some '''') (Some b)"
  using assms by (auto simp: match_def haveOverlap_def matchesWildcard_def mw_def has_prefix_def)

theorem haveOverlap_empty_hostname_witness:
  "haveOverlap None (Some ''cafe.example.com'') \<and> \<not> haveOverlap (Some '''') (Some ''cafe.example.com'')"
  using haveOverlap_empty_hostname [of "''cafe.example.com''"] by (simp add: has_prefix_def)

end
