(* ===== verification/FilterAPI.thy ===== *)
theory FilterAPI
  imports Ordering
begin

text \<open>
  The filters and matches of routes as users write them: the types of the Gateway API, declared outside the repository, with
  the fields the code reads; the AuthenticationFilter and SnippetsFilter resources of \<^verbatim>\<open>apis/v1alpha1\<close>; and the filters of the
  graph (\<^verbatim>\<open>common_filter.go\<close>, \<^verbatim>\<open>extension_ref_filter.go\<close>, \<^verbatim>\<open>authentication_filter.go\<close>, \<^verbatim>\<open>snippets_filter.go\<close>) and its
  policies (\<^verbatim>\<open>policies.go\<close>). A pointer is an \<open>option\<close>.
\<close>

section \<open>Gateway API\<close>

record EndpointPickerRef =
  epr_Name :: string
  epr_Port :: "int option"

datatype v1_PathMatchType = PathMatchExact | PathMatchPathPrefix | PathMatchRegularExpression | OtherPathMatch string

datatype v1_ValueMatchType = ValueMatchExact | ValueMatchRegularExpression | OtherValueMatch string

record v1_HTTPPathMatch =
  v1p_Type :: "v1_PathMatchType option"
  v1p_Value :: "string option"

text \<open>Header and query parameter matches have the same fields.\<close>

record v1_ValueMatch =
  v1m_Type :: "v1_ValueMatchType option"
  v1m_Name :: string
  v1m_Value :: string

record v1_HTTPRouteMatch =
  v1r_Path :: "v1_HTTPPathMatch option"
  v1r_Headers :: "v1_ValueMatch list"
  v1r_QueryParams :: "v1_ValueMatch list"
  v1r_Method :: "string option"

record v1_HTTPHeader =
  v1h_Name :: string
  v1h_Value :: string

record v1_HTTPHeaderFilter =
  v1hf_Set :: "v1_HTTPHeader list"
  v1hf_Add :: "v1_HTTPHeader list"
  v1hf_Remove :: "string list"

datatype v1_HTTPPathModifierType = FullPathHTTPPathModifier | PrefixMatchHTTPPathModifier | OtherPathModifier string

record v1_HTTPPathModifier =
  v1pm_Type :: v1_HTTPPathModifierType
  v1pm_ReplaceFullPath :: "string option"
  v1pm_ReplacePrefixMatch :: "string option"

record v1_HTTPRequestRedirectFilter =
  v1rr_Scheme :: "string option"
  v1rr_Hostname :: "string option"
  v1rr_Path :: "v1_HTTPPathModifier option"
  v1rr_Port :: "int option"
  v1rr_StatusCode :: "int option"

record v1_HTTPURLRewriteFilter =
  v1ur_Hostname :: "string option"
  v1ur_Path :: "v1_HTTPPathModifier option"

text \<open>\<^verbatim>\<open>Percent\<close> and the fields of \<^verbatim>\<open>Fraction\<close> are int32.\<close>

record v1_Fraction =
  v1f_Numerator :: int
  v1f_Denominator :: "int option"

record v1_HTTPRequestMirrorFilter =
  v1mi_Name :: string
  v1mi_Namespace :: "string option"
  v1mi_Percent :: "int option"
  v1mi_Fraction :: "v1_Fraction option"

record v1_HTTPCORSFilter =
  v1c_AllowOrigins :: "string list"
  v1c_AllowCredentials :: "bool option"
  v1c_AllowMethods :: "string list"
  v1c_AllowHeaders :: "string list"
  v1c_ExposeHeaders :: "string list"
  v1c_MaxAge :: int

record v1_HTTPAuthConfig =
  v1ha_Path :: string
  v1ha_AllowedRequestHeaders :: "string list"
  v1ha_AllowedResponseHeaders :: "string list"

text \<open>Of \<^verbatim>\<open>ForwardBody\<close> only the size is read.\<close>

record v1_HTTPExternalAuthFilter =
  v1ea_HTTPAuthConfig :: "v1_HTTPAuthConfig option"
  v1ea_ForwardBody :: "nat option"

section \<open>Authentication filters and snippets\<close>

datatype RequireType = RequireTypeAll | RequireTypeAny | OtherRequire string

datatype ClaimMatchType = ClaimMatchTypeExact | ClaimMatchTypeRegex | OtherClaimMatch string

record Claim =
  cl_ProxySetHeader :: "string option"
  cl_Name :: string
  cl_Match :: ClaimMatchType
  cl_Values :: "string list"

record Rule =
  ru_Require :: "RequireType option"
  ru_Claims :: "Claim list"

record Authorization =
  az_Require :: "RequireType option"
  az_Rules :: "Rule list"

datatype JWTKeySource = JWTKeySourceFile | JWTKeySourceRemote | OtherKeySource string

record JWTRemoteKeySource =
  jr_URI :: string
  jr_CACertificateRefs :: "string list"

text \<open>References to local objects are their names.\<close>

record JWTAuth =
  jw_File :: "string option"
  jw_KeyCache :: "string option"
  jw_Remote :: "JWTRemoteKeySource option"
  jw_Authorization :: "Authorization option"
  jw_Leeway :: "string option"
  jw_Realm :: string
  jw_Source :: JWTKeySource

record OIDCSessionConfig =
  os_CookieName :: "string option"
  os_Timeout :: "string option"

record OIDCLogoutConfig =
  ol_URI :: "string option"
  ol_PostLogoutURI :: "string option"
  ol_FrontChannelLogoutURI :: "string option"
  ol_TokenHint :: "bool option"

record OIDCAuth =
  oa_CRLSecretRef :: "string option"
  oa_ConfigURL :: "string option"
  oa_PKCE :: "bool option"
  oa_ExtraAuthArgs :: "(string \<times> string) list"
  oa_Session :: "OIDCSessionConfig option"
  oa_Logout :: "OIDCLogoutConfig option"
  oa_RedirectURI :: "string option"
  oa_Issuer :: string
  oa_ClientID :: string
  oa_ClientSecretRef :: string
  oa_CACertificateRefs :: "string list"

record BasicAuth =
  ba_SecretRef :: string
  ba_Realm :: string

datatype AuthType = AuthTypeBasic | AuthTypeOIDC | AuthTypeJWT | OtherAuthType string

record AuthenticationFilterSpec =
  as_Basic :: "BasicAuth option"
  as_OIDC :: "OIDCAuth option"
  as_JWT :: "JWTAuth option"
  as_Type :: AuthType

record ngf_AuthenticationFilter =
  na_Meta :: ObjectMeta
  na_Spec :: AuthenticationFilterSpec

record graph_AuthenticationFilter =
  gaf_Source :: ngf_AuthenticationFilter
  gaf_Valid :: bool
  gaf_Referenced :: bool

record graph_SnippetsFilter =
  gsf_Source :: ObjectMeta
  gsf_Snippets :: "string \<rightharpoonup> string"
  gsf_Valid :: bool
  gsf_Referenced :: bool

record ExtensionRefFilter =
  er_SnippetsFilter :: "graph_SnippetsFilter option"
  er_AuthenticationFilter :: "graph_AuthenticationFilter option"
  er_Valid :: bool

section \<open>Filters of the graph\<close>

datatype FilterType =
    FilterCORS
  | FilterRequestHeaderModifier
  | FilterResponseHeaderModifier
  | FilterExtensionRef
  | FilterRequestMirror
  | FilterRequestRedirect
  | FilterURLRewrite
  | FilterExternalAuth
  | OtherFilter string

record Filter =
  fl_CORS :: "v1_HTTPCORSFilter option"
  fl_RequestHeaderModifier :: "v1_HTTPHeaderFilter option"
  fl_ResponseHeaderModifier :: "v1_HTTPHeaderFilter option"
  fl_RequestRedirect :: "v1_HTTPRequestRedirectFilter option"
  fl_URLRewrite :: "v1_HTTPURLRewriteFilter option"
  fl_RequestMirror :: "v1_HTTPRequestMirrorFilter option"
  fl_ExternalAuth :: "v1_HTTPExternalAuthFilter option"
  fl_ResolvedExtensionRef :: "ExtensionRefFilter option"
  fl_FilterType :: FilterType

definition new_filter :: "FilterType \<Rightarrow> Filter" where
  "new_filter t =
     \<lparr>fl_CORS = None, fl_RequestHeaderModifier = None, fl_ResponseHeaderModifier = None, fl_RequestRedirect = None,
      fl_URLRewrite = None, fl_RequestMirror = None, fl_ExternalAuth = None, fl_ResolvedExtensionRef = None, fl_FilterType = t\<rparr>"

section \<open>Policies of the graph\<close>

text \<open>The policy resource is its key; of the WAF state only the flag of a missing bundle is read here.\<close>

record PolicyKey =
  pk_Kind :: string
  pk_NsName :: NamespacedName

record Policy =
  po_Source :: PolicyKey
  po_InvalidForGateways :: "NamespacedName list"
  po_BundlePending :: "bool option"
  po_Valid :: bool

end
