(* ===== verification/GatewayAPI.thy ===== *)
theory GatewayAPI
  imports Prelude Ordering Hostnames RefGrant FilterAPI
begin

text \<open>
  The data of the Gateway API and of Kubernetes that the graph package reads, with the fields it
  reads. These types are declared in modules outside the repository; the model gives their
  documented shape: an optional field is an \<open>option\<close>, a slice that the code compares
  with nil is an optional list, and a map that is ranged over is an association list in some order of
  iteration. Functions of those modules are arguments, collected in the record \<open>k8s\<close>.
\<close>

section \<open>Field errors\<close>

datatype path_element = Child string | Index nat | Key string

type_synonym field_path = "path_element list"

datatype field_value = FStr string | FInt int | FName NamespacedName | FNil

text \<open>The constructors of \<^verbatim>\<open>k8s.io/apimachinery/pkg/util/validation/field\<close>.\<close>

datatype field_error =
    Invalid field_path field_value string
  | Required field_path string
  | NotSupported field_path field_value "string list"
  | Forbidden field_path string
  | NotFound field_path field_value
  | TooMany field_path nat nat

section \<open>Label selectors\<close>

record LabelSelectorRequirement =
  lsr_Key :: string
  lsr_Operator :: string
  lsr_Values :: "string list"

record LabelSelector =
  lsel_MatchLabels :: "(string \<times> string) list"
  lsel_MatchExpressions :: "LabelSelectorRequirement list"

type_synonym label_set = "string \<rightharpoonup> string"

text \<open>A \<^verbatim>\<open>labels.Selector\<close> is its method \<^verbatim>\<open>Matches\<close>.\<close>

type_synonym selector = "label_set \<Rightarrow> bool"

text \<open>The namespaces of the cluster, by name, with their labels.\<close>

type_synonym namespaces = "string \<rightharpoonup> label_set"

record k8s =
  k_Error :: "field_error \<Rightarrow> string"
  k_dns :: dns_validation
  k_LabelSelectorAsSelector :: "LabelSelector \<Rightarrow> string + selector"

section \<open>Listeners and Gateways\<close>

datatype ProtocolType =
  HTTPProtocolType | HTTPSProtocolType | TLSProtocolType | TCPProtocolType | UDPProtocolType | OtherProtocol string

fun ProtocolType_string :: "ProtocolType \<Rightarrow> string" where
  "ProtocolType_string HTTPProtocolType = ''HTTP''"
| "ProtocolType_string HTTPSProtocolType = ''HTTPS''"
| "ProtocolType_string TLSProtocolType = ''TLS''"
| "ProtocolType_string TCPProtocolType = ''TCP''"
| "ProtocolType_string UDPProtocolType = ''UDP''"
| "ProtocolType_string (OtherProtocol s) = s"

datatype TLSModeType = TLSModeTerminate | TLSModePassthrough | OtherTLSMode string

fun TLSModeType_string :: "TLSModeType \<Rightarrow> string" where
  "TLSModeType_string TLSModeTerminate = ''Terminate''"
| "TLSModeType_string TLSModePassthrough = ''Passthrough''"
| "TLSModeType_string (OtherTLSMode s) = s"

datatype FromNamespaces =
  NamespacesFromAll | NamespacesFromSame | NamespacesFromSelector | NamespacesFromNone | OtherFrom string

record RouteGroupKind =
  rgk_Group :: "string option"
  rgk_Kind :: string

record RouteNamespaces =
  rn_From :: "FromNamespaces option"
  rn_Selector :: "LabelSelector option"

record AllowedRoutes =
  al_Namespaces :: "RouteNamespaces option"
  al_Kinds :: "RouteGroupKind list option"

record SecretObjectReference =
  sor_Group :: "string option"
  sor_Kind :: "string option"
  sor_Name :: string
  sor_Namespace :: "string option"

record ListenerTLSConfig =
  tls_Mode :: "TLSModeType option"
  tls_CertificateRefs :: "SecretObjectReference list"
  tls_Options :: "(string \<times> string) list"

record v1_Listener =
  v1_Name :: string
  v1_Hostname :: "string option"
  v1_Port :: int
  v1_Protocol :: ProtocolType
  v1_TLS :: "ListenerTLSConfig option"
  v1_AllowedRoutes :: "AllowedRoutes option"

record ObjectReference =
  or_Group :: string
  or_Kind :: string
  or_Name :: string
  or_Namespace :: "string option"

datatype FrontendValidationModeType = AllowValidOnly | AllowInsecureFallback | OtherValidationMode string

record FrontendTLSValidation =
  ftv_CACertificateRefs :: "ObjectReference list"
  ftv_Mode :: FrontendValidationModeType

record TLSPortConfig =
  tpc_Port :: int
  tpc_Validation :: "FrontendTLSValidation option"

record FrontendTLSConfig =
  ftc_DefaultValidation :: "FrontendTLSValidation option"
  ftc_PerPort :: "TLSPortConfig list"

record GatewayTLSConfig =
  gtc_Frontend :: "FrontendTLSConfig option"

record AllowedListeners =
  all_Namespaces :: "RouteNamespaces option"

record GatewaySpecAddress =
  gsa_Value :: string

record v1_Gateway =
  gw_Meta :: ObjectMeta
  gw_Generation :: int
  gw_GatewayClassName :: string
  gw_Listeners :: "v1_Listener list"
  gw_Addresses :: "GatewaySpecAddress list"
  gw_TLS :: "GatewayTLSConfig option"
  gw_AllowedListeners :: "AllowedListeners option"

abbreviation gw_Namespace :: "v1_Gateway \<Rightarrow> string" where
  "gw_Namespace gw \<equiv> om_Namespace (gw_Meta gw)"

abbreviation object_key :: "ObjectMeta \<Rightarrow> NamespacedName" where
  "object_key m \<equiv> nsname (om_Namespace m) (om_Name m)"

record ParentGatewayReference =
  pgr_Name :: string
  pgr_Namespace :: "string option"

record v1_ListenerSet =
  vls_Meta :: ObjectMeta
  vls_Generation :: int
  vls_ParentRef :: ParentGatewayReference
  vls_Listeners :: "v1_Listener list"

end
