(* ===== verification/ListenerValidation.thy ===== *)
theory ListenerValidation
  imports GatewayAPI Conditions
begin

text \<open>
  The listener validators of \<^verbatim>\<open>internal/controller/state/graph/gateway_listener.go\<close>. A validator
  returns conditions, none if the listener is acceptable, and whether routes may attach. Error
  texts are built by the argument \<open>k8s\<close> from the structured field errors.
\<close>

section \<open>String functions of the standard library\<close>

definition is_space :: "char \<Rightarrow> bool" where
  "is_space c \<longleftrightarrow> c \<in> {CHR '' '', CHR 0x09, CHR 0x0A, CHR 0x0B, CHR 0x0C, CHR 0x0D}"

text \<open>\<^verbatim>\<open>strings.Fields\<close> on text whose white space is ASCII.\<close>

fun fields_aux :: "string \<Rightarrow> string \<Rightarrow> string list" where
  "fields_aux w [] = (if w = [] then [] else [w])"
| "fields_aux w (c # cs) =
     (if is_space c then (if w = [] then fields_aux [] cs else w # fields_aux [] cs)
      else fields_aux (w @ [c]) cs)"

definition fields :: "string \<Rightarrow> string list" where
  "fields s = fields_aux [] s"

text \<open>\<^verbatim>\<open>strings.ToUpper\<close> of one byte, and \<^verbatim>\<open>helpers.CapitalizeString\<close>.\<close>

definition to_upper :: "char \<Rightarrow> char" where
  "to_upper c = (if 97 \<le> (of_char c :: nat) \<and> (of_char c :: nat) \<le> 122 then char_of ((of_char c :: nat) - 32) else c)"

fun CapitalizeString :: "string \<Rightarrow> string" where
  "CapitalizeString [] = []"
| "CapitalizeString (c # cs) = to_upper c # cs"

text \<open>The regular expression \<^verbatim>\<open>sslCiphersRegx\<close>: items separated by colons, each an optional
  exclamation mark and a non-empty word over letters, digits, minus, plus and underscore.\<close>

definition cipher_char :: "char \<Rightarrow> bool" where
  "cipher_char c \<longleftrightarrow>
     (let n = (of_char c :: nat)
      in 65 \<le> n \<and> n \<le> 90 \<or> 97 \<le> n \<and> n \<le> 122 \<or> 48 \<le> n \<and> n \<le> 57 \<or> c \<in> {CHR ''-'', CHR ''+'', CHR ''_''})"

definition cipher_item :: "string \<Rightarrow> bool" where
  "cipher_item s \<longleftrightarrow> (let w = trim_prefix s ''!'' in w \<noteq> [] \<and> list_all cipher_char w)"

definition sslCiphersRegx :: "string \<Rightarrow> bool" where
  "sslCiphersRegx s \<longleftrightarrow> list_all cipher_item (split_on CHR '':'' s)"

section \<open>Constants\<close>

abbreviation SSLProtocolsKey :: string where
  "SSLProtocolsKey \<equiv> ''nginx.org/ssl-protocols''"

abbreviation SSLCiphersKey :: string where
  "SSLCiphersKey \<equiv> ''nginx.org/ssl-ciphers''"

abbreviation SSLPreferServerCiphersKey :: string where
  "SSLPreferServerCiphersKey \<equiv> ''nginx.org/ssl-prefer-server-ciphers''"

definition sslProtocolsValues :: "string list" where
  "sslProtocolsValues = [''SSLv2'', ''SSLv3'', ''TLSv1'', ''TLSv1.1'', ''TLSv1.2'', ''TLSv1.3'']"

definition sslPreferServerCiphersValues :: "string list" where
  "sslPreferServerCiphersValues = [''on'', ''off'']"

type_synonym ProtectedPorts = "int \<rightharpoonup> string"

type_synonym listenerValidator = "v1_Listener \<Rightarrow> Condition list \<times> bool"

section \<open>Route kinds\<close>

definition route_kind :: "string \<Rightarrow> RouteGroupKind" where
  "route_kind kind = \<lparr>rgk_Group = Some GroupName, rgk_Kind = kind\<rparr>"

definition getValidKindsForProtocol :: "v1_Listener \<Rightarrow> RouteGroupKind list" where
  "getValidKindsForProtocol listener =
     (case v1_Protocol listener of
        HTTPProtocolType \<Rightarrow> [route_kind ''HTTPRoute'', route_kind ''GRPCRoute'']
      | HTTPSProtocolType \<Rightarrow> [route_kind ''HTTPRoute'', route_kind ''GRPCRoute'']
      | TLSProtocolType \<Rightarrow>
          (case v1_TLS listener of
             None \<Rightarrow> []
           | Some tls \<Rightarrow>
               (if tls_Mode tls = None \<or> tls_Mode tls = Some TLSModePassthrough \<or> tls_Mode tls = Some TLSModeTerminate
                then [route_kind ''TLSRoute''] else []))
      | TCPProtocolType \<Rightarrow> [route_kind ''TCPRoute'']
      | UDPProtocolType \<Rightarrow> [route_kind ''UDPRoute'']
      | OtherProtocol _ \<Rightarrow> [])"

definition validProtocolRouteKind :: "RouteGroupKind list \<Rightarrow> RouteGroupKind \<Rightarrow> bool" where
  "validProtocolRouteKind validKinds kind =
     (if rgk_Group kind \<noteq> None \<and> rgk_Group kind \<noteq> Some GroupName then False
      else list_ex (\<lambda>k. rgk_Kind k = rgk_Kind kind) validKinds)"

definition kind_key :: "RouteGroupKind \<Rightarrow> string" where
  "kind_key kind = (case rgk_Group kind of None \<Rightarrow> rgk_Kind kind | Some g \<Rightarrow> g @ ''/'' @ rgk_Kind kind)"

fun supported_kinds_loop ::
  "v1_Listener \<Rightarrow> RouteGroupKind list \<Rightarrow> RouteGroupKind list \<Rightarrow> string set \<Rightarrow> Condition list \<Rightarrow> RouteGroupKind list
    \<Rightarrow> Condition list \<times> RouteGroupKind list" where
  "supported_kinds_loop listener validKinds [] unique conds supported = (conds, supported)"
| "supported_kinds_loop listener validKinds (kind # ks) unique conds supported =
     (if \<not> validProtocolRouteKind validKinds kind then
        (let msg = ''Unsupported route kind for protocol '' @ ProtocolType_string (v1_Protocol listener) @ '' \"'' @
               deref_or GroupName (rgk_Group kind) @ ''/'' @ rgk_Kind kind @ ''\"''
         in supported_kinds_loop listener validKinds ks unique (conds @ NewListenerInvalidRouteKinds msg) supported)
      else if kind_key kind \<in> unique then supported_kinds_loop listener validKinds ks unique conds supported
      else supported_kinds_loop listener validKinds ks (insert (kind_key kind) unique) conds (supported @ [kind]))"

definition getAndValidateListenerSupportedKinds :: "v1_Listener \<Rightarrow> Condition list \<times> RouteGroupKind list" where
  "getAndValidateListenerSupportedKinds listener =
     (let validKinds = getValidKindsForProtocol listener in
      case v1_AllowedRoutes listener of
        None \<Rightarrow> ([], validKinds)
      | Some al \<Rightarrow>
          (case al_Kinds al of
             None \<Rightarrow> ([], validKinds)
           | Some ks \<Rightarrow> supported_kinds_loop listener validKinds ks {} [] []))"

definition validateListenerAllowedRouteKind :: listenerValidator where
  "validateListenerAllowedRouteKind listener =
     (let conds = fst (getAndValidateListenerSupportedKinds listener) in (conds, conds = []))"

definition getListenerSupportedKinds :: "v1_Listener \<Rightarrow> RouteGroupKind list" where
  "getListenerSupportedKinds listener = snd (getAndValidateListenerSupportedKinds listener)"

section \<open>Selector, hostname and port\<close>

definition validateListenerLabelSelector :: listenerValidator where
  "validateListenerLabelSelector listener =
     (case Option.bind (v1_AllowedRoutes listener) al_Namespaces of
        None \<Rightarrow> ([], True)
      | Some ns \<Rightarrow>
          (if rn_From ns = Some NamespacesFromSelector \<and> rn_Selector ns = None then
             (NewListenerUnsupportedValue ''Listener's AllowedRoutes Selector must be set when From is set to type Selector'',
              False)
           else ([], True)))"

definition validateListenerHostname :: "k8s \<Rightarrow> listenerValidator" where
  "validateListenerHostname k listener =
     (case v1_Hostname listener of
        None \<Rightarrow> ([], True)
      | Some h \<Rightarrow>
          (if h = '''' then ([], True)
           else case validateHostname (k_dns k) h of
             None \<Rightarrow> ([], True)
           | Some err \<Rightarrow>
               (NewListenerUnsupportedValue (k_Error k (Invalid [Child ''hostname''] (FStr h) err)), False)))"

definition validateListenerPort :: "int \<Rightarrow> ProtectedPorts \<Rightarrow> string option" where
  "validateListenerPort port protectedPorts =
     (if port < 1 \<or> port > 65535 then Some ''port must be between 1-65535''
      else case protectedPorts port of
        Some portName \<Rightarrow> Some (''port is already in use as '' @ portName)
      | None \<Rightarrow> None)"

definition port_conditions :: "k8s \<Rightarrow> ProtectedPorts \<Rightarrow> v1_Listener \<Rightarrow> Condition list" where
  "port_conditions k protectedPorts listener =
     (case validateListenerPort (v1_Port listener) protectedPorts of
        None \<Rightarrow> []
      | Some err \<Rightarrow>
          NewListenerUnsupportedValue (k_Error k (Invalid [Child ''port''] (FInt (v1_Port listener)) err)))"

definition createHTTPListenerValidator :: "k8s \<Rightarrow> ProtectedPorts \<Rightarrow> listenerValidator" where
  "createHTTPListenerValidator k protectedPorts listener =
     (port_conditions k protectedPorts listener @
      (if v1_TLS listener \<noteq> None then
         NewListenerUnsupportedValue (k_Error k (Forbidden [Child ''tls''] ''tls is not supported for HTTP listener''))
       else []),
      True)"

definition createL4ListenerValidator :: "k8s \<Rightarrow> ProtocolType \<Rightarrow> ProtectedPorts \<Rightarrow> listenerValidator" where
  "createL4ListenerValidator k protocol protectedPorts listener =
     (port_conditions k protectedPorts listener @
      (if v1_TLS listener \<noteq> None then
         NewListenerUnsupportedValue
           (k_Error k (Forbidden [Child ''tls'']
             (''tls is not supported for '' @ ProtocolType_string protocol @ '' listener'')))
       else []) @
      (if v1_Hostname listener \<noteq> None then
         NewListenerUnsupportedValue
           (k_Error k (Forbidden [Child ''hostname'']
             (''hostname is not supported for '' @ ProtocolType_string protocol @ '' listener'')))
       else []),
      True)"

section \<open>TLS settings\<close>

definition validateTLSFieldOnTLSListener :: "k8s \<Rightarrow> listenerValidator" where
  "validateTLSFieldOnTLSListener k listener =
     (case v1_TLS listener of
        None \<Rightarrow>
          (NewListenerUnsupportedValue (k_Error k (Required [Child ''tls''] ''tls must be defined for TLS listener'')), False)
      | Some tls \<Rightarrow>
          (case tls_Mode tls of
             None \<Rightarrow> ([], True)
           | Some mode \<Rightarrow>
               (if mode = TLSModePassthrough \<or> mode = TLSModeTerminate then ([], True)
                else (NewListenerUnsupportedValue
                        (k_Error k (NotSupported [Child ''tls'', Child ''mode''] (FStr (TLSModeType_string mode))
                           [''Passthrough'', ''Terminate''])), False))))"

definition createHTTPSListenerValidator :: "k8s \<Rightarrow> ProtectedPorts \<Rightarrow> listenerValidator" where
  "createHTTPSListenerValidator k protectedPorts listener =
     (let conds = port_conditions k protectedPorts listener in
      case v1_TLS listener of
        None \<Rightarrow>
          (conds @ NewListenerUnsupportedValue
             (k_Error k (Required [Child ''TLS''] ''tls must be defined for HTTPS listener'')), True)
      | Some tls \<Rightarrow>
          (conds @
           (case tls_Mode tls of
              None \<Rightarrow> []
            | Some mode \<Rightarrow>
                (if mode \<noteq> TLSModeTerminate then
                   NewListenerUnsupportedValue
                     (k_Error k (NotSupported [Child ''tls'', Child ''mode''] (FStr (TLSModeType_string mode)) [''Terminate'']))
                 else [])),
           True))"

definition validateListenerTLSOption :: "k8s \<Rightarrow> field_path \<Rightarrow> string \<Rightarrow> string \<Rightarrow> Condition list" where
  "validateListenerTLSOption k tlsPath optionKey optionValue =
     (let path = tlsPath @ [Child ''options'', Key optionKey] in
      (if optionKey \<notin> {SSLProtocolsKey, SSLCiphersKey, SSLPreferServerCiphersKey} then
         NewListenerUnsupportedValue
           (k_Error k (NotSupported path (FStr optionKey) [SSLProtocolsKey, SSLCiphersKey, SSLPreferServerCiphersKey]))
       else []) @
      (if optionKey = SSLProtocolsKey then
         (let protocols = fields optionValue in
          (if protocols = [] then
             NewListenerUnsupportedValue (k_Error k (NotSupported path (FStr '''') sslProtocolsValues))
           else []) @
          concat (map (\<lambda>protocol.
              if protocol \<notin> set sslProtocolsValues then
                NewListenerUnsupportedValue (k_Error k (NotSupported path (FStr protocol) sslProtocolsValues))
              else []) protocols))
       else []) @
      (if optionKey = SSLPreferServerCiphersKey then
         (if optionValue \<noteq> ''on'' \<and> optionValue \<noteq> ''off'' then
            NewListenerUnsupportedValue (k_Error k (NotSupported path (FStr optionValue) sslPreferServerCiphersValues))
          else [])
       else []) @
      (if optionKey = SSLCiphersKey then
         (if \<not> sslCiphersRegx optionValue then
            NewListenerUnsupportedValue (k_Error k (Invalid path (FStr optionValue) ''invalid ssl ciphers''))
          else [])
       else []))"

definition validateListenerTLSOptions :: "k8s \<Rightarrow> ListenerTLSConfig \<Rightarrow> field_path \<Rightarrow> Condition list" where
  "validateListenerTLSOptions k tls tlsPath =
     concat (map (\<lambda>(optionKey, optionValue). validateListenerTLSOption k tlsPath optionKey optionValue) (tls_Options tls))"

definition cert_ref_conditions :: "k8s \<Rightarrow> field_path \<Rightarrow> nat \<Rightarrow> SecretObjectReference \<Rightarrow> Condition list" where
  "cert_ref_conditions k tlsPath i certRef =
     (let certRefPath = tlsPath @ [Child ''certificateRefs'', Index i] in
      (case sor_Kind certRef of
         None \<Rightarrow> []
       | Some kind \<Rightarrow>
           (if kind \<noteq> ''Secret'' then
              NewListenerInvalidCertificateRefNotAccepted
                (k_Error k (NotSupported (certRefPath @ [Child ''kind'']) (FStr kind) [''Secret'']))
            else [])) @
      (case sor_Group certRef of
         None \<Rightarrow> []
       | Some grp \<Rightarrow>
           (if grp \<noteq> '''' then
              NewListenerInvalidCertificateRefNotAccepted
                (k_Error k (NotSupported (certRefPath @ [Child ''group'']) (FStr grp) ['''']))
            else [])))"

definition validateTLSTerminateConfig :: "k8s \<Rightarrow> ListenerTLSConfig \<Rightarrow> field_path \<Rightarrow> Condition list" where
  "validateTLSTerminateConfig k tls tlsPath =
     (let conds = (if tls_Options tls \<noteq> [] then validateListenerTLSOptions k tls tlsPath else []) in
      if tls_CertificateRefs tls = [] then
        conds @ NewListenerInvalidCertificateRefNotAccepted
          (k_Error k (Required (tlsPath @ [Child ''certificateRefs''])
             ''certificateRefs must be defined for TLS mode terminate''))
      else conds @ concat (map (\<lambda>(i, certRef). cert_ref_conditions k tlsPath i certRef)
                            (enumerate 0 (tls_CertificateRefs tls))))"

definition validateListenerTLSTerminateFields :: "k8s \<Rightarrow> listenerValidator" where
  "validateListenerTLSTerminateFields k listener =
     (case v1_TLS listener of
        None \<Rightarrow> ([], True)
      | Some tls \<Rightarrow>
          (if \<not> (tls_Mode tls = None \<or> tls_Mode tls = Some TLSModeTerminate) then ([], True)
           else (validateTLSTerminateConfig k tls [Child ''tls''], True)))"

definition unsupportedProtocolValidator :: "k8s \<Rightarrow> listenerValidator" where
  "unsupportedProtocolValidator k listener =
     (NewListenerUnsupportedProtocol
        (k_Error k (NotSupported [Child ''protocol''] (FStr (ProtocolType_string (v1_Protocol listener)))
           [''HTTP'', ''HTTPS'', ''TLS'', ''TCP'', ''UDP''])),
      False)"

text \<open>
  The validators \<^verbatim>\<open>newListenerConfiguratorFactory\<close> gives to the configurator
  \<^verbatim>\<open>getConfiguratorForListener\<close> selects for the protocol.
\<close>

definition validators_for :: "k8s \<Rightarrow> ProtectedPorts \<Rightarrow> ProtocolType \<Rightarrow> listenerValidator list" where
  "validators_for k protectedPorts protocol =
     (case protocol of
        HTTPProtocolType \<Rightarrow>
          [validateListenerAllowedRouteKind, validateListenerLabelSelector, validateListenerHostname k,
           createHTTPListenerValidator k protectedPorts]
      | HTTPSProtocolType \<Rightarrow>
          [validateListenerAllowedRouteKind, validateListenerLabelSelector, validateListenerHostname k,
           createHTTPSListenerValidator k protectedPorts, validateListenerTLSTerminateFields k]
      | TLSProtocolType \<Rightarrow>
          [validateListenerAllowedRouteKind, validateListenerLabelSelector, validateListenerHostname k,
           validateTLSFieldOnTLSListener k, validateListenerTLSTerminateFields k]
      | TCPProtocolType \<Rightarrow>
          [validateListenerAllowedRouteKind, validateListenerLabelSelector,
           createL4ListenerValidator k TCPProtocolType protectedPorts]
      | UDPProtocolType \<Rightarrow>
          [validateListenerAllowedRouteKind, validateListenerLabelSelector,
           createL4ListenerValidator k UDPProtocolType protectedPorts]
      | OtherProtocol _ \<Rightarrow> [unsupportedProtocolValidator k])"

definition run_validators :: "listenerValidator list \<Rightarrow> v1_Listener \<Rightarrow> Condition list \<times> bool" where
  "run_validators vs listener =
     fold (\<lambda>validator (conds, attachable). let (currConds, currAttachable) = validator listener
             in (conds @ currConds, attachable \<and> currAttachable)) vs ([], True)"

section \<open>Lemmas\<close>

lemma run_validators_eq:
  "run_validators vs l = (concat (map (\<lambda>v. fst (v l)) vs), list_all (\<lambda>v. snd (v l)) vs)"
proof -
  have "fold (\<lambda>v (conds, att). let (c, a) = v l in (conds @ c, att \<and> a)) vs (cs, b) =
      (cs @ concat (map (\<lambda>v. fst (v l)) vs), b \<and> list_all (\<lambda>v. snd (v l)) vs)" for cs b
    by (induction vs arbitrary: cs b) (auto simp: Let_def split_beta)
  then show ?thesis by (simp add: run_validators_def)
qed

text \<open>None of the conditions the validators report is an empty list.\<close>

lemma listener_conds_nonempty [simp]:
  "NewListenerUnsupportedValue msg \<noteq> []" "NewListenerInvalidCertificateRefNotAccepted msg \<noteq> []"
  "NewListenerInvalidRouteKinds msg \<noteq> []" "NewListenerUnsupportedProtocol msg \<noteq> []"
  "NewListenerProtocolConflict msg \<noteq> []" "NewListenerHostnameConflict msg \<noteq> []"
  by (simp_all add: cond_defs)

lemma supported_kinds_loop_conds:
  "fst (supported_kinds_loop l vks ks u [] ss) = [] \<longleftrightarrow> list_all (validProtocolRouteKind vks) ks"
proof -
  have mono: "\<exists>ds. fst (supported_kinds_loop l vks ks u cs ss) = cs @ ds" for ks u cs ss
    by (induction l vks ks u cs ss rule: supported_kinds_loop.induct) (auto simp: Let_def)
  show ?thesis
  proof (induction ks arbitrary: u ss)
    case (Cons k ks)
    have "cs \<noteq> [] \<Longrightarrow> fst (supported_kinds_loop l vks ks u cs ss) \<noteq> []" for cs u ss
      using mono [of ks u cs ss] by auto
    then show ?case using Cons by (auto simp: Let_def)
  qed simp
qed

lemma supported_kinds_loop_supported:
  "set (snd (supported_kinds_loop l vks ks u cs ss)) \<subseteq> set ss \<union> {k \<in> set ks. validProtocolRouteKind vks k}"
  by (induction l vks ks u cs ss rule: supported_kinds_loop.induct) (auto simp: Let_def)

lemma supported_kinds_loop_port:
  "supported_kinds_loop (l\<lparr>v1_Port := p\<rparr>) vks ks u cs ss = supported_kinds_loop l vks ks u cs ss"
  by (induction l vks ks u cs ss rule: supported_kinds_loop.induct) (auto simp: Let_def)

lemma port_unread:
  "validateListenerAllowedRouteKind (l\<lparr>v1_Port := p\<rparr>) = validateListenerAllowedRouteKind l"
  "validateListenerLabelSelector (l\<lparr>v1_Port := p\<rparr>) = validateListenerLabelSelector l"
  "validateListenerHostname k (l\<lparr>v1_Port := p\<rparr>) = validateListenerHostname k l"
  "validateTLSFieldOnTLSListener k (l\<lparr>v1_Port := p\<rparr>) = validateTLSFieldOnTLSListener k l"
  "validateListenerTLSTerminateFields k (l\<lparr>v1_Port := p\<rparr>) = validateListenerTLSTerminateFields k l"
proof -
  have "getAndValidateListenerSupportedKinds (l\<lparr>v1_Port := p\<rparr>) = getAndValidateListenerSupportedKinds l"
  proof -
    have "getValidKindsForProtocol (l\<lparr>v1_Port := p\<rparr>) = getValidKindsForProtocol l"
      by (cases "v1_Protocol l") (simp_all add: getValidKindsForProtocol_def)
    then show ?thesis
      by (simp add: getAndValidateListenerSupportedKinds_def Let_def supported_kinds_loop_port split: option.split)
  qed
  then show "validateListenerAllowedRouteKind (l\<lparr>v1_Port := p\<rparr>) = validateListenerAllowedRouteKind l"
    by (simp add: validateListenerAllowedRouteKind_def)
qed (simp_all add: validateListenerLabelSelector_def validateListenerHostname_def
      validateTLSFieldOnTLSListener_def validateListenerTLSTerminateFields_def)

lemma validateListenerPort_None:
  "validateListenerPort port pp = None \<longleftrightarrow> 1 \<le> port \<and> port \<le> 65535 \<and> pp port = None"
  by (auto simp: validateListenerPort_def split: option.splits)

lemma port_conditions_empty: "port_conditions k pp l = [] \<longleftrightarrow> validateListenerPort (v1_Port l) pp = None"
  by (auto simp: port_conditions_def split: option.splits)

lemma validateListenerHostname_empty:
  "fst (validateListenerHostname k l) = [] \<longleftrightarrow>
     (case v1_Hostname l of None \<Rightarrow> True | Some h \<Rightarrow> h = '''' \<or> validateHostname (k_dns k) h = None)"
  by (auto simp: validateListenerHostname_def split: option.splits)

lemma cert_ref_conditions_empty:
  "cert_ref_conditions k p i r = [] \<longleftrightarrow> sor_Kind r \<in> {None, Some ''Secret''} \<and> sor_Group r \<in> {None, Some ''''}"
  by (auto simp: cert_ref_conditions_def Let_def split: option.splits)

definition option_ok :: "string \<times> string \<Rightarrow> bool" where
  "option_ok kv \<longleftrightarrow>
     (case kv of (key, val) \<Rightarrow>
        key = SSLProtocolsKey \<and> fields val \<noteq> [] \<and> set (fields val) \<subseteq> set sslProtocolsValues \<or>
        key = SSLCiphersKey \<and> sslCiphersRegx val \<or>
        key = SSLPreferServerCiphersKey \<and> val \<in> {''on'', ''off''})"

lemma concat_map_if_empty: "concat (map (\<lambda>x. if P x then f x else []) xs) = [] \<longleftrightarrow> (\<forall>x\<in>set xs. P x \<longrightarrow> f x = [])"
  by (induction xs) auto

lemma validateListenerTLSOption_empty: "validateListenerTLSOption k p key val = [] \<longleftrightarrow> option_ok (key, val)"
  by (cases "key = SSLProtocolsKey"; cases "key = SSLCiphersKey"; cases "key = SSLPreferServerCiphersKey")
     (simp_all add: validateListenerTLSOption_def option_ok_def Let_def subset_iff concat_map_if_empty Ball_def
       del: concat_eq_Nil_conv)

definition terminate_ok :: "ListenerTLSConfig \<Rightarrow> bool" where
  "terminate_ok tls \<longleftrightarrow>
     list_all option_ok (tls_Options tls) \<and> tls_CertificateRefs tls \<noteq> [] \<and>
     list_all (\<lambda>r. sor_Kind r \<in> {None, Some ''Secret''} \<and> sor_Group r \<in> {None, Some ''''}) (tls_CertificateRefs tls)"

lemma validateListenerTLSOptions_empty:
  "validateListenerTLSOptions k tls p = [] \<longleftrightarrow> list_all option_ok (tls_Options tls)"
  by (auto simp: validateListenerTLSOptions_def list_all_iff validateListenerTLSOption_empty)

lemma validateTLSTerminateConfig_empty: "validateTLSTerminateConfig k tls p = [] \<longleftrightarrow> terminate_ok tls"
proof -
  have "concat (map (\<lambda>(i, r). cert_ref_conditions k p i r) (enumerate n rs)) = [] \<longleftrightarrow>
      list_all (\<lambda>r. sor_Kind r \<in> {None, Some ''Secret''} \<and> sor_Group r \<in> {None, Some ''''}) rs" for n rs
    by (induction rs arbitrary: n) (simp_all add: cert_ref_conditions_empty)
  then show ?thesis
    by (simp add: validateTLSTerminateConfig_def terminate_ok_def Let_def validateListenerTLSOptions_empty
        del: concat_eq_Nil_conv)
qed

lemma validateListenerTLSTerminateFields_empty:
  "fst (validateListenerTLSTerminateFields k l) = [] \<longleftrightarrow>
     (case v1_TLS l of None \<Rightarrow> True
      | Some tls \<Rightarrow> tls_Mode tls \<noteq> None \<and> tls_Mode tls \<noteq> Some TLSModeTerminate \<or> terminate_ok tls)"
  by (simp add: validateListenerTLSTerminateFields_def validateTLSTerminateConfig_empty split: option.split)

lemma createHTTPListenerValidator_empty:
  "fst (createHTTPListenerValidator k pp l) = [] \<longleftrightarrow> validateListenerPort (v1_Port l) pp = None \<and> v1_TLS l = None"
  by (simp add: createHTTPListenerValidator_def port_conditions_empty)

lemma createHTTPSListenerValidator_empty:
  "fst (createHTTPSListenerValidator k pp l) = [] \<longleftrightarrow> validateListenerPort (v1_Port l) pp = None \<and>
     (case v1_TLS l of None \<Rightarrow> False | Some tls \<Rightarrow> tls_Mode tls = None \<or> tls_Mode tls = Some TLSModeTerminate)"
  by (simp add: createHTTPSListenerValidator_def port_conditions_empty Let_def split: option.split)

lemma createL4ListenerValidator_empty:
  "fst (createL4ListenerValidator k proto pp l) = [] \<longleftrightarrow>
     validateListenerPort (v1_Port l) pp = None \<and> v1_TLS l = None \<and> v1_Hostname l = None"
  by (simp add: createL4ListenerValidator_def port_conditions_empty)

lemmas validator_simps = validateListenerPort_None validateListenerHostname_empty
  validateListenerTLSTerminateFields_empty createHTTPListenerValidator_empty createHTTPSListenerValidator_empty
  createL4ListenerValidator_empty

lemma run_validators_empty: "fst (run_validators vs l) = [] \<longleftrightarrow> list_all (\<lambda>v. fst (v l) = []) vs"
  by (simp add: run_validators_eq list_all_iff)

section \<open>Properties\<close>


text \<open>
  C32. Every listener the validators accept, TLS listeners apart, has a port between 1 and 65535 that
  is not a protected port of the data plane.
\<close>

theorem accepted_port_unprotected:
  assumes "v1_Protocol l \<noteq> TLSProtocolType" and "fst (run_validators (validators_for k pp (v1_Protocol l)) l) = []"
  shows "1 \<le> v1_Port l \<and> v1_Port l \<le> 65535 \<and> pp (v1_Port l) = None"
  using assms
  by (cases "v1_Protocol l")
     (simp_all add: run_validators_empty validators_for_def validator_simps unsupportedProtocolValidator_def)

definition sample_k8s :: k8s where
  "sample_k8s = \<lparr>k_Error = (\<lambda>_. ''error''), k_dns = \<lparr>IsWildcardDNS1123Subdomain = (\<lambda>_. []), IsDNS1123Subdomain = (\<lambda>_. [])\<rparr>,
     k_LabelSelectorAsSelector = (\<lambda>_. Inl ''invalid'')\<rparr>"

definition sample_listener :: "string \<Rightarrow> string option \<Rightarrow> int \<Rightarrow> ProtocolType \<Rightarrow> ListenerTLSConfig option \<Rightarrow> v1_Listener" where
  "sample_listener n h p proto tls = \<lparr>v1_Name = n, v1_Hostname = h, v1_Port = p, v1_Protocol = proto,
     v1_TLS = tls, v1_AllowedRoutes = None\<rparr>"

theorem accepted_port_unprotected_witness:
  "(let l = sample_listener ''http'' (Some ''cafe.example.com'') 80 HTTPProtocolType None; pp = [9113 \<mapsto> ''MetricsPort'']
    in fst (run_validators (validators_for sample_k8s pp (v1_Protocol l)) l) = [] \<and> pp (v1_Port l) = None)"
  using accepted_port_unprotected
    [of "sample_listener ''http'' (Some ''cafe.example.com'') 80 HTTPProtocolType None" sample_k8s "[9113 \<mapsto> ''MetricsPort'']"]
  by (simp add: sample_listener_def sample_k8s_def run_validators_empty validators_for_def validator_simps
      validateListenerAllowedRouteKind_def
      getAndValidateListenerSupportedKinds_def validateListenerLabelSelector_def validateHostname_def has_prefix_def)

text \<open>
  The validation of TLS listeners does not look at the port at all: replacing the port by any other
  number and the protected ports by any others changes neither the conditions nor the attachability. A TLS
  listener on a protected port, or on a port out of range, is accepted.
\<close>

theorem tls_listener_port_unchecked:
  "run_validators (validators_for k pp TLSProtocolType) (l\<lparr>v1_Port := p\<rparr>) =
   run_validators (validators_for k qq TLSProtocolType) l"
  by (simp add: run_validators_eq validators_for_def port_unread)

end
