(* ===== verification/Listeners.thy ===== *)
theory Listeners
  imports ListenerValidation
begin

text \<open>
  Listeners of a Gateway: the \<^verbatim>\<open>Listener\<close> and \<^verbatim>\<open>Gateway\<close> structs of the graph, the conflict
  resolvers, the resolvers of external references, \<^verbatim>\<open>configure\<close> and \<^verbatim>\<open>buildListeners\<close>
  (\<^verbatim>\<open>gateway_listener.go\<close>, \<^verbatim>\<open>gateway.go\<close>).

  The conflict resolvers keep pointers to the listeners they have seen and change them later. Each Gateway
  therefore carries a store \<open>g_heap\<close> of its listeners; a pointer is an index into it. The closures of
  \<^verbatim>\<open>newListenerConfiguratorFactory\<close> share state, which is the record \<open>listenerFactory\<close>.
\<close>

section \<open>Data\<close>

datatype RouteType = RouteTypeHTTP | RouteTypeGRPC | RouteTypeTLS | RouteTypeTCP | RouteTypeUDP

record L4RouteKey =
  l4k_NamespacedName :: NamespacedName
  l4k_RouteType :: RouteType

record RouteKey =
  rk_NamespacedName :: NamespacedName
  rk_RouteType :: RouteType

text \<open>The routes of a listener are the keys of its two maps; a key determines the route of the graph.\<close>

record Listener =
  l_Name :: string
  l_GatewayName :: NamespacedName
  l_ListenerSetName :: NamespacedName
  l_Source :: v1_Listener
  l_AllowedRouteLabelSelector :: "selector option"
  l_Routes :: "RouteKey list"
  l_L4Routes :: "L4RouteKey list"
  l_ValidationMode :: FrontendValidationModeType
  l_CACertificateRefs :: "ObjectReference list"
  l_ResolvedSecrets :: "NamespacedName list"
  l_Conditions :: "Condition list"
  l_SupportedKinds :: "RouteGroupKind list"
  l_Valid :: bool
  l_Attachable :: bool

text \<open>The fields of the effective NginxProxy that the modelled code reads.\<close>

record Metrics =
  met_Port :: "int option"
  met_Disable :: "bool option"

record EffectiveNginxProxy =
  enp_DisableHTTP2 :: "bool option"
  enp_DNSResolver :: "string list option"
  enp_Metrics :: "Metrics option"

record portConflictResolver =
  pc_conflictedPorts :: "int set"
  pc_portProtocolOwner :: "int \<rightharpoonup> nat"
  pc_listenersByPort :: "int \<Rightarrow> nat list"

type_synonym listenerKey = "ProtocolType \<times> string \<times> int"

record listenerFactory =
  lf_port :: portConflictResolver
  lf_tlsListenersByPort :: "int \<Rightarrow> nat list"
  lf_existingKeys :: "listenerKey set"
  lf_protectedPorts :: ProtectedPorts

record Gateway =
  g_Source :: v1_Gateway
  g_EffectiveNginxProxy :: "EffectiveNginxProxy option"
  g_ListenerFactory :: listenerFactory
  g_heap :: "Listener list"
  g_Listeners :: "nat list"
  g_AttachedListenerSets :: "NamespacedName list"
  g_Policies :: "Policy list"
  g_Conditions :: "Condition list"
  g_Valid :: bool

abbreviation noName :: NamespacedName where
  "noName \<equiv> nsname '''' ''''"

section \<open>Conflicts on a port\<close>

definition protocolGroups :: "ProtocolType \<Rightarrow> nat" where
  "protocolGroups p =
     (case p of TLSProtocolType \<Rightarrow> 0 | HTTPProtocolType \<Rightarrow> 1 | HTTPSProtocolType \<Rightarrow> 0
      | TCPProtocolType \<Rightarrow> 2 | UDPProtocolType \<Rightarrow> 2 | OtherProtocol _ \<Rightarrow> 0)"

definition isL4Protocol :: "ProtocolType \<Rightarrow> bool" where
  "isL4Protocol protocol \<longleftrightarrow> protocol = TCPProtocolType \<or> protocol = UDPProtocolType"

definition createPortConflictResolver :: portConflictResolver where
  "createPortConflictResolver =
     \<lparr>pc_conflictedPorts = {}, pc_portProtocolOwner = Map.empty, pc_listenersByPort = (\<lambda>_. [])\<rparr>"

definition invalidateProtocolConflict :: "int \<Rightarrow> Listener \<Rightarrow> Listener" where
  "invalidateProtocolConflict port l =
     l\<lparr>l_Valid := False,
       l_Conditions := l_Conditions l @ NewListenerProtocolConflict
         (''Multiple listeners for the same port '' @ show_int port @
          '' specify incompatible protocols; ensure only one protocol per port'')\<rparr>"

definition invalidateL4ProtocolConflict :: "ProtocolType \<Rightarrow> int \<Rightarrow> Listener \<Rightarrow> Listener" where
  "invalidateL4ProtocolConflict protocol port l =
     l\<lparr>l_Valid := False,
       l_Conditions := l_Conditions l @ NewListenerProtocolConflict
         (''Multiple '' @ ProtocolType_string protocol @ '' listeners cannot share the same port '' @ show_int port)\<rparr>"

definition invalidateHostnameConflict :: "int \<Rightarrow> Listener \<Rightarrow> Listener" where
  "invalidateHostnameConflict port l =
     l\<lparr>l_Valid := False,
       l_Conditions := l_Conditions l @ NewListenerHostnameConflict
         (''HTTPS and TLS listeners for the same port '' @ show_int port @
          '' specify overlapping hostnames; ensure no overlapping hostnames for HTTPS and TLS listeners for the same port'')\<rparr>"

text \<open>An assignment through the pointer \<open>i\<close>.\<close>

definition upd_at :: "nat \<Rightarrow> ('a \<Rightarrow> 'a) \<Rightarrow> 'a list \<Rightarrow> 'a list" where
  "upd_at i f heap = heap[i := f (heap ! i)]"

definition resolveProtocolGroupConflict ::
  "nat \<Rightarrow> int \<Rightarrow> portConflictResolver \<Rightarrow> Listener list \<Rightarrow> portConflictResolver \<times> Listener list" where
  "resolveProtocolGroupConflict i port r heap =
     (let (r', heap') =
        (if nn_Name (l_ListenerSetName (heap ! i)) = '''' then
           (r\<lparr>pc_conflictedPorts := insert port (pc_conflictedPorts r)\<rparr>,
            fold (\<lambda>j. upd_at j (invalidateProtocolConflict port)) (pc_listenersByPort r port) heap)
         else (r, heap))
      in (r', upd_at i (invalidateProtocolConflict port) heap'))"

definition l4_clash :: "v1_Listener \<Rightarrow> v1_Listener \<Rightarrow> bool" where
  "l4_clash l listener \<longleftrightarrow> isL4Protocol (v1_Protocol l) \<and> v1_Protocol listener = v1_Protocol l"

definition hostname_clash :: "v1_Listener \<Rightarrow> v1_Listener \<Rightarrow> bool" where
  "hostname_clash l listener \<longleftrightarrow>
     v1_Protocol listener \<noteq> v1_Protocol l \<and>
     \<not> isL4Protocol (v1_Protocol listener) \<and> \<not> isL4Protocol (v1_Protocol l) \<and>
     haveOverlap (v1_Hostname l) (v1_Hostname listener)"

definition same_group_step ::
  "nat \<Rightarrow> int \<Rightarrow> nat \<Rightarrow> Listener list \<times> bool \<Rightarrow> Listener list \<times> bool" where
  "same_group_step i port j s =
     (let (heap, foundConflict) = s;
          l = l_Source (heap ! i);
          fromGateway = (nn_Name (l_ListenerSetName (heap ! i)) = '''');
          (heap1, found1) =
            (if l4_clash l (l_Source (heap ! j)) then
               (if fromGateway then upd_at j (invalidateL4ProtocolConflict (v1_Protocol l) port) heap else heap, True)
             else (heap, foundConflict))
      in if hostname_clash l (l_Source (heap1 ! j)) then
           (if fromGateway then upd_at j (invalidateHostnameConflict port) heap1 else heap1, True)
         else (heap1, found1))"

definition resolveSameProtocolGroupConflict ::
  "nat \<Rightarrow> int \<Rightarrow> portConflictResolver \<Rightarrow> Listener list \<Rightarrow> Listener list" where
  "resolveSameProtocolGroupConflict i port r heap =
     (let (heap', foundConflict) = fold (same_group_step i port) (pc_listenersByPort r port) (heap, False);
          protocol = v1_Protocol (l_Source (heap' ! i))
      in if \<not> foundConflict then heap'
         else if isL4Protocol protocol then upd_at i (invalidateL4ProtocolConflict protocol port) heap'
         else upd_at i (invalidateHostnameConflict port) heap')"

definition resolve_port ::
  "nat \<Rightarrow> portConflictResolver \<Rightarrow> Listener list \<Rightarrow> portConflictResolver \<times> Listener list" where
  "resolve_port i r heap =
     (let port = v1_Port (l_Source (heap ! i));
          grp = protocolGroups (v1_Protocol (l_Source (heap ! i)));
          add = (\<lambda>r. r\<lparr>pc_listenersByPort := (pc_listenersByPort r)(port := pc_listenersByPort r port @ [i])\<rparr>)
      in if port \<in> pc_conflictedPorts r then (r, upd_at i (invalidateProtocolConflict port) heap)
         else case pc_portProtocolOwner r port of
           None \<Rightarrow> (add (r\<lparr>pc_portProtocolOwner := (pc_portProtocolOwner r)(port \<mapsto> grp)\<rparr>), heap)
         | Some protocolGroup \<Rightarrow>
             (let (r', heap') =
                (if protocolGroup \<noteq> grp then resolveProtocolGroupConflict i port r heap
                 else (r, resolveSameProtocolGroupConflict i port r heap))
              in (add r', heap')))"

section \<open>Other conflicts\<close>

definition listener_key :: "v1_Listener \<Rightarrow> listenerKey" where
  "listener_key l = (v1_Protocol l, (case v1_Hostname l of None \<Rightarrow> '''' | Some h \<Rightarrow> h), v1_Port l)"

definition uniqueListenerConflictResolver ::
  "nat \<Rightarrow> listenerKey set \<Rightarrow> Listener list \<Rightarrow> listenerKey set \<times> Listener list" where
  "uniqueListenerConflictResolver i existingKeys heap =
     (let l = heap ! i; key = listener_key (l_Source l) in
      if \<not> l_Valid l then (existingKeys, heap)
      else if key \<in> existingKeys then
        (existingKeys,
         upd_at i (\<lambda>l. l\<lparr>l_Valid := False,
           l_Conditions := l_Conditions l @ NewListenerHostnameConflict
             (''Multiple listeners with the same port '' @ show_int (v1_Port (l_Source l)) @ '' and protocol '' @
              ProtocolType_string (v1_Protocol (l_Source l)) @ '' have overlapping hostnames'')\<rparr>) heap)
      else (insert key existingKeys, heap))"

definition is_tls_protocol :: "ProtocolType \<Rightarrow> bool" where
  "is_tls_protocol p \<longleftrightarrow> p = HTTPSProtocolType \<or> p = TLSProtocolType"

definition overlappingCondition :: Condition where
  "overlappingCondition =
     NewListenerOverlappingTLSConfig (Imported ''v1.ListenerReasonOverlappingHostnames'')
       ''Listener hostname overlaps with hostname(s) of other Listener(s) on the same port''"

definition add_conditions :: "Condition list \<Rightarrow> Listener \<Rightarrow> Listener" where
  "add_conditions conds l = l\<lparr>l_Conditions := l_Conditions l @ conds\<rparr>"

definition createOverlappingTLSConfigResolver ::
  "nat \<Rightarrow> (int \<Rightarrow> nat list) \<Rightarrow> Listener list \<Rightarrow> (int \<Rightarrow> nat list) \<times> Listener list" where
  "createOverlappingTLSConfigResolver i listenersByPort heap =
     (let l = l_Source (heap ! i); port = v1_Port l in
      if \<not> is_tls_protocol (v1_Protocol l) then (listenersByPort, heap)
      else
        (listenersByPort(port := listenersByPort port @ [i]),
         fold (\<lambda>j heap.
             let existing = l_Source (heap ! j) in
             if \<not> is_tls_protocol (v1_Protocol existing) then heap
             else if haveOverlap (v1_Hostname l) (v1_Hostname existing) then
               upd_at j (add_conditions [overlappingCondition]) (upd_at i (add_conditions [overlappingCondition]) heap)
             else heap)
           (listenersByPort port) heap))"

section \<open>References to certificates\<close>

datatype ResourceType = ResourceTypeSecret | ResourceTypeConfigMap | ResourceTypeNone

text \<open>
  What the resolvers of external references call: the Kubernetes libraries, the resource resolver (an
  interface, here with its state \<open>'r\<close>; the third argument is the expected key of a Secret) and the
  ReferenceGrant resolver.
\<close>

record 'r listener_env =
  le_k8s :: k8s
  le_Resolve :: "'r \<Rightarrow> ResourceType \<Rightarrow> NamespacedName \<Rightarrow> string option \<Rightarrow> string option \<times> 'r"
  le_refGrants :: referenceGrantResolver

record certRefError =
  cre_msg :: string
  cre_refNotPermitted :: bool

definition certRefPermitted :: "Listener \<Rightarrow> string \<Rightarrow> NamespacedName \<Rightarrow> string \<Rightarrow> referenceGrantResolver \<Rightarrow> bool" where
  "certRefPermitted l certRefNs certRefNsName gwNs refGrantResolver =
     (if nn_Name (l_ListenerSetName l) \<noteq> '''' then
        (if certRefNs = nn_Namespace (l_ListenerSetName l) then True
         else refAllowed refGrantResolver (toSecret certRefNsName) (fromListenerSet (nn_Namespace (l_ListenerSetName l))))
      else if certRefNs = gwNs then True
      else refAllowed refGrantResolver (toSecret certRefNsName) (fromGateway gwNs))"

definition resolveTLSCertRef ::
  "'r listener_env \<Rightarrow> string \<Rightarrow> Listener \<Rightarrow> nat \<Rightarrow> SecretObjectReference \<Rightarrow> 'r \<Rightarrow> NamespacedName \<times> certRefError option \<times> 'r" where
  "resolveTLSCertRef env gwNs l index certRef res =
     (let certRefNs0 = (if nn_Name (l_ListenerSetName l) \<noteq> '''' then nn_Namespace (l_ListenerSetName l) else gwNs);
          certRefNs = (case sor_Namespace certRef of None \<Rightarrow> certRefNs0 | Some ns \<Rightarrow> ns);
          certRefNsName = nsname certRefNs (sor_Name certRef)
      in if \<not> certRefPermitted l certRefNs certRefNsName gwNs (le_refGrants env) then
           (certRefNsName,
            Some \<lparr>cre_msg = ''Certificate ref to secret '' @ nn_String certRefNsName @ '' not permitted by any ReferenceGrant'',
                  cre_refNotPermitted = True\<rparr>, res)
         else case le_Resolve env res ResourceTypeSecret certRefNsName None of
           (Some err, res') \<Rightarrow>
             (certRefNsName,
              Some \<lparr>cre_msg = k_Error (le_k8s env)
                      (Invalid [Child ''tls'', Child ''certificateRefs'', Index index] (FName certRefNsName) err),
                    cre_refNotPermitted = False\<rparr>, res')
         | (None, res') \<Rightarrow> (certRefNsName, None, res'))"

definition applyCertRefErrors :: "certRefError list \<Rightarrow> Listener \<Rightarrow> Listener" where
  "applyCertRefErrors certRefErrors l =
     (if certRefErrors = [] then l
      else
        (let hasInvalidRef = list_ex (\<lambda>e. \<not> cre_refNotPermitted e) certRefErrors;
             reason = (if hasInvalidRef then Imported ''v1.ListenerReasonInvalidCertificateRef''
                       else Imported ''v1.ListenerReasonRefNotPermitted'');
             msg = join ''; '' (map cre_msg certRefErrors)
         in if l_ResolvedSecrets l = [] then
              l\<lparr>l_Valid := False, l_Conditions := l_Conditions l @ NewListenerAllInvalidCertificateRefs msg reason\<rparr>
            else l\<lparr>l_Conditions := l_Conditions l @ [NewListenerUnresolvedCertificateRef msg reason]\<rparr>))"

fun resolve_cert_refs ::
  "'r listener_env \<Rightarrow> string \<Rightarrow> nat \<Rightarrow> SecretObjectReference list \<Rightarrow> Listener \<times> certRefError list \<times> 'r
    \<Rightarrow> Listener \<times> certRefError list \<times> 'r" where
  "resolve_cert_refs env gwNs index [] s = s"
| "resolve_cert_refs env gwNs index (certRef # refs) (l, errs, res) =
     (case resolveTLSCertRef env gwNs l index certRef res of
        (name, Some certErr, res') \<Rightarrow> resolve_cert_refs env gwNs (Suc index) refs (l, errs @ [certErr], res')
      | (name, None, res') \<Rightarrow>
          resolve_cert_refs env gwNs (Suc index) refs (l\<lparr>l_ResolvedSecrets := l_ResolvedSecrets l @ [name]\<rparr>, errs, res'))"

definition createExternalReferencesForTLSSecretsResolver ::
  "'r listener_env \<Rightarrow> nat \<Rightarrow> Gateway \<times> 'r \<Rightarrow> (Gateway \<times> 'r) go" where
  "createExternalReferencesForTLSSecretsResolver env i s =
     (let (gw, res) = s; l = g_heap gw ! i; gwNs = gw_Namespace (g_Source gw) in
      if \<not> l_Valid l then Inr s
      else case v1_TLS (l_Source l) of
        None \<Rightarrow> Inl NilDeref
      | Some tls \<Rightarrow>
          (let (l', errs, res') = resolve_cert_refs env gwNs 0 (tls_CertificateRefs tls) (l, [], res)
           in Inr (gw\<lparr>g_heap := (g_heap gw)[i := applyCertRefErrors errs l']\<rparr>, res')))"

section \<open>Frontend TLS\<close>

definition validateObjectRefKindAndGroup :: "k8s \<Rightarrow> ObjectReference \<Rightarrow> field_path \<Rightarrow> string list \<Rightarrow> Condition" where
  "validateObjectRefKindAndGroup k ref path allowedKinds =
     (if or_Kind ref \<notin> set allowedKinds then
        NewListenerInvalidCaCertificateKind
          (CapitalizeString (k_Error k (NotSupported path (FStr (or_Kind ref)) allowedKinds)))
      else if or_Group ref \<noteq> '''' \<and> or_Group ref \<noteq> ''core'' then
        NewListenerInvalidCaCertificateKind
          (CapitalizeString (k_Error k (NotSupported path (FStr (or_Group ref)) [''core'', ''''])))
      else emptyCondition)"

definition getFrontendTLSCertResourceType :: "string \<Rightarrow> ResourceType" where
  "getFrontendTLSCertResourceType kind =
     (if kind = ''Secret'' then ResourceTypeSecret else if kind = ''ConfigMap'' then ResourceTypeConfigMap
      else ResourceTypeNone)"

definition getFrontendTLSCertRefNsName :: "ObjectReference \<Rightarrow> v1_Gateway \<Rightarrow> NamespacedName" where
  "getFrontendTLSCertRefNsName cert gw =
     nsname (case or_Namespace cert of None \<Rightarrow> gw_Namespace gw | Some ns \<Rightarrow> ns) (or_Name cert)"

definition resolveCrossNamespaceRefGrant ::
  "ObjectReference \<Rightarrow> NamespacedName \<Rightarrow> string \<Rightarrow> referenceGrantResolver \<Rightarrow> Condition" where
  "resolveCrossNamespaceRefGrant ref nsName gwNs refGrantResolver =
     (if nn_Namespace nsName = gwNs then emptyCondition
      else if or_Kind ref = ''Secret'' then
        (if \<not> refAllowed refGrantResolver (toSecret nsName) (fromGateway gwNs) then
           NewGatewayRefNotPermitted (''secret ref '' @ nn_String nsName @ '' not permitted by any ReferenceGrant'')
         else emptyCondition)
      else if or_Kind ref = ''ConfigMap'' then
        (if \<not> refAllowed refGrantResolver (toConfigMap nsName) (fromGateway gwNs) then
           NewGatewayRefNotPermitted (''configmap ref '' @ nn_String nsName @ '' not permitted by any ReferenceGrant'')
         else emptyCondition)
      else emptyCondition)"

abbreviation CAKey :: string where
  "CAKey \<equiv> ''ca.crt''"

text \<open>The loop over the references: conditions of the listener, conditions added to the Gateway, their count.\<close>

fun frontend_refs_loop ::
  "'r listener_env \<Rightarrow> v1_Gateway \<Rightarrow> field_path \<Rightarrow> ObjectReference list \<Rightarrow> Condition list \<times> Condition list \<times> nat \<times> 'r
    \<Rightarrow> Condition list \<times> Condition list \<times> nat \<times> 'r" where
  "frontend_refs_loop env gw path [] s = s"
| "frontend_refs_loop env gw path (cert # certs) (conds, gwConds, refNotPermittedCount, res) =
     (let kindOrGroupCond = validateObjectRefKindAndGroup (le_k8s env) cert path [''Secret'', ''ConfigMap''] in
      if kindOrGroupCond \<noteq> emptyCondition then
        frontend_refs_loop env gw path certs (conds @ [kindOrGroupCond], gwConds, refNotPermittedCount, res)
      else
        (let certNsName = getFrontendTLSCertRefNsName cert gw;
             resourceType = getFrontendTLSCertResourceType (or_Kind cert);
             refNotPermittedCond = resolveCrossNamespaceRefGrant cert certNsName (gw_Namespace gw) (le_refGrants env)
         in if refNotPermittedCond \<noteq> emptyCondition then
              frontend_refs_loop env gw path certs (conds, gwConds @ [refNotPermittedCond], Suc refNotPermittedCount, res)
            else case le_Resolve env res resourceType certNsName (Some CAKey) of
              (Some err, res') \<Rightarrow>
                (let msg = CapitalizeString (k_Error (le_k8s env)
                       (Invalid (path @ [Child ''caCertificateRefs'']) (FName certNsName) err))
                 in frontend_refs_loop env gw path certs
                      (conds @ [NewListenerInvalidCaCertificateRef msg], gwConds, refNotPermittedCount, res'))
            | (None, res') \<Rightarrow> frontend_refs_loop env gw path certs (conds, gwConds, refNotPermittedCount, res')))"

text \<open>Returns the conditions, whether the listener stays as it is (False: it becomes invalid), the
  conditions added to the Gateway, and the resolver's state.\<close>

definition validateFrontendTLS ::
  "'r listener_env \<Rightarrow> v1_Gateway \<Rightarrow> field_path \<Rightarrow> ObjectReference list \<Rightarrow> 'r
    \<Rightarrow> Condition list \<times> bool \<times> Condition list \<times> 'r" where
  "validateFrontendTLS env gw path caCertRefs res =
     (if Option.bind (gw_TLS gw) gtc_Frontend = None then ([], True, [], res)
      else
        (let (conds, gwConds, refNotPermittedCount, res') = frontend_refs_loop env gw path caCertRefs ([], [], 0, res);
             totalConds = length conds + refNotPermittedCount;
             conds1 = (if refNotPermittedCount > 0 then
                         conds @ [NewListenerUnresolvedCertificateRef
                           ''Frontend TLS CA certificate refs are not permitted by any ReferenceGrant''
                           (Imported ''v1.ListenerReasonRefNotPermitted'')]
                       else conds)
         in if totalConds > 0 \<and> totalConds = length caCertRefs then
              (conds1 @ NewListenerInvalidNoValidCACertificate
                 ''All frontend TLS CA certificate refs are invalid for this listener'', False, gwConds, res')
            else (conds1, True, gwConds, res')))"

fun per_port_validation :: "nat \<Rightarrow> int \<Rightarrow> TLSPortConfig list \<Rightarrow> (FrontendTLSValidation \<times> field_path) option" where
  "per_port_validation i lport [] = None"
| "per_port_validation i lport (port # ports) =
     (case tpc_Validation port of
        None \<Rightarrow> per_port_validation (Suc i) lport ports
      | Some v \<Rightarrow>
          (if ftv_CACertificateRefs v = [] then per_port_validation (Suc i) lport ports
           else if tpc_Port port = lport then
             Some (v, [Child ''spec'', Child ''tls'', Child ''frontend'', Child ''perPort'', Index i, Child ''tls'', Child ''validation''])
           else per_port_validation (Suc i) lport ports))"

definition frontend_validation :: "FrontendTLSConfig \<Rightarrow> int \<Rightarrow> ObjectReference list \<times> FrontendValidationModeType \<times> field_path" where
  "frontend_validation frontend lport =
     (case per_port_validation 0 lport (ftc_PerPort frontend) of
        Some (v, path) \<Rightarrow> (ftv_CACertificateRefs v, ftv_Mode v, path)
      | None \<Rightarrow>
          (case ftc_DefaultValidation frontend of
             None \<Rightarrow> ([], OtherValidationMode '''', [])
           | Some v \<Rightarrow>
               (if ftv_CACertificateRefs v \<noteq> [] then
                  (ftv_CACertificateRefs v, ftv_Mode v,
                   [Child ''spec'', Child ''tls'', Child ''frontend'', Child ''default'', Child ''validation''])
                else ([], OtherValidationMode '''', []))))"

definition createFrontendTLSCaCertReferenceResolver ::
  "'r listener_env \<Rightarrow> nat \<Rightarrow> Gateway \<times> 'r \<Rightarrow> Gateway \<times> 'r" where
  "createFrontendTLSCaCertReferenceResolver env i s =
     (let (gw, res) = s; l = g_heap gw ! i in
      case Option.bind (gw_TLS (g_Source gw)) gtc_Frontend of
        None \<Rightarrow> s
      | Some frontend \<Rightarrow>
          (case v1_TLS (l_Source l) of
             None \<Rightarrow> s
           | Some tls \<Rightarrow>
               (if tls_Mode tls \<noteq> None \<and> tls_Mode tls \<noteq> Some TLSModeTerminate then s
                else
                  (let (caCertRefs, validationMode, fieldPath) = frontend_validation frontend (v1_Port (l_Source l));
                       (conds, keep, gwConds, res') = validateFrontendTLS env (g_Source gw) fieldPath caCertRefs res;
                       l' = l\<lparr>l_Valid := (l_Valid l \<and> keep), l_Conditions := l_Conditions l @ conds,
                              l_ValidationMode := validationMode, l_CACertificateRefs := caCertRefs\<rparr>;
                       insecure = (if validationMode = AllowInsecureFallback then
                           [NewGatewayInsecureFrontendValidationMode
                              ''Validation Mode: AllowInsecureFallback is set for at least one listener'']
                         else [])
                   in (gw\<lparr>g_heap := (g_heap gw)[i := l'], g_Conditions := g_Conditions gw @ gwConds @ insecure\<rparr>, res')))))"

section \<open>Configuring a listener\<close>

definition GetAllowedRouteLabelSelector :: "v1_Listener \<Rightarrow> LabelSelector option go" where
  "GetAllowedRouteLabelSelector l =
     (case Option.bind (v1_AllowedRoutes l) al_Namespaces of
        None \<Rightarrow> Inr None
      | Some ns \<Rightarrow>
          (case rn_From ns of
             None \<Rightarrow> Inl NilDeref
           | Some from \<Rightarrow>
               (if from = NamespacesFromSelector \<and> rn_Selector ns \<noteq> None then Inr (rn_Selector ns) else Inr None)))"

text \<open>The three conflict resolvers, on the store and the shared state of the Gateway.\<close>

definition port_resolver :: "nat \<Rightarrow> Gateway \<Rightarrow> Gateway" where
  "port_resolver i gw =
     (let (r, heap) = resolve_port i (lf_port (g_ListenerFactory gw)) (g_heap gw)
      in gw\<lparr>g_heap := heap, g_ListenerFactory := (g_ListenerFactory gw)\<lparr>lf_port := r\<rparr>\<rparr>)"

definition overlap_resolver :: "nat \<Rightarrow> Gateway \<Rightarrow> Gateway" where
  "overlap_resolver i gw =
     (let (m, heap) = createOverlappingTLSConfigResolver i (lf_tlsListenersByPort (g_ListenerFactory gw)) (g_heap gw)
      in gw\<lparr>g_heap := heap, g_ListenerFactory := (g_ListenerFactory gw)\<lparr>lf_tlsListenersByPort := m\<rparr>\<rparr>)"

definition unique_resolver :: "nat \<Rightarrow> Gateway \<Rightarrow> Gateway" where
  "unique_resolver i gw =
     (let (keys, heap) = uniqueListenerConflictResolver i (lf_existingKeys (g_ListenerFactory gw)) (g_heap gw)
      in gw\<lparr>g_heap := heap, g_ListenerFactory := (g_ListenerFactory gw)\<lparr>lf_existingKeys := keys\<rparr>\<rparr>)"

definition conflict_resolvers_for :: "ProtocolType \<Rightarrow> (nat \<Rightarrow> Gateway \<Rightarrow> Gateway) list" where
  "conflict_resolvers_for protocol =
     (case protocol of
        HTTPProtocolType \<Rightarrow> [port_resolver, unique_resolver]
      | HTTPSProtocolType \<Rightarrow> [port_resolver, overlap_resolver, unique_resolver]
      | TLSProtocolType \<Rightarrow> [port_resolver, overlap_resolver, unique_resolver]
      | TCPProtocolType \<Rightarrow> [port_resolver, unique_resolver]
      | UDPProtocolType \<Rightarrow> [port_resolver, unique_resolver]
      | OtherProtocol _ \<Rightarrow> [])"

definition reference_resolvers ::
  "'r listener_env \<Rightarrow> ProtocolType \<Rightarrow> nat \<Rightarrow> Gateway \<times> 'r \<Rightarrow> (Gateway \<times> 'r) go" where
  "reference_resolvers env protocol i s =
     (case protocol of
        HTTPSProtocolType \<Rightarrow>
          bind_go (createExternalReferencesForTLSSecretsResolver env i s)
            (\<lambda>s'. Inr (createFrontendTLSCaCertReferenceResolver env i s'))
      | TLSProtocolType \<Rightarrow> createExternalReferencesForTLSSecretsResolver env i s
      | _ \<Rightarrow> Inr s)"

definition new_listener ::
  "'r listener_env \<Rightarrow> ProtectedPorts \<Rightarrow> v1_Listener \<Rightarrow> NamespacedName \<Rightarrow> NamespacedName \<Rightarrow> Listener go" where
  "new_listener env protectedPorts listener gwNSName listenerSetName =
     (let (conds, attachable) = run_validators (validators_for (le_k8s env) protectedPorts (v1_Protocol listener)) listener
      in bind_go (GetAllowedRouteLabelSelector listener) (\<lambda>selector.
        let (sel, selConds) =
          (case selector of
             None \<Rightarrow> (None, [])
           | Some s \<Rightarrow>
               (case k_LabelSelectorAsSelector (le_k8s env) s of
                  Inl err \<Rightarrow> (None, NewListenerUnsupportedValue (''Invalid label selector: '' @ err))
                | Inr m \<Rightarrow> (Some m, [])))
        in Inr \<lparr>l_Name = v1_Name listener, l_GatewayName = gwNSName, l_ListenerSetName = listenerSetName,
                l_Source = listener, l_AllowedRouteLabelSelector = sel, l_Routes = [], l_L4Routes = [],
                l_ValidationMode = OtherValidationMode '''', l_CACertificateRefs = [], l_ResolvedSecrets = [],
                l_Conditions = conds @ selConds, l_SupportedKinds = getListenerSupportedKinds listener,
                l_Valid = (conds = [] \<and> selConds = []), l_Attachable = attachable\<rparr>))"

definition configure ::
  "'r listener_env \<Rightarrow> NamespacedName \<Rightarrow> NamespacedName \<Rightarrow> v1_Listener \<Rightarrow> Gateway \<times> 'r \<Rightarrow> (Gateway \<times> 'r) go" where
  "configure env gwNSName listenerSetName listener s =
     (let (gw, res) = s; i = length (g_heap gw) in
      bind_go (new_listener env (lf_protectedPorts (g_ListenerFactory gw)) listener gwNSName listenerSetName) (\<lambda>l.
        let gw1 = gw\<lparr>g_heap := g_heap gw @ [l]\<rparr> in
        if \<not> l_Valid l then Inr (gw1, res)
        else
          (let gw2 = fold (\<lambda>f. f i) (conflict_resolvers_for (v1_Protocol listener)) gw1
           in reference_resolvers env (v1_Protocol listener) i (gw2, res))))"

text \<open>The result also gives the pointers to the listeners built, in order.\<close>

definition buildListeners ::
  "'r listener_env \<Rightarrow> v1_Listener list \<Rightarrow> NamespacedName \<Rightarrow> NamespacedName \<Rightarrow> Gateway \<times> 'r \<Rightarrow> (nat list \<times> Gateway \<times> 'r) go" where
  "buildListeners env sourceListeners gwNsName listenerSetNsName s =
     fold_go (\<lambda>l (refs, s). bind_go (configure env gwNsName listenerSetNsName l s)
         (\<lambda>s'. Inr (refs @ [length (g_heap (fst s))], s')))
       sourceListeners ([], s)"

end
