(* ===== verification/ListenerConflicts.thy ===== *)
theory ListenerConflicts
  imports Listeners
begin

text \<open>
  Correctness of conflict resolution between listeners. The contract \<open>listener_resolver\<close> of a conflict
  resolver (it may only add conditions to listeners and make them invalid, with a condition that
  says why) is proved of the three resolvers; the invariant \<open>conflict_inv\<close> says that two valid
  listeners of a Gateway never conflict and is kept by \<^verbatim>\<open>configure\<close> and \<^verbatim>\<open>buildListeners\<close>.
\<close>

section \<open>What a resolver may do to a listener\<close>

definition degrades :: "Listener \<Rightarrow> Listener \<Rightarrow> bool" where
  "degrades l l' \<longleftrightarrow>
     l_Source l' = l_Source l \<and> l_Name l' = l_Name l \<and> l_GatewayName l' = l_GatewayName l \<and>
     l_ListenerSetName l' = l_ListenerSetName l \<and> l_SupportedKinds l' = l_SupportedKinds l \<and>
     l_Attachable l' = l_Attachable l \<and>
     (\<exists>cs. l_Conditions l' = l_Conditions l @ cs \<and> (l_Valid l' = l_Valid l \<or> \<not> l_Valid l' \<and> cs \<noteq> []))"

lemma degrades_refl [simp]: "degrades l l"
  by (simp add: degrades_def)

lemma degrades_trans: "degrades a b \<Longrightarrow> degrades b c \<Longrightarrow> degrades a c"
  unfolding degrades_def by (metis append.assoc append_is_Nil_conv)

lemma degradesD: "degrades l l' \<Longrightarrow> l_Source l' = l_Source l" "degrades l l' \<Longrightarrow> l_Valid l' \<Longrightarrow> l_Valid l"
  "degrades l l' \<Longrightarrow> l_ListenerSetName l' = l_ListenerSetName l"
  by (auto simp: degrades_def)

lemma degrades_invalidate [simp]:
  "degrades l (invalidateProtocolConflict p l)" "degrades l (invalidateL4ProtocolConflict proto p l)"
  "degrades l (invalidateHostnameConflict p l)" "degrades l (add_conditions cs l)"
  "\<not> l_Valid (invalidateProtocolConflict p l)" "\<not> l_Valid (invalidateL4ProtocolConflict proto p l)"
  "\<not> l_Valid (invalidateHostnameConflict p l)" "l_Valid (add_conditions cs l) = l_Valid l"
  by (simp_all add: degrades_def invalidateProtocolConflict_def invalidateL4ProtocolConflict_def
      invalidateHostnameConflict_def add_conditions_def)

abbreviation heap_degrades :: "Listener list \<Rightarrow> Listener list \<Rightarrow> bool" where
  "heap_degrades \<equiv> list_all2 degrades"

lemma heap_degrades_refl [simp]: "heap_degrades h h"
  by (simp add: list_all2_refl)

lemma heap_degrades_trans: "heap_degrades a b \<Longrightarrow> heap_degrades b c \<Longrightarrow> heap_degrades a c"
  by (rule list_all2_trans [of degrades degrades]) (auto intro: degrades_trans)

lemma length_upd_at [simp]: "length (upd_at i f h) = length h"
  by (simp add: upd_at_def)

lemma nth_upd_at: "j < length h \<Longrightarrow> upd_at i f h ! j = (if i = j then f (h ! j) else h ! j)"
  by (auto simp: upd_at_def nth_list_update)

lemma heap_degrades_upd_at: "(\<And>l. degrades l (f l)) \<Longrightarrow> heap_degrades h (upd_at i f h)"
  by (cases "i < length h") (auto simp: list_all2_conv_all_nth nth_upd_at)

lemma heap_degrades_update: "degrades (h ! i) l \<Longrightarrow> heap_degrades h (h[i := l])"
  by (cases "i < length h") (auto simp: list_all2_conv_all_nth nth_list_update)

lemma heap_degrades_nth:
  "heap_degrades h h' \<Longrightarrow> j < length h \<Longrightarrow> l_Source (h' ! j) = l_Source (h ! j)"
  "heap_degrades h h' \<Longrightarrow> j < length h \<Longrightarrow> l_Valid (h' ! j) \<Longrightarrow> l_Valid (h ! j)"
  "heap_degrades h h' \<Longrightarrow> j < length h \<Longrightarrow> l_ListenerSetName (h' ! j) = l_ListenerSetName (h ! j)"
  by (auto dest: list_all2_nthD degradesD)

lemmas heap_degrades_length = list_all2_lengthD [of degrades, symmetric]

lemma heap_degrades_fold:
  "(\<And>j h. heap_degrades h (f j h)) \<Longrightarrow> heap_degrades h (fold f js h)"
proof (induction js arbitrary: h)
  case (Cons j js)
  from heap_degrades_trans [OF Cons.prems Cons.IH [OF Cons.prems]] show ?case by simp
qed simp

section \<open>The port conflict resolver\<close>

abbreviation src :: "Listener list \<Rightarrow> nat \<Rightarrow> v1_Listener" where
  "src h j \<equiv> l_Source (h ! j)"

lemma fold_invalidate:
  assumes "k < length h"
  shows "l_Valid (fold (\<lambda>j. upd_at j (invalidateProtocolConflict p)) js h ! k) \<longleftrightarrow> l_Valid (h ! k) \<and> k \<notin> set js"
  using assms
proof (induction js arbitrary: h)
  case (Cons j js)
  then show ?case by (auto simp: nth_upd_at)
qed simp

lemma heap_degrades_fold_invalidate:
  "heap_degrades h (fold (\<lambda>j. upd_at j (invalidateProtocolConflict p)) js h)"
  by (rule heap_degrades_fold) (rule heap_degrades_upd_at, simp)

lemma same_group_step_degrades: "heap_degrades h (fst (same_group_step i p j (h, b)))"
  by (auto simp: same_group_step_def Let_def split: prod.splits
      intro!: heap_degrades_upd_at heap_degrades_trans [OF heap_degrades_upd_at heap_degrades_upd_at])

abbreviation clash :: "v1_Listener \<Rightarrow> v1_Listener \<Rightarrow> bool" where
  "clash l listener \<equiv> l4_clash l listener \<or> hostname_clash l listener"

lemma clash_exclusive: "l4_clash l m \<Longrightarrow> \<not> hostname_clash l m"
  by (auto simp: l4_clash_def hostname_clash_def)

lemma same_group_step_found:
  assumes "i < length h" and "j < length h"
  shows "snd (same_group_step i p j (h, b)) \<longleftrightarrow> b \<or> clash (src h i) (src h j)"
  using assms by (auto simp: same_group_step_def Let_def nth_upd_at clash_exclusive
      invalidateL4ProtocolConflict_def split: if_splits)

lemma same_group_step_listenerset:
  "nn_Name (l_ListenerSetName (h ! i)) \<noteq> '''' \<Longrightarrow> fst (same_group_step i p j (h, b)) = h"
  by (simp add: same_group_step_def Let_def)

lemma same_group_fold:
  assumes "i < length h" and "\<forall>j\<in>set js. j < length h"
  shows "heap_degrades h (fst (fold (same_group_step i p) js (h, b))) \<and>
    (snd (fold (same_group_step i p) js (h, b)) \<longleftrightarrow> b \<or> (\<exists>j\<in>set js. clash (src h i) (src h j))) \<and>
    (nn_Name (l_ListenerSetName (h ! i)) \<noteq> '''' \<longrightarrow> fst (fold (same_group_step i p) js (h, b)) = h)"
  using assms
proof (induction js arbitrary: h b)
  case (Cons j js)
  obtain h' b' where s: "same_group_step i p j (h, b) = (h', b')" by fastforce
  have d: "heap_degrades h h'" using same_group_step_degrades [of h i p j b] s by simp
  have len: "length h' = length h" using d by (rule heap_degrades_length)
  have b': "b' \<longleftrightarrow> b \<or> clash (src h i) (src h j)"
    using same_group_step_found [of i h j p b] s Cons.prems by simp
  have src: "src h' k = src h k" if "k < length h" for k
    using d that by (rule heap_degrades_nth(1))
  have ih: "heap_degrades h' (fst (fold (same_group_step i p) js (h', b'))) \<and>
      (snd (fold (same_group_step i p) js (h', b')) \<longleftrightarrow> b' \<or> (\<exists>j\<in>set js. clash (src h' i) (src h' j))) \<and>
      (nn_Name (l_ListenerSetName (h' ! i)) \<noteq> '''' \<longrightarrow> fst (fold (same_group_step i p) js (h', b')) = h')"
    by (rule Cons.IH) (use Cons.prems len in auto)
  have "clash (src h' i) (src h' k) \<longleftrightarrow> clash (src h i) (src h k)" if "k \<in> set js" for k
    using src Cons.prems that by simp
  with ih b' have "snd (fold (same_group_step i p) (j # js) (h, b)) \<longleftrightarrow>
      b \<or> (\<exists>j\<in>set (j # js). clash (src h i) (src h j))"
    by (auto simp: s)
  moreover have "nn_Name (l_ListenerSetName (h ! i)) \<noteq> '''' \<Longrightarrow> h' = h"
    using same_group_step_listenerset [of h i p j b] s by simp
  ultimately show ?case using ih heap_degrades_trans [OF d] by (auto simp: s)
qed simp

text \<open>The state of the resolver describes the valid listeners of the store.\<close>

definition port_inv :: "portConflictResolver \<Rightarrow> Listener list \<Rightarrow> bool" where
  "port_inv r h \<longleftrightarrow>
     (\<forall>p. \<forall>j\<in>set (pc_listenersByPort r p). j < length h) \<and>
     (\<forall>j<length h. l_Valid (h ! j) \<longrightarrow>
        v1_Port (src h j) \<notin> pc_conflictedPorts r \<and> j \<in> set (pc_listenersByPort r (v1_Port (src h j))) \<and>
        pc_portProtocolOwner r (v1_Port (src h j)) = Some (protocolGroups (v1_Protocol (src h j))))"

definition port_compatible :: "v1_Listener \<Rightarrow> v1_Listener \<Rightarrow> bool" where
  "port_compatible a b \<longleftrightarrow>
     (v1_Port a = v1_Port b \<longrightarrow> protocolGroups (v1_Protocol a) = protocolGroups (v1_Protocol b) \<and> \<not> clash a b)"

abbreviation remember :: "int \<Rightarrow> nat \<Rightarrow> portConflictResolver \<Rightarrow> portConflictResolver" where
  "remember p i r \<equiv> r\<lparr>pc_listenersByPort := (pc_listenersByPort r)(p := pc_listenersByPort r p @ [i])\<rparr>"

lemma port_inv_degrades: "port_inv r h \<Longrightarrow> heap_degrades h h' \<Longrightarrow> port_inv r h'"
  unfolding port_inv_def
  using heap_degrades_nth [of h h'] heap_degrades_length [of h h'] by metis

lemma port_inv_remember: "port_inv r h \<Longrightarrow> i < length h \<Longrightarrow> port_inv (remember p i r) h"
  by (auto simp: port_inv_def)

lemma port_inv_snoc_invalid: "port_inv r h \<Longrightarrow> \<not> l_Valid l \<Longrightarrow> port_inv r (h @ [l])"
  by (auto simp: port_inv_def nth_append less_Suc_eq)

lemma upd_at_snoc [simp]: "upd_at (length h) f (h @ [l]) = h @ [f l]"
  by (simp add: upd_at_def)

lemma port_inv_first:
  assumes "port_inv r h" and "pc_portProtocolOwner r p = None" and "v1_Port (l_Source l) = p" and "p \<notin> pc_conflictedPorts r"
  shows "port_inv (remember p (length h)
      (r\<lparr>pc_portProtocolOwner := (pc_portProtocolOwner r)(p \<mapsto> protocolGroups (v1_Protocol (l_Source l)))\<rparr>)) (h @ [l]) \<and>
    (\<forall>j<length h. l_Valid (h ! j) \<longrightarrow> port_compatible (l_Source l) (src h j))"
  using assms by (fastforce simp: port_inv_def port_compatible_def nth_append less_Suc_eq)

lemma port_inv_conflicted:
  assumes inv: "port_inv r h"
    and h': "h' = fold (\<lambda>j. upd_at j (invalidateProtocolConflict p)) (pc_listenersByPort r p) (h @ [l])"
  shows "port_inv (r\<lparr>pc_conflictedPorts := insert p (pc_conflictedPorts r)\<rparr>)
      (upd_at (length h) (invalidateProtocolConflict p) h')"
proof -
  let ?h'' = "upd_at (length h) (invalidateProtocolConflict p) h'"
  have d: "heap_degrades (h @ [l]) ?h''"
    unfolding h' by (rule heap_degrades_trans [OF heap_degrades_fold_invalidate heap_degrades_upd_at]) simp
  have len: "length ?h'' = Suc (length h)" using heap_degrades_length [OF d] by simp
  have valid: "j < length h \<and> l_Valid (h ! j) \<and> v1_Port (src h j) \<noteq> p \<and> src ?h'' j = src h j"
    if j: "j < length ?h''" and v: "l_Valid (?h'' ! j)" for j
  proof -
    have len': "length h' = Suc (length h)" using len by simp
    have "j \<noteq> length h" using v len' by (auto simp: nth_upd_at)
    then have jh: "j < length h" using j len by simp
    have "l_Valid (h' ! j)" using v jh len' by (simp add: nth_upd_at)
    then have *: "l_Valid (h ! j)" "j \<notin> set (pc_listenersByPort r p)"
      using fold_invalidate [of j "h @ [l]" p "pc_listenersByPort r p"] h' jh by (simp_all add: nth_append)
    have "v1_Port (src h j) \<noteq> p" using inv * jh unfolding port_inv_def by blast
    moreover have "src ?h'' j = src h j" using heap_degrades_nth(1) [OF d, of j] jh by (simp add: nth_append)
    ultimately show ?thesis using jh * by simp
  qed
  show ?thesis
    unfolding port_inv_def
  proof (intro conjI allI ballI impI)
    fix q j assume "j \<in> set (pc_listenersByPort (r\<lparr>pc_conflictedPorts := insert p (pc_conflictedPorts r)\<rparr>) q)"
    then show "j < length ?h''" using inv len unfolding port_inv_def by (simp add: less_SucI)
  qed (use valid inv in \<open>auto simp: port_inv_def\<close>)
qed

lemma port_inv_snoc_owner:
  assumes "port_inv r h" and "v1_Port (l_Source l) \<notin> pc_conflictedPorts r"
    and "pc_portProtocolOwner r (v1_Port (l_Source l)) = Some (protocolGroups (v1_Protocol (l_Source l)))"
  shows "port_inv (remember (v1_Port (l_Source l)) (length h) r) (h @ [l])"
  using assms by (auto simp: port_inv_def nth_append less_Suc_eq)

text \<open>What \<^verbatim>\<open>resolve\<close> guarantees for the listener \<open>l\<close> added at the end of the store \<open>h\<close>.\<close>

definition port_resolved :: "Listener list \<Rightarrow> Listener \<Rightarrow> portConflictResolver \<Rightarrow> Listener list \<Rightarrow> bool" where
  "port_resolved h l r' h' \<longleftrightarrow>
     heap_degrades (h @ [l]) h' \<and> port_inv r' h' \<and>
     (l_Valid (h' ! length h) \<longrightarrow> (\<forall>j<length h. l_Valid (h' ! j) \<longrightarrow> port_compatible (l_Source l) (src h j))) \<and>
     (nn_Name (l_ListenerSetName l) \<noteq> '''' \<longrightarrow> take (length h) h' = h)"

lemma port_resolved_rejected:
  assumes "port_inv r h" and "\<And>x. degrades x (f x)" and "\<And>x. \<not> l_Valid (f x)"
  shows "port_resolved h l r (h @ [f l])" "port_resolved h l (remember p (length h) r) (h @ [f l])"
  using assms by (auto simp: port_resolved_def port_inv_snoc_invalid port_inv_remember intro!: list_all2_appendI)

lemma port_resolved_gateway:
  assumes inv: "port_inv r h" and gw: "nn_Name (l_ListenerSetName l) = ''''"
    and res: "resolveProtocolGroupConflict (length h) p r (h @ [l]) = (r', h')"
  shows "port_resolved h l (remember p (length h) r') h'"
proof -
  let ?f = "fold (\<lambda>j. upd_at j (invalidateProtocolConflict p)) (pc_listenersByPort r p) (h @ [l])"
  from gw res have h': "h' = upd_at (length h) (invalidateProtocolConflict p) ?f"
    and r': "r' = r\<lparr>pc_conflictedPorts := insert p (pc_conflictedPorts r)\<rparr>"
    by (auto simp: resolveProtocolGroupConflict_def)
  have d: "heap_degrades (h @ [l]) h'"
    unfolding h' by (rule heap_degrades_trans [OF heap_degrades_fold_invalidate heap_degrades_upd_at]) simp
  then have len: "length h < length h'" using heap_degrades_length by fastforce
  then have bad: "\<not> l_Valid (h' ! length h)" unfolding h' by (simp add: nth_upd_at)
  have "port_inv r' h'" unfolding r' h' by (rule port_inv_conflicted [OF inv refl])
  then have "port_inv (remember p (length h) r') h'" using len by (rule port_inv_remember)
  with d bad gw show ?thesis by (simp add: port_resolved_def)
qed

lemma port_resolved_same:
  assumes inv: "port_inv r h" and p: "p = v1_Port (l_Source l)" and conf: "p \<notin> pc_conflictedPorts r"
    and own: "pc_portProtocolOwner r p = Some (protocolGroups (v1_Protocol (l_Source l)))"
  shows "port_resolved h l (remember p (length h) r) (resolveSameProtocolGroupConflict (length h) p r (h @ [l]))"
proof -
  let ?i = "length h" and ?js = "pc_listenersByPort r p"
  obtain hf found where f: "fold (same_group_step ?i p) ?js (h @ [l], False) = (hf, found)" by fastforce
  have js: "\<forall>j\<in>set ?js. j < length h" using inv by (simp add: port_inv_def)
  then have js': "\<forall>j\<in>set ?js. j < length (h @ [l])" by auto
  have sgf: "heap_degrades (h @ [l]) hf" "found \<longleftrightarrow> (\<exists>j\<in>set ?js. clash (l_Source l) (src h j))"
    "nn_Name (l_ListenerSetName l) \<noteq> '''' \<Longrightarrow> hf = h @ [l]"
    using same_group_fold [OF _ js', of ?i p False] js by (simp_all add: f nth_append)
  let ?h' = "resolveSameProtocolGroupConflict ?i p r (h @ [l])"
  let ?g = "\<lambda>x. if isL4Protocol (v1_Protocol (src hf ?i)) then invalidateL4ProtocolConflict (v1_Protocol (src hf ?i)) p x
             else invalidateHostnameConflict p x"
  have h': "?h' = (if found then upd_at ?i ?g hf else hf)"
    by (auto simp: resolveSameProtocolGroupConflict_def f Let_def upd_at_def)
  have d: "heap_degrades (h @ [l]) ?h'"
    using sgf(1) heap_degrades_trans [OF sgf(1) heap_degrades_upd_at [of ?g]] by (simp add: h')
  have "?i < length hf" using heap_degrades_length [OF sgf(1)] by simp
  then have ok: "l_Valid (?h' ! ?i) \<Longrightarrow> \<not> found" by (auto simp: h' nth_upd_at split: if_splits)
  have "port_compatible (l_Source l) (src h j)" if "\<not> found" "j < length h" "l_Valid (?h' ! j)" for j
  proof -
    have "l_Valid (h ! j)" using heap_degrades_nth(2) [OF d, of j] that by (simp add: nth_append)
    then show ?thesis using inv that sgf(2) own unfolding port_inv_def port_compatible_def p by auto
  qed
  moreover have "port_inv (remember p ?i r) ?h'"
    using port_inv_degrades [OF port_inv_snoc_owner d] inv conf own unfolding p by blast
  moreover have "nn_Name (l_ListenerSetName l) \<noteq> '''' \<Longrightarrow> take ?i ?h' = h" using sgf(3) by (simp add: h')
  ultimately show ?thesis using d ok by (auto simp: port_resolved_def)
qed

lemma resolve_port_resolved:
  assumes inv: "port_inv r h" and res: "resolve_port (length h) r (h @ [l]) = (r', h')"
  shows "port_resolved h l r' h'"
proof -
  let ?p = "v1_Port (l_Source l)"
  note unfold = res [unfolded resolve_port_def Let_def, simplified]
  show ?thesis
  proof (cases "?p \<in> pc_conflictedPorts r")
    case True
    with unfold have "r' = r" "h' = h @ [invalidateProtocolConflict ?p l]" by simp_all
    with port_resolved_rejected(1) [OF inv, of "invalidateProtocolConflict ?p"] show ?thesis by simp
  next
    case conf: False
    show ?thesis
    proof (cases "pc_portProtocolOwner r ?p")
      case None
      with conf unfold port_inv_first [OF inv None refl conf] show ?thesis by (auto simp: port_resolved_def nth_append)
    next
      case (Some g)
      consider (same) "g = protocolGroups (v1_Protocol (l_Source l))"
        | (gateway) "g \<noteq> protocolGroups (v1_Protocol (l_Source l))" "nn_Name (l_ListenerSetName l) = ''''"
        | (lset) "g \<noteq> protocolGroups (v1_Protocol (l_Source l))" "nn_Name (l_ListenerSetName l) \<noteq> ''''"
        by blast
      then show ?thesis
      proof cases
        case same
        with conf Some unfold show ?thesis by (auto intro!: port_resolved_same [OF inv refl conf])
      next
        case gateway
        with conf Some unfold show ?thesis
          by (auto split: prod.splits intro: port_resolved_gateway [OF inv gateway(2)])
      next
        case lset
        with conf Some unfold
        have "r' = remember ?p (length h) r" "h' = h @ [invalidateProtocolConflict ?p l]"
          by (auto simp: resolveProtocolGroupConflict_def)
        with port_resolved_rejected(2) [OF inv, of "invalidateProtocolConflict ?p"] show ?thesis by simp
      qed
    qed
  qed
qed

section \<open>The other resolvers\<close>

lemma overlap_correct:
  "heap_degrades h (snd (createOverlappingTLSConfigResolver i m h)) \<and>
   map l_Valid (snd (createOverlappingTLSConfigResolver i m h)) = map l_Valid h"
proof -
  let ?step = "\<lambda>j heap. if \<not> is_tls_protocol (v1_Protocol (src heap j)) then heap
      else if haveOverlap (v1_Hostname (src h i)) (v1_Hostname (src heap j)) then
        upd_at j (add_conditions [overlappingCondition]) (upd_at i (add_conditions [overlappingCondition]) heap)
      else heap"
  have two: "heap_degrades x (upd_at j (add_conditions cs) (upd_at i (add_conditions cs) x))" for j cs x
    by (rule heap_degrades_trans [OF heap_degrades_upd_at heap_degrades_upd_at]) simp_all
  have "map l_Valid (upd_at j (add_conditions cs) x) = map l_Valid x" for j cs x
    by (auto simp: list_eq_iff_nth_eq nth_upd_at)
  then have "map l_Valid (fold ?step js x) = map l_Valid x" for js x
    by (induction js arbitrary: x) auto
  moreover have "heap_degrades x (fold ?step js x)" for js x
    by (rule heap_degrades_fold) (auto intro: two)
  ultimately show ?thesis
    by (simp add: createOverlappingTLSConfigResolver_def Let_def)
qed

lemma unique_correct:
  assumes "uniqueListenerConflictResolver i keys h = (keys', h')" and "i < length h"
  shows "heap_degrades h h' \<and> keys \<subseteq> keys' \<and> (\<forall>j<length h. j \<noteq> i \<longrightarrow> h' ! j = h ! j) \<and>
    (l_Valid (h' ! i) \<longrightarrow> listener_key (src h i) \<notin> keys \<and> listener_key (src h i) \<in> keys')"
proof (cases "l_Valid (h ! i) \<and> listener_key (src h i) \<in> keys")
  case True
  then obtain f where f: "h' = upd_at i f h" "keys' = keys" "\<And>l. degrades l (f l)" "\<And>l. \<not> l_Valid (f l)"
    using assms(1) by (auto simp: uniqueListenerConflictResolver_def Let_def degrades_def)
  with assms(2) show ?thesis by (simp add: heap_degrades_upd_at nth_upd_at)
next
  case False
  with assms show ?thesis by (auto simp: uniqueListenerConflictResolver_def Let_def split: if_splits)
qed

lemma resolve_cert_refs_degrades:
  "resolve_cert_refs env ns n refs (l, errs, res) = (l', errs', res') \<Longrightarrow>
     \<exists>ss. l' = l\<lparr>l_ResolvedSecrets := l_ResolvedSecrets l @ ss\<rparr>"
proof (induction refs arbitrary: n l errs res)
  case (Cons r refs)
  obtain name e res1 where "resolveTLSCertRef env ns l n r res = (name, e, res1)" by (cases "resolveTLSCertRef env ns l n r res")
  with Cons show ?case by (cases e) fastforce+
qed (simp, metis Listener.surjective Listener.update_convs(10) append_Nil2)

lemma applyCertRefErrors_degrades: "degrades l (applyCertRefErrors errs l)"
  by (auto simp: applyCertRefErrors_def Let_def degrades_def NewListenerAllInvalidCertificateRefs_def)

lemma external_refs_frame:
  assumes "createExternalReferencesForTLSSecretsResolver env i (gw, res) = Inr (gw', res')"
  shows "\<exists>l. gw' = gw\<lparr>g_heap := (g_heap gw)[i := l]\<rparr> \<and> degrades (g_heap gw ! i) l"
proof (cases "l_Valid (g_heap gw ! i)")
  case False
  with assms show ?thesis
    by (auto simp: createExternalReferencesForTLSSecretsResolver_def intro!: exI [of _ "g_heap gw ! i"])
next
  case True
  with assms obtain tls where tls: "v1_TLS (src (g_heap gw) i) = Some tls"
    by (auto simp: createExternalReferencesForTLSSecretsResolver_def Let_def split: option.splits)
  obtain l' errs r' where r: "resolve_cert_refs env (gw_Namespace (g_Source gw)) 0 (tls_CertificateRefs tls)
      (g_heap gw ! i, [], res) = (l', errs, r')" by (metis prod_cases3)
  from resolve_cert_refs_degrades [OF r] have "degrades (g_heap gw ! i) l'" by (auto simp: degrades_def)
  with r tls True assms show ?thesis
    using degrades_trans [OF _ applyCertRefErrors_degrades]
    by (auto simp: createExternalReferencesForTLSSecretsResolver_def Let_def)
qed

lemma validateFrontendTLS_invalid:
  "validateFrontendTLS env gw path refs res = (conds, keep, gwConds, res') \<Longrightarrow> \<not> keep \<Longrightarrow> conds \<noteq> []"
  by (auto simp: validateFrontendTLS_def Let_def NewListenerInvalidNoValidCACertificate_def split: if_splits prod.splits)

lemma frontend_frame:
  assumes "createFrontendTLSCaCertReferenceResolver env i (gw, res) = (gw', res')"
  shows "\<exists>l cs. gw' = gw\<lparr>g_heap := (g_heap gw)[i := l], g_Conditions := g_Conditions gw @ cs\<rparr> \<and> degrades (g_heap gw ! i) l"
proof (cases "gw' = gw")
  case True
  then show ?thesis by (intro exI [of _ "g_heap gw ! i"] exI [of _ "[]"]) simp
next
  case False
  let ?l = "g_heap gw ! i"
  from assms False obtain fr tls where fr: "Option.bind (gw_TLS (g_Source gw)) gtc_Frontend = Some fr"
    and tls: "v1_TLS (l_Source ?l) = Some tls" "\<not> (tls_Mode tls \<noteq> None \<and> tls_Mode tls \<noteq> Some TLSModeTerminate)"
    by (auto simp: createFrontendTLSCaCertReferenceResolver_def Let_def split: option.splits if_splits prod.splits)
  obtain refs mode path where fv: "frontend_validation fr (v1_Port (l_Source ?l)) = (refs, mode, path)"
    by (metis prod_cases3)
  obtain conds keep gwConds r where vf: "validateFrontendTLS env (g_Source gw) path refs res = (conds, keep, gwConds, r)"
    by (metis prod_cases4)
  obtain cs where "gw' = gw\<lparr>g_heap := (g_heap gw)[i := ?l\<lparr>l_Valid := (l_Valid ?l \<and> keep), l_Conditions := l_Conditions ?l @ conds,
       l_ValidationMode := mode, l_CACertificateRefs := refs\<rparr>], g_Conditions := g_Conditions gw @ cs\<rparr>"
    using assms unfolding createFrontendTLSCaCertReferenceResolver_def Let_def
    by (auto simp: fr tls(1) fv vf split: if_splits simp del: not_None_eq intro!: that) (use tls(2) False in auto)
  moreover have "keep \<or> conds \<noteq> []" using validateFrontendTLS_invalid [OF vf] by blast
  ultimately show ?thesis
    by (intro exI [of _ "?l\<lparr>l_Valid := (l_Valid ?l \<and> keep), l_Conditions := l_Conditions ?l @ conds,
         l_ValidationMode := mode, l_CACertificateRefs := refs\<rparr>"] exI [of _ cs]) (auto simp: degrades_def)
qed

lemma reference_resolvers_frame:
  assumes "reference_resolvers env proto i (gw, res) = Inr (gw', res')"
  shows "heap_degrades (g_heap gw) (g_heap gw') \<and> g_ListenerFactory gw' = g_ListenerFactory gw \<and>
    g_Source gw' = g_Source gw \<and> g_Listeners gw' = g_Listeners gw \<and> (\<forall>j<length (g_heap gw). j \<noteq> i \<longrightarrow> g_heap gw' ! j = g_heap gw ! j)"
proof -
  have "\<exists>l cs. gw' = gw\<lparr>g_heap := (g_heap gw)[i := l], g_Conditions := g_Conditions gw @ cs\<rparr> \<and> degrades (g_heap gw ! i) l"
  proof (cases "proto = HTTPSProtocolType")
    case True
    then obtain gw1 res1 where 1: "createExternalReferencesForTLSSecretsResolver env i (gw, res) = Inr (gw1, res1)"
      and 2: "createFrontendTLSCaCertReferenceResolver env i (gw1, res1) = (gw', res')"
      using assms by (auto simp: reference_resolvers_def bind_go_Inr_iff)
    from external_refs_frame [OF 1] obtain l where l: "gw1 = gw\<lparr>g_heap := (g_heap gw)[i := l]\<rparr>" "degrades (g_heap gw ! i) l"
      by blast
    show ?thesis
    proof (cases "i < length (g_heap gw)")
      case True
      with frontend_frame [OF 2] l show ?thesis by (auto intro: degrades_trans)
    next
      case False
      with frontend_frame [OF 2] l show ?thesis by (auto simp: list_update_beyond)
    qed
  next
    case False
    then have "gw' = gw \<or> createExternalReferencesForTLSSecretsResolver env i (gw, res) = Inr (gw', res')"
      using assms by (auto simp: reference_resolvers_def split: ProtocolType.splits)
    then show ?thesis
    proof
      assume "gw' = gw"
      then show ?thesis by (intro exI [of _ "g_heap gw ! i"] exI [of _ "[]"]) simp
    next
      assume "createExternalReferencesForTLSSecretsResolver env i (gw, res) = Inr (gw', res')"
      from external_refs_frame [OF this] obtain l where "gw' = gw\<lparr>g_heap := (g_heap gw)[i := l]\<rparr>" "degrades (g_heap gw ! i) l"
        by blast
      then show ?thesis by (intro exI [of _ l] exI [of _ "[]"]) simp
    qed
  qed
  then show ?thesis by (auto simp: heap_degrades_update)
qed

section \<open>The contract of a conflict resolver\<close>

locale listener_resolver =
  fixes f :: "nat \<Rightarrow> Gateway \<Rightarrow> Gateway"
  assumes degrades_heap: "heap_degrades (g_heap gw) (g_heap (f i gw))"
    and frame: "g_Source (f i gw) = g_Source gw \<and> g_Listeners (f i gw) = g_Listeners gw \<and>
      g_Conditions (f i gw) = g_Conditions gw \<and>
      lf_protectedPorts (g_ListenerFactory (f i gw)) = lf_protectedPorts (g_ListenerFactory gw)"
begin

lemma sources_kept: "map l_Source (g_heap (f i gw)) = map l_Source (g_heap gw)"
  using degrades_heap [of gw i] by (auto simp: list_all2_conv_all_nth list_eq_iff_nth_eq dest: degradesD)

lemma never_validates: "j < length (g_heap gw) \<Longrightarrow> l_Valid (g_heap (f i gw) ! j) \<Longrightarrow> l_Valid (g_heap gw ! j)"
  using degrades_heap [of gw i] by (rule heap_degrades_nth(2))

lemma rejection_explained:
  assumes "j < length (g_heap gw)" and "l_Valid (g_heap gw ! j)" and "\<not> l_Valid (g_heap (f i gw) ! j)"
  shows "\<exists>cs. cs \<noteq> [] \<and> l_Conditions (g_heap (f i gw) ! j) = l_Conditions (g_heap gw ! j) @ cs"
  using degrades_heap [of gw i] assms by (auto simp: list_all2_conv_all_nth degrades_def)

end

lemma heap_degrades_same_group: "heap_degrades (fst s) (fst (fold (same_group_step i p) js s))"
proof (induction js arbitrary: s)
  case (Cons j js)
  have "heap_degrades (fst s) (fst (same_group_step i p j s))"
    using same_group_step_degrades [of "fst s" i p j "snd s"] by simp
  from heap_degrades_trans [OF this Cons.IH] show ?case by simp
qed simp

lemma resolve_port_degrades: "heap_degrades h (snd (resolve_port i r h))"
proof -
  have "heap_degrades h (resolveSameProtocolGroupConflict i p r h)" for p
    using heap_degrades_same_group [of "(h, False)" i p "pc_listenersByPort r p"]
    by (auto simp: resolveSameProtocolGroupConflict_def Let_def split: prod.splits
        intro: heap_degrades_trans [OF _ heap_degrades_upd_at])
  moreover have "heap_degrades h (snd (resolveProtocolGroupConflict i p r h))" for p
    by (auto simp: resolveProtocolGroupConflict_def intro: heap_degrades_upd_at
        heap_degrades_trans [OF heap_degrades_fold_invalidate heap_degrades_upd_at])
  ultimately show ?thesis
    by (auto simp: resolve_port_def Let_def heap_degrades_upd_at split: option.splits prod.splits if_splits)
       (metis snd_conv)
qed

lemma unique_degrades: "heap_degrades h (snd (uniqueListenerConflictResolver i keys h))"
  by (auto simp: uniqueListenerConflictResolver_def Let_def degrades_def intro!: heap_degrades_upd_at)

interpretation port_contract: listener_resolver port_resolver
proof
  fix gw i
  show "heap_degrades (g_heap gw) (g_heap (port_resolver i gw))"
    using resolve_port_degrades [of "g_heap gw" i "lf_port (g_ListenerFactory gw)"]
    by (auto simp: port_resolver_def split: prod.splits)
qed (auto simp: port_resolver_def split: prod.splits)

interpretation overlap_contract: listener_resolver overlap_resolver
proof
  fix gw i
  show "heap_degrades (g_heap gw) (g_heap (overlap_resolver i gw))"
    using overlap_correct [of "g_heap gw" i "lf_tlsListenersByPort (g_ListenerFactory gw)"]
    by (auto simp: overlap_resolver_def split: prod.splits)
qed (auto simp: overlap_resolver_def split: prod.splits)

interpretation unique_contract: listener_resolver unique_resolver
proof
  fix gw i
  show "heap_degrades (g_heap gw) (g_heap (unique_resolver i gw))"
    using unique_degrades [of "g_heap gw" i "lf_existingKeys (g_ListenerFactory gw)"]
    by (auto simp: unique_resolver_def split: prod.splits)
qed (auto simp: unique_resolver_def split: prod.splits)

section \<open>Valid listeners do not conflict\<close>

definition no_conflict :: "v1_Listener \<Rightarrow> v1_Listener \<Rightarrow> bool" where
  "no_conflict a b \<longleftrightarrow> port_compatible a b \<and> listener_key a \<noteq> listener_key b"

definition heap_inv :: "portConflictResolver \<Rightarrow> listenerKey set \<Rightarrow> Listener list \<Rightarrow> bool" where
  "heap_inv r keys h \<longleftrightarrow>
     port_inv r h \<and> (\<forall>j<length h. l_Valid (h ! j) \<longrightarrow> listener_key (src h j) \<in> keys) \<and>
     (\<forall>i<length h. \<forall>j<i. l_Valid (h ! i) \<longrightarrow> l_Valid (h ! j) \<longrightarrow> no_conflict (src h i) (src h j))"

definition conflict_inv :: "Gateway \<Rightarrow> bool" where
  "conflict_inv gw \<longleftrightarrow> heap_inv (lf_port (g_ListenerFactory gw)) (lf_existingKeys (g_ListenerFactory gw)) (g_heap gw)"

lemma heap_inv_degrades:
  assumes "heap_inv r keys h" and "heap_degrades h h'"
  shows "heap_inv r keys h'"
proof -
  have len: "length h' = length h" using assms(2) by (rule heap_degrades_length)
  note nth = heap_degrades_nth(1,2) [OF assms(2)]
  have "no_conflict (src h' i) (src h' j)" if "i < length h'" "j < i" "l_Valid (h' ! i)" "l_Valid (h' ! j)" for i j
  proof -
    have "j < length h" "i < length h" using that len by simp_all
    with that assms(1) nth show ?thesis unfolding heap_inv_def by auto
  qed
  with assms nth len show ?thesis by (auto simp: heap_inv_def port_inv_degrades)
qed

lemma heap_inv_snoc_invalid: "heap_inv r keys h \<Longrightarrow> \<not> l_Valid l \<Longrightarrow> heap_inv r keys (h @ [l])"
  by (auto simp: heap_inv_def port_inv_snoc_invalid nth_append less_Suc_eq)

lemma conflict_step:
  assumes inv: "heap_inv r keys h" and 1: "resolve_port (length h) r (h @ [l]) = (r', h1)"
    and 2: "heap_degrades h1 h2" and 3: "uniqueListenerConflictResolver (length h) keys h2 = (keys', h3)"
  shows "heap_inv r' keys' h3"
proof -
  let ?i = "length h"
  have pr: "port_resolved h l r' h1" using inv 1 resolve_port_resolved by (auto simp: heap_inv_def)
  then have d1: "heap_degrades (h @ [l]) h1" by (simp add: port_resolved_def)
  then have d12: "heap_degrades (h @ [l]) h2" using 2 by (rule heap_degrades_trans)
  have i2: "?i < length h2" using heap_degrades_length [OF d12] by simp
  note u = unique_correct [OF 3 i2]
  then have d23: "heap_degrades h2 h3" by blast
  have d: "heap_degrades (h @ [l]) h3" using d12 d23 by (rule heap_degrades_trans)
  have len: "length h3 = Suc ?i" using heap_degrades_length [OF d] by simp
  have d13: "heap_degrades h1 h3" using 2 d23 by (rule heap_degrades_trans)
  have len1: "length h1 = Suc ?i" using heap_degrades_length [OF d1] by simp
  have old: "src h3 j = src h j" "l_Valid (h3 ! j) \<Longrightarrow> l_Valid (h ! j)" if "j < ?i" for j
    using heap_degrades_nth(1,2) [OF d, of j] that by (simp_all add: nth_append)
  have new: "src h3 ?i = l_Source l" "src h2 ?i = l_Source l"
    using heap_degrades_nth(1) [OF d, of ?i] heap_degrades_nth(1) [OF d12, of ?i] by simp_all
  have key: "listener_key (src h3 j) \<in> keys" if "j < ?i" "l_Valid (h3 ! j)" for j
    using inv old that by (auto simp: heap_inv_def)
  have keys: "listener_key (src h3 j) \<in> keys'" if "j < length h3" "l_Valid (h3 ! j)" for j
    using that key [of j] u new len by (cases "j = ?i") auto
  have fresh: "no_conflict (l_Source l) (src h3 j)" if "j < ?i" "l_Valid (h3 ! ?i)" "l_Valid (h3 ! j)" for j
  proof -
    have "l_Valid (h1 ! ?i)" "l_Valid (h1 ! j)"
      using heap_degrades_nth(2) [OF d13] that len1 by simp_all
    then have "port_compatible (l_Source l) (src h j)" using pr that by (auto simp: port_resolved_def)
    then show ?thesis using key [of j] u that old new by (auto simp: no_conflict_def)
  qed
  have pairs: "no_conflict (src h3 i) (src h3 j)" if "i < length h3" "j < i" "l_Valid (h3 ! i)" "l_Valid (h3 ! j)" for i j
  proof (cases "i = ?i")
    case True
    with fresh that new show ?thesis by simp
  next
    case False
    with that len old inv show ?thesis by (auto simp: heap_inv_def less_Suc_eq)
  qed
  have "port_inv r' h3" using pr port_inv_degrades [OF _ d13] by (simp add: port_resolved_def)
  with keys pairs show ?thesis by (auto simp: heap_inv_def)
qed

text \<open>What configuring the listener \<open>l\<close> does to a Gateway.\<close>

definition configured :: "Listener \<Rightarrow> Gateway \<Rightarrow> Gateway \<Rightarrow> bool" where
  "configured l gw gw' \<longleftrightarrow>
     conflict_inv gw' \<and> heap_degrades (g_heap gw @ [l]) (g_heap gw') \<and>
     g_Source gw' = g_Source gw \<and> g_Listeners gw' = g_Listeners gw \<and>
     lf_protectedPorts (g_ListenerFactory gw') = lf_protectedPorts (g_ListenerFactory gw) \<and>
     (nn_Name (l_ListenerSetName l) \<noteq> '''' \<longrightarrow>
        (\<forall>j<length (g_heap gw). l_Valid (g_heap gw' ! j) = l_Valid (g_heap gw ! j)))"

lemma port_then_unique:
  assumes inv: "conflict_inv gw" and g1: "g1 = port_resolver (length (g_heap gw)) (gw\<lparr>g_heap := g_heap gw @ [l]\<rparr>)"
    and g2: "g2 = g1 \<or> g2 = overlap_resolver (length (g_heap gw)) g1"
  shows "configured l gw (unique_resolver (length (g_heap gw)) g2)"
proof -
  let ?h = "g_heap gw" and ?F = "g_ListenerFactory gw"
  obtain r' h1 where 1: "resolve_port (length ?h) (lf_port ?F) (?h @ [l]) = (r', h1)" by fastforce
  have pr: "port_resolved ?h l r' h1"
    using inv resolve_port_resolved [OF _ 1] by (auto simp: conflict_inv_def heap_inv_def)
  have g1': "g1 = gw\<lparr>g_heap := h1, g_ListenerFactory := ?F\<lparr>lf_port := r'\<rparr>\<rparr>"
    by (simp add: g1 port_resolver_def 1)
  have "heap_degrades h1 (g_heap g2) \<and> map l_Valid (g_heap g2) = map l_Valid h1 \<and> g_Source g2 = g_Source gw \<and>
      g_Listeners g2 = g_Listeners gw \<and> lf_port (g_ListenerFactory g2) = r' \<and>
      lf_existingKeys (g_ListenerFactory g2) = lf_existingKeys ?F \<and>
      lf_protectedPorts (g_ListenerFactory g2) = lf_protectedPorts ?F"
    using g2 overlap_correct [of h1 "length ?h" "lf_tlsListenersByPort ?F"]
    by (auto simp: g1' overlap_resolver_def split: prod.splits)
  then have 2: "heap_degrades h1 (g_heap g2)" and v2: "map l_Valid (g_heap g2) = map l_Valid h1"
    and fr: "g_Source g2 = g_Source gw" "g_Listeners g2 = g_Listeners gw" "lf_port (g_ListenerFactory g2) = r'"
      "lf_existingKeys (g_ListenerFactory g2) = lf_existingKeys ?F"
      "lf_protectedPorts (g_ListenerFactory g2) = lf_protectedPorts ?F" by blast+
  obtain keys' h3 where 3: "uniqueListenerConflictResolver (length ?h) (lf_existingKeys ?F) (g_heap g2) = (keys', h3)" by fastforce
  have g3: "unique_resolver (length ?h) g2 = g2\<lparr>g_heap := h3, g_ListenerFactory := (g_ListenerFactory g2)\<lparr>lf_existingKeys := keys'\<rparr>\<rparr>"
    by (simp add: unique_resolver_def 3 fr)
  have d1: "heap_degrades (?h @ [l]) h1" using pr by (simp add: port_resolved_def)
  have d2: "heap_degrades (?h @ [l]) (g_heap g2)" using d1 2 by (rule heap_degrades_trans)
  have len: "length (g_heap g2) = Suc (length ?h)" using heap_degrades_length [OF d2] by simp
  have u: "heap_degrades (g_heap g2) h3" "\<forall>j<length ?h. h3 ! j = g_heap g2 ! j"
    using unique_correct [OF 3] len by auto
  have "heap_inv r' keys' h3" using conflict_step [OF _ 1 2 3] inv by (simp add: conflict_inv_def)
  moreover have "l_Valid (h3 ! j) = l_Valid (?h ! j)" if "nn_Name (l_ListenerSetName l) \<noteq> ''''" "j < length ?h" for j
  proof -
    have "l_Valid (h3 ! j) = l_Valid (g_heap g2 ! j)" using u that by simp
    also have "\<dots> = l_Valid (h1 ! j)" using v2 that len by (metis length_map less_SucI nth_map)
    also have "h1 ! j = ?h ! j" using pr that by (metis nth_take port_resolved_def)
    finally show ?thesis .
  qed
  ultimately show ?thesis
    using heap_degrades_trans [OF d2 u(1)] by (simp add: configured_def conflict_inv_def g3 fr)
qed

lemma conflict_resolvers_configured:
  assumes "conflict_inv gw" and "conflict_resolvers_for proto \<noteq> []"
  shows "configured l gw (fold (\<lambda>f. f (length (g_heap gw))) (conflict_resolvers_for proto) (gw\<lparr>g_heap := g_heap gw @ [l]\<rparr>))"
  using assms(2) port_then_unique [OF assms(1) refl]
  by (cases proto) (auto simp: conflict_resolvers_for_def)

lemma new_listener_fields:
  assumes "new_listener env pp listener gwn lsn = Inr l"
  shows "l_Source l = listener \<and> l_ListenerSetName l = lsn \<and> l_GatewayName l = gwn \<and> l_Name l = v1_Name listener \<and>
    (l_Valid l \<longrightarrow> fst (run_validators (validators_for (le_k8s env) pp (v1_Protocol listener)) listener) = []) \<and>
    (l_Valid l \<longleftrightarrow> l_Conditions l = [])"
  using assms
  by (auto simp: new_listener_def Let_def bind_go_Inr_iff split: prod.splits option.splits sum.splits)

lemma valid_protocol_known: "fst (run_validators (validators_for k pp proto) l) = [] \<Longrightarrow> conflict_resolvers_for proto \<noteq> []"
  by (cases proto) (auto simp: conflict_resolvers_for_def validators_for_def run_validators_empty unsupportedProtocolValidator_def)

lemma configure_configured:
  assumes inv: "conflict_inv gw" and conf: "configure env gwn lsn listener (gw, res) = Inr (gw', res')"
  shows "\<exists>l. new_listener env (lf_protectedPorts (g_ListenerFactory gw)) listener gwn lsn = Inr l \<and> configured l gw gw'"
proof -
  let ?i = "length (g_heap gw)"
  obtain l where l: "new_listener env (lf_protectedPorts (g_ListenerFactory gw)) listener gwn lsn = Inr l"
    using conf by (auto simp: configure_def Let_def bind_go_Inr_iff)
  note f = new_listener_fields [OF l]
  let ?g1 = "gw\<lparr>g_heap := g_heap gw @ [l]\<rparr>"
  have "configured l gw gw'"
  proof (cases "l_Valid l")
    case False
    with conf l inv show ?thesis
      by (auto simp: configure_def Let_def configured_def conflict_inv_def heap_inv_snoc_invalid nth_append)
  next
    case True
    let ?g2 = "fold (\<lambda>f. f ?i) (conflict_resolvers_for (v1_Protocol listener)) ?g1"
    have g2: "configured l gw ?g2"
      by (rule conflict_resolvers_configured [OF inv valid_protocol_known]) (use f True in blast)
    have "reference_resolvers env (v1_Protocol listener) ?i (?g2, res) = Inr (gw', res')"
      using conf l True by (simp add: configure_def Let_def)
    note r = reference_resolvers_frame [OF this]
    have len: "length (g_heap ?g2) = Suc ?i" using g2 heap_degrades_length by (fastforce simp: configured_def)
    have d: "heap_degrades (g_heap gw @ [l]) (g_heap gw')"
      using heap_degrades_trans [of "g_heap gw @ [l]" "g_heap ?g2" "g_heap gw'"] g2 r by (simp add: configured_def)
    have "conflict_inv gw'"
      using heap_inv_degrades [of _ _ "g_heap ?g2" "g_heap gw'"] g2 r by (simp add: configured_def conflict_inv_def)
    with g2 r d len show ?thesis by (auto simp: configured_def)
  qed
  with l show ?thesis by blast
qed

text \<open>What building a list of listeners does.\<close>

definition listeners_built ::
  "v1_Listener list \<Rightarrow> NamespacedName \<Rightarrow> NamespacedName \<Rightarrow> Gateway \<Rightarrow> nat list \<Rightarrow> Gateway \<Rightarrow> bool" where
  "listeners_built srcs gwn lsn gw refs gw' \<longleftrightarrow>
     conflict_inv gw' \<and> refs = [length (g_heap gw)..<length (g_heap gw) + length srcs] \<and>
     map (\<lambda>l. (l_Source l, l_GatewayName l, l_ListenerSetName l)) (g_heap gw') =
       map (\<lambda>l. (l_Source l, l_GatewayName l, l_ListenerSetName l)) (g_heap gw) @ map (\<lambda>s. (s, gwn, lsn)) srcs \<and>
     g_Source gw' = g_Source gw \<and> g_Listeners gw' = g_Listeners gw \<and>
     (nn_Name lsn \<noteq> '''' \<longrightarrow> (\<forall>j<length (g_heap gw). l_Valid (g_heap gw' ! j) = l_Valid (g_heap gw ! j)))"

lemma heap_degrades_names:
  assumes "heap_degrades h h'"
  shows "map (\<lambda>l. (l_Source l, l_GatewayName l, l_ListenerSetName l)) h' =
    map (\<lambda>l. (l_Source l, l_GatewayName l, l_ListenerSetName l)) h"
  using assms by (induction rule: list_all2_induct) (auto simp: degrades_def)

lemma configure_built:
  assumes "conflict_inv gw" and "configure env gwn lsn s (gw, res) = Inr (gw1, res1)"
    and "listeners_built srcs gwn lsn gw1 refs gw'"
  shows "listeners_built (s # srcs) gwn lsn gw (length (g_heap gw) # refs) gw'"
proof -
  from configure_configured [OF assms(1,2)] obtain l
    where l: "new_listener env (lf_protectedPorts (g_ListenerFactory gw)) s gwn lsn = Inr l" and c: "configured l gw gw1"
    by blast
  note f = new_listener_fields [OF l]
  have d: "heap_degrades (g_heap gw @ [l]) (g_heap gw1)" using c by (simp add: configured_def)
  have len: "length (g_heap gw1) = Suc (length (g_heap gw))" using heap_degrades_length [OF d] by simp
  have "length (g_heap gw) # [Suc (length (g_heap gw))..<Suc (length (g_heap gw)) + length srcs] =
      [length (g_heap gw)..<length (g_heap gw) + length (s # srcs)]"
    by (simp add: upt_rec)
  with assms(3) c f len heap_degrades_names [OF d] show ?thesis
    by (auto simp: listeners_built_def configured_def)
qed

lemma buildListeners_built:
  assumes "conflict_inv gw" and "buildListeners env srcs gwn lsn (gw, res) = Inr (refs, gw', res')"
  shows "listeners_built srcs gwn lsn gw refs gw'"
proof -
  let ?f = "\<lambda>l (refs, s). bind_go (configure env gwn lsn l s) (\<lambda>s'. Inr (refs @ [length (g_heap (fst s))], s'))"
  have "\<exists>rs. refs = refs0 @ rs \<and> listeners_built srcs gwn lsn gw rs gw'"
    if "conflict_inv gw" "fold_go ?f srcs (refs0, gw, res) = Inr (refs, gw', res')" for refs0 gw res
    using that
  proof (induction srcs arbitrary: refs0 gw res)
    case Nil
    then show ?case by (auto simp: listeners_built_def)
  next
    case (Cons s srcs)
    then obtain gw1 res1 where c: "configure env gwn lsn s (gw, res) = Inr (gw1, res1)"
      and rest: "fold_go ?f srcs (refs0 @ [length (g_heap gw)], gw1, res1) = Inr (refs, gw', res')"
      by (auto simp: bind_go_Inr_iff)
    have "conflict_inv gw1" using configure_configured [OF Cons.prems(1) c] by (auto simp: configured_def)
    from Cons.IH [OF this rest] obtain rs where "refs = refs0 @ length (g_heap gw) # rs" "listeners_built srcs gwn lsn gw1 rs gw'"
      by auto
    with configure_built [OF Cons.prems(1) c] show ?case by blast
  qed
  from this [OF assms(1), of "[]" res] assms(2) show ?thesis by (auto simp: buildListeners_def)
qed

section \<open>Panics\<close>

lemma new_listener_panics:
  "(\<exists>p. new_listener env pp l gwn lsn = Inl p) \<longleftrightarrow> (\<exists>ns. Option.bind (v1_AllowedRoutes l) al_Namespaces = Some ns \<and> rn_From ns = None)"
  by (auto simp: new_listener_def GetAllowedRouteLabelSelector_def Let_def split: prod.splits option.splits)

lemma conflict_resolvers_degrade:
  "heap_degrades (g_heap gw) (g_heap (fold (\<lambda>f. f i) (conflict_resolvers_for proto) gw))"
proof -
  note t = heap_degrades_trans [OF heap_degrades_trans [OF port_contract.degrades_heap overlap_contract.degrades_heap]
      unique_contract.degrades_heap]
  note u = heap_degrades_trans [OF port_contract.degrades_heap unique_contract.degrades_heap]
  show ?thesis using t u by (cases proto) (simp_all add: conflict_resolvers_for_def)
qed

lemma valid_has_tls:
  assumes "fst (run_validators (validators_for k pp proto) l) = []" and "proto = HTTPSProtocolType \<or> proto = TLSProtocolType"
  shows "v1_TLS l \<noteq> None"
  using assms by (cases "v1_TLS l")
    (auto simp: run_validators_empty validators_for_def validator_simps validateTLSFieldOnTLSListener_def)

lemma reference_resolvers_total:
  assumes "proto = HTTPSProtocolType \<or> proto = TLSProtocolType \<Longrightarrow> v1_TLS (src (g_heap gw) i) \<noteq> None"
  shows "\<exists>s. reference_resolvers env proto i (gw, res) = Inr s"
  using assms
  by (cases proto) (auto simp: reference_resolvers_def createExternalReferencesForTLSSecretsResolver_def Let_def
      split: prod.splits)

text \<open>
  C22. Configuring a listener panics (a nil dereference) exactly when its allowed routes have a
  \<^verbatim>\<open>namespaces\<close> section whose \<^verbatim>\<open>from\<close> is not set; on every other listener all validators and resolvers
  return, whatever the state of the Gateway. In particular no resolver dereferences missing TLS settings.
\<close>

theorem configure_panics_iff:
  "(\<exists>p. configure env gwn lsn l (gw, res) = Inl p) \<longleftrightarrow>
     (\<exists>ns. Option.bind (v1_AllowedRoutes l) al_Namespaces = Some ns \<and> rn_From ns = None)"
proof (cases "new_listener env (lf_protectedPorts (g_ListenerFactory gw)) l gwn lsn")
  case (Inl p)
  then show ?thesis using new_listener_panics [of env _ l gwn lsn] by (auto simp: configure_def Let_def)
next
  case (Inr l0)
  let ?i = "length (g_heap gw)"
  let ?gw2 = "fold (\<lambda>f. f ?i) (conflict_resolvers_for (v1_Protocol l)) (gw\<lparr>g_heap := g_heap gw @ [l0]\<rparr>)"
  note f = new_listener_fields [OF Inr]
  have "src (g_heap ?gw2) ?i = l"
    using heap_degrades_nth(1) [OF conflict_resolvers_degrade, of ?i "gw\<lparr>g_heap := g_heap gw @ [l0]\<rparr>" ?i "v1_Protocol l"] f by simp
  then have "l_Valid l0 \<Longrightarrow> \<exists>s. reference_resolvers env (v1_Protocol l) ?i (?gw2, res) = Inr s"
    using f valid_has_tls by (intro reference_resolvers_total) auto
  then have "\<exists>s. configure env gwn lsn l (gw, res) = Inr s" using Inr by (auto simp: configure_def Let_def)
  moreover have "\<not> (\<exists>ns. Option.bind (v1_AllowedRoutes l) al_Namespaces = Some ns \<and> rn_From ns = None)"
    using new_listener_panics [of env "lf_protectedPorts (g_ListenerFactory gw)" l gwn lsn] Inr by auto
  ultimately show ?thesis by auto
qed

end
