(* ===== verification/ListenerSets.thy ===== *)
theory ListenerSets
  imports ListenerConflicts
begin

text \<open>
  Building the listeners of a Gateway and merging the listeners of the ListenerSets attached to it:
  \<^verbatim>\<open>listenerset.go\<close> and the parts of \<^verbatim>\<open>gateway.go\<close> and \<^verbatim>\<open>nginxproxy.go\<close> it relies on. Maps that are
  ranged over are association lists; their order stands for the order of iteration.
\<close>

section \<open>Gateways\<close>

definition MetricsEnabledForNginxProxy :: "EffectiveNginxProxy option \<Rightarrow> int option \<times> bool" where
  "MetricsEnabledForNginxProxy np =
     (case Option.bind np enp_Metrics of
        Some m \<Rightarrow> (if met_Disable m = Some True then (None, False) else (met_Port m, True))
      | None \<Rightarrow> (None, True))"

definition buildProtectedPorts :: "EffectiveNginxProxy option \<Rightarrow> ProtectedPorts" where
  "buildProtectedPorts effectiveNginxProxy =
     (case MetricsEnabledForNginxProxy effectiveNginxProxy of
        (port, enabled) \<Rightarrow>
          (if enabled then [(case port of None \<Rightarrow> 9113 | Some p \<Rightarrow> p) \<mapsto> ''MetricsPort''] else Map.empty))"

definition newListenerConfiguratorFactory :: "ProtectedPorts \<Rightarrow> listenerFactory" where
  "newListenerConfiguratorFactory protectedPorts =
     \<lparr>lf_port = createPortConflictResolver, lf_tlsListenersByPort = (\<lambda>_. []), lf_existingKeys = {},
      lf_protectedPorts = protectedPorts\<rparr>"

text \<open>The struct \<^verbatim>\<open>buildGateways\<close> creates for a Gateway, and the listeners it gives to a valid one.\<close>

definition new_gateway :: "v1_Gateway \<Rightarrow> EffectiveNginxProxy option \<Rightarrow> Condition list \<Rightarrow> bool \<Rightarrow> Gateway" where
  "new_gateway gw enp conds valid =
     \<lparr>g_Source = gw, g_EffectiveNginxProxy = enp,
      g_ListenerFactory = newListenerConfiguratorFactory (buildProtectedPorts enp),
      g_heap = [], g_Listeners = [], g_AttachedListenerSets = [], g_Policies = [], g_Conditions = conds, g_Valid = valid\<rparr>"

definition build_gateway ::
  "'r listener_env \<Rightarrow> NamespacedName \<Rightarrow> v1_Gateway \<Rightarrow> EffectiveNginxProxy option \<Rightarrow> Condition list \<Rightarrow> bool \<Rightarrow> 'r
    \<Rightarrow> (Gateway \<times> 'r) go" where
  "build_gateway env gwNsName gw enp conds valid res =
     (if \<not> valid then Inr (new_gateway gw enp conds False, res)
      else bind_go (buildListeners env (gw_Listeners gw) gwNsName noName (new_gateway gw enp conds True, res))
             (\<lambda>(refs, gateway, res'). Inr (gateway\<lparr>g_Listeners := refs\<rparr>, res')))"

section \<open>ListenerSets\<close>

record ListenerSet =
  lset_Source :: v1_ListenerSet
  lset_Gateway :: v1_Gateway
  lset_Listeners :: "nat list"
  lset_Conditions :: "Condition list"
  lset_Valid :: bool

definition isListenerSetAllowedByGateway :: "k8s \<Rightarrow> v1_ListenerSet \<Rightarrow> v1_Gateway \<Rightarrow> namespaces \<Rightarrow> bool" where
  "isListenerSetAllowedByGateway k ls gw nss =
     (case Option.bind (gw_AllowedListeners gw) all_Namespaces of
        None \<Rightarrow> False
      | Some namespaceSelector \<Rightarrow>
          (case rn_From namespaceSelector of
             None \<Rightarrow> False
           | Some from \<Rightarrow>
               (case from of
                  NamespacesFromNone \<Rightarrow> False
                | NamespacesFromSame \<Rightarrow> om_Namespace (vls_Meta ls) = gw_Namespace gw
                | NamespacesFromAll \<Rightarrow> True
                | NamespacesFromSelector \<Rightarrow>
                    (case rn_Selector namespaceSelector of
                       None \<Rightarrow> False
                     | Some s \<Rightarrow>
                         (case nss (om_Namespace (vls_Meta ls)) of
                            None \<Rightarrow> False
                          | Some labels \<Rightarrow>
                              (case k_LabelSelectorAsSelector k s of Inl err \<Rightarrow> False | Inr matches \<Rightarrow> matches labels)))
                | OtherFrom _ \<Rightarrow> False)))"

definition validateListenerSet :: "k8s \<Rightarrow> v1_ListenerSet \<Rightarrow> Gateway \<Rightarrow> namespaces \<Rightarrow> Condition list \<times> bool" where
  "validateListenerSet k ls parentGateway nss =
     (let name = gw_Namespace (g_Source parentGateway) @ ''/'' @ om_Name (gw_Meta (g_Source parentGateway)) in
      if \<not> g_Valid parentGateway then
        ([NewListenerSetParentNotAccepted (''Parent Gateway '' @ name @ '' is not accepted'')], False)
      else if \<not> isListenerSetAllowedByGateway k ls (g_Source parentGateway) nss then
        ([NewListenerSetNotAllowed (''ListenerSet is not allowed by parent Gateway '' @ name @ '' AllowedListeners configuration'')],
         False)
      else ([NewListenerSetAccepted], True))"

definition parentGatewayRef :: "v1_ListenerSet \<Rightarrow> NamespacedName" where
  "parentGatewayRef ls =
     nsname (case pgr_Namespace (vls_ParentRef ls) of None \<Rightarrow> om_Namespace (vls_Meta ls) | Some ns \<Rightarrow> ns)
       (pgr_Name (vls_ParentRef ls))"

definition buildListenerSets ::
  "k8s \<Rightarrow> (NamespacedName \<times> v1_ListenerSet) list \<Rightarrow> (NamespacedName \<times> Gateway) list \<Rightarrow> namespaces
    \<Rightarrow> (NamespacedName \<times> ListenerSet) list" where
  "buildListenerSets k ls gateways nss =
     (if ls = [] \<or> gateways = [] then []
      else List.map_filter (\<lambda>(lsNsName, listenerSet).
        case map_of gateways (parentGatewayRef listenerSet) of
          None \<Rightarrow> None
        | Some parentGateway \<Rightarrow>
            (let (conds, valid) = validateListenerSet k listenerSet parentGateway nss
             in Some (lsNsName, \<lparr>lset_Source = listenerSet, lset_Gateway = g_Source parentGateway, lset_Listeners = [],
                        lset_Conditions = conds, lset_Valid = valid\<rparr>))) ls)"

abbreviation lset_name :: "ListenerSet \<Rightarrow> NamespacedName" where
  "lset_name ls \<equiv> object_key (vls_Meta (lset_Source ls))"

text \<open>One round of the loop of \<^verbatim>\<open>mergeGatewayAndListenerSetListeners\<close>.\<close>

definition merge_listener_set ::
  "'r listener_env \<Rightarrow> ListenerSet \<Rightarrow> ListenerSet list \<times> Gateway \<times> 'r \<Rightarrow> (ListenerSet list \<times> Gateway \<times> 'r) go" where
  "merge_listener_set env listenerSet s =
     (case s of (done, gw, res) \<Rightarrow>
        bind_go (buildListeners env (vls_Listeners (lset_Source listenerSet)) (object_key (gw_Meta (g_Source gw)))
                   (lset_name listenerSet) (gw, res))
          (\<lambda>(validatedListeners, gw1, res1).
            let valid = filter (\<lambda>i. l_Valid (g_heap gw1 ! i)) validatedListeners;
                gw2 = gw1\<lparr>g_Listeners := g_Listeners gw1 @ valid\<rparr>;
                ls1 = listenerSet\<lparr>lset_Listeners := validatedListeners\<rparr>
            in if valid = [] then
                 Inr (done @ [ls1\<lparr>lset_Conditions := lset_Conditions ls1 @ [NewListenerSetListenersNotValid ''All listeners are invalid''],
                                lset_Valid := False\<rparr>], gw2, res1)
               else Inr (done @ [ls1], gw2\<lparr>g_AttachedListenerSets := List.insert (lset_name listenerSet) (g_AttachedListenerSets gw2)\<rparr>, res1)))"

definition mergeGatewayAndListenerSetListeners ::
  "'r listener_env \<Rightarrow> Gateway \<Rightarrow> ListenerSet list \<Rightarrow> 'r \<Rightarrow> (ListenerSet list \<times> Gateway \<times> 'r) go" where
  "mergeGatewayAndListenerSetListeners env gw ls res =
     (if ls = [] then Inr ([], gw, res)
      else fold_go (merge_listener_set env) ls ([], gw\<lparr>g_AttachedListenerSets := []\<rparr>, res))"

definition gwToReferencedListenerSets ::
  "(NamespacedName \<times> ListenerSet) list \<Rightarrow> (NamespacedName \<times> NamespacedName list) list" where
  "gwToReferencedListenerSets listenerSets =
     fold (\<lambda>(_, ls) m.
         if \<not> lset_Valid ls then m
         else (let ref = parentGatewayRef (lset_Source ls)
               in AList.update ref (deref_or [] (map_of m ref) @ [lset_name ls]) m))
       listenerSets []"

type_synonym 'r attach_state = "(NamespacedName \<times> Gateway) list \<times> (NamespacedName \<times> ListenerSet) list \<times> 'r"

definition attach_to_gateway ::
  "'r listener_env \<Rightarrow> NamespacedName \<times> NamespacedName list \<Rightarrow> 'r attach_state \<Rightarrow> 'r attach_state go" where
  "attach_to_gateway env x s =
     (case x of (gwNsName, lsNsNames) \<Rightarrow>
      case s of (gateways, listenerSets, res) \<Rightarrow>
        (case (map_of gateways gwNsName, those (map (map_of listenerSets) lsNsNames)) of
           (Some gw, Some lsArray) \<Rightarrow>
             bind_go (mergeGatewayAndListenerSetListeners env gw
                        (slice_stable (LessClientObject (\<lambda>ls. vls_Meta (lset_Source ls))) lsArray) res)
               (\<lambda>(lsArray', gw', res').
                 Inr (AList.update gwNsName gw' gateways,
                      fold (\<lambda>ls. AList.update (lset_name ls) ls) lsArray' listenerSets, res'))
         | _ \<Rightarrow> Inl NilDeref))"

definition attachListenerSetsToGateways :: "'r listener_env \<Rightarrow> 'r attach_state \<Rightarrow> 'r attach_state go" where
  "attachListenerSetsToGateways env s =
     fold_go (attach_to_gateway env) (gwToReferencedListenerSets (fst (snd s))) s"

section \<open>Merging keeps the listeners of the Gateway\<close>

definition gw_extends :: "Gateway \<Rightarrow> Gateway \<Rightarrow> bool" where
  "gw_extends gw gw' \<longleftrightarrow>
     conflict_inv gw' \<and> g_Source gw' = g_Source gw \<and> length (g_heap gw) \<le> length (g_heap gw') \<and>
     (\<forall>j<length (g_heap gw). l_Valid (g_heap gw' ! j) = l_Valid (g_heap gw ! j) \<and> src (g_heap gw') j = src (g_heap gw) j) \<and>
     (\<exists>new. g_Listeners gw' = g_Listeners gw @ new \<and>
        (\<forall>i\<in>set new. length (g_heap gw) \<le> i \<and> i < length (g_heap gw') \<and> l_Valid (g_heap gw' ! i)))"

lemma gw_extends_refl: "conflict_inv gw \<Longrightarrow> gw_extends gw gw"
  by (simp add: gw_extends_def)

lemma gw_extends_trans:
  assumes "gw_extends a b" and "gw_extends b c"
  shows "gw_extends a c"
proof -
  obtain n1 where n1: "g_Listeners b = g_Listeners a @ n1"
    "\<forall>i\<in>set n1. length (g_heap a) \<le> i \<and> i < length (g_heap b) \<and> l_Valid (g_heap b ! i)"
    using assms(1) by (auto simp: gw_extends_def)
  obtain n2 where n2: "g_Listeners c = g_Listeners b @ n2"
    "\<forall>i\<in>set n2. length (g_heap b) \<le> i \<and> i < length (g_heap c) \<and> l_Valid (g_heap c ! i)"
    using assms(2) by (auto simp: gw_extends_def)
  have len: "length (g_heap a) \<le> length (g_heap b)" "length (g_heap b) \<le> length (g_heap c)"
    using assms by (auto simp: gw_extends_def)
  have "\<forall>i\<in>set (n1 @ n2). length (g_heap a) \<le> i \<and> i < length (g_heap c) \<and> l_Valid (g_heap c ! i)"
    using n1(2) n2(2) len assms(2) by (auto simp: gw_extends_def)
  then have "\<exists>new. g_Listeners c = g_Listeners a @ new \<and>
      (\<forall>i\<in>set new. length (g_heap a) \<le> i \<and> i < length (g_heap c) \<and> l_Valid (g_heap c ! i))"
    using n1(1) n2(1) by (intro exI [of _ "n1 @ n2"]) simp
  with assms len show ?thesis by (auto simp: gw_extends_def)
qed

lemma listeners_built_sources:
  assumes "listeners_built srcs gwn lsn gw refs gw'"
  shows "length (g_heap gw') = length (g_heap gw) + length srcs"
    and "j < length (g_heap gw) \<Longrightarrow> src (g_heap gw') j = src (g_heap gw) j"
proof -
  let ?n = "\<lambda>l. (l_Source l, l_GatewayName l, l_ListenerSetName l)"
  have eq: "map ?n (g_heap gw') = map ?n (g_heap gw) @ map (\<lambda>s. (s, gwn, lsn)) srcs"
    using assms by (simp add: listeners_built_def)
  from arg_cong [OF eq, of length] show len: "length (g_heap gw') = length (g_heap gw) + length srcs" by simp
  assume "j < length (g_heap gw)"
  with arg_cong [OF eq, of "\<lambda>xs. xs ! j"] len show "src (g_heap gw') j = src (g_heap gw) j" by (simp add: nth_append)
qed

lemma conflict_inv_cong: "g_heap a = g_heap b \<Longrightarrow> g_ListenerFactory a = g_ListenerFactory b \<Longrightarrow> conflict_inv a = conflict_inv b"
  by (simp add: conflict_inv_def)

lemma merge_listener_set_extends:
  assumes inv: "conflict_inv gw" and name: "nn_Name (lset_name ls) \<noteq> ''''"
    and m: "merge_listener_set env ls (done, gw, res) = Inr (done', gw', res')"
  shows "gw_extends gw gw'"
proof -
  obtain refs gw1 res1 where b: "buildListeners env (vls_Listeners (lset_Source ls)) (object_key (gw_Meta (g_Source gw)))
      (lset_name ls) (gw, res) = Inr (refs, gw1, res1)"
    using m by (auto simp: merge_listener_set_def bind_go_Inr_iff)
  let ?valid = "filter (\<lambda>i. l_Valid (g_heap gw1 ! i)) refs"
  have gw': "g_heap gw' = g_heap gw1" "g_ListenerFactory gw' = g_ListenerFactory gw1" "g_Source gw' = g_Source gw1"
    "g_Listeners gw' = g_Listeners gw1 @ ?valid"
    using m b by (auto simp: merge_listener_set_def Let_def split: if_splits)
  note lb = buildListeners_built [OF inv b]
  note s = listeners_built_sources [OF lb]
  have refs: "set refs = {length (g_heap gw)..<length (g_heap gw1)}" using lb s by (auto simp: listeners_built_def)
  have "conflict_inv gw'" using conflict_inv_cong [OF gw'(1,2)] lb by (simp add: listeners_built_def)
  then show ?thesis
    using lb s refs name gw' unfolding gw_extends_def listeners_built_def by auto
qed

lemma merge_extends:
  assumes "conflict_inv gw" and "\<forall>ls\<in>set lss. nn_Name (lset_name ls) \<noteq> ''''"
    and "mergeGatewayAndListenerSetListeners env gw lss res = Inr (lss', gw', res')"
  shows "gw_extends gw gw'"
proof (cases "lss = []")
  case True
  with assms show ?thesis by (simp add: mergeGatewayAndListenerSetListeners_def gw_extends_refl)
next
  case False
  let ?g0 = "gw\<lparr>g_AttachedListenerSets := []\<rparr>"
  have inv0: "conflict_inv ?g0" using assms(1) by (simp add: conflict_inv_def)
  have "gw_extends ?g0 (fst (snd (lss', gw', res')))"
  proof (rule fold_go_invariant [where I = "\<lambda>s. gw_extends ?g0 (fst (snd s))" and xs = lss and f = "merge_listener_set env"])
    show "fold_go (merge_listener_set env) lss ([], ?g0, res) = Inr (lss', gw', res')"
      using assms(3) False by (simp add: mergeGatewayAndListenerSetListeners_def)
    show "gw_extends ?g0 (fst (snd ([], ?g0, res)))" using inv0 by (simp add: gw_extends_refl)
  next
    fix ls s t
    assume ls: "ls \<in> set lss" and s: "gw_extends ?g0 (fst (snd s))" and m: "merge_listener_set env ls s = Inr t"
    then have "gw_extends (fst (snd s)) (fst (snd t))"
      using merge_listener_set_extends [of "fst (snd s)" ls env "fst s" "snd (snd s)" "fst t" "fst (snd t)" "snd (snd t)"]
        assms(2) by (auto simp: gw_extends_def)
    with s show "gw_extends ?g0 (fst (snd t))" by (rule gw_extends_trans)
  qed
  then show ?thesis by (simp add: gw_extends_def)
qed

lemma build_gateway_inv:
  assumes "build_gateway env n gw enp conds valid res = Inr (g, res')"
  shows "conflict_inv g \<and> g_Source g = gw \<and> (valid \<longrightarrow> map l_Source (g_heap g) = gw_Listeners gw \<and> g_Listeners g = [0..<length (gw_Listeners gw)])"
proof -
  have inv0: "conflict_inv (new_gateway gw enp conds b)" for b
    by (simp add: conflict_inv_def heap_inv_def port_inv_def new_gateway_def newListenerConfiguratorFactory_def
        createPortConflictResolver_def)
  show ?thesis
  proof (cases valid)
    case False
    with assms inv0 [of False] show ?thesis by (auto simp: build_gateway_def) (simp add: new_gateway_def)
  next
    case True
    then obtain refs g1 where b: "buildListeners env (gw_Listeners gw) n noName (new_gateway gw enp conds True, res) = Inr (refs, g1, res')"
      and g: "g = g1\<lparr>g_Listeners := refs\<rparr>"
      using assms by (auto simp: build_gateway_def bind_go_Inr_iff)
    note lb = buildListeners_built [OF inv0 b]
    have "map fst (map (\<lambda>l. (l_Source l, l_GatewayName l, l_ListenerSetName l)) (g_heap g1)) =
        map fst (map (\<lambda>s. (s, n, noName)) (gw_Listeners gw))"
      using lb by (simp add: listeners_built_def new_gateway_def)
    then have "map l_Source (g_heap g1) = gw_Listeners gw" by (simp add: comp_def)
    with lb show ?thesis using conflict_inv_cong [of g g1] by (simp add: g listeners_built_def new_gateway_def)
  qed
qed

section \<open>Properties\<close>

text \<open>
  Two listeners conflict when they share a port and their protocols may not share one (protocols of
  different groups, or twice the same layer 4 protocol), or they agree in protocol and hostname,
  or one is HTTPS, the other TLS, and their hostnames overlap.
\<close>

definition conflicting :: "v1_Listener \<Rightarrow> v1_Listener \<Rightarrow> bool" where
  "conflicting a b \<longleftrightarrow>
     v1_Port a = v1_Port b \<and>
     (protocolGroups (v1_Protocol a) \<noteq> protocolGroups (v1_Protocol b) \<or>
      v1_Protocol a = v1_Protocol b \<and> (isL4Protocol (v1_Protocol a) \<or> getHostname (v1_Hostname a) = getHostname (v1_Hostname b)) \<or>
      (v1_Protocol a = HTTPSProtocolType \<and> v1_Protocol b = TLSProtocolType \<or>
       v1_Protocol a = TLSProtocolType \<and> v1_Protocol b = HTTPSProtocolType) \<and> haveOverlap (v1_Hostname a) (v1_Hostname b))"

lemma haveOverlap_sym: "haveOverlap a b = haveOverlap b a"
  by (cases a; cases b) (auto simp: haveOverlap_def matchesWildcard_def)

lemma conflicting_sym: "conflicting a b = conflicting b a"
proof -
  have "conflicting b a" if "conflicting a b" for a b
    using that haveOverlap_sym [of "v1_Hostname a" "v1_Hostname b"] unfolding conflicting_def
    by (elim conjE disjE) simp_all
  then show ?thesis by blast
qed

lemma no_conflict_not_conflicting: "no_conflict a b \<Longrightarrow> \<not> conflicting a b"
proof
  assume n: "no_conflict a b" and c: "conflicting a b"
  then have port: "v1_Port a = v1_Port b" by (simp add: conflicting_def)
  with n have ok: "protocolGroups (v1_Protocol a) = protocolGroups (v1_Protocol b)" "\<not> l4_clash a b" "\<not> hostname_clash a b"
    "listener_key a \<noteq> listener_key b"
    by (simp_all add: no_conflict_def port_compatible_def)
  from c ok(1) consider "v1_Protocol a = v1_Protocol b" "isL4Protocol (v1_Protocol a)"
    | "v1_Protocol a = v1_Protocol b" "getHostname (v1_Hostname a) = getHostname (v1_Hostname b)"
    | "v1_Protocol a = HTTPSProtocolType \<and> v1_Protocol b = TLSProtocolType \<or>
       v1_Protocol a = TLSProtocolType \<and> v1_Protocol b = HTTPSProtocolType" "haveOverlap (v1_Hostname a) (v1_Hostname b)"
    unfolding conflicting_def by blast
  then show False
  proof cases
    case 1
    with ok(2) show False by (simp add: l4_clash_def)
  next
    case 2
    with ok(4) port show False by (simp add: listener_key_def getHostname_def)
  next
    case 3
    with ok(3) show False by (auto simp: hostname_clash_def isL4Protocol_def)
  qed
qed

lemma conflict_inv_pairs:
  assumes "conflict_inv g" and "i < length (g_heap g)" and "j < length (g_heap g)" and "i \<noteq> j"
    and "l_Valid (g_heap g ! i)" and "l_Valid (g_heap g ! j)"
  shows "\<not> conflicting (src (g_heap g) i) (src (g_heap g) j)"
proof -
  have pairs: "no_conflict (src (g_heap g) i) (src (g_heap g) j)"
    if "i < length (g_heap g)" "j < i" "l_Valid (g_heap g ! i)" "l_Valid (g_heap g ! j)" for i j
    using assms(1) that unfolding conflict_inv_def heap_inv_def by blast
  show ?thesis
  proof (cases "j < i")
    case True
    from no_conflict_not_conflicting [OF pairs [OF assms(2) True assms(5,6)]] show ?thesis .
  next
    case False
    with assms(4) have "i < j" by simp
    from no_conflict_not_conflicting [OF pairs [OF assms(3) this assms(6,5)]] show ?thesis
      by (simp add: conflicting_sym)
  qed
qed

text \<open>
  C3. No two valid listeners of a Gateway conflict: whatever the listeners of the Gateway resource are, after
  \<^verbatim>\<open>buildGateways\<close> has run its validators and its three stateful conflict resolvers over them
  in order, any two distinct ones that are still valid have compatible protocols and, where it
  matters, different or non-overlapping hostnames.
\<close>

theorem gateway_listeners_conflict_free:
  assumes "build_gateway env n gw enp conds True res = Inr (g, res')"
    and "i < length (gw_Listeners gw)" and "j < length (gw_Listeners gw)" and "i \<noteq> j"
    and "l_Valid (g_heap g ! i)" and "l_Valid (g_heap g ! j)"
  shows "\<not> conflicting (gw_Listeners gw ! i) (gw_Listeners gw ! j)"
proof -
  have inv: "conflict_inv g" and s: "map l_Source (g_heap g) = gw_Listeners gw"
    using build_gateway_inv [OF assms(1)] by simp_all
  have len: "length (g_heap g) = length (gw_Listeners gw)" using arg_cong [OF s, of length] by simp
  have "gw_Listeners gw ! k = src (g_heap g) k" if "k < length (gw_Listeners gw)" for k
    using that len nth_map [of k "g_heap g" l_Source] unfolding s by simp
  with conflict_inv_pairs [OF inv _ _ assms(4-6)] assms(2,3) show ?thesis unfolding len by simp
qed

definition sample_env :: "unit listener_env" where
  "sample_env = \<lparr>le_k8s = sample_k8s, le_Resolve = (\<lambda>_ _ _ _. (None, ())), le_refGrants = \<lparr>rgr_allowed = {}\<rparr>\<rparr>"

definition sample_gateway :: "v1_Listener list \<Rightarrow> v1_Gateway" where
  "sample_gateway ls = \<lparr>gw_Meta = \<lparr>om_CreationTimestamp = 0, om_Namespace = ''ns'', om_Name = ''gw''\<rparr>, gw_Generation = 1,
     gw_GatewayClassName = ''nginx'', gw_Listeners = ls, gw_Addresses = [], gw_TLS = None, gw_AllowedListeners = None\<rparr>"

definition sample_tls :: ListenerTLSConfig where
  "sample_tls = \<lparr>tls_Mode = None, tls_CertificateRefs =
     [\<lparr>sor_Group = None, sor_Kind = None, sor_Name = ''cert'', sor_Namespace = None\<rparr>], tls_Options = []\<rparr>"

abbreviation sample_name :: NamespacedName where
  "sample_name \<equiv> nsname ''ns'' ''gw''"

definition sample_pair :: v1_Gateway where
  "sample_pair = sample_gateway
     [sample_listener ''a'' (Some ''a.com'') 443 HTTPSProtocolType (Some sample_tls),
      sample_listener ''b'' (Some ''*.b.com'') 443 TLSProtocolType (Some sample_tls)]"

lemma sample_pair_built:
  "\<exists>g. build_gateway sample_env sample_name sample_pair None [] True () = Inr (g, ()) \<and> map l_Valid (g_heap g) = [True, True]"
proof -
  have "case build_gateway sample_env sample_name sample_pair None [] True () of
      Inl _ \<Rightarrow> False | Inr (g, _) \<Rightarrow> map l_Valid (g_heap g) = [True, True]"
    by code_simp
  then show ?thesis by (auto split: sum.splits)
qed

theorem gateway_listeners_conflict_free_witness:
  "\<exists>g. build_gateway sample_env sample_name sample_pair None [] True () = Inr (g, ()) \<and>
     l_Valid (g_heap g ! 0) \<and> l_Valid (g_heap g ! 1) \<and>
     \<not> conflicting (gw_Listeners sample_pair ! 0) (gw_Listeners sample_pair ! 1)"
proof -
  obtain g where g: "build_gateway sample_env sample_name sample_pair None [] True () = Inr (g, ())"
    and v: "map l_Valid (g_heap g) = [True, True]" using sample_pair_built by (elim exE conjE)
  have "length (g_heap g) = 2" using arg_cong [OF v, of length] by simp
  then have valid: "l_Valid (g_heap g ! 0)" "l_Valid (g_heap g ! 1)"
    using arg_cong [OF v, of "\<lambda>xs. xs ! 0"] arg_cong [OF v, of "\<lambda>xs. xs ! 1"] by simp_all
  have "length (gw_Listeners sample_pair) = 2" by (simp add: sample_pair_def sample_gateway_def)
  then have len: "0 < length (gw_Listeners sample_pair)" "1 < length (gw_Listeners sample_pair)" by simp_all
  have "\<not> conflicting (gw_Listeners sample_pair ! 0) (gw_Listeners sample_pair ! 1)"
    by (rule gateway_listeners_conflict_free [OF g len _ valid]) simp
  with g valid show ?thesis by (intro exI conjI)
qed

text \<open>
  C4. Merging ListenerSets never harms the Gateway: starting from a built Gateway, after
  \<^verbatim>\<open>mergeGatewayAndListenerSetListeners\<close> every listener the Gateway had keeps its place and its
  validity, only valid listeners are added after them, and no two valid listeners on the Gateway
  conflict, be they of the Gateway or of different ListenerSets.
\<close>

theorem listenerset_merge_safe:
  assumes "build_gateway env n gw enp conds True res = Inr (g, res1)"
    and "mergeGatewayAndListenerSetListeners env g lss res1 = Inr (lss', g', res2)"
    and "list_all (\<lambda>ls. om_Name (vls_Meta (lset_Source ls)) \<noteq> '''') lss"
  shows "(\<exists>new. g_Listeners g' = g_Listeners g @ new \<and> list_all (\<lambda>i. l_Valid (g_heap g' ! i)) new) \<and>
    list_all (\<lambda>i. l_Valid (g_heap g' ! i) = l_Valid (g_heap g ! i)) (g_Listeners g) \<and>
    (\<forall>i j. i < length (g_heap g') \<and> j < length (g_heap g') \<and> i \<noteq> j \<and> l_Valid (g_heap g' ! i) \<and> l_Valid (g_heap g' ! j)
       \<longrightarrow> \<not> conflicting (l_Source (g_heap g' ! i)) (l_Source (g_heap g' ! j)))"
proof -
  have inv: "conflict_inv g" and s: "map l_Source (g_heap g) = gw_Listeners gw"
    and refs: "g_Listeners g = [0..<length (gw_Listeners gw)]"
    using build_gateway_inv [OF assms(1)] by simp_all
  have len: "length (g_heap g) = length (gw_Listeners gw)" using arg_cong [OF s, of length] by simp
  have ext: "gw_extends g g'"
    by (rule merge_extends [OF inv _ assms(2)]) (use assms(3) in \<open>simp add: list_all_iff\<close>)
  then have "conflict_inv g'" by (simp add: gw_extends_def)
  have "\<forall>i\<in>set (g_Listeners g). l_Valid (g_heap g' ! i) = l_Valid (g_heap g ! i)"
    using ext unfolding gw_extends_def refs len by simp
  moreover have "\<exists>new. g_Listeners g' = g_Listeners g @ new \<and> (\<forall>i\<in>set new. l_Valid (g_heap g' ! i))"
    using ext unfolding gw_extends_def by blast
  ultimately show ?thesis
    using conflict_inv_pairs [OF \<open>conflict_inv g'\<close>] unfolding list_all_iff by blast
qed

definition sample_listenerset :: "string \<Rightarrow> v1_Listener list \<Rightarrow> ListenerSet" where
  "sample_listenerset n ls = \<lparr>lset_Source = \<lparr>vls_Meta = \<lparr>om_CreationTimestamp = 0, om_Namespace = ''ns'', om_Name = n\<rparr>,
     vls_Generation = 1, vls_ParentRef = \<lparr>pgr_Name = ''gw'', pgr_Namespace = None\<rparr>, vls_Listeners = ls\<rparr>,
     lset_Gateway = sample_gateway [], lset_Listeners = [], lset_Conditions = [NewListenerSetAccepted], lset_Valid = True\<rparr>"

text \<open>A run of both functions: the listeners of the store with their validity, and those of the Gateway.\<close>

definition merge_run :: "v1_Listener list \<Rightarrow> ListenerSet list \<Rightarrow> (bool list \<times> nat list) go" where
  "merge_run ls lss =
     bind_go (build_gateway sample_env sample_name (sample_gateway ls) None [] True ())
       (\<lambda>(g, r). bind_go (mergeGatewayAndListenerSetListeners sample_env g lss r)
          (\<lambda>(_, g', _). Inr (map l_Valid (g_heap g'), g_Listeners g')))"

lemma merge_runD:
  assumes "merge_run ls lss = Inr (vs, refs)"
  shows "\<exists>g lss' g'. build_gateway sample_env sample_name (sample_gateway ls) None [] True () = Inr (g, ()) \<and>
    mergeGatewayAndListenerSetListeners sample_env g lss () = Inr (lss', g', ()) \<and> g_Listeners g' = refs"
  using assms by (auto simp: merge_run_def bind_go_Inr_iff)

definition sample_set_http :: "v1_Listener list" where
  "sample_set_http = [sample_listener ''a'' (Some ''a.com'') 80 HTTPProtocolType None]"

definition sample_sets :: "ListenerSet list" where
  "sample_sets =
     [sample_listenerset ''ls1'' [sample_listener ''b'' (Some ''b.com'') 80 HTTPSProtocolType (Some sample_tls)],
      sample_listenerset ''ls2'' [sample_listener ''c'' (Some ''c.com'') 80 HTTPProtocolType None]]"

lemma merge_run_ev: "merge_run sample_set_http sample_sets = Inr ([True, False, True], [0, 2])"
  by code_simp

theorem listenerset_merge_safe_witness:
  "\<exists>g lss' g'. build_gateway sample_env sample_name (sample_gateway sample_set_http) None [] True () = Inr (g, ()) \<and>
     mergeGatewayAndListenerSetListeners sample_env g sample_sets () = Inr (lss', g', ()) \<and>
     g_Listeners g' = [0, 2] \<and> list_all (\<lambda>i. l_Valid (g_heap g' ! i) = l_Valid (g_heap g ! i)) (g_Listeners g)"
proof -
  obtain g lss' g' where
    g: "build_gateway sample_env sample_name (sample_gateway sample_set_http) None [] True () = Inr (g, ())"
    and m: "mergeGatewayAndListenerSetListeners sample_env g sample_sets () = Inr (lss', g', ())"
    and l: "g_Listeners g' = [0, 2]"
    using merge_runD [OF merge_run_ev] by (elim exE conjE)
  have names: "list_all (\<lambda>ls. om_Name (vls_Meta (lset_Source ls)) \<noteq> '''') sample_sets"
    by (simp add: sample_sets_def sample_listenerset_def)
  note listenerset_merge_safe [OF g m names, THEN conjunct2, THEN conjunct1]
  with g m l show ?thesis by (intro exI conjI)
qed


definition explained :: "Listener \<Rightarrow> bool" where
  "explained l \<longleftrightarrow> l_Valid l \<or> l_Conditions l \<noteq> []"

lemma explained_degrades: "heap_degrades h h' \<Longrightarrow> list_all explained h \<Longrightarrow> list_all explained h'"
proof (induction rule: list_all2_induct)
  case (Cons l h l' h')
  then show ?case by (auto simp: degrades_def explained_def)
qed simp

lemma buildListeners_explained:
  assumes "conflict_inv gw" and "list_all explained (g_heap gw)" and "buildListeners env srcs gwn lsn (gw, res) = Inr (refs, gw', res')"
  shows "list_all explained (g_heap gw')"
proof -
  let ?f = "\<lambda>l (refs, s). bind_go (configure env gwn lsn l s) (\<lambda>s'. Inr (refs @ [length (g_heap (fst s))], s'))"
  let ?I = "\<lambda>(refs :: nat list, s). conflict_inv (fst s) \<and> list_all explained (g_heap (fst s))"
  have "?I (refs, gw', res')"
  proof (rule fold_go_invariant [where I = ?I and f = ?f and xs = srcs])
    show "fold_go ?f srcs ([], gw, res) = Inr (refs, gw', res')" using assms(3) by (simp add: buildListeners_def)
    show "?I ([], gw, res)" using assms by simp
  next
    fix l s t assume I: "?I s" and f: "?f l s = Inr t"
    obtain rs g r where s: "s = (rs, g, r)" by (cases s)
    from f obtain g' r' where c: "configure env gwn lsn l (g, r) = Inr (g', r')" and t: "t = (rs @ [length (g_heap g)], g', r')"
      by (auto simp: s bind_go_Inr_iff)
    from configure_configured [OF _ c] I obtain l0
      where n: "new_listener env (lf_protectedPorts (g_ListenerFactory g)) l gwn lsn = Inr l0" and k: "configured l0 g g'"
      by (auto simp: s)
    have "list_all explained (g_heap g @ [l0])"
      using I new_listener_fields [OF n] by (auto simp: s explained_def)
    with k show "?I t" by (auto simp: t configured_def dest: explained_degrades)
  qed
  then show ?thesis by simp
qed

text \<open>
  C23. Every rejection of a listener is reported: in a built Gateway a listener that is not valid has at
  least one status condition.
\<close>

theorem gateway_rejections_explained:
  assumes "build_gateway env n gw enp conds True res = Inr (g, res')" and "l \<in> set (g_heap g)"
  shows "l_Valid l \<or> l_Conditions l \<noteq> []"
proof -
  obtain refs g1 where b: "buildListeners env (gw_Listeners gw) n noName (new_gateway gw enp conds True, res) = Inr (refs, g1, res')"
    and g: "g = g1\<lparr>g_Listeners := refs\<rparr>"
    using assms(1) by (auto simp: build_gateway_def bind_go_Inr_iff)
  have "conflict_inv (new_gateway gw enp conds True)"
    by (simp add: conflict_inv_def heap_inv_def port_inv_def new_gateway_def newListenerConfiguratorFactory_def
        createPortConflictResolver_def)
  from buildListeners_explained [OF this _ b] assms(2) g show ?thesis
    by (auto simp: list_all_iff explained_def new_gateway_def)
qed

definition sample_clash :: v1_Gateway where
  "sample_clash = sample_gateway
     [sample_listener ''a'' None 80 HTTPProtocolType None, sample_listener ''b'' None 80 TCPProtocolType None]"

lemma sample_clash_built:
  "\<exists>g. build_gateway sample_env sample_name sample_clash None [] True () = Inr (g, ()) \<and> map l_Valid (g_heap g) = [False, False]"
proof -
  have "case build_gateway sample_env sample_name sample_clash None [] True () of
      Inl _ \<Rightarrow> False | Inr (g, _) \<Rightarrow> map l_Valid (g_heap g) = [False, False]"
    by code_simp
  then show ?thesis by (auto split: sum.splits)
qed

theorem gateway_rejections_explained_witness:
  "\<exists>g. build_gateway sample_env sample_name sample_clash None [] True () = Inr (g, ()) \<and>
     \<not> l_Valid (g_heap g ! 0) \<and> l_Conditions (g_heap g ! 0) \<noteq> []"
proof -
  obtain g where g: "build_gateway sample_env sample_name sample_clash None [] True () = Inr (g, ())"
    and v: "map l_Valid (g_heap g) = [False, False]" using sample_clash_built by (elim exE conjE)
  have "length (g_heap g) = 2" using arg_cong [OF v, of length] by simp
  then have mem: "g_heap g ! 0 \<in> set (g_heap g)" and bad: "\<not> l_Valid (g_heap g ! 0)"
    using arg_cong [OF v, of "\<lambda>xs. xs ! 0"] by simp_all
  have "l_Conditions (g_heap g ! 0) \<noteq> []"
    using gateway_rejections_explained [OF g mem] bad by (elim disjE) simp_all
  with g bad show ?thesis by (intro exI conjI)
qed

end
