(* ===== verification/Routes.thy ===== *)
theory Routes
  imports ListenerSets FilterAPI
begin

text \<open>
  The data of the routes of the graph (\<^verbatim>\<open>route_common.go\<close>, \<^verbatim>\<open>backend_refs.go\<close>, \<^verbatim>\<open>common_filter.go\<close>,
  \<^verbatim>\<open>backend_tls_policy.go\<close>, \<^verbatim>\<open>inferencepools.go\<close>) and of the Kubernetes resources they refer to, with the
  fields the modelled code uses.
\<close>

section \<open>Resources\<close>

record ParentReference =
  pref_Group :: "string option"
  pref_Kind :: "string option"
  pref_Namespace :: "string option"
  pref_Name :: string
  pref_SectionName :: "string option"
  pref_Port :: "int option"

record v1_BackendRef =
  vbr_Group :: "string option"
  vbr_Kind :: "string option"
  vbr_Name :: string
  vbr_Namespace :: "string option"
  vbr_Port :: "int option"
  vbr_Weight :: "int option"

datatype int_or_string = IntVal int | StrVal string

record ServicePort =
  sp_Name :: string
  sp_Port :: int
  sp_TargetPort :: int_or_string
  sp_AppProtocol :: "string option"

abbreviation zeroServicePort :: ServicePort where
  "zeroServicePort \<equiv> \<lparr>sp_Name = '''', sp_Port = 0, sp_TargetPort = IntVal 0, sp_AppProtocol = None\<rparr>"

datatype ServiceType = ServiceTypeExternalName | OtherServiceType string

record Service =
  svc_Name :: string
  svc_Type :: ServiceType
  svc_ExternalName :: string
  svc_Ports :: "ServicePort list"

type_synonym services = "NamespacedName \<rightharpoonup> Service"

record EndpointPickerConfig =
  epc_EndpointPickerRef :: "EndpointPickerRef option"
  epc_NsName :: string

record ReferencedInferencePool =
  rip_TargetPorts :: "int list"
  rip_EndpointPickerRef :: EndpointPickerRef
  rip_Valid :: bool

section \<open>Backend TLS policies\<close>

record LocalObjectReference =
  lor_Group :: string
  lor_Kind :: string
  lor_Name :: string

record PolicyTargetRef =
  ptr_Name :: string
  ptr_SectionName :: "string option"

text \<open>
  \<^verbatim>\<open>WellKnownCACertificates\<close> is a pointer, and the code compares the pointers: it is modelled with its address.
\<close>

type_synonym 'a pointer = "(nat \<times> 'a) option"

record v1_BackendTLSPolicy =
  vbtp_Meta :: ObjectMeta
  vbtp_TargetRefs :: "PolicyTargetRef list"
  vbtp_CACertificateRefs :: "LocalObjectReference list"
  vbtp_WellKnownCACertificates :: "string pointer"
  vbtp_Hostname :: string

record BackendTLSPolicy =
  btp_Source :: v1_BackendTLSPolicy
  btp_CaCertRef :: NamespacedName
  btp_Gateways :: "NamespacedName list"
  btp_Conditions :: "Condition list"
  btp_Valid :: bool
  btp_IsReferenced :: bool
  btp_Ignored :: bool

text \<open>The policies of the graph; a pointer to a policy is its key.\<close>

type_synonym policies = "(NamespacedName \<times> BackendTLSPolicy) list"

section \<open>Routes\<close>

record ParentRefAttachmentStatus =
  at_AcceptedHostnames :: "(string \<times> string list) list"
  at_FailedConditions :: "Condition list"
  at_ListenerPort :: int
  at_Attached :: bool

record ParentRef =
  pf_Attachment :: "ParentRefAttachmentStatus option"
  pf_SectionName :: "string option"
  pf_Port :: "int option"
  pf_EffectiveNginxProxy :: "EffectiveNginxProxy option"
  pf_NamespacedName :: NamespacedName
  pf_GatewayNsName :: NamespacedName
  pf_Kind :: string
  pf_Idx :: nat

record SessionPersistenceConfig =
  spc_Name :: string
  spc_Expiry :: string
  spc_SessionType :: string
  spc_Path :: string
  spc_Idx :: string
  spc_Valid :: bool

record BackendRef =
  br_BackendTLSPolicy :: "NamespacedName option"
  br_EndpointPickerConfig :: EndpointPickerConfig
  br_InvalidForGateways :: "NamespacedName \<rightharpoonup> Condition"
  br_SessionPersistence :: "SessionPersistenceConfig option"
  br_SvcNsName :: NamespacedName
  br_ServicePort :: ServicePort
  br_Weight :: int
  br_Valid :: bool
  br_IsMirrorBackend :: bool
  br_IsExternalAuthBackend :: bool
  br_IsInferencePool :: bool

text \<open>Of the backendRef filters only the number is read.\<close>

record RouteBackendRef =
  rbr_BackendRef :: v1_BackendRef
  rbr_MirrorBackendIdx :: "nat option"
  rbr_ExternalAuthBackendIdx :: "nat option"
  rbr_EndpointPickerConfig :: EndpointPickerConfig
  rbr_InferencePoolName :: string
  rbr_SessionPersistence :: "SessionPersistenceConfig option"
  rbr_nFilters :: nat
  rbr_IsInferencePool :: bool

record RouteRuleFilters =
  rrf_Filters :: "Filter list"
  rrf_Valid :: bool

record RouteRule =
  rr_RouteBackendRefs :: "RouteBackendRef list"
  rr_BackendRefs :: "BackendRef list"
  rr_Matches :: "v1_HTTPRouteMatch list"
  rr_Filters :: RouteRuleFilters
  rr_ValidMatches :: bool

record L7Route =
  l7_Source :: ObjectMeta
  l7_Generation :: int
  l7_RouteType :: RouteType
  l7_Hostnames :: "string list"
  l7_Rules :: "RouteRule list"
  l7_ParentRefs :: "ParentRef list"
  l7_Policies :: "Policy list"
  l7_Conditions :: "Condition list"
  l7_Valid :: bool
  l7_Attachable :: bool

record L4Route =
  l4_Source :: ObjectMeta
  l4_Generation :: int
  l4_RouteType :: RouteType
  l4_Hostnames :: "string list"
  l4_BackendRefs :: "BackendRef list"
  l4_BackendRef :: BackendRef
  l4_ParentRefs :: "ParentRef list"
  l4_Conditions :: "Condition list"
  l4_Valid :: bool
  l4_Attachable :: bool

definition GetBackendRefs :: "L4Route \<Rightarrow> BackendRef list" where
  "GetBackendRefs r = (if l4_BackendRefs r \<noteq> [] then l4_BackendRefs r else [l4_BackendRef r])"

definition RouteType_string :: "RouteType \<Rightarrow> string" where
  "RouteType_string t =
     (case t of RouteTypeHTTP \<Rightarrow> ''http'' | RouteTypeGRPC \<Rightarrow> ''grpc'' | RouteTypeTLS \<Rightarrow> ''tls''
      | RouteTypeTCP \<Rightarrow> ''tcp'' | RouteTypeUDP \<Rightarrow> ''udp'')"

text \<open>The type of a route object decides its route type; other types panic.\<close>

definition CreateRouteKey :: "ObjectMeta \<Rightarrow> RouteType \<Rightarrow> RouteKey go" where
  "CreateRouteKey obj t =
     (if t = RouteTypeHTTP \<or> t = RouteTypeGRPC then Inr \<lparr>rk_NamespacedName = object_key obj, rk_RouteType = t\<rparr>
      else Inl (Panic ''Unknown type''))"

definition CreateRouteKeyL4 :: "ObjectMeta \<Rightarrow> RouteType \<Rightarrow> L4RouteKey go" where
  "CreateRouteKeyL4 obj t =
     (if t = RouteTypeTLS \<or> t = RouteTypeTCP \<or> t = RouteTypeUDP then
        Inr \<lparr>l4k_NamespacedName = object_key obj, l4k_RouteType = t\<rparr>
      else Inl (Panic ''Unknown type''))"

definition CreateParentRefListenerKey :: "NamespacedName \<Rightarrow> string \<Rightarrow> string" where
  "CreateParentRefListenerKey parentRefNsName listenerName =
     nn_Namespace parentRefNsName @ ''/'' @ nn_Name parentRefNsName @ ''/'' @ listenerName"

definition CreateParentRefListenerKeyFromListener :: "Listener \<Rightarrow> string" where
  "CreateParentRefListenerKeyFromListener listener =
     (if nn_Name (l_ListenerSetName listener) \<noteq> '''' then CreateParentRefListenerKey (l_ListenerSetName listener) (l_Name listener)
      else CreateParentRefListenerKey (l_GatewayName listener) (l_Name listener))"

end
