(* ===== verification/BackendRefs.thy ===== *)
theory BackendRefs
  imports Routes
begin

text \<open>
  References from routes to backends: \<^verbatim>\<open>internal/controller/state/graph/backend_refs.go\<close>. Validation of a
  reference, the search for the BackendTLSPolicy of a Service, \<^verbatim>\<open>createBackendRef\<close> and
  \<^verbatim>\<open>addBackendRefsToRules\<close>. The policies are changed through pointers; they are threaded as a store.
\<close>

section \<open>Names\<close>

definition BaseServicePortKey :: "BackendRef \<Rightarrow> string" where
  "BaseServicePortKey b =
     nn_Namespace (br_SvcNsName b) @ ''_'' @ nn_Name (br_SvcNsName b) @ ''_'' @ show_int (sp_Port (br_ServicePort b))"

definition ServicePortReference :: "BackendRef \<Rightarrow> string" where
  "ServicePortReference b =
     (if \<not> br_Valid b then ''''
      else
        (let base = BaseServicePortKey b in
         case br_SessionPersistence b of
           None \<Rightarrow> base
         | Some sp \<Rightarrow> (if spc_Name sp = '''' then base else base @ ''_'' @ spc_Idx sp)))"

section \<open>Validation\<close>

text \<open>A weight is an \<open>int32\<close>; it is only compared.\<close>

definition validateWeight :: "int \<Rightarrow> string option" where
  "validateWeight weight =
     (if weight < 0 \<or> weight > 1000000 then Some ''must be in the range [0, 1000000]'' else None)"

definition weight_cond :: "k8s \<Rightarrow> v1_BackendRef \<Rightarrow> field_path \<Rightarrow> bool \<times> Condition" where
  "weight_cond k ref path =
     (case vbr_Weight ref of
        None \<Rightarrow> (True, emptyCondition)
      | Some w \<Rightarrow>
          (case validateWeight w of
             None \<Rightarrow> (True, emptyCondition)
           | Some err \<Rightarrow>
               (False, NewRouteBackendRefUnsupportedValue (k_Error k (Invalid (path @ [Child ''weight'']) (FInt w) err)))))"

definition port_nil_cond :: "k8s \<Rightarrow> field_path \<Rightarrow> Condition" where
  "port_nil_cond k path =
     NewRouteBackendRefUnsupportedValue (k_Error k (Required (path @ [Child ''port'']) ''port cannot be nil''))"

definition not_permitted_cond :: "k8s \<Rightarrow> string \<Rightarrow> NamespacedName \<Rightarrow> field_path \<Rightarrow> Condition" where
  "not_permitted_cond k kind name path =
     NewRouteBackendRefRefNotPermitted
       (k_Error k (Forbidden (path @ [Child ''namespace''])
          (''Backend ref to '' @ kind @ '' '' @ nn_String name @ '' not permitted by any ReferenceGrant'')))"

definition validateBackendRef ::
  "k8s \<Rightarrow> v1_BackendRef \<Rightarrow> string \<Rightarrow> (toResource \<Rightarrow> bool) \<Rightarrow> field_path \<Rightarrow> bool \<times> Condition" where
  "validateBackendRef k ref routeNs refGrantResolver path =
     (let grp = deref_or '''' (vbr_Group ref); kind = deref_or ''Service'' (vbr_Kind ref);
          ns = deref_or routeNs (vbr_Namespace ref); refNsName = nsname ns (vbr_Name ref)
      in if grp \<noteq> ''core'' \<and> grp \<noteq> '''' then
           (False, NewRouteBackendRefInvalidKind
              (k_Error k (NotSupported (path @ [Child ''group'']) (FStr grp) [''core'', ''''])))
         else if kind \<noteq> ''Service'' then
           (False, NewRouteBackendRefInvalidKind
              (k_Error k (NotSupported (path @ [Child ''kind'']) (FStr kind) [''Service''])))
         else if ns \<noteq> routeNs \<and> \<not> refGrantResolver (toService refNsName) then
           (False, not_permitted_cond k ''Service'' refNsName path)
         else if vbr_Port ref = None then (False, port_nil_cond k path)
         else weight_cond k ref path)"

definition validateBackendRefHTTPRouteGroupKind :: "k8s \<Rightarrow> v1_BackendRef \<Rightarrow> field_path \<Rightarrow> bool \<times> Condition" where
  "validateBackendRefHTTPRouteGroupKind k ref path =
     (let optval = (\<lambda>p. case p of None \<Rightarrow> FNil | Some s \<Rightarrow> FStr s) in
      case vbr_Group ref of
        Some grp \<Rightarrow>
          (if grp \<noteq> ''core'' \<and> grp \<noteq> '''' \<and> grp \<noteq> inferenceAPIGroup then
             (False, NewRouteBackendRefInvalidKind
                (k_Error k (NotSupported (path @ [Child ''group'']) (FStr grp) [''core'', '''', inferenceAPIGroup])))
           else if grp = inferenceAPIGroup \<and> vbr_Kind ref \<noteq> Some ''InferencePool'' then
             (False, NewRouteBackendRefInvalidKind
                (k_Error k (Invalid (path @ [Child ''kind'']) (optval (vbr_Kind ref))
                   (''kind must be InferencePool when group is '' @ inferenceAPIGroup))))
           else
             (case vbr_Kind ref of
                None \<Rightarrow> (True, emptyCondition)
              | Some kind \<Rightarrow>
                  (if kind \<noteq> ''Service'' \<and> kind \<noteq> ''InferencePool'' then
                     (False, NewRouteBackendRefInvalidKind
                        (k_Error k (NotSupported (path @ [Child ''kind'']) (FStr kind) [''Service'', ''InferencePool''])))
                   else if kind = ''InferencePool'' \<and> grp \<noteq> inferenceAPIGroup then
                     (False, NewRouteBackendRefInvalidKind
                        (k_Error k (Invalid (path @ [Child ''group'']) (FStr grp)
                           (''group must be '' @ inferenceAPIGroup @ '' when kind is InferencePool''))))
                   else (True, emptyCondition))))
      | None \<Rightarrow>
          (case vbr_Kind ref of
             None \<Rightarrow> (True, emptyCondition)
           | Some kind \<Rightarrow>
               (if kind \<noteq> ''Service'' \<and> kind \<noteq> ''InferencePool'' then
                  (False, NewRouteBackendRefInvalidKind
                     (k_Error k (NotSupported (path @ [Child ''kind'']) (FStr kind) [''Service'', ''InferencePool''])))
                else if kind = ''InferencePool'' then
                  (False, NewRouteBackendRefInvalidKind
                     (k_Error k (Invalid (path @ [Child ''group'']) FNil
                        (''group must be '' @ inferenceAPIGroup @ '' when kind is InferencePool''))))
                else (True, emptyCondition))))"

definition validateBackendRefHTTPRoute ::
  "k8s \<Rightarrow> RouteBackendRef \<Rightarrow> string \<Rightarrow> (toResource \<Rightarrow> bool) \<Rightarrow> field_path \<Rightarrow> bool \<times> Condition" where
  "validateBackendRefHTTPRoute k rref routeNs refGrantResolver path =
     (let ref = rbr_BackendRef rref in
      case validateBackendRefHTTPRouteGroupKind k ref path of
        (False, cond) \<Rightarrow> (False, cond)
      | (True, _) \<Rightarrow>
          (let ns = deref_or routeNs (vbr_Namespace ref);
               pool = (if vbr_Kind ref = Some ''InferencePool'' then Some (nsname ns (vbr_Name ref))
                       else if rbr_IsInferencePool rref then Some (nsname ns (rbr_InferencePoolName rref))
                       else None);
               denied =
                 (if ns = routeNs then None
                  else case pool of
                    None \<Rightarrow>
                      (if \<not> refGrantResolver (toService (nsname ns (vbr_Name ref)))
                       then Some (not_permitted_cond k ''Service'' (nsname ns (vbr_Name ref)) path) else None)
                  | Some p \<Rightarrow>
                      (if \<not> refGrantResolver (toInferencePool p)
                       then Some (not_permitted_cond k ''InferencePool'' p path) else None))
           in case denied of
                Some cond \<Rightarrow> (False, cond)
              | None \<Rightarrow>
                  (if vbr_Port ref = None \<and> (vbr_Kind ref = None \<or> vbr_Kind ref = Some ''Service'') then
                     (False, port_nil_cond k path)
                   else weight_cond k ref path)))"

definition validateRouteBackendRef ::
  "k8s \<Rightarrow> RouteType \<Rightarrow> RouteBackendRef \<Rightarrow> string \<Rightarrow> (toResource \<Rightarrow> bool) \<Rightarrow> field_path \<Rightarrow> bool \<times> Condition" where
  "validateRouteBackendRef k routeType ref routeNs refGrantResolver path =
     (if rbr_nFilters ref > 0 then
        (False, NewRouteBackendRefUnsupportedValue
           (k_Error k (TooMany (path @ [Child ''filters'']) (rbr_nFilters ref) 0)))
      else if routeType = RouteTypeHTTP then validateBackendRefHTTPRoute k ref routeNs refGrantResolver path
      else validateBackendRef k (rbr_BackendRef ref) routeNs refGrantResolver path)"

definition validateRouteBackendRefAppProtocol :: "RouteType \<Rightarrow> string \<Rightarrow> bool \<Rightarrow> string option" where
  "validateRouteBackendRefAppProtocol routeType appProtocol hasPolicy =
     (let err = ''The Route type '' @ RouteType_string routeType @ '' does not support service port appProtocol '' @ appProtocol in
      if appProtocol = ''kubernetes.io/h2c'' then
        (if routeType = RouteTypeGRPC \<or> routeType = RouteTypeHTTP then None else Some err)
      else if appProtocol = ''kubernetes.io/ws'' then (if routeType = RouteTypeHTTP then None else Some err)
      else if appProtocol = ''kubernetes.io/wss'' then
        (if routeType = RouteTypeHTTP then
           (if hasPolicy then None else Some (err @ ''; missing corresponding BackendTLSPolicy''))
         else if routeType = RouteTypeTLS then None
         else Some err)
      else None)"

definition getServicePort :: "Service \<Rightarrow> int \<Rightarrow> string + ServicePort" where
  "getServicePort svc port =
     (case find (\<lambda>p. sp_Port p = port) (svc_Ports svc) of
        Some p \<Rightarrow> Inr p
      | None \<Rightarrow> Inl (''No matching port for Service '' @ svc_Name svc @ '' and port '' @ show_int port))"

definition getPortFromRef ::
  "k8s \<Rightarrow> v1_BackendRef \<Rightarrow> NamespacedName \<Rightarrow> services \<Rightarrow> field_path \<Rightarrow> (string + ServicePort) go" where
  "getPortFromRef k ref svcNsName svcs refPath =
     (case svcs svcNsName of
        None \<Rightarrow> Inr (Inl (k_Error k (NotFound (refPath @ [Child ''name'']) (FStr (vbr_Name ref)))))
      | Some svc \<Rightarrow>
          (case vbr_Port ref of None \<Rightarrow> Inl NilDeref | Some port \<Rightarrow> Inr (getServicePort svc port)))"

definition checkExternalNameValidForGateways ::
  "ParentRef list \<Rightarrow> (NamespacedName \<rightharpoonup> Condition) \<Rightarrow> (NamespacedName \<rightharpoonup> Condition)" where
  "checkExternalNameValidForGateways parentRefs invalidForGateways =
     fold (\<lambda>parentRef m.
         if Option.bind (pf_EffectiveNginxProxy parentRef) enp_DNSResolver = None then
           m(pf_GatewayNsName parentRef \<mapsto>
             NewRouteBackendRefUnsupportedValue
               ''ExternalName service requires DNS resolver configuration in Gateway's NginxProxy'')
         else m)
       parentRefs invalidForGateways"

section \<open>The policy of a Service\<close>

definition targets_service :: "string \<Rightarrow> string \<Rightarrow> ServicePort \<Rightarrow> BackendTLSPolicy \<Rightarrow> PolicyTargetRef \<Rightarrow> bool" where
  "targets_service refNs refName servicePort btp targetRef \<longleftrightarrow>
     ptr_Name targetRef = refName \<and> om_Namespace (vbtp_Meta (btp_Source btp)) = refNs \<and>
     (case ptr_SectionName targetRef of None \<Rightarrow> True | Some s \<Rightarrow> sp_Name servicePort = s)"

abbreviation policy_less :: "BackendTLSPolicy \<Rightarrow> BackendTLSPolicy \<Rightarrow> bool" where
  "policy_less \<equiv> LessClientObject (\<lambda>p. vbtp_Meta (btp_Source p))"

definition policy_target_step ::
  "string \<Rightarrow> string \<Rightarrow> ServicePort \<Rightarrow> NamespacedName \<times> BackendTLSPolicy \<Rightarrow> PolicyTargetRef
    \<Rightarrow> (NamespacedName \<times> BackendTLSPolicy) option \<times> NamespacedName list
    \<Rightarrow> (NamespacedName \<times> BackendTLSPolicy) option \<times> NamespacedName list" where
  "policy_target_step refNs refName servicePort kp targetRef s =
     (if targets_service refNs refName servicePort (snd kp) targetRef then
        (case fst s of
           None \<Rightarrow> (Some kp, snd s)
         | Some winner \<Rightarrow>
             (if policy_less (snd kp) (snd winner) then (Some kp, snd s @ [fst winner])
              else (Some winner, snd s @ [fst kp])))
      else s)"

definition policy_scan ::
  "string \<Rightarrow> string \<Rightarrow> ServicePort \<Rightarrow> policies \<Rightarrow> (NamespacedName \<times> BackendTLSPolicy) option \<times> NamespacedName list" where
  "policy_scan refNs refName servicePort ps =
     fold (\<lambda>kp. fold (policy_target_step refNs refName servicePort kp) (vbtp_TargetRefs (btp_Source (snd kp)))) ps (None, [])"

definition upd_policy :: "NamespacedName \<Rightarrow> (BackendTLSPolicy \<Rightarrow> BackendTLSPolicy) \<Rightarrow> policies \<Rightarrow> policies" where
  "upd_policy key f ps = map (\<lambda>(k, p). (k, if k = key then f p else p)) ps"

definition mark_conflicted :: "BackendTLSPolicy \<Rightarrow> BackendTLSPolicy" where
  "mark_conflicted p =
     p\<lparr>btp_IsReferenced := True,
       btp_Conditions := btp_Conditions p @
         [NewPolicyConflicted ''Conflicts with another BackendTLSPolicy targeting the same Service'']\<rparr>"

text \<open>What happens to the policy that applies: it is referenced, and it is in error or accepted.\<close>

definition settle_policy :: "NamespacedName \<Rightarrow> policies \<Rightarrow> (NamespacedName option \<times> string option \<times> policies) go" where
  "settle_policy key ps =
     (let ps' = upd_policy key (\<lambda>p. p\<lparr>btp_IsReferenced := True\<rparr>) ps in
      case map_of ps' key of
        None \<Rightarrow> Inl NilDeref
      | Some p \<Rightarrow>
          (if \<not> btp_Valid p then
             (case btp_Conditions p of
                [] \<Rightarrow> Inl (Panic ''index out of range'')
              | c # _ \<Rightarrow> Inr (Some key, Some (''The BackendTLSPolicy is invalid: '' @ c_Message c), ps'))
           else Inr (Some key, None,
             upd_policy key (\<lambda>p. p\<lparr>btp_Conditions := btp_Conditions p @ [NewPolicyAccepted]\<rparr>) ps')))"

definition findBackendTLSPolicyForService ::
  "policies \<Rightarrow> string option \<Rightarrow> string \<Rightarrow> string \<Rightarrow> ServicePort \<Rightarrow> (NamespacedName option \<times> string option \<times> policies) go" where
  "findBackendTLSPolicyForService ps refNamespace refName routeNamespace servicePort =
     (let refNs = deref_or routeNamespace refNamespace;
          (winner, conflicting) = policy_scan refNs refName servicePort ps;
          ps1 = fold (\<lambda>key. upd_policy key mark_conflicted) conflicting ps
      in case winner of
           None \<Rightarrow> Inr (None, None, ps1)
         | Some (key, _) \<Rightarrow> settle_policy key ps1)"

text \<open>The name is misleading: the function answers true when the two policies differ.\<close>

definition checkPoliciesEqual :: "v1_BackendTLSPolicy \<Rightarrow> v1_BackendTLSPolicy \<Rightarrow> bool" where
  "checkPoliciesEqual p1 p2 \<longleftrightarrow>
     vbtp_CACertificateRefs p1 \<noteq> vbtp_CACertificateRefs p2 \<or>
     map_option fst (vbtp_WellKnownCACertificates p1) \<noteq> map_option fst (vbtp_WellKnownCACertificates p2) \<or>
     vbtp_Hostname p1 \<noteq> vbtp_Hostname p2"

fun policies_mismatch :: "BackendTLSPolicy option list \<Rightarrow> BackendTLSPolicy option \<Rightarrow> bool" where
  "policies_mismatch [] ref = False"
| "policies_mismatch (None # ps) ref = (if ref \<noteq> None then True else policies_mismatch ps ref)"
| "policies_mismatch (Some p # ps) None = policies_mismatch ps (Some p)"
| "policies_mismatch (Some p # ps) (Some q) =
     (if checkPoliciesEqual (btp_Source p) (btp_Source q) then True else policies_mismatch ps (Some q))"

definition validateBackendTLSPolicyMatchingAllBackends :: "policies \<Rightarrow> BackendRef list \<Rightarrow> Condition option" where
  "validateBackendTLSPolicyMatchingAllBackends ps backendRefs =
     (if policies_mismatch (map (\<lambda>b. Option.bind (br_BackendTLSPolicy b) (map_of ps)) backendRefs) None
      then Some (NewRouteBackendRefUnsupportedValue ''Backend TLS policies do not match for all backends'')
      else None)"

section \<open>Creating a backend reference\<close>

definition ref_weight :: "v1_BackendRef \<Rightarrow> int" where
  "ref_weight ref =
     (case vbr_Weight ref of None \<Rightarrow> 1 | Some w \<Rightarrow> (if validateWeight w \<noteq> None then 0 else w))"

definition mk_backend_ref ::
  "RouteBackendRef \<Rightarrow> bool \<Rightarrow> NamespacedName \<Rightarrow> ServicePort \<Rightarrow> NamespacedName option \<Rightarrow> (NamespacedName \<rightharpoonup> Condition)
    \<Rightarrow> SessionPersistenceConfig option \<Rightarrow> BackendRef" where
  "mk_backend_ref ref valid svcNsName port policy invalidForGateways sp =
     \<lparr>br_BackendTLSPolicy = policy, br_EndpointPickerConfig = rbr_EndpointPickerConfig ref,
      br_InvalidForGateways = invalidForGateways, br_SessionPersistence = sp, br_SvcNsName = svcNsName,
      br_ServicePort = port, br_Weight = ref_weight (rbr_BackendRef ref), br_Valid = valid,
      br_IsMirrorBackend = (rbr_MirrorBackendIdx ref \<noteq> None),
      br_IsExternalAuthBackend = (rbr_ExternalAuthBackendIdx ref \<noteq> None),
      br_IsInferencePool = rbr_IsInferencePool ref\<rparr>"

definition createBackendRef ::
  "k8s \<Rightarrow> RouteBackendRef \<Rightarrow> L7Route \<Rightarrow> (toResource \<Rightarrow> bool) \<Rightarrow> services \<Rightarrow> field_path \<Rightarrow> policies
    \<Rightarrow> (BackendRef \<times> Condition list \<times> policies) go" where
  "createBackendRef k ref route refGrantResolver svcs refPath ps =
     (let routeNs = om_Namespace (l7_Source route); vref = rbr_BackendRef ref in
      case validateRouteBackendRef k (l7_RouteType route) ref routeNs refGrantResolver refPath of
        (False, cond) \<Rightarrow> Inr (mk_backend_ref ref False noName zeroServicePort None Map.empty None, [cond], ps)
      | (True, _) \<Rightarrow>
          (let svcNsName = nsname (deref_or routeNs (vbr_Namespace vref)) (vbr_Name vref) in
           bind_go (getPortFromRef k vref svcNsName svcs refPath) (\<lambda>portOrErr.
             case portOrErr of
               Inl err \<Rightarrow>
                 Inr (mk_backend_ref ref False svcNsName zeroServicePort None Map.empty None,
                      [NewRouteBackendRefRefBackendNotFound err], ps)
             | Inr svcPort \<Rightarrow>
                 (let svc = svcs svcNsName;
                      external = (case svc of None \<Rightarrow> False | Some s \<Rightarrow> svc_Type s = ServiceTypeExternalName);
                      invalid = (if external then checkExternalNameValidForGateways (l7_ParentRefs route) Map.empty else Map.empty)
                  in if external \<and> (case svc of None \<Rightarrow> False | Some s \<Rightarrow> list_all is_space (svc_ExternalName s)) then
                       Inr (mk_backend_ref ref False svcNsName svcPort None invalid None,
                            [NewRouteBackendRefUnsupportedValue ''ExternalName service has empty or invalid externalName field''], ps)
                     else
                       bind_go (findBackendTLSPolicyForService ps (vbr_Namespace vref) (vbr_Name vref) routeNs svcPort)
                         (\<lambda>(policy, err, ps').
                           case err of
                             Some e \<Rightarrow>
                               Inr (mk_backend_ref ref False svcNsName svcPort None invalid None,
                                    [NewRouteBackendRefUnsupportedValue e], ps')
                           | None \<Rightarrow>
                               (case Option.bind (sp_AppProtocol svcPort)
                                       (\<lambda>a. validateRouteBackendRefAppProtocol (l7_RouteType route) a (policy \<noteq> None)) of
                                  Some e \<Rightarrow>
                                    Inr (mk_backend_ref ref False svcNsName svcPort policy invalid None,
                                         [NewRouteBackendRefUnsupportedProtocol e], ps')
                                | None \<Rightarrow>
                                    Inr (mk_backend_ref ref True svcNsName svcPort policy invalid (rbr_SessionPersistence ref),
                                         [], ps')))))))"

section \<open>The backends of a route\<close>

definition getRefGrantFromResourceForRoute :: "RouteType \<Rightarrow> string \<Rightarrow> fromResource go" where
  "getRefGrantFromResourceForRoute routeType routeNs =
     (case routeType of
        RouteTypeHTTP \<Rightarrow> Inr (fromHTTPRoute routeNs)
      | RouteTypeGRPC \<Rightarrow> Inr (fromGRPCRoute routeNs)
      | _ \<Rightarrow> Inl (Panic (''unknown route type '' @ RouteType_string routeType)))"

definition backend_ref_path :: "nat \<Rightarrow> nat \<Rightarrow> RouteBackendRef \<Rightarrow> field_path" where
  "backend_ref_path idx refIdx ref =
     (let basePath = [Child ''spec'', Child ''rules'', Index idx] in
      case rbr_MirrorBackendIdx ref of
        Some i \<Rightarrow> basePath @ [Child ''filters'', Index i, Child ''backendRef'']
      | None \<Rightarrow>
          (case rbr_ExternalAuthBackendIdx ref of
             Some i \<Rightarrow> basePath @ [Child ''filters'', Index i, Child ''externalAuth'', Child ''backendRef'']
           | None \<Rightarrow> basePath @ [Child ''backendRefs'', Index refIdx]))"

datatype pool_result = PoolSkip Condition | PoolRef RouteBackendRef

definition resolve_pool ::
  "(NamespacedName \<rightharpoonup> ReferencedInferencePool) \<Rightarrow> string \<Rightarrow> RouteBackendRef \<Rightarrow> pool_result go" where
  "resolve_pool pools routeNs ref =
     (if \<not> rbr_IsInferencePool ref then Inr (PoolRef ref)
      else
        (let poolName = nsname (deref_or routeNs (vbr_Namespace (rbr_BackendRef ref))) (rbr_InferencePoolName ref) in
         case pools poolName of
           None \<Rightarrow> Inr (PoolRef ref)
         | Some pool \<Rightarrow>
             (if \<not> rip_Valid pool then
                Inr (PoolSkip (NewRouteBackendRefInvalidInferencePool
                  (''Referenced InferencePool '' @ nn_Namespace poolName @ ''/'' @ nn_Name poolName @ '' is invalid'')))
              else case rip_TargetPorts pool of
                [] \<Rightarrow> Inl (Panic ''index out of range'')
              | port # _ \<Rightarrow>
                  Inr (PoolRef (ref\<lparr>rbr_BackendRef := (rbr_BackendRef ref)\<lparr>vbr_Port := Some port\<rparr>,
                    rbr_EndpointPickerConfig := \<lparr>epc_EndpointPickerRef = Some (rip_EndpointPickerRef pool),
                      epc_NsName = nn_Namespace poolName\<rparr>\<rparr>)))))"

record backend_env =
  be_k8s :: k8s
  be_refGrants :: referenceGrantResolver
  be_services :: services
  be_pools :: "NamespacedName \<rightharpoonup> ReferencedInferencePool"

text \<open>One round of the inner loop: the backends so far, the route and the policies are its state.\<close>

definition add_backend_ref ::
  "backend_env \<Rightarrow> nat \<Rightarrow> nat \<times> RouteBackendRef \<Rightarrow> BackendRef list \<times> L7Route \<times> policies
    \<Rightarrow> (BackendRef list \<times> L7Route \<times> policies) go" where
  "add_backend_ref env idx iref s =
     (case iref of (refIdx, ref0) \<Rightarrow> case s of (backendRefs, route, ps) \<Rightarrow>
        (let routeNs = om_Namespace (l7_Source route) in
         bind_go (resolve_pool (be_pools env) routeNs ref0) (\<lambda>pr.
           case pr of
             PoolSkip cond \<Rightarrow> Inr (backendRefs, route\<lparr>l7_Conditions := l7_Conditions route @ [cond]\<rparr>, ps)
           | PoolRef ref \<Rightarrow>
               bind_go (getRefGrantFromResourceForRoute (l7_RouteType route) routeNs) (\<lambda>frm.
                 bind_go (createBackendRef (be_k8s env) ref route (refAllowedFrom (be_refGrants env) frm)
                            (be_services env) (backend_ref_path idx refIdx ref) ps)
                   (\<lambda>(b, conds, ps'). Inr (backendRefs @ [b], route\<lparr>l7_Conditions := l7_Conditions route @ conds\<rparr>, ps'))))))"

definition upd_rule :: "nat \<Rightarrow> (RouteRule \<Rightarrow> RouteRule) \<Rightarrow> L7Route \<Rightarrow> L7Route" where
  "upd_rule idx f route = route\<lparr>l7_Rules := upd_at idx f (l7_Rules route)\<rparr>"

definition invalidateRuleIfExternalAuthBackendUnresolved :: "nat \<Rightarrow> L7Route \<Rightarrow> L7Route \<times> Condition option" where
  "invalidateRuleIfExternalAuthBackendUnresolved ruleIdx route =
     (let rule = l7_Rules route ! ruleIdx in
      if \<not> rrf_Valid (rr_Filters rule) then (route, None)
      else if \<not> list_ex (\<lambda>f. fl_FilterType f = FilterExternalAuth \<and> fl_ExternalAuth f \<noteq> None) (rrf_Filters (rr_Filters rule)) then
        (route, None)
      else if list_ex (\<lambda>br. br_IsExternalAuthBackend br \<and> br_Valid br) (rr_BackendRefs rule) then (route, None)
      else
        (upd_rule ruleIdx (\<lambda>r. r\<lparr>rr_Filters := (rr_Filters r)\<lparr>rrf_Valid := False\<rparr>\<rparr>) route,
         Some (NewRouteResolvedRefsInvalidFilter
           (''ExternalAuth filter references a backend that could not be resolved; '' @
            ''the rule is rejected to avoid proxying without authentication''))))"

text \<open>With more than one backend, all of them become invalid unless their policies match.\<close>

definition match_rule_policies :: "policies \<Rightarrow> BackendRef list \<Rightarrow> L7Route \<Rightarrow> BackendRef list \<times> L7Route" where
  "match_rule_policies ps backendRefs route =
     (if length backendRefs > 1 then
        (case validateBackendTLSPolicyMatchingAllBackends ps backendRefs of
           None \<Rightarrow> (backendRefs, route)
         | Some cond \<Rightarrow>
             (map (\<lambda>b. b\<lparr>br_Valid := False\<rparr>) backendRefs, route\<lparr>l7_Conditions := l7_Conditions route @ [cond]\<rparr>))
      else (backendRefs, route))"

definition add_rule_backends ::
  "backend_env \<Rightarrow> nat \<Rightarrow> L7Route \<times> policies \<Rightarrow> (L7Route \<times> policies) go" where
  "add_rule_backends env idx s =
     (case s of (route, ps) \<Rightarrow>
        (let rule = l7_Rules route ! idx in
         if \<not> rr_ValidMatches rule then Inr s
         else if \<not> rrf_Valid (rr_Filters rule) then Inr s
         else if rr_RouteBackendRefs rule = [] then Inr s
         else
           bind_go (fold_go (add_backend_ref env idx) (enumerate 0 (rr_RouteBackendRefs rule)) ([], route, ps))
             (\<lambda>(backendRefs, route1, ps1).
               let (backendRefs1, route2) = match_rule_policies ps1 backendRefs route1;
                 route3 = upd_rule idx (\<lambda>r. r\<lparr>rr_BackendRefs := backendRefs1\<rparr>) route2
               in case invalidateRuleIfExternalAuthBackendUnresolved idx route3 of
                    (route4, None) \<Rightarrow> Inr (route4, ps1)
                  | (route4, Some cond) \<Rightarrow> Inr (route4\<lparr>l7_Conditions := l7_Conditions route4 @ [cond]\<rparr>, ps1))))"

definition addBackendRefsToRules :: "backend_env \<Rightarrow> L7Route \<Rightarrow> policies \<Rightarrow> (L7Route \<times> policies) go" where
  "addBackendRefsToRules env route ps =
     (if \<not> l7_Valid route then Inr (route, ps)
      else fold_go (add_rule_backends env) [0..<length (l7_Rules route)] (route, ps))"

definition addBackendRefsToRouteRules ::
  "backend_env \<Rightarrow> (RouteKey \<times> L7Route) list \<Rightarrow> policies \<Rightarrow> ((RouteKey \<times> L7Route) list \<times> policies) go" where
  "addBackendRefsToRouteRules env routes ps =
     fold_go (\<lambda>(key, r) (done, ps). bind_go (addBackendRefsToRules env r ps) (\<lambda>(r', ps'). Inr (done @ [(key, r')], ps')))
       routes ([], ps)"

section \<open>What validation accepts\<close>

lemma validateWeight_None_iff: "validateWeight w = None \<longleftrightarrow> 0 \<le> w \<and> w \<le> 1000000"
  by (auto simp: validateWeight_def)

lemma weight_cond_True: "fst (weight_cond k ref path) \<longleftrightarrow> (\<forall>w. vbr_Weight ref = Some w \<longrightarrow> 0 \<le> w \<and> w \<le> 1000000)"
  by (auto simp: weight_cond_def validateWeight_def split: option.splits)

lemma ref_weight_bounds: "0 \<le> ref_weight ref" "ref_weight ref \<le> 1000000"
  by (auto simp: ref_weight_def validateWeight_def split: option.splits)

text \<open>The resource a ReferenceGrant has to name for a reference to cross into another namespace.\<close>

definition grant_target :: "RouteType \<Rightarrow> string \<Rightarrow> RouteBackendRef \<Rightarrow> toResource" where
  "grant_target routeType routeNs ref =
     (let vref = rbr_BackendRef ref; ns = deref_or routeNs (vbr_Namespace vref) in
      if routeType = RouteTypeHTTP \<and> vbr_Kind vref = Some ''InferencePool'' then toInferencePool (nsname ns (vbr_Name vref))
      else if routeType = RouteTypeHTTP \<and> rbr_IsInferencePool ref then toInferencePool (nsname ns (rbr_InferencePoolName ref))
      else toService (nsname ns (vbr_Name vref)))"

definition ref_permitted :: "RouteType \<Rightarrow> string \<Rightarrow> (toResource \<Rightarrow> bool) \<Rightarrow> RouteBackendRef \<Rightarrow> bool" where
  "ref_permitted routeType routeNs grants ref \<longleftrightarrow>
     deref_or routeNs (vbr_Namespace (rbr_BackendRef ref)) = routeNs \<or> grants (grant_target routeType routeNs ref)"

lemma validateBackendRef_permitted:
  assumes "fst (validateBackendRef k (rbr_BackendRef ref) routeNs grants path)" and "t \<noteq> RouteTypeHTTP"
  shows "ref_permitted t routeNs grants ref"
  using assms
  by (auto simp: validateBackendRef_def ref_permitted_def grant_target_def Let_def split: if_splits)

lemma validateBackendRefHTTPRoute_permitted:
  assumes "fst (validateBackendRefHTTPRoute k ref routeNs grants path)"
  shows "ref_permitted RouteTypeHTTP routeNs grants ref"
proof (cases "validateBackendRefHTTPRouteGroupKind k (rbr_BackendRef ref) path")
  case (Pair ok cond)
  with assms show ?thesis
    by (cases ok)
      (auto simp: validateBackendRefHTTPRoute_def ref_permitted_def grant_target_def Let_def
         split: if_splits)
qed

lemma validateRouteBackendRef_permitted:
  "fst (validateRouteBackendRef k t ref routeNs grants path) \<Longrightarrow> ref_permitted t routeNs grants ref"
  by (auto simp: validateRouteBackendRef_def
      intro: validateBackendRef_permitted validateBackendRefHTTPRoute_permitted split: if_splits)

lemma getServicePort_Inr: "getServicePort svc port = Inr p \<Longrightarrow> p \<in> set (svc_Ports svc) \<and> sp_Port p = port"
  by (auto simp: getServicePort_def find_Some_iff split: option.splits)

lemma getPortFromRef_Inr:
  assumes "getPortFromRef k ref name svcs path = Inr (Inr p)"
  shows "\<exists>svc. svcs name = Some svc \<and> p \<in> set (svc_Ports svc) \<and> vbr_Port ref = Some (sp_Port p)"
  using assms by (auto simp: getPortFromRef_def dest: getServicePort_Inr split: option.splits)

section \<open>What a valid backend reference guarantees\<close>

text \<open>
  A backend that traffic may be sent to: the reference was permitted, the Service exists and has the
  port, an ExternalName Service has a name.
\<close>

definition backend_sound ::
  "RouteType \<Rightarrow> string \<Rightarrow> (toResource \<Rightarrow> bool) \<Rightarrow> services \<Rightarrow> RouteBackendRef \<Rightarrow> BackendRef \<Rightarrow> bool" where
  "backend_sound t routeNs grants svcs ref b \<longleftrightarrow>
     ref_permitted t routeNs grants ref \<and>
     br_SvcNsName b = nsname (deref_or routeNs (vbr_Namespace (rbr_BackendRef ref))) (vbr_Name (rbr_BackendRef ref)) \<and>
     (case svcs (br_SvcNsName b) of
        None \<Rightarrow> False
      | Some svc \<Rightarrow>
          br_ServicePort b \<in> set (svc_Ports svc) \<and> vbr_Port (rbr_BackendRef ref) = Some (sp_Port (br_ServicePort b)) \<and>
          (svc_Type svc = ServiceTypeExternalName \<longrightarrow> \<not> list_all is_space (svc_ExternalName svc))) \<and>
     (case sp_AppProtocol (br_ServicePort b) of
        None \<Rightarrow> True
      | Some a \<Rightarrow> validateRouteBackendRefAppProtocol t a (br_BackendTLSPolicy b \<noteq> None) = None)"

lemma mk_backend_ref_sel [simp]:
  "br_Valid (mk_backend_ref ref v n p po iv sp) = v"
  "br_SvcNsName (mk_backend_ref ref v n p po iv sp) = n"
  "br_ServicePort (mk_backend_ref ref v n p po iv sp) = p"
  "br_BackendTLSPolicy (mk_backend_ref ref v n p po iv sp) = po"
  "br_Weight (mk_backend_ref ref v n p po iv sp) = ref_weight (rbr_BackendRef ref)"
  "br_IsExternalAuthBackend (mk_backend_ref ref v n p po iv sp) = (rbr_ExternalAuthBackendIdx ref \<noteq> None)"
  "br_IsMirrorBackend (mk_backend_ref ref v n p po iv sp) = (rbr_MirrorBackendIdx ref \<noteq> None)"
  "br_IsInferencePool (mk_backend_ref ref v n p po iv sp) = rbr_IsInferencePool ref"
  by (simp_all add: mk_backend_ref_def)

text \<open>The three ways out of \<open>createBackendRef\<close> before the policies are looked at, and the rest.\<close>

lemma createBackendRef_cases:
  assumes "createBackendRef k ref route grants svcs path ps = Inr (b, conds, ps')"
  obtains (invalid) po iv n p where "b = mk_backend_ref ref False n p po iv None" "conds \<noteq> []"
  | (valid) p po iv where
      "b = mk_backend_ref ref True (nsname (deref_or (om_Namespace (l7_Source route)) (vbr_Namespace (rbr_BackendRef ref)))
             (vbr_Name (rbr_BackendRef ref))) p po iv (rbr_SessionPersistence ref)"
      "conds = []"
      "backend_sound (l7_RouteType route) (om_Namespace (l7_Source route)) grants svcs ref b"
      "findBackendTLSPolicyForService ps (vbr_Namespace (rbr_BackendRef ref)) (vbr_Name (rbr_BackendRef ref))
         (om_Namespace (l7_Source route)) p = Inr (po, None, ps')"
proof -
  let ?ns = "om_Namespace (l7_Source route)" and ?v = "rbr_BackendRef ref"
  let ?name = "nsname (deref_or ?ns (vbr_Namespace ?v)) (vbr_Name ?v)"
  obtain ok cond where val: "validateRouteBackendRef k (l7_RouteType route) ref ?ns grants path = (ok, cond)"
    by fastforce
  show thesis
  proof (cases ok)
    case False
    with assms val show thesis by (auto simp: createBackendRef_def Let_def intro: invalid)
  next
    case True
    then have perm: "ref_permitted (l7_RouteType route) ?ns grants ref"
      using validateRouteBackendRef_permitted [of k "l7_RouteType route" ref ?ns grants path] val by simp
    from assms val True obtain r where r: "getPortFromRef k ?v ?name svcs path = Inr r"
      by (auto simp: createBackendRef_def Let_def bind_go_Inr_iff)
    show thesis
    proof (cases r)
      case (Inl e)
      with assms val True r show thesis by (auto simp: createBackendRef_def Let_def intro: invalid)
    next
      case (Inr p)
      obtain svc where svc: "svcs ?name = Some svc" "p \<in> set (svc_Ports svc)" "vbr_Port ?v = Some (sp_Port p)"
        using getPortFromRef_Inr r Inr by blast
      show thesis
      proof (cases "svc_Type svc = ServiceTypeExternalName \<and> list_all is_space (svc_ExternalName svc)")
        case blank: True
        with assms val True r Inr svc show thesis by (auto simp: createBackendRef_def Let_def intro: invalid)
      next
        case named: False
        let ?find = "findBackendTLSPolicyForService ps (vbr_Namespace ?v) (vbr_Name ?v) ?ns p"
        from assms val True r Inr svc(1) named obtain po err ps1 where find: "?find = Inr (po, err, ps1)"
          by (auto simp: createBackendRef_def Let_def bind_go_Inr_iff split: if_splits)
        let ?app = "Option.bind (sp_AppProtocol p) (\<lambda>a. validateRouteBackendRefAppProtocol (l7_RouteType route) a (po \<noteq> None))"
        show thesis
        proof (cases "err = None \<and> ?app = None")
          case bad: False
          with assms val True r Inr svc(1) named find show thesis
            by (cases err; cases ?app) (auto simp: createBackendRef_def Let_def intro: invalid split: if_splits)
        next
          case good: True
          then have err: "err = None" and app: "?app = None" by simp_all
          from assms val True r Inr svc(1) named find err app obtain iv where
            b: "b = mk_backend_ref ref True ?name p po iv (rbr_SessionPersistence ref)" "conds = []" "ps' = ps1"
            by (auto simp: createBackendRef_def Let_def split: if_splits)
          then have "backend_sound (l7_RouteType route) ?ns grants svcs ref b"
            using perm svc named app by (auto simp: backend_sound_def split: option.splits)
          then show thesis using valid b find err by blast
        qed
      qed
    qed
  qed
qed

section \<open>The backends of a rule\<close>

definition pool_invalid :: "backend_env \<Rightarrow> string \<Rightarrow> RouteBackendRef \<Rightarrow> bool" where
  "pool_invalid env routeNs ref \<longleftrightarrow>
     rbr_IsInferencePool ref \<and>
     (case be_pools env (nsname (deref_or routeNs (vbr_Namespace (rbr_BackendRef ref))) (rbr_InferencePoolName ref)) of
        None \<Rightarrow> False | Some pool \<Rightarrow> \<not> rip_Valid pool)"

lemma resolve_pool_PoolSkip: "resolve_pool (be_pools env) routeNs ref = Inr (PoolSkip c) \<Longrightarrow> pool_invalid env routeNs ref"
  by (auto simp: resolve_pool_def pool_invalid_def Let_def split: if_splits option.splits list.splits)

lemma resolve_pool_PoolRef:
  assumes "resolve_pool (be_pools env) routeNs ref = Inr (PoolRef ref')"
  shows "\<not> pool_invalid env routeNs ref"
    and "ref_weight (rbr_BackendRef ref') = ref_weight (rbr_BackendRef ref)"
    and "rbr_ExternalAuthBackendIdx ref' = rbr_ExternalAuthBackendIdx ref"
    and "grant_target t routeNs ref' = grant_target t routeNs ref"
    and "ref_permitted t routeNs grants ref' = ref_permitted t routeNs grants ref"
  using assms
  by (auto simp: resolve_pool_def pool_invalid_def Let_def ref_weight_def grant_target_def ref_permitted_def
      split: if_splits option.splits list.splits)

text \<open>What relates a reference of a rule to the backend made from it.\<close>

abbreviation route_grants :: "backend_env \<Rightarrow> L7Route \<Rightarrow> toResource \<Rightarrow> bool" where
  "route_grants env route \<equiv>
     refAllowedFrom (be_refGrants env)
       (if l7_RouteType route = RouteTypeHTTP then fromHTTPRoute (om_Namespace (l7_Source route))
        else fromGRPCRoute (om_Namespace (l7_Source route)))"

definition backend_of :: "backend_env \<Rightarrow> L7Route \<Rightarrow> RouteBackendRef \<Rightarrow> BackendRef \<Rightarrow> bool" where
  "backend_of env route ref b \<longleftrightarrow>
     br_Weight b = ref_weight (rbr_BackendRef ref) \<and>
     br_IsExternalAuthBackend b = (rbr_ExternalAuthBackendIdx ref \<noteq> None) \<and>
     (br_Valid b \<longrightarrow>
       (\<exists>ref'. resolve_pool (be_pools env) (om_Namespace (l7_Source route)) ref = Inr (PoolRef ref') \<and>
          backend_sound (l7_RouteType route) (om_Namespace (l7_Source route)) (route_grants env route) (be_services env) ref' b))"

definition same_route :: "L7Route \<Rightarrow> L7Route \<Rightarrow> bool" where
  "same_route r r' \<longleftrightarrow>
     l7_Source r' = l7_Source r \<and> l7_RouteType r' = l7_RouteType r \<and> l7_ParentRefs r' = l7_ParentRefs r \<and>
     l7_Valid r' = l7_Valid r \<and> l7_Attachable r' = l7_Attachable r"

lemma same_route_refl [simp]: "same_route r r"
  by (simp add: same_route_def)

lemma same_route_trans: "same_route r s \<Longrightarrow> same_route s t \<Longrightarrow> same_route r t"
  by (simp add: same_route_def)

lemma same_route_Conditions [simp]: "same_route r (s\<lparr>l7_Conditions := cs\<rparr>) = same_route r s"
  by (simp add: same_route_def)

lemma same_route_Rules [simp]: "same_route r (s\<lparr>l7_Rules := rs\<rparr>) = same_route r s"
  by (simp add: same_route_def)

lemma same_route_backend_of: "same_route r s \<Longrightarrow> backend_of env s = backend_of env r"
  by (simp add: same_route_def backend_of_def fun_eq_iff)

lemma backend_of_invalidate: "backend_of env route ref b \<Longrightarrow> backend_of env route ref (b\<lparr>br_Valid := False\<rparr>)"
  by (simp add: backend_of_def)

lemma add_backend_ref_step:
  assumes "add_backend_ref env idx (i, ref) (bs, route, ps) = Inr (bs', route', ps')"
  shows "same_route route route'" and "l7_Rules route' = l7_Rules route"
    and "if pool_invalid env (om_Namespace (l7_Source route)) ref then bs' = bs
         else \<exists>b. bs' = bs @ [b] \<and> backend_of env route ref b"
proof -
  let ?ns = "om_Namespace (l7_Source route)"
  from assms obtain pr where pr: "resolve_pool (be_pools env) ?ns ref = Inr pr"
    by (auto simp: add_backend_ref_def Let_def bind_go_Inr_iff)
  have "same_route route route' \<and> l7_Rules route' = l7_Rules route \<and>
    (if pool_invalid env ?ns ref then bs' = bs else \<exists>b. bs' = bs @ [b] \<and> backend_of env route ref b)"
  proof (cases pr)
    case (PoolSkip c)
    with assms pr show ?thesis by (auto simp: add_backend_ref_def Let_def resolve_pool_PoolSkip)
  next
    case (PoolRef ref')
    from assms pr PoolRef obtain frm b conds where
      frm: "getRefGrantFromResourceForRoute (l7_RouteType route) ?ns = Inr frm" and
      create: "createBackendRef (be_k8s env) ref' route (refAllowedFrom (be_refGrants env) frm) (be_services env)
         (backend_ref_path idx i ref') ps = Inr (b, conds, ps')" and
      res: "bs' = bs @ [b]" "route' = route\<lparr>l7_Conditions := l7_Conditions route @ conds\<rparr>"
      by (auto simp: add_backend_ref_def Let_def bind_go_Inr_iff)
    from frm have grants: "refAllowedFrom (be_refGrants env) frm = route_grants env route"
      by (auto simp: getRefGrantFromResourceForRoute_def split: RouteType.splits)
    from create have "backend_of env route ref b"
      by (cases rule: createBackendRef_cases)
        (use resolve_pool_PoolRef [OF pr [unfolded PoolRef]] pr PoolRef grants in \<open>auto simp: backend_of_def\<close>)
    then show ?thesis using res resolve_pool_PoolRef(1) [OF pr [unfolded PoolRef]] by simp
  qed
  then show "same_route route route'" and "l7_Rules route' = l7_Rules route"
    and "if pool_invalid env ?ns ref then bs' = bs else \<exists>b. bs' = bs @ [b] \<and> backend_of env route ref b"
    by blast+
qed

lemma add_backend_refs_loop:
  assumes "fold_go (add_backend_ref env idx) (enumerate n refs) (bs, route, ps) = Inr (bs', route', ps')"
  shows "same_route route route' \<and> l7_Rules route' = l7_Rules route \<and>
    (\<exists>new. bs' = bs @ new \<and>
      list_all2 (backend_of env route) (filter (\<lambda>r. \<not> pool_invalid env (om_Namespace (l7_Source route)) r) refs) new)"
  using assms
proof (induction refs arbitrary: n bs route ps)
  case (Cons ref refs)
  from Cons.prems obtain bs1 route1 ps1 where
    step: "add_backend_ref env idx (n, ref) (bs, route, ps) = Inr (bs1, route1, ps1)" and
    rest: "fold_go (add_backend_ref env idx) (enumerate (Suc n) refs) (bs1, route1, ps1) = Inr (bs', route', ps')"
    by (auto simp: bind_go_Inr_iff)
  note s = add_backend_ref_step [OF step]
  have ns: "l7_Source route1 = l7_Source route" using s(1) by (simp add: same_route_def)
  from Cons.IH [OF rest] obtain new where new: "bs' = bs1 @ new"
    "list_all2 (backend_of env route) (filter (\<lambda>r. \<not> pool_invalid env (om_Namespace (l7_Source route)) r) refs) new"
    "same_route route1 route'" "l7_Rules route' = l7_Rules route1"
    by (auto simp: ns same_route_backend_of [OF s(1)])
  show ?case
    using s new same_route_trans [OF s(1) new(3)] by (auto split: if_splits)
qed simp

section \<open>The rules of a route\<close>

definition has_external_auth :: "RouteRule \<Rightarrow> bool" where
  "has_external_auth rule \<longleftrightarrow>
     list_ex (\<lambda>f. fl_FilterType f = FilterExternalAuth \<and> fl_ExternalAuth f \<noteq> None) (rrf_Filters (rr_Filters rule))"

definition auth_backend_resolved :: "RouteRule \<Rightarrow> bool" where
  "auth_backend_resolved rule \<longleftrightarrow> (\<exists>b \<in> set (rr_BackendRefs rule). br_IsExternalAuthBackend b \<and> br_Valid b)"

text \<open>A rule is processed when its matches and filters are valid and it has references.\<close>

definition rule_processed :: "RouteRule \<Rightarrow> bool" where
  "rule_processed rule \<longleftrightarrow> rr_ValidMatches rule \<and> rrf_Valid (rr_Filters rule) \<and> rr_RouteBackendRefs rule \<noteq> []"

definition rule_result :: "backend_env \<Rightarrow> L7Route \<Rightarrow> RouteRule \<Rightarrow> RouteRule \<Rightarrow> bool" where
  "rule_result env route rule rule' \<longleftrightarrow>
     (if rule_processed rule then
        list_all2 (backend_of env route)
          (filter (\<lambda>r. \<not> pool_invalid env (om_Namespace (l7_Source route)) r) (rr_RouteBackendRefs rule)) (rr_BackendRefs rule') \<and>
        rr_RouteBackendRefs rule' = rr_RouteBackendRefs rule \<and> rr_ValidMatches rule' \<and>
        rrf_Filters (rr_Filters rule') = rrf_Filters (rr_Filters rule) \<and>
        (rrf_Valid (rr_Filters rule') \<longleftrightarrow> has_external_auth rule \<longrightarrow> auth_backend_resolved rule')
      else rule' = rule)"

lemma upd_rule_Rules [simp]: "l7_Rules (upd_rule i f route) = upd_at i f (l7_Rules route)"
  by (simp add: upd_rule_def)

lemma same_route_upd_rule [simp]: "same_route r (upd_rule i f s) = same_route r s"
  by (simp add: upd_rule_def)

lemma invalidateRule_result:
  assumes "invalidateRuleIfExternalAuthBackendUnresolved i route = (route', c)" and "i < length (l7_Rules route)"
    and "rrf_Valid (rr_Filters (l7_Rules route ! i))"
  shows "same_route route route'" and "length (l7_Rules route') = length (l7_Rules route)"
    and "j < length (l7_Rules route) \<Longrightarrow> j \<noteq> i \<Longrightarrow> l7_Rules route' ! j = l7_Rules route ! j"
    and "rr_BackendRefs (l7_Rules route' ! i) = rr_BackendRefs (l7_Rules route ! i)"
    and "rr_RouteBackendRefs (l7_Rules route' ! i) = rr_RouteBackendRefs (l7_Rules route ! i)"
    and "rr_ValidMatches (l7_Rules route' ! i) = rr_ValidMatches (l7_Rules route ! i)"
    and "rrf_Filters (rr_Filters (l7_Rules route' ! i)) = rrf_Filters (rr_Filters (l7_Rules route ! i))"
    and "rrf_Valid (rr_Filters (l7_Rules route' ! i)) \<longleftrightarrow>
      has_external_auth (l7_Rules route ! i) \<longrightarrow> auth_backend_resolved (l7_Rules route ! i)"
  using assms
  by (auto simp: invalidateRuleIfExternalAuthBackendUnresolved_def Let_def nth_upd_at
      has_external_auth_def auth_backend_resolved_def list_ex_iff split: if_splits)

lemma add_rule_backends_skip: "\<not> rule_processed (l7_Rules route ! i) \<Longrightarrow> add_rule_backends env i (route, ps) = Inr (route, ps)"
  by (auto simp: add_rule_backends_def Let_def rule_processed_def)

lemma add_rule_backends_eq:
  assumes "rule_processed (l7_Rules route ! i)"
    and "fold_go (add_backend_ref env i) (enumerate 0 (rr_RouteBackendRefs (l7_Rules route ! i))) ([], route, ps) = Inr (bs, r1, ps1)"
    and "match_rule_policies ps1 bs r1 = (bs1, r2)"
    and "invalidateRuleIfExternalAuthBackendUnresolved i (upd_rule i (\<lambda>r. r\<lparr>rr_BackendRefs := bs1\<rparr>) r2) = (r4, c)"
  shows "add_rule_backends env i (route, ps) =
    Inr (case c of None \<Rightarrow> r4 | Some cond \<Rightarrow> r4\<lparr>l7_Conditions := l7_Conditions r4 @ [cond]\<rparr>, ps1)"
  using assms by (simp add: add_rule_backends_def rule_processed_def split: option.split)

lemma add_rule_backends_loop:
  assumes "rule_processed (l7_Rules route ! i)" and "add_rule_backends env i (route, ps) = Inr t"
  obtains bs r1 ps1 where
    "fold_go (add_backend_ref env i) (enumerate 0 (rr_RouteBackendRefs (l7_Rules route ! i))) ([], route, ps) = Inr (bs, r1, ps1)"
proof (cases "fold_go (add_backend_ref env i) (enumerate 0 (rr_RouteBackendRefs (l7_Rules route ! i))) ([], route, ps)")
  case (Inl e)
  with assms show thesis by (simp add: add_rule_backends_def rule_processed_def)
next
  case (Inr s)
  then show thesis by (cases s) (simp add: that)
qed

lemma match_rule_policies_result:
  assumes "match_rule_policies ps bs route = (bs', route')"
  shows "list_all2 (backend_of env r) refs bs \<Longrightarrow> list_all2 (backend_of env r) refs bs'"
    and "same_route route route'" and "l7_Rules route' = l7_Rules route"
  using assms
  by (auto simp: match_rule_policies_def list.rel_map backend_of_invalidate split: if_splits option.splits
      elim!: list_all2_mono)

lemma add_rule_backends_result:
  assumes "add_rule_backends env i (route, ps) = Inr (route', ps')" and "i < length (l7_Rules route)"
  shows "same_route route route'" and "length (l7_Rules route') = length (l7_Rules route)"
    and "j < length (l7_Rules route) \<Longrightarrow> j \<noteq> i \<Longrightarrow> l7_Rules route' ! j = l7_Rules route ! j"
    and "rule_result env route (l7_Rules route ! i) (l7_Rules route' ! i)"
proof -
  let ?rule = "l7_Rules route ! i"
  have "same_route route route' \<and> length (l7_Rules route') = length (l7_Rules route) \<and>
    (\<forall>j < length (l7_Rules route). j \<noteq> i \<longrightarrow> l7_Rules route' ! j = l7_Rules route ! j) \<and>
    rule_result env route ?rule (l7_Rules route' ! i)"
  proof (cases "rule_processed ?rule")
    case False
    with assms show ?thesis by (simp add: add_rule_backends_skip rule_result_def)
  next
    case True
    from assms(1) True obtain bs r1 ps1 where
      loop: "fold_go (add_backend_ref env i) (enumerate 0 (rr_RouteBackendRefs ?rule)) ([], route, ps) = Inr (bs, r1, ps1)"
      by (elim add_rule_backends_loop)
    note l = add_backend_refs_loop [OF loop, simplified]
    obtain bs1 r2 where m: "match_rule_policies ps1 bs r1 = (bs1, r2)" by fastforce
    define r3 where "r3 = upd_rule i (\<lambda>r. r\<lparr>rr_BackendRefs := bs1\<rparr>) r2"
    obtain r4 c where inv: "invalidateRuleIfExternalAuthBackendUnresolved i r3 = (r4, c)" by fastforce
    have rules3: "l7_Rules r3 = upd_at i (\<lambda>r. r\<lparr>rr_BackendRefs := bs1\<rparr>) (l7_Rules route)"
      using l match_rule_policies_result(3) [OF m] by (simp add: r3_def)
    have r3i: "l7_Rules r3 ! i = ?rule\<lparr>rr_BackendRefs := bs1\<rparr>" using rules3 assms(2) by (simp add: nth_upd_at)
    have same3: "same_route route r3"
      using l match_rule_policies_result(2) [OF m] same_route_trans by (auto simp: r3_def)
    have res: "same_route r4 route'" "l7_Rules route' = l7_Rules r4"
      using assms(1) add_rule_backends_eq [OF True loop m inv [unfolded r3_def]] by (auto split: option.splits)
    have "rrf_Valid (rr_Filters (l7_Rules r3 ! i))" using True r3i by (simp add: rule_processed_def)
    note i4 = invalidateRule_result [OF inv _ this, unfolded r3i]
    have "rule_result env route ?rule (l7_Rules r4 ! i)"
      using True i4 assms(2) match_rule_policies_result(1) [OF m] l rules3
      by (simp add: rule_result_def rule_processed_def has_external_auth_def auth_backend_resolved_def)
    moreover have "same_route route route'"
      using same3 i4(1) res(1) rules3 assms(2) by (simp add: same_route_def)
    moreover have "\<forall>j < length (l7_Rules route). j \<noteq> i \<longrightarrow> l7_Rules r4 ! j = l7_Rules route ! j"
      using i4(3) rules3 assms(2) by (simp add: nth_upd_at)
    ultimately show ?thesis using res(2) i4(2) rules3 assms(2) by simp
  qed
  then show "same_route route route'" and "length (l7_Rules route') = length (l7_Rules route)"
    and "j < length (l7_Rules route) \<Longrightarrow> j \<noteq> i \<Longrightarrow> l7_Rules route' ! j = l7_Rules route ! j"
    and "rule_result env route ?rule (l7_Rules route' ! i)"
    by blast+
qed

lemma same_route_rule_result: "same_route r s \<Longrightarrow> rule_result env s = rule_result env r"
  by (intro ext) (simp add: rule_result_def same_route_backend_of, simp add: same_route_def)

text \<open>After the whole loop every rule is the result of its own round.\<close>

lemma addBackendRefsToRules_result:
  assumes "addBackendRefsToRules env route ps = Inr (route', ps')" and "l7_Valid route"
  shows "same_route route route' \<and> list_all2 (rule_result env route) (l7_Rules route) (l7_Rules route')"
proof -
  let ?n = "length (l7_Rules route)"
  define I where "I = (\<lambda>i (s :: L7Route \<times> policies). same_route route (fst s) \<and> length (l7_Rules (fst s)) = ?n \<and>
    (\<forall>j < i. rule_result env route (l7_Rules route ! j) (l7_Rules (fst s) ! j)) \<and>
    (\<forall>j < ?n. i \<le> j \<longrightarrow> l7_Rules (fst s) ! j = l7_Rules route ! j))"
  have run: "fold_go (add_rule_backends env) [0..<?n] (route, ps) = Inr (route', ps')"
    using assms by (simp add: addBackendRefsToRules_def)
  have init: "I 0 (route, ps)" by (simp add: I_def)
  have step: "I (Suc i) t" if i: "i < ?n" and I: "I i s" and step: "add_rule_backends env i s = Inr t" for i s t
  proof -
    obtain r q r' q' where st: "s = (r, q)" "t = (r', q')" by fastforce
    have len: "i < length (l7_Rules r)" using I i st by (simp add: I_def)
    note res = add_rule_backends_result [OF step [unfolded st] len]
    have "rule_result env r = rule_result env route" using I st by (simp add: I_def same_route_rule_result)
    moreover have "same_route route r'" using I st res(1) same_route_trans by (auto simp: I_def)
    moreover have "l7_Rules r ! i = l7_Rules route ! i" using I i unfolding st I_def by auto
    ultimately show "I (Suc i) t"
      using I res st i unfolding I_def by (auto simp: less_Suc_eq)
  qed
  from fold_go_upt [where I = I, OF run init step] show ?thesis by (simp add: I_def list_all2_conv_all_nth)
qed

section \<open>Properties\<close>

abbreviation route_from :: "L7Route \<Rightarrow> fromResource" where
  "route_from route \<equiv>
     (if l7_RouteType route = RouteTypeHTTP then fromHTTPRoute (om_Namespace (l7_Source route))
      else fromGRPCRoute (om_Namespace (l7_Source route)))"

lemma rule_result_backend:
  assumes "rule_result env route rule rule'" and "rr_BackendRefs rule = []" and "b \<in> set (rr_BackendRefs rule')"
  obtains ref where "ref \<in> set (rr_RouteBackendRefs rule)" and "backend_of env route ref b"
proof -
  from assms have "list_all2 (backend_of env route)
    (filter (\<lambda>r. \<not> pool_invalid env (om_Namespace (l7_Source route)) r) (rr_RouteBackendRefs rule)) (rr_BackendRefs rule')"
    by (auto simp: rule_result_def split: if_splits)
  from list_all2_right [OF this assms(3)] show thesis by (auto intro: that)
qed

lemma backend_sound_authorised:
  assumes "backend_sound t ns grants svcs ref b"
  shows "nn_Namespace (br_SvcNsName b) = ns \<or> grants (toService (br_SvcNsName b)) \<or>
      (t = RouteTypeHTTP \<and> (\<exists>pool. grants (toInferencePool (nsname (nn_Namespace (br_SvcNsName b)) pool))))"
    and "\<exists>svc. svcs (br_SvcNsName b) = Some svc \<and> br_ServicePort b \<in> set (svc_Ports svc)"
  using assms
  by (auto simp: backend_sound_def ref_permitted_def grant_target_def Let_def split: if_splits option.splits)


definition sample_service :: Service where
  "sample_service = \<lparr>svc_Name = ''coffee'', svc_Type = OtherServiceType ''ClusterIP'', svc_ExternalName = '''',
     svc_Ports = [\<lparr>sp_Name = ''http'', sp_Port = 80, sp_TargetPort = IntVal 8080, sp_AppProtocol = None\<rparr>]\<rparr>"

definition sample_grants :: ref_grants where
  "sample_grants = [(nsname ''shop'' ''allow'',
     \<lparr>rg_From = [\<lparr>rgf_Group = GroupName, rgf_Kind = ''HTTPRoute'', rgf_Namespace = ''web''\<rparr>],
      rg_To = [\<lparr>rgt_Group = '''', rgt_Kind = ''Service'', rgt_Name = None\<rparr>]\<rparr>)]"

definition sample_backend_env :: "string list \<Rightarrow> backend_env" where
  "sample_backend_env names = \<lparr>be_k8s = sample_k8s, be_refGrants = newReferenceGrantResolver sample_grants,
     be_services = (\<lambda>n. if nn_Namespace n = ''shop'' \<and> nn_Name n \<in> set names then Some sample_service else None),
     be_pools = Map.empty\<rparr>"

definition sample_ref :: "string \<Rightarrow> nat option \<Rightarrow> RouteBackendRef" where
  "sample_ref name auth =
     \<lparr>rbr_BackendRef = \<lparr>vbr_Group = None, vbr_Kind = None, vbr_Name = name, vbr_Namespace = Some ''shop'', vbr_Port = Some 80, vbr_Weight = None\<rparr>,
      rbr_MirrorBackendIdx = None, rbr_ExternalAuthBackendIdx = auth,
      rbr_EndpointPickerConfig = \<lparr>epc_EndpointPickerRef = None, epc_NsName = ''''\<rparr>, rbr_InferencePoolName = '''',
      rbr_SessionPersistence = None, rbr_nFilters = 0, rbr_IsInferencePool = False\<rparr>"

definition sample_rule :: "RouteBackendRef list \<Rightarrow> Filter list \<Rightarrow> RouteRule" where
  "sample_rule refs filters =
     \<lparr>rr_RouteBackendRefs = refs, rr_BackendRefs = [], rr_Matches = [], rr_Filters = \<lparr>rrf_Filters = filters, rrf_Valid = True\<rparr>, rr_ValidMatches = True\<rparr>"

definition sample_route :: "RouteRule list \<Rightarrow> L7Route" where
  "sample_route rules =
     \<lparr>l7_Source = \<lparr>om_CreationTimestamp = 0, om_Namespace = ''web'', om_Name = ''cafe''\<rparr>, l7_Generation = 1,
      l7_RouteType = RouteTypeHTTP, l7_Hostnames = [''cafe.example.com''], l7_Rules = rules, l7_ParentRefs = [],
      l7_Policies = [], l7_Conditions = [], l7_Valid = True, l7_Attachable = True\<rparr>"

lemma sample_backends_run:
  "\<exists>route' ps' rule' b.
     addBackendRefsToRules (sample_backend_env [''coffee'']) (sample_route [sample_rule [sample_ref ''coffee'' None] []]) [] = Inr (route', ps') \<and>
     rule' \<in> set (l7_Rules route') \<and> b \<in> set (rr_BackendRefs rule') \<and> br_Valid b"
proof -
  have "case addBackendRefsToRules (sample_backend_env [''coffee'']) (sample_route [sample_rule [sample_ref ''coffee'' None] []]) [] of
      Inl _ \<Rightarrow> False
    | Inr (route', ps') \<Rightarrow> list_ex (\<lambda>rule'. list_ex br_Valid (rr_BackendRefs rule')) (l7_Rules route')"
    by code_simp
  then show ?thesis by (auto simp: list_ex_iff split: sum.splits)
qed


text \<open>
  C12. External authentication never fails open. After \<^verbatim>\<open>addBackendRefsToRules\<close>, a rule that carries an
  ExternalAuth filter and is still enabled (its matches and its filters are valid) has a resolved, valid backend for
  the authentication service.
\<close>

theorem external_auth_fails_closed:
  assumes "addBackendRefsToRules env route ps = Inr (route', ps')" and "l7_Valid route"
    and "\<forall>rule \<in> set (l7_Rules route). has_external_auth rule \<longrightarrow> rr_RouteBackendRefs rule \<noteq> []"
    and "rule' \<in> set (l7_Rules route')" and "has_external_auth rule'"
    and "rr_ValidMatches rule'" and "rrf_Valid (rr_Filters rule')"
  shows "\<exists>b \<in> set (rr_BackendRefs rule'). br_IsExternalAuthBackend b \<and> br_Valid b"
proof -
  have "list_all2 (rule_result env route) (l7_Rules route) (l7_Rules route')"
    using addBackendRefsToRules_result [OF assms(1,2)] by blast
  from list_all2_right [OF this assms(4)] obtain rule where
    rule: "rule \<in> set (l7_Rules route)" "rule_result env route rule rule'" .
  show ?thesis
  proof (cases "rule_processed rule")
    case True
    with rule(2) assms(5,7) show ?thesis by (simp add: rule_result_def has_external_auth_def auth_backend_resolved_def)
  next
    case False
    with rule assms(3,5-7) show ?thesis by (auto simp: rule_result_def rule_processed_def)
  qed
qed

definition auth_filter :: Filter where
  "auth_filter = (new_filter FilterExternalAuth)\<lparr>fl_ExternalAuth := Some \<lparr>v1ea_HTTPAuthConfig = None, v1ea_ForwardBody = None\<rparr>\<rparr>"

theorem external_auth_fails_closed_witness:
  "\<exists>route' ps' rule'.
     addBackendRefsToRules (sample_backend_env [''coffee'', ''auth''])
       (sample_route [sample_rule [sample_ref ''coffee'' None, sample_ref ''auth'' (Some 0)] [auth_filter]]) [] = Inr (route', ps') \<and>
     rule' \<in> set (l7_Rules route') \<and> rrf_Valid (rr_Filters rule') \<and>
     (\<exists>b \<in> set (rr_BackendRefs rule'). br_IsExternalAuthBackend b \<and> br_Valid b)"
proof -
  let ?env = "sample_backend_env [''coffee'', ''auth'']"
    and ?route = "sample_route [sample_rule [sample_ref ''coffee'' None, sample_ref ''auth'' (Some 0)] [auth_filter]]"
  have "case addBackendRefsToRules ?env ?route [] of
      Inl _ \<Rightarrow> False
    | Inr (route', ps') \<Rightarrow> list_ex (\<lambda>rule'. has_external_auth rule' \<and> rr_ValidMatches rule' \<and> rrf_Valid (rr_Filters rule')) (l7_Rules route')"
    by code_simp
  then obtain route' ps' rule' where run: "addBackendRefsToRules ?env ?route [] = Inr (route', ps')"
    and mem: "rule' \<in> set (l7_Rules route')" "has_external_auth rule'" "rr_ValidMatches rule'" "rrf_Valid (rr_Filters rule')"
    by (auto simp: list_ex_iff split: sum.splits)
  have "l7_Valid ?route" and "\<forall>rule \<in> set (l7_Rules ?route). has_external_auth rule \<longrightarrow> rr_RouteBackendRefs rule \<noteq> []"
    by (simp_all add: sample_route_def sample_rule_def)
  from external_auth_fails_closed [OF run this mem] run mem(1,4) show ?thesis by blast
qed



end
