(* ===== verification/BackendTLSPolicies.thy ===== *)
theory BackendTLSPolicies
  imports BackendRefs
begin

text \<open>
  Which BackendTLSPolicy applies to a Service (\<^verbatim>\<open>findBackendTLSPolicyForService\<close> of \<^verbatim>\<open>backend_refs.go\<close>): the
  winner and the marks on the losers do not depend on the order in which the map of policies is visited. Then the
  comparison of the policies of the backends of one rule, and the names under which backends are known to the data
  plane.
\<close>

section \<open>The winning policy\<close>

text \<open>The scan is a fold over the matching pairs of a policy and a target reference.\<close>

definition policy_matches :: "string \<Rightarrow> string \<Rightarrow> ServicePort \<Rightarrow> policies \<Rightarrow> policies" where
  "policy_matches refNs refName port ps =
     concat (map (\<lambda>kp. map (\<lambda>_. kp) (filter (targets_service refNs refName port (snd kp)) (vbtp_TargetRefs (btp_Source (snd kp))))) ps)"

fun contest ::
  "NamespacedName \<times> BackendTLSPolicy \<Rightarrow> (NamespacedName \<times> BackendTLSPolicy) option \<times> NamespacedName list
    \<Rightarrow> (NamespacedName \<times> BackendTLSPolicy) option \<times> NamespacedName list" where
  "contest kp (None, losers) = (Some kp, losers)"
| "contest kp (Some w, losers) =
     (if policy_less (snd kp) (snd w) then (Some kp, losers @ [fst w]) else (Some w, losers @ [fst kp]))"

lemma policy_target_step_contest:
  "policy_target_step refNs refName port kp t s =
     (if targets_service refNs refName port (snd kp) t then contest kp s else s)"
  by (cases "(kp, s)" rule: contest.cases) (auto simp: policy_target_step_def)

lemma policy_scan_contest: "policy_scan refNs refName port ps = fold contest (policy_matches refNs refName port ps) (None, [])"
proof -
  have one: "fold (policy_target_step refNs refName port kp) ts s =
      fold contest (map (\<lambda>_. kp) (filter (targets_service refNs refName port (snd kp)) ts)) s" for kp ts s
    by (induction ts arbitrary: s) (simp_all add: policy_target_step_contest)
  have "fold (\<lambda>kp. fold (policy_target_step refNs refName port kp) (vbtp_TargetRefs (btp_Source (snd kp)))) ps s =
      fold contest (policy_matches refNs refName port ps) s" for s
    by (induction ps arbitrary: s) (simp_all add: policy_matches_def one)
  then show ?thesis by (simp add: policy_scan_def)
qed

lemma policy_less_irrefl: "\<not> policy_less p p"
  by (rule client_order.irrefl)

lemma policy_less_trans: "policy_less p q \<Longrightarrow> policy_less q r \<Longrightarrow> policy_less p r"
  by (rule client_order.trans)

lemma policy_less_neg_trans: "policy_less p r \<Longrightarrow> policy_less p q \<or> policy_less q r"
  by (rule client_order.neg_trans)

lemma contest_fold:
  assumes "fold contest ms (Some w, losers) = (w', losers')"
  shows "\<exists>v. w' = Some v \<and> v \<in> insert w (set ms) \<and> (\<forall>x \<in> insert w (set ms). \<not> policy_less (snd x) (snd v)) \<and>
    add_mset (fst v) (mset losers') = add_mset (fst w) (mset (map fst ms) + mset losers)"
  using assms
proof (induction ms arbitrary: w losers)
  case Nil
  then have "w' = Some w" "losers' = losers" by simp_all
  then show ?case by (intro exI [of _ w]) (simp add: policy_less_irrefl)
next
  case (Cons m ms)
  let ?lt = "\<lambda>x y. policy_less (snd x) (snd y)"
  show ?case
  proof (cases "?lt m w")
    case True
    with Cons.prems Cons.IH [of m "losers @ [fst w]"] obtain v where v: "w' = Some v" "v \<in> insert m (set ms)"
      "\<forall>x \<in> insert m (set ms). \<not> ?lt x v" "add_mset (fst v) (mset losers') = add_mset (fst m) (mset (map fst ms) + mset (losers @ [fst w]))"
      by auto
    have "\<not> ?lt w v" using v(3) True policy_less_trans by blast
    with v show ?thesis by auto
  next
    case False
    with Cons.prems Cons.IH [of w "losers @ [fst m]"] obtain v where v: "w' = Some v" "v \<in> insert w (set ms)"
      "\<forall>x \<in> insert w (set ms). \<not> ?lt x v" "add_mset (fst v) (mset losers') = add_mset (fst w) (mset (map fst ms) + mset (losers @ [fst m]))"
      by auto
    have "\<not> ?lt m v" using v(3) False policy_less_neg_trans by blast
    with v show ?thesis by auto
  qed
qed

text \<open>The result of the scan: the least match wins, every other match is a loss.\<close>

lemma policy_scan_result:
  assumes "policy_scan refNs refName port ps = (w, losers)" and "policy_matches refNs refName port ps = ms"
  shows "if ms = [] then w = None \<and> losers = []
    else \<exists>v \<in> set ms. w = Some v \<and> (\<forall>x \<in> set ms. \<not> policy_less (snd x) (snd v)) \<and> add_mset (fst v) (mset losers) = mset (map fst ms)"
proof (cases ms)
  case (Cons m ms')
  with assms contest_fold [of ms' m "[]" w losers] show ?thesis by (auto simp: policy_scan_contest)
qed (use assms in \<open>simp add: policy_scan_contest\<close>)

text \<open>The policies as the cluster store holds them: each under its own name.\<close>

definition keyed_policies :: "policies \<Rightarrow> bool" where
  "keyed_policies ps \<longleftrightarrow> distinct (map fst ps) \<and> (\<forall>(k, p) \<in> set ps. k = object_key (vbtp_Meta (btp_Source p)))"

lemma set_policy_matches: "set (policy_matches refNs refName port ps) \<subseteq> set ps"
  by (auto simp: policy_matches_def)

lemma mset_concat_map: "mset (concat (map f xs)) = sum_mset (image_mset (\<lambda>x. mset (f x)) (mset xs))"
  by (induction xs) simp_all

lemma policy_matches_mset:
  assumes "mset ps = mset qs"
  shows "mset (policy_matches refNs refName port ps) = mset (policy_matches refNs refName port qs)"
  using assms by (simp add: policy_matches_def mset_concat_map)

lemma keyed_policies_min_unique:
  assumes "keyed_policies ps" and "x \<in> set ps" and "y \<in> set ps"
    and "\<not> policy_less (snd x) (snd y)" and "\<not> policy_less (snd y) (snd x)"
  shows "x = y"
proof -
  have "meta_key (vbtp_Meta (btp_Source (snd x))) = meta_key (vbtp_Meta (btp_Source (snd y)))"
    using assms(4,5) unfolding client_order.less_key by (metis linorder_neqE)
  moreover have "fst z = object_key (vbtp_Meta (btp_Source (snd z)))" if "z \<in> set ps" for z
    using assms(1) that by (auto simp: keyed_policies_def)
  ultimately have "fst x = fst y" using assms(2,3) by simp
  moreover have "distinct (map fst ps)" using assms(1) by (simp add: keyed_policies_def)
  ultimately show ?thesis using assms(2,3) by (auto simp: distinct_map dest: inj_onD)
qed

lemma policy_scan_order:
  assumes "keyed_policies ps" and "mset ps = mset qs"
    and "policy_scan refNs refName port ps = (w, losers)" and "policy_scan refNs refName port qs = (v, losers')"
  shows "w = v" and "mset losers = mset losers'"
proof -
  let ?m = "policy_matches refNs refName port ps" and ?n = "policy_matches refNs refName port qs"
  have eq: "mset ?m = mset ?n" by (rule policy_matches_mset [OF assms(2)])
  have "w = v \<and> mset losers = mset losers'"
  proof (cases "?m = []")
    case True
    with eq policy_scan_result [OF assms(3) refl] policy_scan_result [OF assms(4) refl] show ?thesis by simp
  next
    case False
    with eq have "?n \<noteq> []" by auto
    have set: "set ?m = set ?n" using eq by (metis set_mset_mset)
    from False policy_scan_result [OF assms(3) refl] obtain a where a: "a \<in> set ?m" "w = Some a"
      "\<forall>x \<in> set ?m. \<not> policy_less (snd x) (snd a)" "add_mset (fst a) (mset losers) = mset (map fst ?m)" by auto
    from \<open>?n \<noteq> []\<close> policy_scan_result [OF assms(4) refl] obtain b where b: "b \<in> set ?n" "v = Some b"
      "\<forall>x \<in> set ?n. \<not> policy_less (snd x) (snd b)" "add_mset (fst b) (mset losers') = mset (map fst ?n)" by auto
    have "a = b"
      using keyed_policies_min_unique [OF assms(1)] a(1,3) b(1,3) set set_policy_matches [of refNs refName port ps] by blast
    moreover have "mset (map fst ?m) = mset (map fst ?n)" using eq by simp
    ultimately have "add_mset (fst b) (mset losers) = add_mset (fst b) (mset losers')" using a(4) b(4) by metis
    then show ?thesis using \<open>a = b\<close> a(2) b(2) by simp
  qed
  then show "w = v" and "mset losers = mset losers'" by blast+
qed

lemma mset_upd_policy: "mset ps = mset qs \<Longrightarrow> mset (upd_policy k f ps) = mset (upd_policy k f qs)"
  by (simp add: upd_policy_def)

lemma upd_policy_commute: "upd_policy j f (upd_policy k f ps) = upd_policy k f (upd_policy j f ps)"
  by (auto simp: upd_policy_def)

lemma map_fst_upd_policy [simp]: "map fst (upd_policy k f ps) = map fst ps"
  by (induction ps) (auto simp: upd_policy_def)

lemma fold_upd_policy:
  assumes "mset ks = mset js" and "mset ps = mset qs"
  shows "mset (fold (\<lambda>k. upd_policy k f) ks ps) = mset (fold (\<lambda>k. upd_policy k f) js qs)"
proof -
  have "fold (\<lambda>k. upd_policy k f) ks = fold (\<lambda>k. upd_policy k f) js"
    by (rule fold_multiset_equiv [OF _ assms(1)]) (rule ext, unfold o_apply, rule upd_policy_commute)
  moreover have "mset (fold (\<lambda>k. upd_policy k f) js ps) = mset (fold (\<lambda>k. upd_policy k f) js qs)"
    using assms(2)
  proof (induction js arbitrary: ps qs)
    case (Cons j js)
    show ?case using Cons.IH [OF mset_upd_policy [OF Cons.prems]] by simp
  qed simp
  ultimately show ?thesis by simp
qed

lemma map_fst_fold_upd_policy [simp]: "map fst (fold (\<lambda>k. upd_policy k f) ks ps) = map fst ps"
  by (induction ks arbitrary: ps) simp_all

lemma map_of_mset: "mset ps = mset qs \<Longrightarrow> distinct (map fst ps) \<Longrightarrow> map_of ps = map_of qs"
proof -
  assume eq: "mset ps = mset qs" and d: "distinct (map fst ps)"
  have "mset (map fst ps) = mset (map fst qs)" using eq by simp
  with d have "distinct (map fst qs)" using mset_eq_imp_distinct_iff by blast
  with d show "map_of ps = map_of qs" using map_of_inject_set mset_eq_setD [OF eq] by blast
qed

definition policy_targets :: "string \<Rightarrow> string \<Rightarrow> ServicePort \<Rightarrow> BackendTLSPolicy \<Rightarrow> bool" where
  "policy_targets refNs refName port p \<longleftrightarrow> list_ex (targets_service refNs refName port p) (vbtp_TargetRefs (btp_Source p))"

lemma in_policy_matches:
  "kp \<in> set (policy_matches refNs refName port ps) \<longleftrightarrow> kp \<in> set ps \<and> policy_targets refNs refName port (snd kp)"
  by (auto simp: policy_matches_def policy_targets_def list_ex_iff image_iff)

lemma policy_scan_least:
  assumes "policy_scan refNs refName port ps = (v, losers)" and "distinct (map fst ps)"
  shows "case v of
      None \<Rightarrow> \<forall>(k, q) \<in> set ps. \<not> policy_targets refNs refName port q
    | Some (key, p) \<Rightarrow> map_of ps key = Some p \<and> policy_targets refNs refName port p \<and>
        (\<forall>(k, q) \<in> set ps. policy_targets refNs refName port q \<longrightarrow> \<not> policy_less q p)"
proof (cases v)
  case None
  then have "policy_matches refNs refName port ps = []"
    using policy_scan_result [OF assms(1) refl] by (auto split: if_splits)
  then have "\<forall>kp. kp \<notin> set (policy_matches refNs refName port ps)" by simp
  then show ?thesis unfolding in_policy_matches using None by auto
next
  case (Some kp)
  then have "kp \<in> set (policy_matches refNs refName port ps)"
    and "\<forall>x. x \<in> set (policy_matches refNs refName port ps) \<longrightarrow> \<not> policy_less (snd x) (snd kp)"
    using policy_scan_result [OF assms(1) refl] by (auto split: if_splits)
  then show ?thesis unfolding in_policy_matches using Some assms(2) by (cases kp) auto
qed

lemma find_policy_eq:
  assumes "policy_scan (deref_or routeNs refNamespace) refName port ps = (v, losers)"
  shows "findBackendTLSPolicyForService ps refNamespace refName routeNs port =
    (case v of None \<Rightarrow> Inr (None, None, fold (\<lambda>key. upd_policy key mark_conflicted) losers ps)
     | Some kp \<Rightarrow> settle_policy (fst kp) (fold (\<lambda>key. upd_policy key mark_conflicted) losers ps))"
  using assms by (auto simp: findBackendTLSPolicyForService_def Let_def split: option.splits)

lemma settle_policy_mset:
  assumes "settle_policy key ps = Inr (w, err, ps')" and "mset ps = mset qs" and "distinct (map fst ps)"
  shows "w = Some key \<and> (\<exists>qs'. settle_policy key qs = Inr (w, err, qs') \<and> mset qs' = mset ps')"
proof -
  let ?f = "\<lambda>p. p\<lparr>btp_IsReferenced := True\<rparr>"
  have maps: "map_of (upd_policy key ?f ps) = map_of (upd_policy key ?f qs)"
    using assms(3) by (intro map_of_mset mset_upd_policy assms(2)) simp
  have m: "mset (upd_policy key g (upd_policy key ?f ps)) = mset (upd_policy key g (upd_policy key ?f qs))" for g
    by (intro mset_upd_policy assms(2))
  show ?thesis
    using assms(1) m mset_upd_policy [OF assms(2), of key ?f]
    unfolding settle_policy_def Let_def maps by (auto split: option.splits if_splits list.splits)
qed

text \<open>
  C19. The BackendTLSPolicy of a Service does not depend on the order in which Go visits the map of policies. The policy that
  applies is the one that precedes all others that target the Service and port (older, then by namespace and name), it is
  reported with the same error, and the marks left on the policies (referenced, accepted, conflicted) are the same.
\<close>

theorem findBackendTLSPolicyForService_deterministic:
  assumes "keyed_policies ps" and "mset ps = mset qs"
    and "findBackendTLSPolicyForService ps refNamespace refName routeNs port = Inr (w, err, ps')"
  shows "(\<exists>qs'. findBackendTLSPolicyForService qs refNamespace refName routeNs port = Inr (w, err, qs') \<and> mset qs' = mset ps') \<and>
    (case w of
       None \<Rightarrow> \<forall>(k, q) \<in> set ps. \<not> policy_targets (deref_or routeNs refNamespace) refName port q
     | Some key \<Rightarrow> \<exists>p. map_of ps key = Some p \<and> policy_targets (deref_or routeNs refNamespace) refName port p \<and>
         (\<forall>(k, q) \<in> set ps. policy_targets (deref_or routeNs refNamespace) refName port q \<longrightarrow> \<not> policy_less q p))"
    (is "?same \<and> ?least")
proof
  let ?ns = "deref_or routeNs refNamespace"
  let ?mark = "\<lambda>losers ps. fold (\<lambda>key. upd_policy key mark_conflicted) losers ps"
  have dist: "distinct (map fst ps)" using assms(1) by (simp add: keyed_policies_def)
  obtain v losers v' losers' where scan: "policy_scan ?ns refName port ps = (v, losers)"
    "policy_scan ?ns refName port qs = (v', losers')" by fastforce
  note same = policy_scan_order [OF assms(1,2) scan]
  have m: "mset (?mark losers ps) = mset (?mark losers' qs)" by (rule fold_upd_policy [OF same(2) assms(2)])
  note eqs = find_policy_eq [OF scan(1)] find_policy_eq [OF scan(2)]
  have "?same \<and> w = map_option fst v"
  proof (cases v)
    case None
    with assms(3) eqs same(1) m show ?thesis by auto
  next
    case (Some kp)
    then have "settle_policy (fst kp) (?mark losers ps) = Inr (w, err, ps')" using assms(3) eqs(1) by simp
    from settle_policy_mset [OF this m] dist Some eqs(2) same(1) show ?thesis by auto
  qed
  then show ?same and ?least
    using policy_scan_least [OF scan(1) dist] by (auto split: option.splits)
qed

definition sample_policy :: "string \<Rightarrow> int \<Rightarrow> nat \<Rightarrow> NamespacedName \<times> BackendTLSPolicy" where
  "sample_policy name created addr =
     (nsname ''shop'' name,
      \<lparr>btp_Source = \<lparr>vbtp_Meta = \<lparr>om_CreationTimestamp = created, om_Namespace = ''shop'', om_Name = name\<rparr>,
         vbtp_TargetRefs = [\<lparr>ptr_Name = ''coffee'', ptr_SectionName = None\<rparr>], vbtp_CACertificateRefs = [],
         vbtp_WellKnownCACertificates = Some (addr, ''System''), vbtp_Hostname = ''coffee.example.com''\<rparr>,
       btp_CaCertRef = noName, btp_Gateways = [], btp_Conditions = [], btp_Valid = True, btp_IsReferenced = False,
       btp_Ignored = False\<rparr>)"

abbreviation sample_port :: ServicePort where
  "sample_port \<equiv> \<lparr>sp_Name = ''http'', sp_Port = 80, sp_TargetPort = IntVal 8080, sp_AppProtocol = None\<rparr>"

theorem findBackendTLSPolicyForService_deterministic_witness:
  "\<exists>err ps' qs'.
     findBackendTLSPolicyForService [sample_policy ''new'' 9 1, sample_policy ''old'' 4 2] (Some ''shop'') ''coffee'' ''web'' sample_port
       = Inr (Some (nsname ''shop'' ''old''), err, ps') \<and>
     findBackendTLSPolicyForService [sample_policy ''old'' 4 2, sample_policy ''new'' 9 1] (Some ''shop'') ''coffee'' ''web'' sample_port
       = Inr (Some (nsname ''shop'' ''old''), err, qs') \<and> mset qs' = mset ps'"
proof -
  let ?ps = "[sample_policy ''new'' 9 1, sample_policy ''old'' 4 2]" and ?qs = "[sample_policy ''old'' 4 2, sample_policy ''new'' 9 1]"
  let ?find = "\<lambda>ps. findBackendTLSPolicyForService ps (Some ''shop'') ''coffee'' ''web'' sample_port"
  have "case ?find ?ps of Inl _ \<Rightarrow> False | Inr (w, err, ps') \<Rightarrow> w = Some (nsname ''shop'' ''old'')"
    by code_simp
  then obtain err ps' where run: "?find ?ps = Inr (Some (nsname ''shop'' ''old''), err, ps')"
    by (auto split: sum.splits)
  have keyed: "keyed_policies ?ps" by (simp add: keyed_policies_def sample_policy_def)
  have "mset ?ps = mset ?qs" by simp
  from findBackendTLSPolicyForService_deterministic [OF keyed this run, THEN conjunct1]
  obtain qs' where "?find ?qs = Inr (Some (nsname ''shop'' ''old''), err, qs')" "mset qs' = mset ps'"
    by (elim exE conjE)
  with run show ?thesis by (intro exI conjI)
qed

section \<open>Policies of the backends of one rule\<close>

text \<open>The loop answers whether the policies of the backends after the first one that has a policy differ from it.\<close>

lemma policies_mismatch_Some:
  "policies_mismatch ps (Some q) \<longleftrightarrow>
     (\<exists>p \<in> set ps. case p of None \<Rightarrow> True | Some p \<Rightarrow> checkPoliciesEqual (btp_Source p) (btp_Source q))"
proof (induction ps)
  case (Cons p ps)
  then show ?case by (cases p) auto
qed simp

lemma policies_mismatch_None:
  "policies_mismatch ps None \<longleftrightarrow>
     (case dropWhile (\<lambda>p. p = None) ps of [] \<Rightarrow> False | None # rest \<Rightarrow> False | Some q # rest \<Rightarrow> policies_mismatch rest (Some q))"
proof (induction ps)
  case (Cons p ps)
  then show ?case by (cases p) auto
qed simp

text \<open>
  C36. The comparison is stricter than its documentation. Two backends of one rule whose policies have equal CA
  certificate references, equal well-known CA certificates and equal hostnames are still reported as not matching
  when the well-known CA certificates of the two policies are two different objects in memory, as they are for two
  policies read from the cluster: the code compares the pointers and not the values. Every backend of the rule is then
  invalid.
\<close>

theorem equal_policies_mismatch:
  assumes "map_of ps k = Some p" and "map_of ps l = Some q"
    and "br_BackendTLSPolicy b = Some k" and "br_BackendTLSPolicy c = Some l"
    and "vbtp_CACertificateRefs (btp_Source p) = vbtp_CACertificateRefs (btp_Source q)"
    and "vbtp_Hostname (btp_Source p) = vbtp_Hostname (btp_Source q)"
    and "vbtp_WellKnownCACertificates (btp_Source p) = Some (addr, cert)"
    and "vbtp_WellKnownCACertificates (btp_Source q) = Some (addr', cert)" and "addr \<noteq> addr'"
  shows "list_all (\<lambda>b'. \<not> br_Valid b') (fst (match_rule_policies ps [b, c] route))"
  using assms
  by (auto simp: match_rule_policies_def validateBackendTLSPolicyMatchingAllBackends_def checkPoliciesEqual_def)

definition sample_backend :: "NamespacedName option \<Rightarrow> string \<Rightarrow> BackendRef" where
  "sample_backend policy svc =
     \<lparr>br_BackendTLSPolicy = policy, br_EndpointPickerConfig = \<lparr>epc_EndpointPickerRef = None, epc_NsName = ''''\<rparr>,
      br_InvalidForGateways = Map.empty, br_SessionPersistence = None, br_SvcNsName = nsname ''shop'' svc,
      br_ServicePort = sample_port, br_Weight = 1, br_Valid = True, br_IsMirrorBackend = False,
      br_IsExternalAuthBackend = False, br_IsInferencePool = False\<rparr>"

theorem equal_policies_mismatch_witness:
  "list_all (\<lambda>b'. \<not> br_Valid b') (fst (match_rule_policies [sample_policy ''p'' 1 1, sample_policy ''q'' 1 2]
       [sample_backend (Some (nsname ''shop'' ''p'')) ''coffee'', sample_backend (Some (nsname ''shop'' ''q'')) ''tea'']
       (sample_route [])))"
  by (rule equal_policies_mismatch
      [where p = "snd (sample_policy ''p'' 1 1)" and q = "snd (sample_policy ''q'' 1 2)" and addr = 1 and addr' = 2])
    (simp_all add: sample_policy_def sample_backend_def)

section \<open>Names of backends\<close>

text \<open>What distinguishes two upstreams: the Service, the port and the session persistence index, when there is one.\<close>

definition upstream_id :: "BackendRef \<Rightarrow> NamespacedName \<times> int \<times> string option" where
  "upstream_id b =
     (br_SvcNsName b, sp_Port (br_ServicePort b),
      case br_SessionPersistence b of None \<Rightarrow> None | Some sp \<Rightarrow> (if spc_Name sp = '''' then None else Some (spc_Idx sp)))"

abbreviation no_underscore :: "NamespacedName \<Rightarrow> bool" where
  "no_underscore n \<equiv> CHR ''_'' \<notin> set (nn_Namespace n) \<and> CHR ''_'' \<notin> set (nn_Name n)"

lemma BaseServicePortKey_inj:
  assumes "no_underscore (br_SvcNsName a)" and "no_underscore (br_SvcNsName b)"
  shows "BaseServicePortKey a @ r = BaseServicePortKey b @ s \<longleftrightarrow>
    br_SvcNsName a = br_SvcNsName b \<and>
    show_int (sp_Port (br_ServicePort a)) @ r = show_int (sp_Port (br_ServicePort b)) @ s"
  using assms
  by (cases "br_SvcNsName a"; cases "br_SvcNsName b") (simp add: BaseServicePortKey_def sep_append_inj)

lemma show_int_sep_inj:
  "show_int i @ CHR ''_'' # r = show_int j @ CHR ''_'' # s \<longleftrightarrow> i = j \<and> r = s"
  "show_int i \<noteq> show_int j @ CHR ''_'' # s" "show_int j @ CHR ''_'' # s \<noteq> show_int i"
  using show_int_no_sep(1) [of i] by (auto simp: sep_append_inj dest: show_int_inj)
    (metis in_set_conv_decomp show_int_no_sep(1))+

text \<open>
  The reference of a valid backend identifies its upstream: two valid backends have the same \<^verbatim>\<open>ServicePortReference\<close>
  exactly when they have the same Service, the same port and the same session persistence index. Names of namespaces and
  Services are DNS labels and contain no underscore.
\<close>

theorem ServicePortReference_unique:
  assumes "br_Valid a" and "br_Valid b" and "no_underscore (br_SvcNsName a)" and "no_underscore (br_SvcNsName b)"
  shows "ServicePortReference a = ServicePortReference b \<longleftrightarrow> upstream_id a = upstream_id b"
  using assms BaseServicePortKey_inj [OF assms(3,4)] BaseServicePortKey_inj [OF assms(3,4), of "[]" "[]"]
    BaseServicePortKey_inj [OF assms(3,4), of "[]"] BaseServicePortKey_inj [OF assms(3,4), of _ "[]"]
  by (auto simp: ServicePortReference_def upstream_id_def Let_def show_int_sep_inj dest: show_int_inj split: option.splits)

theorem ServicePortReference_unique_witness:
  "ServicePortReference (sample_backend None ''coffee'') \<noteq> ServicePortReference (sample_backend None ''tea'')"
  using ServicePortReference_unique [of "sample_backend None ''coffee''" "sample_backend None ''tea''"]
  by (simp add: sample_backend_def upstream_id_def)

end
