(* ===== verification/RouteBinding.thy ===== *)
theory RouteBinding
  imports Routes
begin

text \<open>
  Attaching routes to listeners: \<^verbatim>\<open>internal/controller/state/graph/route_common.go\<close>. First the parent
  references of a route, then the binding of layer 7 and layer 4 routes to the listeners of a Gateway, then the
  isolation of hostnames.

  A listener is a pointer into the store \<open>g_heap\<close> of its Gateway (see \<^verbatim>\<open>Listeners\<close>); the listeners of a
  ListenerSet are pointers into the store of the Gateway it is attached to. The map of routes of a listener is modelled by
  its keys: the value under a key is the route with that key.
\<close>

section \<open>Parent references\<close>

definition findGatewayForParentRef ::
  "ParentReference \<Rightarrow> string \<Rightarrow> (NamespacedName \<rightharpoonup> Gateway) \<Rightarrow> Gateway option" where
  "findGatewayForParentRef ref routeNamespace gws =
     (if pref_Kind ref \<noteq> None \<and> pref_Kind ref \<noteq> Some ''Gateway'' then None
      else if pref_Group ref \<noteq> None \<and> pref_Group ref \<noteq> Some GroupName then None
      else gws (nsname (deref_or routeNamespace (pref_Namespace ref)) (pref_Name ref)))"

definition findListenerSetForParentRef ::
  "ParentReference \<Rightarrow> string \<Rightarrow> (NamespacedName \<rightharpoonup> ListenerSet) \<Rightarrow> ListenerSet option" where
  "findListenerSetForParentRef ref routeNamespace listenerSets =
     (if pref_Kind ref \<noteq> None \<and> pref_Kind ref \<noteq> Some ''ListenerSet'' then None
      else if pref_Group ref \<noteq> None \<and> pref_Group ref \<noteq> Some GroupName then None
      else listenerSets (nsname (deref_or routeNamespace (pref_Namespace ref)) (pref_Name ref)))"

datatype parent = ParentGateway Gateway | ParentListenerSet ListenerSet

abbreviation gateway_key :: "Gateway \<Rightarrow> NamespacedName" where
  "gateway_key gw \<equiv> object_key (gw_Meta (g_Source gw))"

definition resolveParentRef ::
  "ParentReference \<Rightarrow> string \<Rightarrow> string \<Rightarrow> (NamespacedName \<rightharpoonup> Gateway) \<Rightarrow> (NamespacedName \<rightharpoonup> ListenerSet) \<Rightarrow> ParentRef
    \<Rightarrow> (ParentRef \<times> parent) option" where
  "resolveParentRef p kind routeNamespace gws listenerSets parentRef =
     (if kind = ''Gateway'' then
        (case findGatewayForParentRef p routeNamespace gws of
           None \<Rightarrow> None
         | Some gw \<Rightarrow>
             Some (parentRef\<lparr>pf_EffectiveNginxProxy := g_EffectiveNginxProxy gw, pf_NamespacedName := gateway_key gw,
                      pf_GatewayNsName := gateway_key gw\<rparr>, ParentGateway gw))
      else if kind = ''ListenerSet'' then
        (case findListenerSetForParentRef p routeNamespace listenerSets of
           None \<Rightarrow> None
         | Some ls \<Rightarrow>
             (let gwKey = object_key (gw_Meta (lset_Gateway ls));
                  ref1 = parentRef\<lparr>pf_NamespacedName := lset_name ls, pf_GatewayNsName := gwKey\<rparr>
              in Some (case gws gwKey of
                         None \<Rightarrow> ref1
                       | Some parentGW \<Rightarrow> ref1\<lparr>pf_EffectiveNginxProxy := g_EffectiveNginxProxy parentGW\<rparr>,
                       ParentListenerSet ls)))
      else None)"

text \<open>The names of the listeners of a parent, in order.\<close>

definition parent_sections :: "(NamespacedName \<rightharpoonup> Gateway) \<Rightarrow> parent \<Rightarrow> string list" where
  "parent_sections gws p =
     (case p of
        ParentGateway gw \<Rightarrow> map (\<lambda>i. v1_Name (l_Source (g_heap gw ! i))) (g_Listeners gw)
      | ParentListenerSet ls \<Rightarrow>
          (case gws (object_key (gw_Meta (lset_Gateway ls))) of
             None \<Rightarrow> []
           | Some gw \<Rightarrow> map (\<lambda>i. v1_Name (l_Source (g_heap gw ! i))) (lset_Listeners ls)))"

type_synonym section_key = "NamespacedName \<times> string"

text \<open>\<^verbatim>\<open>%q\<close> puts a section name, which has no character to escape, between quotes.\<close>

definition duplicate_section :: "section_key \<Rightarrow> string" where
  "duplicate_section k =
     ''duplicate section name '' @ [CHR 0x22] @ snd k @ [CHR 0x22] @ '' for ParentRef '' @ nn_String (fst k)"

text \<open>One ParentRef per section; the set of keys seen so far is the state.\<close>

fun section_refs ::
  "ParentRef \<Rightarrow> string list \<Rightarrow> section_key set \<Rightarrow> string + (ParentRef list \<times> section_key set)" where
  "section_refs parentRef [] seen = Inr ([], seen)"
| "section_refs parentRef (name # names) seen =
     (let k = (pf_NamespacedName parentRef, name) in
      if k \<in> seen then Inl (duplicate_section k)
      else
        (case section_refs parentRef names (insert k seen) of
           Inl err \<Rightarrow> Inl err
         | Inr (refs, seen') \<Rightarrow> Inr (parentRef\<lparr>pf_SectionName := Some name\<rparr> # refs, seen')))"

definition parent_ref_kind :: "ParentReference \<Rightarrow> string" where
  "parent_ref_kind p = deref_or ''Gateway'' (pref_Kind p)"

definition new_parent_ref :: "nat \<Rightarrow> string \<Rightarrow> ParentRef" where
  "new_parent_ref i kind =
     \<lparr>pf_Attachment = None, pf_SectionName = None, pf_Port = None, pf_EffectiveNginxProxy = None,
      pf_NamespacedName = noName, pf_GatewayNsName = noName, pf_Kind = kind, pf_Idx = i\<rparr>"

definition section_name_refs ::
  "(NamespacedName \<rightharpoonup> Gateway) \<Rightarrow> (NamespacedName \<rightharpoonup> ListenerSet) \<Rightarrow> string \<Rightarrow> nat \<Rightarrow> ParentReference \<Rightarrow> section_key set
    \<Rightarrow> string + (ParentRef list \<times> section_key set)" where
  "section_name_refs gws listenerSets routeNamespace i p seen =
     (let kind = parent_ref_kind p in
      case resolveParentRef p kind routeNamespace gws listenerSets (new_parent_ref i kind) of
        None \<Rightarrow> Inr ([], seen)
      | Some (parentRef, par) \<Rightarrow>
          (case pref_SectionName p of
             None \<Rightarrow>
               (case pref_Port p of
                  Some port \<Rightarrow> Inr ([parentRef\<lparr>pf_Port := Some port\<rparr>], seen)
                | None \<Rightarrow> section_refs parentRef (parent_sections gws par) seen)
           | Some name \<Rightarrow> section_refs (parentRef\<lparr>pf_Port := pref_Port p\<rparr>) [name] seen))"

fun buildSectionNameRefs_loop ::
  "(NamespacedName \<rightharpoonup> Gateway) \<Rightarrow> (NamespacedName \<rightharpoonup> ListenerSet) \<Rightarrow> string \<Rightarrow> (nat \<times> ParentReference) list \<Rightarrow> section_key set
    \<Rightarrow> string + ParentRef list" where
  "buildSectionNameRefs_loop gws listenerSets routeNamespace [] seen = Inr []"
| "buildSectionNameRefs_loop gws listenerSets routeNamespace ((i, p) # ps) seen =
     (case section_name_refs gws listenerSets routeNamespace i p seen of
        Inl err \<Rightarrow> Inl err
      | Inr (refs, seen') \<Rightarrow>
          (case buildSectionNameRefs_loop gws listenerSets routeNamespace ps seen' of
             Inl err \<Rightarrow> Inl err
           | Inr rest \<Rightarrow> Inr (refs @ rest)))"

definition buildSectionNameRefs ::
  "ParentReference list \<Rightarrow> string \<Rightarrow> (NamespacedName \<rightharpoonup> Gateway) \<Rightarrow> (NamespacedName \<rightharpoonup> ListenerSet) \<Rightarrow> string + ParentRef list" where
  "buildSectionNameRefs parentRefs routeNamespace gws listenerSets =
     buildSectionNameRefs_loop gws listenerSets routeNamespace (enumerate 0 parentRefs) {}"

section \<open>Listeners a reference may attach to\<close>

abbreviation getSectionName :: "string option \<Rightarrow> string" where
  "getSectionName s \<equiv> deref_or '''' s"

definition separateGatewayAndListenerSetListeners :: "Listener list \<Rightarrow> nat list \<Rightarrow> nat list \<times> nat list" where
  "separateGatewayAndListenerSetListeners heap listeners =
     (filter (\<lambda>i. nn_Name (l_ListenerSetName (heap ! i)) = '''') listeners,
      filter (\<lambda>i. nn_Name (l_ListenerSetName (heap ! i)) \<noteq> '''') listeners)"

definition findAttachableListeners :: "ParentRef \<Rightarrow> Listener list \<Rightarrow> nat list \<Rightarrow> nat list \<times> bool" where
  "findAttachableListeners ref heap listeners =
     (let sectionName = getSectionName (pf_SectionName ref); port = (\<lambda>i. v1_Port (l_Source (heap ! i))) in
      if sectionName \<noteq> '''' then
        (case find (\<lambda>i. l_Name (heap ! i) = sectionName) listeners of
           None \<Rightarrow> ([], False)
         | Some i \<Rightarrow>
             (if l_Attachable (heap ! i) \<and> (pf_Port ref = None \<or> pf_Port ref = Some (port i)) then ([i], True)
              else if pf_Port ref \<noteq> None \<and> pf_Port ref \<noteq> Some (port i) then ([], False)
              else ([], True)))
      else
        (case pf_Port ref of
           Some p \<Rightarrow>
             (let found = filter (\<lambda>i. port i = p) listeners
              in (filter (\<lambda>i. l_Attachable (heap ! i)) found, found \<noteq> []))
         | None \<Rightarrow> (filter (\<lambda>i. l_Attachable (heap ! i)) listeners, listeners \<noteq> [])))"

text \<open>The caller stores the status returned as the attachment of the reference, which the code does by a pointer.\<close>

definition validateParentRef ::
  "ParentRef \<Rightarrow> Gateway \<Rightarrow> ListenerSet option \<Rightarrow> ParentRefAttachmentStatus \<times> nat list" where
  "validateParentRef ref gw listenerSet =
     (let status = (\<lambda>conds. \<lparr>at_AcceptedHostnames = [], at_FailedConditions = conds, at_ListenerPort = 0, at_Attached = False\<rparr>);
          listeners = (case listenerSet of
             Some ls \<Rightarrow> lset_Listeners ls
           | None \<Rightarrow> fst (separateGatewayAndListenerSetListeners (g_heap gw) (g_Listeners gw)));
          (attachableListeners, listenerExists) = findAttachableListeners ref (g_heap gw) listeners
      in if \<not> listenerExists then (status [NewRouteNoMatchingParent], [])
         else if pf_Kind ref = ''ListenerSet'' \<and> (case listenerSet of None \<Rightarrow> False | Some ls \<Rightarrow> \<not> lset_Valid ls) then
           (status [NewRouteInvalidListenerSet], attachableListeners)
         else if \<not> g_Valid gw then (status [NewRouteInvalidGateway], attachableListeners)
         else (status [], attachableListeners))"

definition isRouteNamespaceAllowedByListener :: "Listener \<Rightarrow> string \<Rightarrow> string \<Rightarrow> namespaces \<Rightarrow> bool go" where
  "isRouteNamespaceAllowedByListener listener routeNS parentRefNamespace nss =
     (case Option.bind (v1_AllowedRoutes (l_Source listener)) al_Namespaces of
        None \<Rightarrow> Inr True
      | Some rn \<Rightarrow>
          (case rn_From rn of
             None \<Rightarrow> Inl NilDeref
           | Some NamespacesFromAll \<Rightarrow> Inr True
           | Some NamespacesFromSame \<Rightarrow> Inr (routeNS = parentRefNamespace)
           | Some NamespacesFromSelector \<Rightarrow>
               (case l_AllowedRouteLabelSelector listener of
                  None \<Rightarrow> Inr False
                | Some sel \<Rightarrow>
                    (case nss routeNS of
                       None \<Rightarrow> Inl (Panic (''route namespace '' @ [CHR 0x22] @ routeNS @ [CHR 0x22] @ '' not found in map''))
                     | Some labels \<Rightarrow> Inr (sel labels)))
           | Some _ \<Rightarrow> Inr True))"

definition isRouteTypeAllowedByListener :: "Listener \<Rightarrow> string \<Rightarrow> bool" where
  "isRouteTypeAllowedByListener listener kind = list_ex (\<lambda>k. rgk_Kind k = kind) (l_SupportedKinds listener)"

definition convertRouteType :: "RouteType \<Rightarrow> string go" where
  "convertRouteType t =
     (case t of RouteTypeHTTP \<Rightarrow> Inr ''HTTPRoute'' | RouteTypeGRPC \<Rightarrow> Inr ''GRPCRoute''
      | _ \<Rightarrow> Inl (Panic (''unsupported route type: '' @ RouteType_string t)))"

definition getL4RouteKind :: "L4Route \<Rightarrow> string go" where
  "getL4RouteKind route =
     (case l4_RouteType route of RouteTypeTLS \<Rightarrow> Inr ''TLSRoute'' | RouteTypeTCP \<Rightarrow> Inr ''TCPRoute''
      | RouteTypeUDP \<Rightarrow> Inr ''UDPRoute'' | _ \<Rightarrow> Inl (Panic ''Unknown type''))"

definition isHTTP2Disabled :: "EffectiveNginxProxy option \<Rightarrow> bool" where
  "isHTTP2Disabled npCfg = (case npCfg of None \<Rightarrow> False | Some c \<Rightarrow> deref_or False (enp_DisableHTTP2 c))"

section \<open>Layer 7\<close>

text \<open>What one round of an attachment loop learns: allowed, attached, attached to a valid listener.\<close>

record attach_flags =
  fg_allowed :: bool
  fg_attached :: bool
  fg_valid :: bool

abbreviation no_flags :: attach_flags where
  "no_flags \<equiv> \<lparr>fg_allowed = False, fg_attached = False, fg_valid = False\<rparr>"

definition bind_l7 ::
  "L7Route \<Rightarrow> RouteKey \<Rightarrow> namespaces \<Rightarrow> string \<Rightarrow> nat \<Rightarrow> ParentRefAttachmentStatus \<times> Listener list
    \<Rightarrow> ((bool \<times> bool) \<times> ParentRefAttachmentStatus \<times> Listener list) go" where
  "bind_l7 route rk nss parentRefNamespace i s =
     (case s of (refStatus, heap) \<Rightarrow>
      let l = heap ! i in
      bind_go (isRouteNamespaceAllowedByListener l (om_Namespace (l7_Source route)) parentRefNamespace nss) (\<lambda>allowed.
        if \<not> allowed then Inr ((False, False), s)
        else bind_go (convertRouteType (l7_RouteType route)) (\<lambda>kind.
          if \<not> isRouteTypeAllowedByListener l kind then Inr ((False, False), s)
          else
            (let hostnames = findAcceptedHostnames (v1_Hostname (l_Source l)) (l7_Hostnames route) in
             if hostnames = [] then Inr ((True, False), s)
             else Inr ((True, True),
               refStatus\<lparr>at_AcceptedHostnames :=
                   AList.update (CreateParentRefListenerKeyFromListener l) hostnames (at_AcceptedHostnames refStatus),
                 at_ListenerPort := v1_Port (l_Source l)\<rparr>,
               upd_at i (\<lambda>l. l\<lparr>l_Routes := List.insert rk (l_Routes l)\<rparr>) heap)))))"

definition attach_l7_step ::
  "L7Route \<Rightarrow> RouteKey \<Rightarrow> namespaces \<Rightarrow> string \<Rightarrow> nat \<Rightarrow> attach_flags \<times> ParentRefAttachmentStatus \<times> Listener list
    \<Rightarrow> (attach_flags \<times> ParentRefAttachmentStatus \<times> Listener list) go" where
  "attach_l7_step route rk nss parentRefNamespace i s =
     (case s of (fl, refStatus, heap) \<Rightarrow>
      bind_go (bind_l7 route rk nss parentRefNamespace i (refStatus, heap)) (\<lambda>((routeAllowed, routeAttached), refStatus', heap').
        Inr (\<lparr>fg_allowed = fg_allowed fl \<or> routeAllowed, fg_attached = fg_attached fl \<or> routeAttached,
              fg_valid = fg_valid fl \<or> (routeAttached \<and> l_Valid (heap ! i))\<rparr>, refStatus', heap')))"

definition tryToAttachL7RouteToListeners ::
  "L7Route \<Rightarrow> namespaces \<Rightarrow> string \<Rightarrow> nat list \<Rightarrow> ParentRefAttachmentStatus \<times> Listener list
    \<Rightarrow> ((Condition \<times> bool) \<times> ParentRefAttachmentStatus \<times> Listener list) go" where
  "tryToAttachL7RouteToListeners route nss parentRefNamespace attachableListeners s =
     (if attachableListeners = [] then Inr ((NewRouteInvalidListener, False), s)
      else
        bind_go (CreateRouteKey (l7_Source route) (l7_RouteType route)) (\<lambda>rk.
        bind_go (fold_go (attach_l7_step route rk nss parentRefNamespace) attachableListeners (no_flags, s))
          (\<lambda>(fl, s').
            if \<not> fg_attached fl then
              (if \<not> fg_allowed fl then Inr ((NewRouteNotAllowedByListeners, False), s')
               else Inr ((NewRouteNoMatchingListenerHostname, False), s'))
            else if \<not> fg_valid fl then Inr ((NewRouteInvalidListener, True), s')
            else Inr ((emptyCondition, True), s'))))"

text \<open>
  The ListenerSet of a reference, or None for a reference to the Gateway; the outer None means that the reference is not for
  this Gateway.
\<close>

definition parent_for_gateway ::
  "ParentRef \<Rightarrow> NamespacedName \<Rightarrow> (NamespacedName \<rightharpoonup> ListenerSet) \<Rightarrow> ListenerSet option option" where
  "parent_for_gateway ref gwNsName listenerSets =
     (if pf_Kind ref = ''ListenerSet'' then
        (case listenerSets (pf_NamespacedName ref) of
           None \<Rightarrow> None
         | Some ls \<Rightarrow> (if object_key (gw_Meta (lset_Gateway ls)) \<noteq> gwNsName then None else Some (Some ls)))
      else if pf_Kind ref = ''Gateway'' \<and> pf_NamespacedName ref \<noteq> gwNsName then None
      else Some (listenerSets noName))"

definition invalid_backend_conds :: "L7Route \<Rightarrow> NamespacedName \<Rightarrow> Condition list" where
  "invalid_backend_conds route gwNsName =
     concat (map (\<lambda>rule. List.map_filter (\<lambda>b. br_InvalidForGateways b gwNsName) (rr_BackendRefs rule)) (l7_Rules route))"

definition bind_parent_l7 ::
  "namespaces \<Rightarrow> (NamespacedName \<rightharpoonup> ListenerSet) \<Rightarrow> nat \<Rightarrow> L7Route \<times> Gateway \<Rightarrow> (L7Route \<times> Gateway) go" where
  "bind_parent_l7 nss listenerSets i s =
     (case s of (route, gw) \<Rightarrow>
      let ref = l7_ParentRefs route ! i; gwNsName = gateway_key gw;
          set_attachment = (\<lambda>a route. route\<lparr>l7_ParentRefs := upd_at i (\<lambda>r. r\<lparr>pf_Attachment := Some a\<rparr>) (l7_ParentRefs route)\<rparr>)
      in case parent_for_gateway ref gwNsName listenerSets of
           None \<Rightarrow> Inr s
         | Some ls \<Rightarrow>
             (let (attachment, attachableListeners) = validateParentRef ref gw ls;
                  http2 = (l7_RouteType route = RouteTypeGRPC \<and> isHTTP2Disabled (g_EffectiveNginxProxy gw));
                  attachment1 = (if http2 then
                      attachment\<lparr>at_FailedConditions := at_FailedConditions attachment @
                        [NewRouteUnsupportedConfiguration ''HTTP2 is disabled - cannot configure GRPCRoutes'']\<rparr>
                    else attachment)
              in if at_FailedConditions attachment1 \<noteq> [] then Inr (set_attachment attachment1 route, gw)
                 else
                   (let attachment2 = attachment1\<lparr>at_FailedConditions := invalid_backend_conds route gwNsName\<rparr> in
                    bind_go (tryToAttachL7RouteToListeners route nss (nn_Namespace (pf_NamespacedName ref)) attachableListeners
                               (attachment2, g_heap gw))
                      (\<lambda>((cond, attached), attachment3, heap).
                        let gw' = gw\<lparr>g_heap := heap\<rparr> in
                        if \<not> attached then
                          Inr (set_attachment (attachment3\<lparr>at_FailedConditions := at_FailedConditions attachment3 @ [cond]\<rparr>) route, gw')
                        else
                          (let route1 = (if cond \<noteq> emptyCondition then route\<lparr>l7_Conditions := l7_Conditions route @ [cond]\<rparr> else route)
                           in Inr (set_attachment (attachment3\<lparr>at_Attached := True\<rparr>) route1, gw'))))))"

definition bindL7RouteToListeners ::
  "namespaces \<Rightarrow> (NamespacedName \<rightharpoonup> ListenerSet) \<Rightarrow> L7Route \<times> Gateway \<Rightarrow> (L7Route \<times> Gateway) go" where
  "bindL7RouteToListeners nss listenerSets s =
     (if \<not> l7_Attachable (fst s) then Inr s
      else fold_go (bind_parent_l7 nss listenerSets) [0..<length (l7_ParentRefs (fst s))] s)"

section \<open>Layer 4\<close>

definition portHostname :: "string \<Rightarrow> v1_Listener \<Rightarrow> string" where
  "portHostname h l = h @ '':'' @ show_int (v1_Port l) @ '':'' @ ProtocolType_string (v1_Protocol l)"

text \<open>The loop over the accepted hostnames: those whose port was free are kept and taken.\<close>

fun claim_hostnames :: "v1_Listener \<Rightarrow> string list \<Rightarrow> string set \<Rightarrow> string list \<times> string set" where
  "claim_hostnames l [] taken = ([], taken)"
| "claim_hostnames l (h # hs) taken =
     (if portHostname h l \<in> taken then claim_hostnames l hs taken
      else (let (kept, taken') = claim_hostnames l hs (insert (portHostname h l) taken) in (h # kept, taken')))"

record l4_flags =
  f4_allowed :: bool
  f4_attached :: bool
  f4_hostnamesUnique :: bool
  f4_multiple :: bool

type_synonym l4_state = "ParentRefAttachmentStatus \<times> Listener list \<times> string set"

definition bindToListenerL4 ::
  "L4Route \<Rightarrow> namespaces \<Rightarrow> string \<Rightarrow> nat \<Rightarrow> l4_state \<Rightarrow> (l4_flags \<times> l4_state) go" where
  "bindToListenerL4 route nss parentRefNamespace i s =
     (case s of (refStatus, heap, taken) \<Rightarrow>
      let l = heap ! i;
          flags = (\<lambda>allowed attached unique multiple.
             \<lparr>f4_allowed = allowed, f4_attached = attached, f4_hostnamesUnique = unique, f4_multiple = multiple\<rparr>)
      in bind_go (isRouteNamespaceAllowedByListener l (om_Namespace (l4_Source route)) parentRefNamespace nss) (\<lambda>allowed.
        if \<not> allowed then Inr (flags False False False False, s)
        else bind_go (getL4RouteKind route) (\<lambda>routeKind.
          if \<not> isRouteTypeAllowedByListener l routeKind then Inr (flags False False False False, s)
          else bind_go (CreateRouteKeyL4 (l4_Source route) (l4_RouteType route)) (\<lambda>currentRouteKey.
            if (routeKind = ''TCPRoute'' \<or> routeKind = ''UDPRoute'') \<and> list_ex (\<lambda>k. k \<noteq> currentRouteKey) (l_L4Routes l) then
              Inr (flags True False True True, s)
            else
              (let accepted = findAcceptedHostnames (v1_Hostname (l_Source l)) (l4_Hostnames route);
                   (hostnames, taken') = claim_hostnames (l_Source l) accepted taken
               in if hostnames = [] \<and> accepted \<noteq> [] then Inr (flags True False False False, (refStatus, heap, taken'))
                  else if hostnames = [] then Inr (flags True False True False, (refStatus, heap, taken'))
                  else Inr (flags True True True False,
                    (refStatus\<lparr>at_AcceptedHostnames :=
                        AList.update (CreateParentRefListenerKeyFromListener l) hostnames (at_AcceptedHostnames refStatus)\<rparr>,
                     upd_at i (\<lambda>l. l\<lparr>l_L4Routes := List.insert currentRouteKey (l_L4Routes l)\<rparr>) heap, taken')))))))"

text \<open>
  The comparison of \<^verbatim>\<open>sortListenersByHostname\<close>. It answers true on equal hostnames, so it is not an order, and the
  result of \<^verbatim>\<open>sort.Slice\<close> with it is only known to be a permutation. \<^verbatim>\<open>sort.Slice\<close> is an argument of the model, for the
  listeners and for the layer 4 routes.
\<close>

definition listener_hostname_before :: "Listener list \<Rightarrow> nat \<Rightarrow> nat \<Rightarrow> bool" where
  "listener_hostname_before heap i j =
     (let h1 = getHostname (v1_Hostname (l_Source (heap ! i))); h2 = getHostname (v1_Hostname (l_Source (heap ! j)))
      in h1 = GetMoreSpecificHostname h1 h2)"

record sort_slice =
  sort_listeners :: "(nat \<Rightarrow> nat \<Rightarrow> bool) \<Rightarrow> nat list \<Rightarrow> nat list"
  sort_l4routes :: "(L4RouteKey \<times> L4Route \<Rightarrow> L4RouteKey \<times> L4Route \<Rightarrow> bool) \<Rightarrow> (L4RouteKey \<times> L4Route) list \<Rightarrow> (L4RouteKey \<times> L4Route) list"

definition sortListenersByHostname :: "sort_slice \<Rightarrow> Listener list \<Rightarrow> nat list \<Rightarrow> nat list" where
  "sortListenersByHostname srt heap attachableListeners =
     sort_listeners srt (listener_hostname_before heap) attachableListeners"

definition attach_l4_step ::
  "L4Route \<Rightarrow> namespaces \<Rightarrow> string \<Rightarrow> nat \<Rightarrow> (l4_flags \<times> bool) \<times> l4_state \<Rightarrow> ((l4_flags \<times> bool) \<times> l4_state) go" where
  "attach_l4_step route nss parentRefNamespace i s =
     (case s of ((fl, validOne), st) \<Rightarrow>
      bind_go (bindToListenerL4 route nss parentRefNamespace i st) (\<lambda>(r, st').
        Inr ((\<lparr>f4_allowed = f4_allowed fl \<or> f4_allowed r, f4_attached = f4_attached fl \<or> f4_attached r,
               f4_hostnamesUnique = f4_hostnamesUnique fl \<or> f4_hostnamesUnique r, f4_multiple = f4_multiple fl \<or> f4_multiple r\<rparr>,
              validOne \<or> (f4_attached r \<and> l_Valid (fst (snd st) ! i))), st')))"

definition tryToAttachL4RouteToListeners ::
  "sort_slice \<Rightarrow> L4Route \<Rightarrow> namespaces \<Rightarrow> string \<Rightarrow> nat list \<Rightarrow> l4_state \<Rightarrow> ((Condition \<times> bool) \<times> l4_state) go" where
  "tryToAttachL4RouteToListeners srt route nss parentRefNamespace attachableListeners s =
     (if attachableListeners = [] then Inr ((NewRouteInvalidListener, False), s)
      else
        bind_go (fold_go (attach_l4_step route nss parentRefNamespace)
                   (sortListenersByHostname srt (fst (snd s)) attachableListeners)
                   ((\<lparr>f4_allowed = False, f4_attached = False, f4_hostnamesUnique = False, f4_multiple = False\<rparr>, False), s))
          (\<lambda>((fl, validOne), s').
            if \<not> f4_attached fl then
              (if \<not> f4_allowed fl then Inr ((NewRouteNotAllowedByListeners, False), s')
               else if f4_multiple fl then Inr ((NewRouteMultipleRoutesOnListener, False), s')
               else if \<not> f4_hostnamesUnique fl then Inr ((NewRouteHostnameConflict, False), s')
               else Inr ((NewRouteNoMatchingListenerHostname, False), s'))
            else if \<not> validOne then Inr ((NewRouteInvalidListener, True), s')
            else Inr ((emptyCondition, True), s')))"

definition bind_parent_l4 ::
  "sort_slice \<Rightarrow> namespaces \<Rightarrow> (NamespacedName \<rightharpoonup> ListenerSet) \<Rightarrow> nat \<Rightarrow> L4Route \<times> Gateway \<times> string set
    \<Rightarrow> (L4Route \<times> Gateway \<times> string set) go" where
  "bind_parent_l4 srt nss listenerSets i s =
     (case s of (route, gw, taken) \<Rightarrow>
      let ref = l4_ParentRefs route ! i; gwNsName = gateway_key gw;
          set_attachment = (\<lambda>a route. route\<lparr>l4_ParentRefs := upd_at i (\<lambda>r. r\<lparr>pf_Attachment := Some a\<rparr>) (l4_ParentRefs route)\<rparr>)
      in case parent_for_gateway ref gwNsName listenerSets of
           None \<Rightarrow> Inr s
         | Some ls \<Rightarrow>
             (let (attachment, attachableListeners) = validateParentRef ref gw ls in
              if at_FailedConditions attachment \<noteq> [] then Inr (set_attachment attachment route, gw, taken)
              else
                (let backendConds = take 1 (List.map_filter (\<lambda>b. br_InvalidForGateways b gwNsName) (GetBackendRefs route));
                     attachment1 = attachment\<lparr>at_FailedConditions := backendConds\<rparr>
                 in bind_go (tryToAttachL4RouteToListeners srt route nss (nn_Namespace (pf_NamespacedName ref)) attachableListeners
                               (attachment1, g_heap gw, taken))
                      (\<lambda>((cond, attached), attachment2, heap, taken').
                        let gw' = gw\<lparr>g_heap := heap\<rparr> in
                        if \<not> attached then
                          Inr (set_attachment (attachment2\<lparr>at_FailedConditions := at_FailedConditions attachment2 @ [cond]\<rparr>) route, gw', taken')
                        else
                          (let route1 = (if cond \<noteq> emptyCondition then route\<lparr>l4_Conditions := l4_Conditions route @ [cond]\<rparr> else route)
                           in Inr (set_attachment (attachment2\<lparr>at_Attached := True\<rparr>) route1, gw', taken'))))))"

definition bindL4RouteToListeners ::
  "sort_slice \<Rightarrow> namespaces \<Rightarrow> (NamespacedName \<rightharpoonup> ListenerSet) \<Rightarrow> L4Route \<times> Gateway \<times> string set \<Rightarrow> (L4Route \<times> Gateway \<times> string set) go" where
  "bindL4RouteToListeners srt nss listenerSets s =
     (if \<not> l4_Attachable (fst s) then Inr s
      else fold_go (bind_parent_l4 srt nss listenerSets) [0..<length (l4_ParentRefs (fst s))] s)"

section \<open>Isolation of hostnames\<close>

record hostPort =
  hp_parentRefNsName :: NamespacedName
  hp_hostname :: string
  hp_port :: int

definition getListenerHostPortMap :: "Listener list \<Rightarrow> (string \<times> hostPort) list" where
  "getListenerHostPortMap listeners =
     fold (\<lambda>l. AList.update (CreateParentRefListenerKeyFromListener l)
         \<lparr>hp_parentRefNsName = (if nn_Name (l_ListenerSetName l) \<noteq> '''' then l_ListenerSetName l else l_GatewayName l),
          hp_hostname = getHostname (v1_Hostname (l_Source l)), hp_port = v1_Port (l_Source l)\<rparr>)
       listeners []"

definition removeHostnames :: "string list \<Rightarrow> string set \<Rightarrow> string list" where
  "removeHostnames hostnames toRemove = filter (\<lambda>h. h \<notin> toRemove) hostnames"

text \<open>Whether hostname \<open>h\<close>, accepted under \<open>key\<close>, belongs to another listener of the same parent.\<close>

definition belongs_elsewhere :: "bool \<Rightarrow> ParentRef \<Rightarrow> int \<Rightarrow> string \<Rightarrow> string \<Rightarrow> string \<times> hostPort \<Rightarrow> bool" where
  "belongs_elsewhere isL4Route ref listenerPort key h lhp =
     (case lhp of (lName, hp) \<Rightarrow>
        pf_NamespacedName ref = hp_parentRefNsName hp \<and> hp_hostname hp \<noteq> '''' \<and>
        h = hp_hostname hp \<and> key \<noteq> lName \<and> (isL4Route \<or> hp_port hp = listenerPort))"

text \<open>The loop over the accepted hostnames; the set of hostnames to remove is carried from one key to the next.\<close>

fun isolate_entries ::
  "bool \<Rightarrow> ParentRef \<Rightarrow> int \<Rightarrow> (string \<times> hostPort) list \<Rightarrow> (string \<times> string list) list \<Rightarrow> string set \<Rightarrow> (string \<times> string list) list" where
  "isolate_entries isL4Route ref port lmap [] toRemove = []"
| "isolate_entries isL4Route ref port lmap ((key, hostnames) # es) toRemove =
     (if hostnames = [] then (key, hostnames) # isolate_entries isL4Route ref port lmap es toRemove
      else
        (let toRemove' = toRemove \<union> set (filter (\<lambda>h. list_ex (belongs_elsewhere isL4Route ref port key h) lmap) hostnames)
         in (key, removeHostnames hostnames toRemove') # isolate_entries isL4Route ref port lmap es toRemove'))"

definition isolate_ref :: "(string \<times> hostPort) list \<Rightarrow> bool \<Rightarrow> ParentRef \<Rightarrow> ParentRef" where
  "isolate_ref lmap isL4Route ref =
     (if pf_SectionName ref = None then ref
      else case pf_Attachment ref of
        None \<Rightarrow> ref
      | Some a \<Rightarrow>
          ref\<lparr>pf_Attachment := Some (a\<lparr>at_AcceptedHostnames :=
            isolate_entries isL4Route ref (at_ListenerPort a) lmap (at_AcceptedHostnames a) {}\<rparr>)\<rparr>)"

definition isolateHostnamesForParentRefs :: "ParentRef list \<Rightarrow> (string \<times> hostPort) list \<Rightarrow> bool \<Rightarrow> ParentRef list" where
  "isolateHostnamesForParentRefs parentRef listenerHostnameMap isL4Route = map (isolate_ref listenerHostnameMap isL4Route) parentRef"

definition isolateL7RouteListeners :: "(RouteKey \<times> L7Route) list \<Rightarrow> (string \<times> hostPort) list \<Rightarrow> (RouteKey \<times> L7Route) list" where
  "isolateL7RouteListeners routes lmap =
     map (\<lambda>(k, r). (k, r\<lparr>l7_ParentRefs := isolateHostnamesForParentRefs (l7_ParentRefs r) lmap False\<rparr>)) routes"

definition isolateL4RouteListeners :: "(L4RouteKey \<times> L4Route) list \<Rightarrow> (string \<times> hostPort) list \<Rightarrow> (L4RouteKey \<times> L4Route) list" where
  "isolateL4RouteListeners routes lmap =
     map (\<lambda>(k, r). (k, r\<lparr>l4_ParentRefs := isolateHostnamesForParentRefs (l4_ParentRefs r) lmap True\<rparr>)) routes"

section \<open>All routes\<close>

definition bind_l7_routes ::
  "namespaces \<Rightarrow> (NamespacedName \<rightharpoonup> ListenerSet) \<Rightarrow> (RouteKey \<times> L7Route) list \<Rightarrow> Gateway \<Rightarrow> ((RouteKey \<times> L7Route) list \<times> Gateway) go" where
  "bind_l7_routes nss listenerSets routes gw =
     fold_go (\<lambda>(k, r) (done, gw). bind_go (bindL7RouteToListeners nss listenerSets (r, gw)) (\<lambda>(r', gw'). Inr (done @ [(k, r')], gw')))
       routes ([], gw)"

definition bind_l4_routes ::
  "sort_slice \<Rightarrow> namespaces \<Rightarrow> (NamespacedName \<rightharpoonup> ListenerSet) \<Rightarrow> (L4RouteKey \<times> L4Route) list \<Rightarrow> Gateway
    \<Rightarrow> ((L4RouteKey \<times> L4Route) list \<times> Gateway \<times> string set) go" where
  "bind_l4_routes srt nss listenerSets routes gw =
     fold_go (\<lambda>(k, r) (done, gw, taken).
         bind_go (bindL4RouteToListeners srt nss listenerSets (r, gw, taken)) (\<lambda>(r', gw', taken'). Inr (done @ [(k, r')], gw', taken')))
       (sort_l4routes srt (\<lambda>x y. LessClientObject (\<lambda>kr. l4_Source (snd kr)) x y) routes) ([], gw, {})"

definition bind_gateway ::
  "sort_slice \<Rightarrow> namespaces \<Rightarrow> (NamespacedName \<rightharpoonup> ListenerSet) \<Rightarrow> Gateway \<Rightarrow> (RouteKey \<times> L7Route) list \<times> (L4RouteKey \<times> L4Route) list
    \<Rightarrow> (Gateway \<times> (RouteKey \<times> L7Route) list \<times> (L4RouteKey \<times> L4Route) list) go" where
  "bind_gateway srt nss listenerSets gw s =
     (case s of (l7Routes, l4Routes) \<Rightarrow>
      bind_go (bind_l7_routes nss listenerSets l7Routes gw) (\<lambda>(l7Routes1, gw1).
        let listenerMap = getListenerHostPortMap (map (\<lambda>i. g_heap gw1 ! i) (g_Listeners gw1));
            l7Routes2 = isolateL7RouteListeners l7Routes1 listenerMap
        in bind_go (bind_l4_routes srt nss listenerSets l4Routes gw1) (\<lambda>(l4Routes1, gw2, _).
             Inr (gw2, l7Routes2, isolateL4RouteListeners l4Routes1 listenerMap))))"

definition bindRoutesToListeners ::
  "sort_slice \<Rightarrow> namespaces \<Rightarrow> (NamespacedName \<rightharpoonup> ListenerSet)
    \<Rightarrow> (RouteKey \<times> L7Route) list \<times> (L4RouteKey \<times> L4Route) list \<times> (NamespacedName \<times> Gateway) list
    \<Rightarrow> ((RouteKey \<times> L7Route) list \<times> (L4RouteKey \<times> L4Route) list \<times> (NamespacedName \<times> Gateway) list) go" where
  "bindRoutesToListeners srt nss listenerSets s =
     (case s of (l7Routes, l4Routes, gws) \<Rightarrow>
      fold_go (\<lambda>(k, gw) (l7s, l4s, done).
          bind_go (bind_gateway srt nss listenerSets gw (l7s, l4s)) (\<lambda>(gw', l7s', l4s'). Inr (l7s', l4s', done @ [(k, gw')])))
        gws (l7Routes, l4Routes, []))"

end
