(* ===== verification/RouteAttachment.thy ===== *)
theory RouteAttachment
  imports RouteBinding
begin

text \<open>
  What the binding of layer 7 routes to the listeners of a Gateway does (\<^verbatim>\<open>bindL7RouteToListeners\<close> and the
  functions it calls): exactly the listeners that a declarative specification allows get the route, every parent
  reference says why it failed, and no listener is changed otherwise.
\<close>

section \<open>Adding a route to some listeners\<close>

definition attach_at :: "RouteKey \<Rightarrow> nat set \<Rightarrow> Listener list \<Rightarrow> Listener list" where
  "attach_at rk J heap =
     map (\<lambda>(j, l). if j \<in> J then l\<lparr>l_Routes := List.insert rk (l_Routes l)\<rparr> else l) (enumerate 0 heap)"

lemma length_attach_at [simp]: "length (attach_at rk J heap) = length heap"
  by (simp add: attach_at_def)

lemma nth_attach_at:
  "j < length heap \<Longrightarrow> attach_at rk J heap ! j =
     (if j \<in> J then (heap ! j)\<lparr>l_Routes := List.insert rk (l_Routes (heap ! j))\<rparr> else heap ! j)"
  by (simp add: attach_at_def nth_enumerate_eq)

lemma attach_at_empty [simp]: "attach_at rk {} heap = heap"
  by (rule nth_equalityI) (simp_all add: nth_attach_at)

lemma attach_at_union: "attach_at rk J (attach_at rk K heap) = attach_at rk (K \<union> J) heap"
  by (rule nth_equalityI) (auto simp: nth_attach_at List.insert_def)

lemma upd_at_attach_at: "i < length heap \<Longrightarrow> upd_at i (\<lambda>l. l\<lparr>l_Routes := List.insert rk (l_Routes l)\<rparr>) heap = attach_at rk {i} heap"
  by (rule nth_equalityI) (auto simp: nth_attach_at nth_upd_at)

text \<open>Everything the binding reads of a listener is left alone.\<close>

lemma attach_at_fields [simp]:
  assumes "j < length heap"
  shows "l_Name (attach_at rk J heap ! j) = l_Name (heap ! j)"
    and "l_Source (attach_at rk J heap ! j) = l_Source (heap ! j)"
    and "l_Attachable (attach_at rk J heap ! j) = l_Attachable (heap ! j)"
    and "l_Valid (attach_at rk J heap ! j) = l_Valid (heap ! j)"
    and "l_ListenerSetName (attach_at rk J heap ! j) = l_ListenerSetName (heap ! j)"
    and "l_GatewayName (attach_at rk J heap ! j) = l_GatewayName (heap ! j)"
    and "l_SupportedKinds (attach_at rk J heap ! j) = l_SupportedKinds (heap ! j)"
    and "l_AllowedRouteLabelSelector (attach_at rk J heap ! j) = l_AllowedRouteLabelSelector (heap ! j)"
    and "l_L4Routes (attach_at rk J heap ! j) = l_L4Routes (heap ! j)"
  using assms by (simp_all add: nth_attach_at)

section \<open>One listener\<close>

text \<open>A listener takes a route when it allows the namespace and the kind of the route and shares a hostname with it.\<close>

definition listener_accepts :: "namespaces \<Rightarrow> L7Route \<Rightarrow> string \<Rightarrow> Listener \<Rightarrow> bool" where
  "listener_accepts nss route parentNs l \<longleftrightarrow>
     isRouteNamespaceAllowedByListener l (om_Namespace (l7_Source route)) parentNs nss = Inr True \<and>
     (case convertRouteType (l7_RouteType route) of Inl _ \<Rightarrow> False | Inr kind \<Rightarrow> isRouteTypeAllowedByListener l kind) \<and>
     findAcceptedHostnames (v1_Hostname (l_Source l)) (l7_Hostnames route) \<noteq> []"

lemma isRouteNamespaceAllowed_attach_at [simp]:
  assumes "j < length heap"
  shows "isRouteNamespaceAllowedByListener (attach_at rk J heap ! j) ns pns nss = isRouteNamespaceAllowedByListener (heap ! j) ns pns nss"
  unfolding isRouteNamespaceAllowedByListener_def attach_at_fields(2,8) [OF assms] ..

lemma listener_accepts_attach_at [simp]:
  "j < length heap \<Longrightarrow> listener_accepts nss route pns (attach_at rk J heap ! j) = listener_accepts nss route pns (heap ! j)"
  by (simp add: listener_accepts_def isRouteTypeAllowedByListener_def split: sum.split)

text \<open>The attachment status records an accepted listener.\<close>

definition accept_into :: "L7Route \<Rightarrow> Listener \<Rightarrow> ParentRefAttachmentStatus \<Rightarrow> ParentRefAttachmentStatus" where
  "accept_into route l st =
     st\<lparr>at_AcceptedHostnames :=
          AList.update (CreateParentRefListenerKeyFromListener l)
            (findAcceptedHostnames (v1_Hostname (l_Source l)) (l7_Hostnames route)) (at_AcceptedHostnames st),
        at_ListenerPort := v1_Port (l_Source l)\<rparr>"

lemma bind_l7_result:
  assumes "bind_l7 route rk nss pns i (st, heap) = Inr ((al, at), st', heap')" and "i < length heap"
  shows "at = listener_accepts nss route pns (heap ! i)"
    and "heap' = (if at then attach_at rk {i} heap else heap)"
    and "st' = (if at then accept_into route (heap ! i) st else st)"
  using assms
  by (auto simp: bind_l7_def Let_def bind_go_Inr_iff listener_accepts_def upd_at_attach_at accept_into_def split: if_splits)

section \<open>The listeners of one reference\<close>

definition accepted_in :: "namespaces \<Rightarrow> L7Route \<Rightarrow> string \<Rightarrow> Listener list \<Rightarrow> nat list \<Rightarrow> nat list" where
  "accepted_in nss route pns heap is = filter (\<lambda>i. listener_accepts nss route pns (heap ! i)) is"

lemma accepted_in_attach_at:
  "\<forall>i \<in> set is. i < length heap \<Longrightarrow> accepted_in nss route pns (attach_at rk J heap) is = accepted_in nss route pns heap is"
  by (simp add: accepted_in_def cong: filter_cong)

lemma accept_into_attach_at:
  "\<forall>i \<in> set is. i < length heap \<Longrightarrow>
    fold (\<lambda>i. accept_into route (attach_at rk J heap ! i)) is st = fold (\<lambda>i. accept_into route (heap ! i)) is st"
  by (rule fold_cong) (auto simp: accept_into_def fun_eq_iff CreateParentRefListenerKeyFromListener_def)

lemma attach_l7_loop:
  assumes "fold_go (attach_l7_step route rk nss pns) is (fl, st, heap) = Inr (fl', st', heap')"
    and "\<forall>i \<in> set is. i < length heap"
  shows "heap' = attach_at rk (set (accepted_in nss route pns heap is)) heap \<and>
    st' = fold (\<lambda>i. accept_into route (heap ! i)) (accepted_in nss route pns heap is) st \<and>
    (fg_attached fl' \<longleftrightarrow> fg_attached fl \<or> accepted_in nss route pns heap is \<noteq> [])"
  using assms
proof (induction "is" arbitrary: fl st heap)
  case (Cons i "is")
  from Cons.prems(1) obtain fl1 st1 heap1 where
    step: "attach_l7_step route rk nss pns i (fl, st, heap) = Inr (fl1, st1, heap1)" and
    rest: "fold_go (attach_l7_step route rk nss pns) is (fl1, st1, heap1) = Inr (fl', st', heap')"
    by (auto simp: bind_go_Inr_iff)
  from step obtain al at where
    b: "bind_l7 route rk nss pns i (st, heap) = Inr ((al, at), st1, heap1)" and
    fl1: "fg_attached fl1 \<longleftrightarrow> fg_attached fl \<or> at"
    by (auto simp: attach_l7_step_def bind_go_Inr_iff)
  have i: "i < length heap" and bounds: "\<forall>i \<in> set is. i < length heap" using Cons.prems(2) by auto
  note r = bind_l7_result [OF b i]
  have len: "\<forall>i \<in> set is. i < length heap1" using bounds r(2) by simp
  note IH = Cons.IH [OF rest len]
  show ?case
  proof (cases at)
    case True
    then have acc: "accepted_in nss route pns heap (i # is) = i # accepted_in nss route pns heap is"
      using r(1) by (simp add: accepted_in_def)
    have sub: "\<forall>i \<in> set (accepted_in nss route pns heap is). i < length heap" using bounds by (auto simp: accepted_in_def)
    show ?thesis
      using IH True r fl1 unfolding acc
      by (simp add: accepted_in_attach_at [OF bounds] accept_into_attach_at [OF sub] attach_at_union)
  next
    case False
    then have "accepted_in nss route pns heap (i # is) = accepted_in nss route pns heap is"
      using r(1) by (simp add: accepted_in_def)
    with IH False r fl1 show ?thesis by simp
  qed
qed (simp add: accepted_in_def)

definition route_key :: "L7Route \<Rightarrow> RouteKey" where
  "route_key route = \<lparr>rk_NamespacedName = object_key (l7_Source route), rk_RouteType = l7_RouteType route\<rparr>"

lemma tryToAttachL7_result:
  assumes "tryToAttachL7RouteToListeners route nss pns is (st, heap) = Inr ((cond, attached), st', heap')"
    and "\<forall>i \<in> set is. i < length heap"
  shows "heap' = attach_at (route_key route) (set (accepted_in nss route pns heap is)) heap"
    and "st' = fold (\<lambda>i. accept_into route (heap ! i)) (accepted_in nss route pns heap is) st"
    and "attached \<longleftrightarrow> accepted_in nss route pns heap is \<noteq> []"
proof -
  have "heap' = attach_at (route_key route) (set (accepted_in nss route pns heap is)) heap \<and>
    st' = fold (\<lambda>i. accept_into route (heap ! i)) (accepted_in nss route pns heap is) st \<and>
    (attached \<longleftrightarrow> accepted_in nss route pns heap is \<noteq> [])"
  proof (cases "is = []")
    case True
    with assms(1) show ?thesis by (simp add: tryToAttachL7RouteToListeners_def accepted_in_def)
  next
    case False
    with assms(1) obtain rk fl where rk: "CreateRouteKey (l7_Source route) (l7_RouteType route) = Inr rk"
      and loop: "fold_go (attach_l7_step route rk nss pns) is (no_flags, st, heap) = Inr (fl, st', heap')"
      and att: "attached = fg_attached fl"
      by (auto simp: tryToAttachL7RouteToListeners_def bind_go_Inr_iff split: if_splits)
    from rk have "rk = route_key route" by (auto simp: CreateRouteKey_def route_key_def split: if_splits)
    with attach_l7_loop [OF loop assms(2)] att show ?thesis by simp
  qed
  then show "heap' = attach_at (route_key route) (set (accepted_in nss route pns heap is)) heap"
    and "st' = fold (\<lambda>i. accept_into route (heap ! i)) (accepted_in nss route pns heap is) st"
    and "attached \<longleftrightarrow> accepted_in nss route pns heap is \<noteq> []"
    by blast+
qed

section \<open>One parent reference\<close>

text \<open>The listeners a reference names on a Gateway, and those of them that take the route.\<close>

definition ref_listeners :: "(NamespacedName \<rightharpoonup> ListenerSet) \<Rightarrow> L7Route \<Rightarrow> Gateway \<Rightarrow> ParentRef \<Rightarrow> nat list" where
  "ref_listeners lsets route gw ref =
     (case parent_for_gateway ref (gateway_key gw) lsets of
        None \<Rightarrow> []
      | Some ls \<Rightarrow>
          (if at_FailedConditions (fst (validateParentRef ref gw ls)) = [] \<and>
              \<not> (l7_RouteType route = RouteTypeGRPC \<and> isHTTP2Disabled (g_EffectiveNginxProxy gw))
           then snd (validateParentRef ref gw ls) else []))"

definition ref_targets :: "namespaces \<Rightarrow> (NamespacedName \<rightharpoonup> ListenerSet) \<Rightarrow> L7Route \<Rightarrow> Gateway \<Rightarrow> ParentRef \<Rightarrow> nat list" where
  "ref_targets nss lsets route gw ref =
     accepted_in nss route (nn_Namespace (pf_NamespacedName ref)) (g_heap gw) (ref_listeners lsets route gw ref)"

text \<open>The pointers of a Gateway and of its ListenerSets point into the store; no ListenerSet has the empty name.\<close>

definition pointers_ok :: "(NamespacedName \<rightharpoonup> ListenerSet) \<Rightarrow> Gateway \<Rightarrow> bool" where
  "pointers_ok lsets gw \<longleftrightarrow>
     lsets noName = None \<and> (\<forall>i \<in> set (g_Listeners gw). i < length (g_heap gw)) \<and>
     (\<forall>n ls. lsets n = Some ls \<longrightarrow> object_key (gw_Meta (lset_Gateway ls)) = gateway_key gw \<longrightarrow>
        (\<forall>i \<in> set (lset_Listeners ls). i < length (g_heap gw)))"

definition parent_listeners :: "Gateway \<Rightarrow> ListenerSet option \<Rightarrow> nat list" where
  "parent_listeners gw ls =
     (case ls of Some ls \<Rightarrow> lset_Listeners ls | None \<Rightarrow> fst (separateGatewayAndListenerSetListeners (g_heap gw) (g_Listeners gw)))"

lemma parent_listeners_ok:
  assumes "pointers_ok lsets gw" and "parent_for_gateway ref (gateway_key gw) lsets = Some ls" and "i \<in> set (parent_listeners gw ls)"
  shows "i < length (g_heap gw)"
  using assms
  by (auto simp: pointers_ok_def parent_for_gateway_def parent_listeners_def separateGatewayAndListenerSetListeners_def
      split: if_splits option.splits)

lemma findAttachableListeners_sub: "set (fst (findAttachableListeners ref heap is)) \<subseteq> {i \<in> set is. l_Attachable (heap ! i)}"
  by (auto simp: findAttachableListeners_def Let_def find_Some_iff split: option.splits if_splits)

lemma validateParentRef_listeners: "set (snd (validateParentRef ref gw ls)) \<subseteq> {i \<in> set (parent_listeners gw ls). l_Attachable (g_heap gw ! i)}"
  using findAttachableListeners_sub [of ref "g_heap gw" "parent_listeners gw ls"]
  by (auto simp: validateParentRef_def parent_listeners_def Let_def split: prod.splits if_splits option.splits)

lemma ref_listeners_ok:
  assumes "pointers_ok lsets gw" and "i \<in> set (ref_listeners lsets route gw ref)"
  shows "i < length (g_heap gw)"
proof -
  from assms(2) obtain ls where ls: "parent_for_gateway ref (gateway_key gw) lsets = Some ls" "i \<in> set (snd (validateParentRef ref gw ls))"
    by (cases "parent_for_gateway ref (gateway_key gw) lsets") (auto simp: ref_listeners_def split: if_splits)
  then have "i \<in> set (parent_listeners gw ls)" using validateParentRef_listeners by blast
  then show ?thesis by (rule parent_listeners_ok [OF assms(1) ls(1)])
qed

text \<open>Adding routes to listeners does not change which listeners a reference names.\<close>

abbreviation attached_gateway :: "RouteKey \<Rightarrow> nat set \<Rightarrow> Gateway \<Rightarrow> Gateway" where
  "attached_gateway rk J gw \<equiv> gw\<lparr>g_heap := attach_at rk J (g_heap gw)\<rparr>"

lemma find_cong_set: "(\<And>x. x \<in> set xs \<Longrightarrow> P x = Q x) \<Longrightarrow> find P xs = find Q xs"
  by (induction xs) auto

lemma findAttachableListeners_attach_at:
  assumes "\<forall>i \<in> set is. i < length heap"
  shows "findAttachableListeners ref (attach_at rk J heap) is = findAttachableListeners ref heap is"
proof (cases "getSectionName (pf_SectionName ref) = ''''")
  case True
  have ports: "filter (\<lambda>i. v1_Port (l_Source (attach_at rk J heap ! i)) = p) is = filter (\<lambda>i. v1_Port (l_Source (heap ! i)) = p) is" for p
    using assms by (intro filter_cong) simp_all
  have "filter (\<lambda>i. l_Attachable (attach_at rk J heap ! i)) js = filter (\<lambda>i. l_Attachable (heap ! i)) js" if "set js \<subseteq> set is" for js
    using assms that by (intro filter_cong) auto
  then have att: "filter (\<lambda>i. l_Attachable (attach_at rk J heap ! i)) (filter P is) = filter (\<lambda>i. l_Attachable (heap ! i)) (filter P is)"
    "filter (\<lambda>i. l_Attachable (attach_at rk J heap ! i)) is = filter (\<lambda>i. l_Attachable (heap ! i)) is" for P
    by (auto simp del: filter_filter)
  show ?thesis by (simp only: findAttachableListeners_def Let_def True ports att simp_thms if_False)
next
  case False
  let ?s = "getSectionName (pf_SectionName ref)"
  have find: "find (\<lambda>i. l_Name (attach_at rk J heap ! i) = ?s) is = find (\<lambda>i. l_Name (heap ! i) = ?s) is"
    using assms by (intro find_cong_set) simp
  show ?thesis
  proof (cases "find (\<lambda>i. l_Name (heap ! i) = ?s) is")
    case None
    then show ?thesis using False find by (simp add: findAttachableListeners_def Let_def)
  next
    case (Some i)
    then have "i < length heap" using assms by (auto simp: find_Some_iff)
    then show ?thesis using False find Some by (simp add: findAttachableListeners_def Let_def)
  qed
qed

lemma parent_listeners_attached:
  assumes "pointers_ok lsets gw"
  shows "parent_listeners (attached_gateway rk J gw) ls = parent_listeners gw ls"
proof -
  have "filter (\<lambda>i. nn_Name (l_ListenerSetName (attach_at rk J (g_heap gw) ! i)) = '''') (g_Listeners gw) =
    filter (\<lambda>i. nn_Name (l_ListenerSetName (g_heap gw ! i)) = '''') (g_Listeners gw)"
    using assms by (intro filter_cong) (auto simp: pointers_ok_def)
  then show ?thesis by (simp add: parent_listeners_def separateGatewayAndListenerSetListeners_def split: option.split)
qed

lemma validateParentRef_eq:
  "validateParentRef ref gw ls =
     (let status = (\<lambda>conds. \<lparr>at_AcceptedHostnames = [], at_FailedConditions = conds, at_ListenerPort = 0, at_Attached = False\<rparr>);
          (attachableListeners, listenerExists) = findAttachableListeners ref (g_heap gw) (parent_listeners gw ls)
      in if \<not> listenerExists then (status [NewRouteNoMatchingParent], [])
         else if pf_Kind ref = ''ListenerSet'' \<and> (case ls of None \<Rightarrow> False | Some ls \<Rightarrow> \<not> lset_Valid ls) then
           (status [NewRouteInvalidListenerSet], attachableListeners)
         else if \<not> g_Valid gw then (status [NewRouteInvalidGateway], attachableListeners)
         else (status [], attachableListeners))"
  unfolding validateParentRef_def parent_listeners_def by (simp add: Let_def)

lemma validateParentRef_attached:
  assumes "pointers_ok lsets gw" and "parent_for_gateway ref (gateway_key gw) lsets = Some ls"
  shows "validateParentRef ref (attached_gateway rk J gw) ls = validateParentRef ref gw ls"
proof -
  have "\<forall>i \<in> set (parent_listeners gw ls). i < length (g_heap gw)" using parent_listeners_ok [OF assms] by blast
  note f = findAttachableListeners_attach_at [OF this]
  have "g_Valid (attached_gateway rk J gw) = g_Valid gw" "g_heap (attached_gateway rk J gw) = attach_at rk J (g_heap gw)"
    by simp_all
  then show ?thesis unfolding validateParentRef_eq parent_listeners_attached [OF assms(1)] by (simp only: f)
qed

lemma ref_targets_attached:
  assumes "pointers_ok lsets gw"
  shows "ref_targets nss lsets route (attached_gateway rk J gw) ref = ref_targets nss lsets route gw ref"
proof -
  have "ref_listeners lsets route (attached_gateway rk J gw) ref = ref_listeners lsets route gw ref"
    using validateParentRef_attached [OF assms, of ref]
    by (cases "parent_for_gateway ref (gateway_key gw) lsets") (auto simp: ref_listeners_def)
  then show ?thesis
    using ref_listeners_ok [OF assms] by (simp add: ref_targets_def accepted_in_attach_at)
qed

lemma pointers_ok_attached [simp]: "pointers_ok lsets (attached_gateway rk J gw) = pointers_ok lsets gw"
  by (simp add: pointers_ok_def)

text \<open>What a reference says afterwards.\<close>

definition status_truthful :: "namespaces \<Rightarrow> (NamespacedName \<rightharpoonup> ListenerSet) \<Rightarrow> L7Route \<Rightarrow> Gateway \<Rightarrow> ParentRef \<Rightarrow> ParentRefAttachmentStatus \<Rightarrow> bool" where
  "status_truthful nss lsets route gw ref a \<longleftrightarrow>
     (at_Attached a \<longleftrightarrow> ref_targets nss lsets route gw ref \<noteq> []) \<and>
     (\<not> at_Attached a \<longrightarrow> at_FailedConditions a \<noteq> []) \<and>
     at_AcceptedHostnames a =
       at_AcceptedHostnames (fold (\<lambda>i. accept_into route (g_heap gw ! i)) (ref_targets nss lsets route gw ref)
         \<lparr>at_AcceptedHostnames = [], at_FailedConditions = [], at_ListenerPort = 0, at_Attached = False\<rparr>)"

definition ref_result :: "namespaces \<Rightarrow> (NamespacedName \<rightharpoonup> ListenerSet) \<Rightarrow> L7Route \<Rightarrow> Gateway \<Rightarrow> ParentRef \<Rightarrow> ParentRef \<Rightarrow> bool" where
  "ref_result nss lsets route gw ref ref' \<longleftrightarrow>
     (if parent_for_gateway ref (gateway_key gw) lsets = None then ref' = ref
      else \<exists>a. ref' = ref\<lparr>pf_Attachment := Some a\<rparr> \<and> status_truthful nss lsets route gw ref a)"

lemma accept_into_fields [simp]:
  "at_FailedConditions (accept_into route l st) = at_FailedConditions st"
  "at_Attached (accept_into route l st) = at_Attached st"
  by (simp_all add: accept_into_def)

lemma fold_accept_into_fields [simp]:
  "at_FailedConditions (fold (\<lambda>i. accept_into route (heap ! i)) is st) = at_FailedConditions st"
  "at_Attached (fold (\<lambda>i. accept_into route (heap ! i)) is st) = at_Attached st"
  by (induction "is" arbitrary: st) simp_all

lemma fold_accept_into_hostnames:
  "at_AcceptedHostnames st = at_AcceptedHostnames st' \<Longrightarrow>
    at_AcceptedHostnames (fold (\<lambda>i. accept_into route (heap ! i)) is st) =
    at_AcceptedHostnames (fold (\<lambda>i. accept_into route (heap ! i)) is st')"
proof (induction "is" arbitrary: st st')
  case (Cons i "is")
  have "at_AcceptedHostnames (accept_into route (heap ! i) st) = at_AcceptedHostnames (accept_into route (heap ! i) st')"
    using Cons.prems by (simp add: accept_into_def)
  from Cons.IH [OF this] show ?case by simp
qed simp

lemma validateParentRef_fresh:
  "at_AcceptedHostnames (fst (validateParentRef ref gw ls)) = []" "\<not> at_Attached (fst (validateParentRef ref gw ls))"
  by (auto simp: validateParentRef_eq Let_def split: prod.splits)

text \<open>The parts of a route the binding reads and keeps.\<close>

definition route_static :: "L7Route \<Rightarrow> L7Route \<Rightarrow> bool" where
  "route_static r r' \<longleftrightarrow>
     l7_Source r' = l7_Source r \<and> l7_RouteType r' = l7_RouteType r \<and> l7_Hostnames r' = l7_Hostnames r \<and>
     l7_Rules r' = l7_Rules r \<and> l7_Attachable r' = l7_Attachable r \<and> l7_Valid r' = l7_Valid r"

lemma route_static_key: "route_static r r' \<Longrightarrow> route_key r' = route_key r"
  by (simp add: route_static_def route_key_def)

lemma route_static_accepts: "route_static r r' \<Longrightarrow> listener_accepts nss r' = listener_accepts nss r"
  by (simp add: route_static_def listener_accepts_def fun_eq_iff)

lemma route_static_targets: "route_static r r' \<Longrightarrow> ref_targets nss lsets r' gw ref = ref_targets nss lsets r gw ref"
  using route_static_accepts [of r r' nss]
  by (simp add: ref_targets_def ref_listeners_def accepted_in_def route_static_def split: option.split)

lemma route_static_accept_into: "route_static r r' \<Longrightarrow> accept_into r' = accept_into r"
  by (simp add: route_static_def accept_into_def fun_eq_iff)

lemma route_static_ref_result: "route_static r r' \<Longrightarrow> ref_result nss lsets r' gw ref = ref_result nss lsets r gw ref"
  by (intro ext) (simp only: ref_result_def status_truthful_def route_static_targets route_static_accept_into)

lemma ref_result_attached:
  assumes "pointers_ok lsets gw"
  shows "ref_result nss lsets route (attached_gateway rk J gw) ref = ref_result nss lsets route gw ref"
proof -
  have "\<forall>i \<in> set (ref_targets nss lsets route gw ref). i < length (g_heap gw)"
    using ref_listeners_ok [OF assms] by (auto simp: ref_targets_def accepted_in_def)
  note acc = accept_into_attach_at [OF this]
  have "g_heap (attached_gateway rk J gw) = attach_at rk J (g_heap gw)" "gateway_key (attached_gateway rk J gw) = gateway_key gw"
    by simp_all
  then show ?thesis
    by (intro ext) (simp only: ref_result_def status_truthful_def ref_targets_attached [OF assms] acc)
qed

definition parent_step_ok ::
  "namespaces \<Rightarrow> (NamespacedName \<rightharpoonup> ListenerSet) \<Rightarrow> nat \<Rightarrow> L7Route \<Rightarrow> Gateway \<Rightarrow> L7Route \<Rightarrow> Gateway \<Rightarrow> bool" where
  "parent_step_ok nss lsets i route gw route' gw' \<longleftrightarrow>
     gw' = attached_gateway (route_key route) (set (ref_targets nss lsets route gw (l7_ParentRefs route ! i))) gw \<and>
     route_static route route' \<and>
     (\<exists>ref'. l7_ParentRefs route' = (l7_ParentRefs route)[i := ref'] \<and>
        ref_result nss lsets route gw (l7_ParentRefs route ! i) ref')"

lemma parent_step_refused:
  assumes "i < length (l7_ParentRefs route)" and "ref = l7_ParentRefs route ! i"
    and "parent_for_gateway ref (gateway_key gw) lsets = Some ls"
    and "at_FailedConditions (fst (validateParentRef ref gw ls)) \<noteq> [] \<or>
      (l7_RouteType route = RouteTypeGRPC \<and> isHTTP2Disabled (g_EffectiveNginxProxy gw))"
    and "bind_parent_l7 nss lsets i (route, gw) = Inr (route', gw')"
  shows "parent_step_ok nss lsets i route gw route' gw'"
proof -
  obtain a "is" where v: "validateParentRef ref gw ls = (a, is)" by fastforce
  from v validateParentRef_fresh [of ref gw ls] have fresh: "at_AcceptedHostnames a = []" "\<not> at_Attached a" by simp_all
  have none: "ref_targets nss lsets route gw ref = []"
    using assms(3,4) by (auto simp: ref_targets_def ref_listeners_def accepted_in_def)
  obtain a' where a': "route' = route\<lparr>l7_ParentRefs := upd_at i (\<lambda>r. r\<lparr>pf_Attachment := Some a'\<rparr>) (l7_ParentRefs route)\<rparr>"
    "gw' = gw" "at_AcceptedHostnames a' = []" "\<not> at_Attached a'" "at_FailedConditions a' \<noteq> []"
    using assms v fresh by (auto simp: bind_parent_l7_def Let_def split: if_splits)
  have "status_truthful nss lsets route gw ref a'" using a' none by (simp add: status_truthful_def)
  then show ?thesis
    using a' none assms(2,3) by (auto simp: parent_step_ok_def route_static_def upd_at_def ref_result_def)
qed

lemma parent_step_tried:
  assumes "i < length (l7_ParentRefs route)" and "ref = l7_ParentRefs route ! i" and "pointers_ok lsets gw"
    and "parent_for_gateway ref (gateway_key gw) lsets = Some ls"
    and "at_FailedConditions (fst (validateParentRef ref gw ls)) = []"
    and "\<not> (l7_RouteType route = RouteTypeGRPC \<and> isHTTP2Disabled (g_EffectiveNginxProxy gw))"
    and "bind_parent_l7 nss lsets i (route, gw) = Inr (route', gw')"
  shows "parent_step_ok nss lsets i route gw route' gw'"
proof -
  let ?pns = "nn_Namespace (pf_NamespacedName ref)"
  obtain a "is" where v: "validateParentRef ref gw ls = (a, is)" by fastforce
  from v validateParentRef_fresh [of ref gw ls] have fresh: "at_AcceptedHostnames a = []" "\<not> at_Attached a" by simp_all
  have listeners: "ref_listeners lsets route gw ref = is" using assms(4-6) v by (auto simp: ref_listeners_def)
  define a2 where "a2 = a\<lparr>at_FailedConditions := invalid_backend_conds route (gateway_key gw)\<rparr>"
  from assms v obtain cond attached a3 heap where
    tried: "tryToAttachL7RouteToListeners route nss ?pns is (a2, g_heap gw) = Inr ((cond, attached), a3, heap)"
    by (auto simp: bind_parent_l7_def Let_def bind_go_Inr_iff a2_def split: if_splits)
  have bounds: "\<forall>i \<in> set is. i < length (g_heap gw)" using ref_listeners_ok [OF assms(3)] listeners by blast
  note t = tryToAttachL7_result [OF tried bounds]
  have targets: "accepted_in nss route ?pns (g_heap gw) is = ref_targets nss lsets route gw ref"
    by (simp add: ref_targets_def listeners)
  define a4 where "a4 = (if attached then a3\<lparr>at_Attached := True\<rparr> else a3\<lparr>at_FailedConditions := at_FailedConditions a3 @ [cond]\<rparr>)"
  have res: "l7_ParentRefs route' = upd_at i (\<lambda>r. r\<lparr>pf_Attachment := Some a4\<rparr>) (l7_ParentRefs route)"
    "gw' = gw\<lparr>g_heap := heap\<rparr>" "route_static route route'"
    using assms v tried unfolding a2_def a4_def
    by (auto simp: bind_parent_l7_def Let_def route_static_def split: if_splits)
  have "status_truthful nss lsets route gw ref a4"
    using t fresh fold_accept_into_hostnames [of a2 "\<lparr>at_AcceptedHostnames = [], at_FailedConditions = [], at_ListenerPort = 0, at_Attached = False\<rparr>"]
    by (simp add: status_truthful_def a4_def a2_def targets)
  moreover have "gw' = attached_gateway (route_key route) (set (ref_targets nss lsets route gw ref)) gw"
    using res(2) t(1) targets by simp
  ultimately show ?thesis
    using res(1,3) assms(2,4) by (auto simp: parent_step_ok_def upd_at_def ref_result_def)
qed

lemma bind_parent_l7_result:
  assumes "bind_parent_l7 nss lsets i (route, gw) = Inr (route', gw')" and "i < length (l7_ParentRefs route)" and "pointers_ok lsets gw"
  shows "parent_step_ok nss lsets i route gw route' gw'"
proof (cases "parent_for_gateway (l7_ParentRefs route ! i) (gateway_key gw) lsets")
  case None
  with assms(1) have "route' = route" "gw' = gw" by (auto simp: bind_parent_l7_def Let_def)
  with None show ?thesis
    by (auto simp: parent_step_ok_def route_static_def ref_targets_def ref_listeners_def accepted_in_def ref_result_def
        intro!: exI [of _ "l7_ParentRefs route ! i"])
next
  case (Some ls)
  show ?thesis
    using parent_step_refused [OF assms(2) refl Some _ assms(1)] parent_step_tried [OF assms(2) refl assms(3) Some _ _ assms(1)]
    by blast
qed

section \<open>All parent references\<close>

lemma attached_gateway_twice: "attached_gateway rk J (attached_gateway rk K gw) = attached_gateway rk (K \<union> J) gw"
  by (simp add: attach_at_union)

lemma route_static_trans: "route_static a b \<Longrightarrow> route_static b c \<Longrightarrow> route_static a c"
  by (simp add: route_static_def)

lemma bindL7_result:
  assumes "bindL7RouteToListeners nss lsets (route, gw) = Inr (route', gw')" and "l7_Attachable route" and "pointers_ok lsets gw"
  shows "gw' = attached_gateway (route_key route) (\<Union>ref \<in> set (l7_ParentRefs route). set (ref_targets nss lsets route gw ref)) gw"
    and "route_static route route'"
    and "list_all2 (ref_result nss lsets route gw) (l7_ParentRefs route) (l7_ParentRefs route')"
proof -
  let ?refs = "l7_ParentRefs route" and ?rk = "route_key route"
  let ?T = "\<lambda>k. set (ref_targets nss lsets route gw (?refs ! k))"
  define I where "I = (\<lambda>i (s :: L7Route \<times> Gateway). snd s = attached_gateway ?rk (\<Union>k<i. ?T k) gw \<and> route_static route (fst s) \<and>
    length (l7_ParentRefs (fst s)) = length ?refs \<and>
    (\<forall>j<i. ref_result nss lsets route gw (?refs ! j) (l7_ParentRefs (fst s) ! j)) \<and>
    (\<forall>j<length ?refs. i \<le> j \<longrightarrow> l7_ParentRefs (fst s) ! j = ?refs ! j))"
  have run: "fold_go (bind_parent_l7 nss lsets) [0..<length ?refs] (route, gw) = Inr (route', gw')"
    using assms(1,2) by (simp add: bindL7RouteToListeners_def)
  have init: "I 0 (route, gw)" by (simp add: I_def route_static_def)
  have step: "I (Suc i) t" if i: "i < length ?refs" and I: "I i s" and st: "bind_parent_l7 nss lsets i s = Inr t" for i s t
  proof -
    obtain r g r' g' where s: "s = (r, g)" "t = (r', g')" by fastforce
    have g: "g = attached_gateway ?rk (\<Union>k<i. ?T k) gw" and stat: "route_static route r" and len: "length (l7_ParentRefs r) = length ?refs"
      and cur: "l7_ParentRefs r ! i = ?refs ! i" using I i by (simp_all add: I_def s)
    have "parent_step_ok nss lsets i r g r' g'"
      using bind_parent_l7_result [OF st [unfolded s]] i len assms(3) g by simp
    then obtain ref' where g': "g' = attached_gateway (route_key r) (set (ref_targets nss lsets r g (?refs ! i))) g"
      and stat': "route_static r r'" and refs': "l7_ParentRefs r' = (l7_ParentRefs r)[i := ref']"
      and ref': "ref_result nss lsets r g (?refs ! i) ref'"
      unfolding parent_step_ok_def cur by blast
    have "ref_targets nss lsets r g (?refs ! i) = ref_targets nss lsets route gw (?refs ! i)"
      unfolding route_static_targets [OF stat] g by (rule ref_targets_attached [OF assms(3)])
    then have "g' = attached_gateway ?rk (\<Union>k<Suc i. ?T k) gw"
      unfolding g' g route_static_key [OF stat] attached_gateway_twice by (simp add: lessThan_Suc Un_commute)
    moreover have "ref_result nss lsets route gw (?refs ! i) ref'"
      using ref' unfolding route_static_ref_result [OF stat] g ref_result_attached [OF assms(3)] .
    ultimately show ?thesis
      using I route_static_trans [OF stat stat'] refs' len i unfolding I_def s by (simp add: nth_list_update less_Suc_eq)
  qed
  from fold_go_upt [where I = I, OF run init step] have fin: "I (length ?refs) (route', gw')" .
  have "(\<Union>k<length ?refs. ?T k) = (\<Union>ref \<in> set ?refs. set (ref_targets nss lsets route gw ref))"
    by (force simp: set_conv_nth)
  then show "gw' = attached_gateway ?rk (\<Union>ref \<in> set ?refs. set (ref_targets nss lsets route gw ref)) gw"
    using fin by (simp add: I_def)
  show "route_static route route'" using fin by (simp add: I_def)
  show "list_all2 (ref_result nss lsets route gw) ?refs (l7_ParentRefs route')" using fin by (simp add: I_def list_all2_conv_all_nth)
qed

section \<open>Properties\<close>

text \<open>
  When a parent reference gives listener \<open>j\<close> the route: the reference is for this Gateway or for a ListenerSet of it,
  it selects the listener by section name and port among the attachable listeners of that parent, the ListenerSet
  and the Gateway are valid, gRPC is not disabled, and the listener takes the route.
\<close>

definition selects :: "ParentRef \<Rightarrow> Listener list \<Rightarrow> nat list \<Rightarrow> nat \<Rightarrow> bool" where
  "selects ref heap is j \<longleftrightarrow>
     j \<in> set is \<and> l_Attachable (heap ! j) \<and> (pf_Port ref = None \<or> pf_Port ref = Some (v1_Port (l_Source (heap ! j)))) \<and>
     (let sectionName = getSectionName (pf_SectionName ref) in
      sectionName = '''' \<or> find (\<lambda>i. l_Name (heap ! i) = sectionName) is = Some j)"

definition attaches :: "namespaces \<Rightarrow> (NamespacedName \<rightharpoonup> ListenerSet) \<Rightarrow> L7Route \<Rightarrow> Gateway \<Rightarrow> ParentRef \<Rightarrow> nat \<Rightarrow> bool" where
  "attaches nss lsets route gw ref j \<longleftrightarrow>
     (case parent_for_gateway ref (gateway_key gw) lsets of
        None \<Rightarrow> False
      | Some ls \<Rightarrow>
          selects ref (g_heap gw) (parent_listeners gw ls) j \<and>
          (pf_Kind ref = ''ListenerSet'' \<longrightarrow> (case ls of None \<Rightarrow> True | Some l \<Rightarrow> lset_Valid l)) \<and> g_Valid gw \<and>
          \<not> (l7_RouteType route = RouteTypeGRPC \<and> isHTTP2Disabled (g_EffectiveNginxProxy gw)) \<and>
          listener_accepts nss route (nn_Namespace (pf_NamespacedName ref)) (g_heap gw ! j))"

lemma findAttachableListeners_missing: "\<not> snd (findAttachableListeners ref heap is) \<Longrightarrow> fst (findAttachableListeners ref heap is) = []"
  by (auto simp: findAttachableListeners_def Let_def filter_empty_conv split: option.splits if_splits)

lemma validateParentRef_attachable:
  "at_FailedConditions (fst (validateParentRef ref gw ls)) = [] \<and> j \<in> set (snd (validateParentRef ref gw ls)) \<longleftrightarrow>
     j \<in> set (fst (findAttachableListeners ref (g_heap gw) (parent_listeners gw ls))) \<and>
     (pf_Kind ref = ''ListenerSet'' \<longrightarrow> (case ls of None \<Rightarrow> True | Some l \<Rightarrow> lset_Valid l)) \<and> g_Valid gw"
proof -
  obtain a e where f: "findAttachableListeners ref (g_heap gw) (parent_listeners gw ls) = (a, e)" by fastforce
  have "\<not> e \<Longrightarrow> a = []" using findAttachableListeners_missing [of ref "g_heap gw" "parent_listeners gw ls"] f by simp
  then show ?thesis unfolding validateParentRef_eq Let_def f by (auto split: option.splits)
qed

lemma findAttachableListeners_selects: "j \<in> set (fst (findAttachableListeners ref heap is)) \<longleftrightarrow> selects ref heap is j"
proof (cases "getSectionName (pf_SectionName ref) = ''''")
  case True
  then show ?thesis by (auto simp: findAttachableListeners_def selects_def Let_def split: option.split)
next
  case False
  have "find P is = Some i \<Longrightarrow> i \<in> set is" for P i by (auto simp: find_Some_iff)
  with False show ?thesis by (auto simp: findAttachableListeners_def selects_def Let_def split: option.split)
qed

lemma in_ref_targets: "j \<in> set (ref_targets nss lsets route gw ref) \<longleftrightarrow> attaches nss lsets route gw ref j"
  using validateParentRef_attachable [of ref gw _ j] findAttachableListeners_selects [of j ref]
  by (cases "parent_for_gateway ref (gateway_key gw) lsets")
    (auto simp: ref_targets_def accepted_in_def ref_listeners_def attaches_def)

text \<open>
  C6. Binding a layer 7 route to a Gateway attaches it to exactly the listeners that allow it: a listener has the
  route afterwards if and only if it had it before or some parent reference of the route attaches it, and nothing
  else of any listener changes.
\<close>

theorem l7_binding_exact:
  assumes "bindL7RouteToListeners nss lsets (route, gw) = Inr (route', gw')" and "l7_Attachable route" and "pointers_ok lsets gw"
    and "j < length (g_heap gw)"
  shows "(route_key route \<in> set (l_Routes (g_heap gw' ! j)) \<longleftrightarrow>
      route_key route \<in> set (l_Routes (g_heap gw ! j)) \<or> (\<exists>ref \<in> set (l7_ParentRefs route). attaches nss lsets route gw ref j)) \<and>
    set (l_Routes (g_heap gw' ! j)) \<subseteq> insert (route_key route) (set (l_Routes (g_heap gw ! j))) \<and>
    (g_heap gw' ! j)\<lparr>l_Routes := []\<rparr> = (g_heap gw ! j)\<lparr>l_Routes := []\<rparr>"
  using bindL7_result(1) [OF assms(1-3)] assms(4) by (auto simp: nth_attach_at in_ref_targets)

text \<open>
  C21. The status of every parent reference is truthful: after binding, a reference to this Gateway has an attachment that
  says attached exactly when some listener took the route through it, and that names a reason when none did; references
  to other Gateways are untouched.
\<close>

theorem l7_attachment_truthful:
  assumes "bindL7RouteToListeners nss lsets (route, gw) = Inr (route', gw')" and "l7_Attachable route" and "pointers_ok lsets gw"
    and "k < length (l7_ParentRefs route)"
  shows "if parent_for_gateway (l7_ParentRefs route ! k) (gateway_key gw) lsets = None
    then l7_ParentRefs route' ! k = l7_ParentRefs route ! k
    else \<exists>a. pf_Attachment (l7_ParentRefs route' ! k) = Some a \<and>
      (at_Attached a \<longleftrightarrow> (\<exists>j. attaches nss lsets route gw (l7_ParentRefs route ! k) j)) \<and>
      (at_Attached a \<or> at_FailedConditions a \<noteq> [])"
proof -
  let ?ref = "l7_ParentRefs route ! k"
  have r: "ref_result nss lsets route gw ?ref (l7_ParentRefs route' ! k)"
    using bindL7_result(3) [OF assms(1-3)] assms(4) by (rule list_all2_nthD)
  have targets: "ref_targets nss lsets route gw ?ref \<noteq> [] \<longleftrightarrow> (\<exists>j. attaches nss lsets route gw ?ref j)"
    by (simp flip: in_ref_targets set_empty add: ex_in_conv)
  show ?thesis
  proof (cases "parent_for_gateway ?ref (gateway_key gw) lsets = None")
    case False
    with r obtain a where a: "l7_ParentRefs route' ! k = ?ref\<lparr>pf_Attachment := Some a\<rparr>"
      "status_truthful nss lsets route gw ?ref a" by (auto simp: ref_result_def)
    have "at_Attached a \<longleftrightarrow> (\<exists>j. attaches nss lsets route gw ?ref j)" and "at_Attached a \<or> at_FailedConditions a \<noteq> []"
      using a(2) targets unfolding status_truthful_def by blast+
    moreover have "pf_Attachment (l7_ParentRefs route' ! k) = Some a" using a(1) by simp
    ultimately show ?thesis using False by (simp only: if_False) blast
  qed (use r in \<open>simp add: ref_result_def\<close>)
qed

definition bound_listener :: "string \<Rightarrow> string option \<Rightarrow> int \<Rightarrow> ProtocolType \<Rightarrow> string list \<Rightarrow> Listener" where
  "bound_listener name host port protocol kinds =
     \<lparr>l_Name = name, l_GatewayName = nsname ''web'' ''gateway'', l_ListenerSetName = noName,
      l_Source = sample_listener name host port protocol None, l_AllowedRouteLabelSelector = None, l_Routes = [], l_L4Routes = [],
      l_ValidationMode = AllowValidOnly, l_CACertificateRefs = [], l_ResolvedSecrets = [], l_Conditions = [],
      l_SupportedKinds = map route_kind kinds, l_Valid = True, l_Attachable = True\<rparr>"

definition bound_gateway :: "Listener list \<Rightarrow> Gateway" where
  "bound_gateway ls =
     \<lparr>g_Source = (sample_gateway [])\<lparr>gw_Meta := \<lparr>om_CreationTimestamp = 0, om_Namespace = ''web'', om_Name = ''gateway''\<rparr>\<rparr>,
      g_EffectiveNginxProxy = None, g_ListenerFactory = newListenerConfiguratorFactory Map.empty, g_heap = ls,
      g_Listeners = [0..<length ls], g_AttachedListenerSets = [], g_Policies = [], g_Conditions = [], g_Valid = True\<rparr>"

definition sample_parent_ref :: "string option \<Rightarrow> ParentRef" where
  "sample_parent_ref sect =
     (new_parent_ref 0 ''Gateway'')\<lparr>pf_SectionName := sect, pf_NamespacedName := nsname ''web'' ''gateway'',
       pf_GatewayNsName := nsname ''web'' ''gateway''\<rparr>"

definition bound_route :: L7Route where
  "bound_route =
     \<lparr>l7_Source = \<lparr>om_CreationTimestamp = 0, om_Namespace = ''web'', om_Name = ''cafe''\<rparr>, l7_Generation = 1,
      l7_RouteType = RouteTypeHTTP, l7_Hostnames = [''cafe.example.com''], l7_Rules = [],
      l7_ParentRefs = [sample_parent_ref (Some ''http'')],
      l7_Policies = [], l7_Conditions = [], l7_Valid = True, l7_Attachable = True\<rparr>"

abbreviation http_gateway :: Gateway where
  "http_gateway \<equiv> bound_gateway [bound_listener ''http'' (Some ''*.example.com'') 80 HTTPProtocolType [''HTTPRoute'', ''GRPCRoute'']]"

lemma http_gateway_ok: "pointers_ok Map.empty http_gateway"
  by (simp add: pointers_ok_def bound_gateway_def)

lemma bound_route_run:
  obtains route' gw' where "bindL7RouteToListeners Map.empty Map.empty (bound_route, http_gateway) = Inr (route', gw')"
    and "route_key bound_route \<in> set (l_Routes (g_heap gw' ! 0))"
proof -
  have "case bindL7RouteToListeners Map.empty Map.empty (bound_route, http_gateway) of
      Inl _ \<Rightarrow> False | Inr (route', gw') \<Rightarrow> route_key bound_route \<in> set (l_Routes (g_heap gw' ! 0))"
    by code_simp
  then show thesis using that by (auto split: sum.splits)
qed

theorem l7_binding_exact_witness:
  "\<exists>route' gw'. bindL7RouteToListeners Map.empty Map.empty (bound_route, http_gateway) = Inr (route', gw') \<and>
     (\<exists>ref \<in> set (l7_ParentRefs bound_route). attaches Map.empty Map.empty bound_route http_gateway ref 0)"
proof -
  obtain route' gw' where run: "bindL7RouteToListeners Map.empty Map.empty (bound_route, http_gateway) = Inr (route', gw')"
    and mem: "route_key bound_route \<in> set (l_Routes (g_heap gw' ! 0))" by (rule bound_route_run)
  have hyps: "l7_Attachable bound_route" "0 < length (g_heap http_gateway)" and none: "l_Routes (g_heap http_gateway ! 0) = []"
    by (simp_all add: bound_route_def bound_gateway_def bound_listener_def)
  have "\<exists>ref \<in> set (l7_ParentRefs bound_route). attaches Map.empty Map.empty bound_route http_gateway ref 0"
    using l7_binding_exact [OF run hyps(1) http_gateway_ok hyps(2), THEN conjunct1] mem
    unfolding none list.set empty_iff simp_thms by (rule iffD1)
  with run show ?thesis by (intro exI conjI)
qed

theorem l7_attachment_truthful_witness:
  "\<exists>route' gw' a. bindL7RouteToListeners Map.empty Map.empty (bound_route, http_gateway) = Inr (route', gw') \<and>
     pf_Attachment (l7_ParentRefs route' ! 0) = Some a \<and> (at_Attached a \<or> at_FailedConditions a \<noteq> [])"
proof -
  obtain route' gw' where run: "bindL7RouteToListeners Map.empty Map.empty (bound_route, http_gateway) = Inr (route', gw')"
    by (rule bound_route_run)
  have hyps: "l7_Attachable bound_route" "0 < length (l7_ParentRefs bound_route)" by (simp_all add: bound_route_def)
  have "parent_for_gateway (l7_ParentRefs bound_route ! 0) (gateway_key http_gateway) Map.empty \<noteq> None" by code_simp
  with l7_attachment_truthful [OF run hyps(1) http_gateway_ok hyps(2)]
  obtain a where "pf_Attachment (l7_ParentRefs route' ! 0) = Some a" "at_Attached a \<or> at_FailedConditions a \<noteq> []"
    by (simp only: if_False) (elim exE conjE)
  with run show ?thesis by (intro exI conjI)
qed

end
