(* ===== verification/RouteConflicts.thy ===== *)
theory RouteConflicts
  imports RouteAttachment
begin

text \<open>
  Routes against each other (\<^verbatim>\<open>route_common.go\<close>): the binding of routes changes nothing of a listener but its
  routes, a TCP or UDP listener has at most one route, hostnames that belong to a more specific listener of the same
  parent are removed from the others, and the parent references of a route are built with unique section names.
\<close>

section \<open>What binding leaves alone\<close>

definition static :: "Listener \<Rightarrow> Listener" where
  "static l = l\<lparr>l_Routes := [], l_L4Routes := []\<rparr>"

lemma static_fields:
  assumes "static l = static l'"
  shows "l_Source l = l_Source l'" "l_Name l = l_Name l'" "l_ListenerSetName l = l_ListenerSetName l'"
    "l_GatewayName l = l_GatewayName l'" "l_SupportedKinds l = l_SupportedKinds l'" "l_Valid l = l_Valid l'"
    "l_Attachable l = l_Attachable l'" "l_Conditions l = l_Conditions l'"
    "CreateParentRefListenerKeyFromListener l = CreateParentRefListenerKeyFromListener l'"
  using assms by (cases l; cases l'; simp add: static_def CreateParentRefListenerKeyFromListener_def)+

lemma map_static_upd_at: "(\<And>l. static (f l) = static l) \<Longrightarrow> map static (upd_at i f heap) = map static heap"
  by (rule nth_equalityI) (auto simp: nth_upd_at)

lemma set_upd_at: "set (upd_at i f heap) \<subseteq> set heap \<union> (if i < length heap then {f (heap ! i)} else {})"
  by (auto simp: upd_at_def list_update_beyond dest: set_update_subset_insert [THEN subsetD])

lemma getL4RouteKind_cases: "getL4RouteKind route = Inr kind \<Longrightarrow> kind \<in> {''TLSRoute'', ''TCPRoute'', ''UDPRoute''}"
  by (auto simp: getL4RouteKind_def split: RouteType.splits)

lemma bindToListenerL4_heap:
  assumes "bindToListenerL4 route nss pns i (st, heap, taken) = Inr (f, st', heap', taken')"
  obtains (kept) "heap' = heap"
  | (added) kind k where "kind \<in> {''TLSRoute'', ''TCPRoute'', ''UDPRoute''}" and "isRouteTypeAllowedByListener (heap ! i) kind"
      and "kind = ''TLSRoute'' \<or> (\<forall>k' \<in> set (l_L4Routes (heap ! i)). k' = k)"
      and "CreateRouteKeyL4 (l4_Source route) (l4_RouteType route) = Inr k"
      and "heap' = upd_at i (\<lambda>l. l\<lparr>l_L4Routes := List.insert k (l_L4Routes l)\<rparr>) heap"
proof -
  from assms obtain allowed where a: "isRouteNamespaceAllowedByListener (heap ! i) (om_Namespace (l4_Source route)) pns nss = Inr allowed"
    by (auto simp: bindToListenerL4_def Let_def bind_go_Inr_iff)
  show thesis
  proof (cases "\<exists>kind. allowed \<and> getL4RouteKind route = Inr kind \<and> isRouteTypeAllowedByListener (heap ! i) kind")
    case False
    with assms a have "heap' = heap" by (auto simp: bindToListenerL4_def Let_def bind_go_Inr_iff split: if_splits)
    then show thesis by (rule kept)
  next
    case True
    then obtain kind where kind: "allowed" "getL4RouteKind route = Inr kind" "isRouteTypeAllowedByListener (heap ! i) kind" by blast
    with assms a obtain k where k: "CreateRouteKeyL4 (l4_Source route) (l4_RouteType route) = Inr k"
      by (auto simp: bindToListenerL4_def Let_def bind_go_Inr_iff)
    show thesis
    proof (cases "(kind = ''TCPRoute'' \<or> kind = ''UDPRoute'') \<and> list_ex (\<lambda>k'. k' \<noteq> k) (l_L4Routes (heap ! i))")
      case busy: True
      with assms a kind k have "heap' = heap" by (auto simp: bindToListenerL4_def Let_def)
      then show thesis by (rule kept)
    next
      case free: False
      obtain hs t where c: "claim_hostnames (l_Source (heap ! i)) (findAcceptedHostnames (v1_Hostname (l_Source (heap ! i))) (l4_Hostnames route)) taken = (hs, t)"
        by fastforce
      have "heap' = heap \<or> heap' = upd_at i (\<lambda>l. l\<lparr>l_L4Routes := List.insert k (l_L4Routes l)\<rparr>) heap"
        using assms a kind k free c by (simp add: bindToListenerL4_def Let_def split: if_splits)
      moreover have "kind = ''TLSRoute'' \<or> (\<forall>k' \<in> set (l_L4Routes (heap ! i)). k' = k)"
        using free getL4RouteKind_cases [OF kind(2)] by (auto simp: list_ex_iff)
      ultimately show thesis using kept added [OF getL4RouteKind_cases [OF kind(2)] kind(3) _ k] by blast
    qed
  qed
qed

lemma bind_parent_l4_cases:
  assumes "bind_parent_l4 srt nss lsets i (route, gw, taken) = Inr (route', gw', taken')"
  obtains (kept) "gw' = gw" "taken' = taken"
  | (tried) pns "is" a r a' where
      "tryToAttachL4RouteToListeners srt route nss pns is (a, g_heap gw, taken) = Inr (r, a', g_heap gw', taken')"
proof (cases "parent_for_gateway (l4_ParentRefs route ! i) (gateway_key gw) lsets")
  case None
  with assms show thesis by (auto simp: bind_parent_l4_def Let_def intro: kept)
next
  case (Some ls)
  obtain a "is" where v: "validateParentRef (l4_ParentRefs route ! i) gw ls = (a, is)" by fastforce
  show thesis
  proof (cases "at_FailedConditions a = []")
    case False
    with assms Some v show thesis by (auto simp: bind_parent_l4_def Let_def intro: kept)
  next
    case True
    let ?a = "a\<lparr>at_FailedConditions := take 1 (List.map_filter (\<lambda>b. br_InvalidForGateways b (gateway_key gw)) (GetBackendRefs route))\<rparr>"
    let ?attempt = "tryToAttachL4RouteToListeners srt route nss (nn_Namespace (pf_NamespacedName (l4_ParentRefs route ! i))) is (?a, g_heap gw, taken)"
    from assms Some v True obtain c at a' heap t where t: "?attempt = Inr ((c, at), a', heap, t)"
      by (cases ?attempt) (auto simp: bind_parent_l4_def Let_def)
    with assms Some v True have "g_heap gw' = heap" "taken' = t"
      by (auto simp: bind_parent_l4_def Let_def split: if_splits)
    with t show thesis by (intro tried) simp
  qed
qed

text \<open>
  A contract of the operations on the store of listeners: an invariant of the store that every update of the routes of one
  listener keeps is kept by all of the binding. It is used with the two invariants below.
\<close>

locale listener_store =
  fixes hinv :: "Listener list \<Rightarrow> bool"
  assumes upd_l7: "hinv heap \<Longrightarrow> hinv (upd_at i (\<lambda>l. l\<lparr>l_Routes := List.insert rk (l_Routes l)\<rparr>) heap)"
    and upd_l4: "hinv heap \<Longrightarrow> kind \<in> {''TLSRoute'', ''TCPRoute'', ''UDPRoute''} \<Longrightarrow> isRouteTypeAllowedByListener (heap ! i) kind \<Longrightarrow>
      (kind = ''TLSRoute'' \<or> (\<forall>k' \<in> set (l_L4Routes (heap ! i)). k' = k)) \<Longrightarrow>
      hinv (upd_at i (\<lambda>l. l\<lparr>l_L4Routes := List.insert k (l_L4Routes l)\<rparr>) heap)"
begin

lemma bind_l7: "bind_l7 route rk nss pns i (st, heap) = Inr (f, st', heap') \<Longrightarrow> hinv heap \<Longrightarrow> hinv heap'"
  by (auto simp: bind_l7_def Let_def bind_go_Inr_iff upd_l7 split: if_splits)

lemma attach_l7_step: "attach_l7_step route rk nss pns i (fl, st, heap) = Inr (fl', st', heap') \<Longrightarrow> hinv heap \<Longrightarrow> hinv heap'"
  by (auto simp: attach_l7_step_def bind_go_Inr_iff dest: bind_l7)

lemma try_l7:
  assumes "tryToAttachL7RouteToListeners route nss pns is (st, heap) = Inr (r, st', heap')" and "hinv heap"
  shows "hinv heap'"
proof (cases "is = []")
  case False
  with assms(1) obtain rk fl where
    loop: "fold_go (attach_l7_step route rk nss pns) is (no_flags, st, heap) = Inr (fl, st', heap')"
    by (auto simp: tryToAttachL7RouteToListeners_def bind_go_Inr_iff split: if_splits)
  have "hinv (snd (snd (fl, st', heap')))"
    by (rule fold_go_invariant [OF _ loop, where I = "\<lambda>s. hinv (snd (snd s))"])
      (use assms(2) in \<open>auto dest: attach_l7_step\<close>)
  then show ?thesis by simp
qed (use assms in \<open>simp add: tryToAttachL7RouteToListeners_def\<close>)

lemma parent_l7:
  assumes "bind_parent_l7 nss lsets i (route, gw) = Inr (route', gw')" and "hinv (g_heap gw)"
  shows "hinv (g_heap gw')"
  using assms
  by (auto simp: bind_parent_l7_def Let_def bind_go_Inr_iff split: option.splits prod.splits if_splits dest: try_l7)

lemma route_l7:
  assumes "bindL7RouteToListeners nss lsets (route, gw) = Inr (route', gw')" and "hinv (g_heap gw)"
  shows "hinv (g_heap gw')"
proof (cases "l7_Attachable route")
  case True
  with assms(1) have loop: "fold_go (bind_parent_l7 nss lsets) [0..<length (l7_ParentRefs route)] (route, gw) = Inr (route', gw')"
    by (simp add: bindL7RouteToListeners_def)
  have "hinv (g_heap (snd (route', gw')))"
    by (rule fold_go_invariant [OF _ loop, where I = "\<lambda>s. hinv (g_heap (snd s))"]) (use assms(2) in \<open>auto dest: parent_l7\<close>)
  then show ?thesis by simp
qed (use assms in \<open>simp add: bindL7RouteToListeners_def\<close>)

lemma bind_l4: "bindToListenerL4 route nss pns i (st, heap, taken) = Inr (f, st', heap', taken') \<Longrightarrow> hinv heap \<Longrightarrow> hinv heap'"
  by (elim bindToListenerL4_heap) (simp_all add: upd_l4)

lemma attach_l4_step:
  assumes "attach_l4_step route nss pns i (fl, st) = Inr (fl', st')" and "hinv (fst (snd st))"
  shows "hinv (fst (snd st'))"
  using assms by (cases st; cases st') (auto simp: attach_l4_step_def bind_go_Inr_iff split: prod.splits dest: bind_l4)

lemma try_l4:
  assumes "tryToAttachL4RouteToListeners srt route nss pns is st = Inr (r, st')" and "hinv (fst (snd st))"
  shows "hinv (fst (snd st'))"
proof (cases "is = []")
  case False
  let ?init = "((\<lparr>f4_allowed = False, f4_attached = False, f4_hostnamesUnique = False, f4_multiple = False\<rparr>, False), st)"
  from False assms(1) obtain fl where
    loop: "fold_go (attach_l4_step route nss pns) (sortListenersByHostname srt (fst (snd st)) is) ?init = Inr (fl, st')"
    by (auto simp: tryToAttachL4RouteToListeners_def bind_go_Inr_iff split: if_splits)
  have "hinv (fst (snd (snd (fl, st'))))"
    by (rule fold_go_invariant [OF _ loop, where I = "\<lambda>s. hinv (fst (snd (snd s)))"])
      (use assms(2) in \<open>auto dest: attach_l4_step\<close>)
  then show ?thesis by simp
qed (use assms in \<open>simp add: tryToAttachL4RouteToListeners_def\<close>)

lemma parent_l4:
  assumes "bind_parent_l4 srt nss lsets i (route, gw, taken) = Inr (route', gw', taken')" and "hinv (g_heap gw)"
  shows "hinv (g_heap gw')"
  using assms(1)
proof (cases rule: bind_parent_l4_cases)
  case (tried pns "is" a r a')
  with try_l4 [OF tried] assms(2) show ?thesis by simp
qed (use assms(2) in simp)

lemma route_l4:
  assumes "bindL4RouteToListeners srt nss lsets (route, gw, taken) = Inr (route', gw', taken')" and "hinv (g_heap gw)"
  shows "hinv (g_heap gw')"
proof (cases "l4_Attachable route")
  case True
  with assms(1) have loop: "fold_go (bind_parent_l4 srt nss lsets) [0..<length (l4_ParentRefs route)] (route, gw, taken) = Inr (route', gw', taken')"
    by (simp add: bindL4RouteToListeners_def)
  have "hinv (g_heap (fst (snd (route', gw', taken'))))"
    by (rule fold_go_invariant [OF _ loop, where I = "\<lambda>s. hinv (g_heap (fst (snd s)))"]) (use assms(2) in \<open>auto dest: parent_l4\<close>)
  then show ?thesis by simp
qed (use assms in \<open>simp add: bindL4RouteToListeners_def\<close>)

lemma routes_l7:
  assumes "bind_l7_routes nss lsets routes gw = Inr (routes', gw')" and "hinv (g_heap gw)"
  shows "hinv (g_heap gw')"
proof -
  have "hinv (g_heap (snd (routes', gw')))"
    by (rule fold_go_invariant [OF _ assms(1) [unfolded bind_l7_routes_def], where I = "\<lambda>s. hinv (g_heap (snd s))"])
      (use assms(2) in \<open>auto simp: bind_go_Inr_iff dest: route_l7\<close>)
  then show ?thesis by simp
qed

lemma routes_l4:
  assumes "bind_l4_routes srt nss lsets routes gw = Inr (routes', gw', taken')" and "hinv (g_heap gw)"
  shows "hinv (g_heap gw')"
proof -
  have "hinv (g_heap (fst (snd (routes', gw', taken'))))"
    by (rule fold_go_invariant [OF _ assms(1) [unfolded bind_l4_routes_def], where I = "\<lambda>s. hinv (g_heap (fst (snd s)))"])
      (use assms(2) in \<open>auto simp: bind_go_Inr_iff dest: route_l4\<close>)
  then show ?thesis by simp
qed

lemma gateway:
  assumes "bind_gateway srt nss lsets gw s = Inr (gw', s')" and "hinv (g_heap gw)"
  shows "hinv (g_heap gw')"
  using assms by (cases s) (auto simp: bind_gateway_def Let_def bind_go_Inr_iff dest: routes_l7 routes_l4)

end

section \<open>The two invariants\<close>

interpretation static_store: listener_store "\<lambda>heap. map static heap = H" for H
  by unfold_locales (simp_all add: map_static_upd_at static_def)

text \<open>A listener that does not take TLS routes has at most one layer 4 route.\<close>

definition l4_exclusive :: "Listener list \<Rightarrow> bool" where
  "l4_exclusive heap \<longleftrightarrow> (\<forall>l \<in> set heap. \<not> isRouteTypeAllowedByListener l ''TLSRoute'' \<longrightarrow> length (l_L4Routes l) \<le> 1)"

lemma insert_only: "\<forall>k' \<in> set ks. k' = k \<Longrightarrow> length ks \<le> 1 \<Longrightarrow> length (List.insert k ks) \<le> 1"
  by (cases ks) auto

interpretation exclusive_store: listener_store l4_exclusive
proof unfold_locales
  fix heap i and rk :: RouteKey
  assume "l4_exclusive heap"
  then show "l4_exclusive (upd_at i (\<lambda>l. l\<lparr>l_Routes := List.insert rk (l_Routes l)\<rparr>) heap)"
    using set_upd_at [of i "\<lambda>l. l\<lparr>l_Routes := List.insert rk (l_Routes l)\<rparr>" heap]
    by (auto simp: l4_exclusive_def isRouteTypeAllowedByListener_def split: if_splits)
next
  fix heap i kind and k :: L4RouteKey
  assume inv: "l4_exclusive heap" and kind: "kind \<in> {''TLSRoute'', ''TCPRoute'', ''UDPRoute''}" "isRouteTypeAllowedByListener (heap ! i) kind"
    and only: "kind = ''TLSRoute'' \<or> (\<forall>k' \<in> set (l_L4Routes (heap ! i)). k' = k)"
  let ?f = "\<lambda>l. l\<lparr>l_L4Routes := List.insert k (l_L4Routes l)\<rparr>"
  have "length (l_L4Routes (?f (heap ! i))) \<le> 1" if "i < length heap" "\<not> isRouteTypeAllowedByListener (heap ! i) ''TLSRoute''"
  proof -
    have "\<forall>k' \<in> set (l_L4Routes (heap ! i)). k' = k" using only kind that(2) by auto
    moreover have "length (l_L4Routes (heap ! i)) \<le> 1" using inv that by (auto simp: l4_exclusive_def)
    ultimately show ?thesis using insert_only by simp
  qed
  then show "l4_exclusive (upd_at i ?f heap)"
    using inv set_upd_at [of i ?f heap] by (auto simp: l4_exclusive_def isRouteTypeAllowedByListener_def split: if_splits)
qed

section \<open>Properties\<close>

definition bound_from :: "sort_slice \<Rightarrow> namespaces \<Rightarrow> (NamespacedName \<rightharpoonup> ListenerSet) \<Rightarrow> NamespacedName \<times> Gateway \<Rightarrow> NamespacedName \<times> Gateway \<Rightarrow> bool" where
  "bound_from srt nss lsets g g' \<longleftrightarrow> fst g' = fst g \<and> (\<exists>s s'. bind_gateway srt nss lsets (snd g) s = Inr (snd g', s'))"

lemma bindRoutesToListeners_gateways:
  assumes "bindRoutesToListeners srt nss lsets (l7s, l4s, gws) = Inr (l7s', l4s', gws')"
  shows "list_all2 (bound_from srt nss lsets) gws gws'"
proof -
  let ?step = "\<lambda>(k, gw) (l7s, l4s, done).
     bind_go (bind_gateway srt nss lsets gw (l7s, l4s)) (\<lambda>(gw', l7s', l4s'). Inr (l7s', l4s', done @ [(k, gw')]))"
  have "\<exists>new. gws' = done @ new \<and>
      list_all2 (bound_from srt nss lsets) gws new"
    if "fold_go ?step gws (l7s, l4s, done) = Inr (l7s', l4s', gws')" for l7s l4s "done"
    using that
  proof (induction gws arbitrary: l7s l4s "done")
    case (Cons g gws)
    obtain k gw where g: "g = (k, gw)" by fastforce
    from Cons.prems obtain gw' a b where b: "bind_gateway srt nss lsets gw (l7s, l4s) = Inr (gw', a, b)"
      and rest: "fold_go ?step gws (a, b, done @ [(k, gw')]) = Inr (l7s', l4s', gws')"
      by (auto simp: g bind_go_Inr_iff)
    from Cons.IH [OF rest] obtain new where "gws' = (done @ [(k, gw')]) @ new"
      "list_all2 (bound_from srt nss lsets) gws new" by blast
    moreover have "bound_from srt nss lsets g (k, gw')" using b by (auto simp: bound_from_def g)
    ultimately show ?case by (intro exI [of _ "(k, gw') # new"]) simp
  qed simp
  then show ?thesis using assms by (fastforce simp: bindRoutesToListeners_def)
qed

text \<open>
  C18. One route per TCP or UDP listener. If no listener has layer 4 routes yet, then after \<^verbatim>\<open>bindRoutesToListeners\<close> every
  listener of every Gateway that does not take TLS routes has at most one layer 4 route, whatever the routes and whatever
  permutation \<^verbatim>\<open>sort.Slice\<close> makes of them.
\<close>

theorem l4_listener_exclusive:
  assumes "bindRoutesToListeners srt nss lsets (l7s, l4s, gws) = Inr (l7s', l4s', gws')"
    and "\<forall>(k, gw) \<in> set gws. \<forall>l \<in> set (g_heap gw). l_L4Routes l = []"
    and "(k, gw') \<in> set gws'" and "l \<in> set (g_heap gw')" and "\<not> isRouteTypeAllowedByListener l ''TLSRoute''"
  shows "length (l_L4Routes l) \<le> 1"
proof -
  from list_all2_right [OF bindRoutesToListeners_gateways [OF assms(1)] assms(3)] obtain x where
    x: "x \<in> set gws" "bound_from srt nss lsets x (k, gw')" .
  then obtain s s' where b: "bind_gateway srt nss lsets (snd x) s = Inr (gw', s')" by (auto simp: bound_from_def)
  have "l4_exclusive (g_heap (snd x))" using assms(2) x(1) by (auto simp: l4_exclusive_def)
  then have "l4_exclusive (g_heap gw')" by (rule exclusive_store.gateway [OF b])
  with assms(4,5) show ?thesis by (simp add: l4_exclusive_def)
qed

definition sample_l4_route :: "string \<Rightarrow> int \<Rightarrow> L4RouteKey \<times> L4Route" where
  "sample_l4_route name created =
     (\<lparr>l4k_NamespacedName = nsname ''web'' name, l4k_RouteType = RouteTypeTCP\<rparr>,
      \<lparr>l4_Source = \<lparr>om_CreationTimestamp = created, om_Namespace = ''web'', om_Name = name\<rparr>, l4_Generation = 1,
       l4_RouteType = RouteTypeTCP, l4_Hostnames = [], l4_BackendRefs = [],
       l4_BackendRef = \<lparr>br_BackendTLSPolicy = None, br_EndpointPickerConfig = \<lparr>epc_EndpointPickerRef = None, epc_NsName = ''''\<rparr>,
         br_InvalidForGateways = Map.empty, br_SessionPersistence = None, br_SvcNsName = noName, br_ServicePort = zeroServicePort,
         br_Weight = 1, br_Valid = True, br_IsMirrorBackend = False, br_IsExternalAuthBackend = False, br_IsInferencePool = False\<rparr>,
       l4_ParentRefs = [sample_parent_ref (Some ''db'')], l4_Conditions = [], l4_Valid = True, l4_Attachable = True\<rparr>)"

definition stable_sorts :: sort_slice where
  "stable_sorts = \<lparr>sort_listeners = slice_stable, sort_l4routes = slice_stable\<rparr>"

abbreviation tcp_gateway :: Gateway where
  "tcp_gateway \<equiv> bound_gateway [bound_listener ''db'' None 9 TCPProtocolType [''TCPRoute'']]"

theorem l4_listener_exclusive_witness:
  "\<exists>l7s' l4s' gws' k gw' l.
     bindRoutesToListeners stable_sorts Map.empty Map.empty
       ([], [sample_l4_route ''new'' 9, sample_l4_route ''old'' 4], [(nsname ''web'' ''gateway'', tcp_gateway)]) = Inr (l7s', l4s', gws') \<and>
     (k, gw') \<in> set gws' \<and> l \<in> set (g_heap gw') \<and> l_L4Routes l \<noteq> [] \<and> length (l_L4Routes l) \<le> 1"
proof -
  let ?gws = "[(nsname ''web'' ''gateway'', tcp_gateway)]"
  let ?run = "bindRoutesToListeners stable_sorts Map.empty Map.empty ([], [sample_l4_route ''new'' 9, sample_l4_route ''old'' 4], ?gws)"
  have "case ?run of Inl _ \<Rightarrow> False
    | Inr (l7s', l4s', gws') \<Rightarrow> list_ex (\<lambda>(k, gw'). list_ex (\<lambda>l. \<not> isRouteTypeAllowedByListener l ''TLSRoute'' \<and> l_L4Routes l \<noteq> []) (g_heap gw')) gws'"
    by code_simp
  then obtain l7s' l4s' gws' k gw' l where run: "?run = Inr (l7s', l4s', gws')"
    and mem: "(k, gw') \<in> set gws'" "l \<in> set (g_heap gw')" "\<not> isRouteTypeAllowedByListener l ''TLSRoute''" and ne: "l_L4Routes l \<noteq> []"
    by (auto simp: list_ex_iff split: sum.splits)
  have "\<forall>(k, gw) \<in> set ?gws. \<forall>l \<in> set (g_heap gw). l_L4Routes l = []" by (simp add: bound_gateway_def bound_listener_def)
  from l4_listener_exclusive [OF run this mem] run mem ne show ?thesis by (intro exI conjI)
qed

section \<open>Isolation\<close>

text \<open>The listener \<open>other\<close> owns hostname \<open>h\<close>: it is another listener of the same parent and port with that hostname.\<close>

definition owned_by_other :: "ParentRef \<Rightarrow> int \<Rightarrow> string \<Rightarrow> string \<Rightarrow> Listener \<Rightarrow> bool" where
  "owned_by_other ref port key h other \<longleftrightarrow>
     pf_NamespacedName ref = (if nn_Name (l_ListenerSetName other) \<noteq> '''' then l_ListenerSetName other else l_GatewayName other) \<and>
     key \<noteq> CreateParentRefListenerKeyFromListener other \<and> h \<noteq> '''' \<and>
     h = getHostname (v1_Hostname (l_Source other)) \<and> v1_Port (l_Source other) = port"

lemma getListenerHostPortMap_entries:
  assumes "distinct (map CreateParentRefListenerKeyFromListener ls)" and "l \<in> set ls"
  shows "(CreateParentRefListenerKeyFromListener l,
     \<lparr>hp_parentRefNsName = (if nn_Name (l_ListenerSetName l) \<noteq> '''' then l_ListenerSetName l else l_GatewayName l),
      hp_hostname = getHostname (v1_Hostname (l_Source l)), hp_port = v1_Port (l_Source l)\<rparr>) \<in> set (getListenerHostPortMap ls)"
proof -
  define val where "val = (\<lambda>l :: Listener. \<lparr>hp_parentRefNsName = (if nn_Name (l_ListenerSetName l) \<noteq> '''' then l_ListenerSetName l else l_GatewayName l),
      hp_hostname = getHostname (v1_Hostname (l_Source l)), hp_port = v1_Port (l_Source l)\<rparr>)"
  have keep: "map_of (fold (\<lambda>l. AList.update (CreateParentRefListenerKeyFromListener l) (val l)) xs m) k = map_of m k"
    if "k \<notin> CreateParentRefListenerKeyFromListener ` set xs" for xs m k
    using that by (induction xs arbitrary: m) (auto simp: update_conv')
  have "map_of (fold (\<lambda>l. AList.update (CreateParentRefListenerKeyFromListener l) (val l)) ls m) (CreateParentRefListenerKeyFromListener l) = Some (val l)" for m
    using assms
  proof (induction ls arbitrary: m)
    case (Cons x xs)
    show ?case
    proof (cases "l \<in> set xs")
      case False
      with Cons.prems have "l = x" "CreateParentRefListenerKeyFromListener l \<notin> CreateParentRefListenerKeyFromListener ` set xs" by auto
      then show ?thesis by (simp add: keep update_conv')
    qed (use Cons in simp)
  qed simp
  from this [of "[]"] show ?thesis by (auto simp: getListenerHostPortMap_def val_def dest!: map_of_SomeD)
qed

lemma isolate_entries_sound:
  assumes "(key, hs) \<in> set (isolate_entries l4 ref port lmap es toRemove)" and "h \<in> set hs" and "lhp \<in> set lmap"
  shows "\<not> belongs_elsewhere l4 ref port key h lhp"
  using assms
proof (induction es arbitrary: toRemove)
  case (Cons e es)
  obtain k ks where e: "e = (k, ks)" by fastforce
  show ?case
  proof (cases "ks = []")
    case True
    with Cons e show ?thesis by auto
  next
    case False
    with Cons.prems(1) e have "(key, hs) = (k, removeHostnames ks (toRemove \<union> set (filter (\<lambda>h. list_ex (belongs_elsewhere l4 ref port k h) lmap) ks))) \<or>
      (\<exists>toRemove'. (key, hs) \<in> set (isolate_entries l4 ref port lmap es toRemove'))"
      by (auto simp: Let_def)
    then show ?thesis using Cons.IH Cons.prems(2,3) by (auto simp: removeHostnames_def list_ex_iff)
  qed
qed simp

text \<open>With a single listener accepted, exactly the hostnames owned elsewhere are removed.\<close>

lemma isolate_entries_single:
  "isolate_entries l4 ref port lmap [(key, hs)] {} = [(key, filter (\<lambda>h. \<not> list_ex (belongs_elsewhere l4 ref port key h) lmap) hs)]"
  by (auto simp: Let_def removeHostnames_def intro!: filter_cong)

lemma bind_gateway_isolates:
  assumes "bind_gateway srt nss lsets gw (l7s, l4s) = Inr (gw', l7s', l4s')"
  obtains l7s1 gw1 where "l7s' = isolateL7RouteListeners l7s1 (getListenerHostPortMap (map (\<lambda>i. g_heap gw1 ! i) (g_Listeners gw1)))"
    and "bind_l7_routes nss lsets l7s gw = Inr (l7s1, gw1)" and "\<exists>r t. bind_l4_routes srt nss lsets l4s gw1 = Inr (r, gw', t)"
  using assms by (auto simp: bind_gateway_def Let_def bind_go_Inr_iff)

abbreviation frame :: "Gateway \<Rightarrow> Gateway" where
  "frame gw \<equiv> gw\<lparr>g_heap := []\<rparr>"

lemma bind_parent_l7_frame: "bind_parent_l7 nss lsets i (route, gw) = Inr (route', gw') \<Longrightarrow> frame gw' = frame gw"
  by (auto simp: bind_parent_l7_def Let_def bind_go_Inr_iff split: option.splits prod.splits if_splits)

lemma bindL7_frame:
  assumes "bindL7RouteToListeners nss lsets (route, gw) = Inr (route', gw')"
  shows "frame gw' = frame gw"
proof (cases "l7_Attachable route")
  case True
  with assms have loop: "fold_go (bind_parent_l7 nss lsets) [0..<length (l7_ParentRefs route)] (route, gw) = Inr (route', gw')"
    by (simp add: bindL7RouteToListeners_def)
  have "frame (snd (route', gw')) = frame gw"
    by (rule fold_go_invariant [OF _ loop, where I = "\<lambda>s. frame (snd s) = frame gw"]) (auto dest: bind_parent_l7_frame)
  then show ?thesis by simp
qed (use assms in \<open>simp add: bindL7RouteToListeners_def\<close>)

lemma bind_l7_routes_frame:
  assumes "bind_l7_routes nss lsets routes gw = Inr (routes', gw')"
  shows "g_Listeners gw' = g_Listeners gw" and "map static (g_heap gw') = map static (g_heap gw)"
proof -
  have "frame (snd (routes', gw')) = frame gw"
    by (rule fold_go_invariant [OF _ assms [unfolded bind_l7_routes_def], where I = "\<lambda>s. frame (snd s) = frame gw"])
      (auto simp: bind_go_Inr_iff dest!: bindL7_frame)
  then have "g_Listeners (frame gw') = g_Listeners (frame gw)" by simp
  then show "g_Listeners gw' = g_Listeners gw" by simp
  show "map static (g_heap gw') = map static (g_heap gw)" by (rule static_store.routes_l7 [OF assms refl])
qed


text \<open>A Gateway with a wildcard listener and a listener for one host of it, and a route attached to the wildcard listener.\<close>

abbreviation overlapping_gateway :: Gateway where
  "overlapping_gateway \<equiv> bound_gateway
     [bound_listener ''wild'' (Some ''*.example.com'') 80 HTTPProtocolType [''HTTPRoute''],
      bound_listener ''cafe'' (Some ''cafe.example.com'') 80 HTTPProtocolType [''HTTPRoute'']]"

definition wild_route :: "RouteKey \<times> L7Route" where
  "wild_route = (route_key bound_route,
     bound_route\<lparr>l7_Hostnames := [''cafe.example.com'', ''bar.example.com''], l7_ParentRefs := [sample_parent_ref (Some ''wild'')]\<rparr>)"

definition isolation_run :: "(Gateway \<times> (RouteKey \<times> L7Route) list \<times> (L4RouteKey \<times> L4Route) list) go" where
  "isolation_run = bind_gateway stable_sorts Map.empty Map.empty overlapping_gateway ([wild_route], [])"


section \<open>Section names\<close>

definition section_keys :: "ParentRef list \<Rightarrow> section_key list" where
  "section_keys refs = List.map_filter (\<lambda>r. map_option (Pair (pf_NamespacedName r)) (pf_SectionName r)) refs"

lemma section_keys_simps [simp]:
  "section_keys [] = []"
  "section_keys (r # refs) = (case pf_SectionName r of None \<Rightarrow> [] | Some s \<Rightarrow> [(pf_NamespacedName r, s)]) @ section_keys refs"
  "section_keys (refs @ refs') = section_keys refs @ section_keys refs'"
  by (simp_all add: section_keys_def List.map_filter_def split: option.split)

lemma section_refs_result:
  assumes "section_refs pr names seen = Inr (refs, seen')"
  shows "section_keys refs = map (Pair (pf_NamespacedName pr)) names \<and> distinct names \<and>
    set (section_keys refs) \<inter> seen = {} \<and> seen' = seen \<union> set (section_keys refs) \<and> (\<forall>r \<in> set refs. pf_Idx r = pf_Idx pr)"
  using assms
proof (induction names arbitrary: seen refs)
  case (Cons name names)
  let ?k = "(pf_NamespacedName pr, name)"
  from Cons.prems obtain rest where fresh: "?k \<notin> seen" and rest: "section_refs pr names (insert ?k seen) = Inr (rest, seen')"
    and refs: "refs = pr\<lparr>pf_SectionName := Some name\<rparr> # rest"
    by (auto simp: Let_def split: if_splits sum.splits)
  from Cons.IH [OF rest] fresh refs show ?case by (auto simp: disjoint_iff image_iff)
qed simp

lemma resolveParentRef_idx: "resolveParentRef p kind ns gws lsets pr = Some (pr', par) \<Longrightarrow> pf_Idx pr' = pf_Idx pr \<and> pf_SectionName pr' = pf_SectionName pr"
  by (auto simp: resolveParentRef_def Let_def split: if_splits option.splits)

lemma section_name_refs_result:
  assumes "section_name_refs gws lsets ns i p seen = Inr (refs, seen')"
  shows "distinct (section_keys refs) \<and> set (section_keys refs) \<inter> seen = {} \<and> seen' = seen \<union> set (section_keys refs) \<and>
    (\<forall>r \<in> set refs. pf_Idx r = i)"
proof (cases "resolveParentRef p (parent_ref_kind p) ns gws lsets (new_parent_ref i (parent_ref_kind p))")
  case None
  with assms show ?thesis by (simp add: section_name_refs_def Let_def)
next
  case (Some x)
  obtain pr par where x: "x = (pr, par)" by fastforce
  have pr: "pf_Idx pr = i" "pf_SectionName pr = None"
    using resolveParentRef_idx [OF Some [unfolded x]] by (simp_all add: new_parent_ref_def)
  have "\<exists>pr' names. pf_Idx pr' = i \<and> section_refs pr' names seen = Inr (refs, seen') \<or> refs = [pr\<lparr>pf_Port := pref_Port p\<rparr>] \<and> seen' = seen"
    using assms Some x pr by (auto simp: section_name_refs_def Let_def simp del: section_refs.simps split: option.splits)
  then show ?thesis using pr by (auto simp: distinct_map inj_on_def dest!: section_refs_result)
qed

lemma section_loop_result:
  assumes "buildSectionNameRefs_loop gws lsets ns ps seen = Inr refs"
  shows "distinct (section_keys refs) \<and> set (section_keys refs) \<inter> seen = {} \<and> (\<forall>r \<in> set refs. pf_Idx r \<in> fst ` set ps)"
  using assms
proof (induction ps arbitrary: seen refs)
  case (Cons ip ps)
  obtain i p where ip: "ip = (i, p)" by fastforce
  from Cons.prems obtain refs1 seen1 rest where one: "section_name_refs gws lsets ns i p seen = Inr (refs1, seen1)"
    and rest: "buildSectionNameRefs_loop gws lsets ns ps seen1 = Inr rest" and refs: "refs = refs1 @ rest"
    by (auto simp: ip split: sum.splits prod.splits)
  from section_name_refs_result [OF one] Cons.IH [OF rest] refs ip show ?case by auto
qed simp

text \<open>
  The parent references built for a route are unambiguous: no two of them have the same parent and the same
  section name, and each remembers the position of the reference of the route it comes from.
\<close>

theorem buildSectionNameRefs_unique:
  assumes "buildSectionNameRefs parentRefs routeNs gws lsets = Inr refs"
  shows "distinct (section_keys refs) \<and> (\<forall>r \<in> set refs. pf_Idx r < length parentRefs)"
  using section_loop_result [OF assms [unfolded buildSectionNameRefs_def]]
  by (fastforce simp: in_set_enumerate_eq)

abbreviation whole_gateway_ref :: "string \<Rightarrow> string \<Rightarrow> ParentReference" where
  "whole_gateway_ref ns name \<equiv>
     \<lparr>pref_Group = None, pref_Kind = None, pref_Namespace = Some ns, pref_Name = name, pref_SectionName = None, pref_Port = None\<rparr>"

theorem buildSectionNameRefs_unique_witness:
  "\<exists>refs. buildSectionNameRefs [whole_gateway_ref ''web'' ''gateway''] ''web'' [nsname ''web'' ''gateway'' \<mapsto> overlapping_gateway] Map.empty = Inr refs \<and>
     length refs = 2 \<and> distinct (section_keys refs)"
proof -
  let ?run = "buildSectionNameRefs [whole_gateway_ref ''web'' ''gateway''] ''web'' [nsname ''web'' ''gateway'' \<mapsto> overlapping_gateway] Map.empty"
  have "case ?run of Inl _ \<Rightarrow> False | Inr refs \<Rightarrow> length refs = 2" by code_simp
  then obtain refs where run: "?run = Inr refs" "length refs = 2" by (auto split: sum.splits)
  from run buildSectionNameRefs_unique [OF run(1), THEN conjunct1] show ?thesis by (intro exI conjI)
qed

lemma section_refs_duplicate: "\<not> distinct names \<Longrightarrow> \<exists>e. section_refs pr names seen = Inl e"
  by (cases "section_refs pr names seen") (auto dest: section_refs_result)

lemma section_loop_error:
  assumes "(i, p) \<in> set ps" and "\<And>seen. \<exists>e. section_name_refs gws lsets ns i p seen = Inl e"
  shows "\<exists>e. buildSectionNameRefs_loop gws lsets ns ps seen = Inl e"
  using assms(1)
proof (induction ps arbitrary: seen)
  case (Cons jq ps)
  obtain j q where jq: "jq = (j, q)" by fastforce
  show ?case
  proof (cases "section_name_refs gws lsets ns j q seen")
    case (Inr r)
    with assms(2) [of seen] Cons.prems jq have "(i, p) \<in> set ps" by auto
    from Cons.IH [OF this, of "snd r"] obtain e where "buildSectionNameRefs_loop gws lsets ns ps (snd r) = Inl e" ..
    then show ?thesis using Inr jq by (cases r) simp
  qed (simp add: jq)
qed simp

text \<open>
  C35. A route that refers to a whole Gateway is rejected when two listeners of the Gateway have the same name. The listeners
  of the attached ListenerSets are among the listeners of the Gateway by then, and their names need only be unique in
  their ListenerSet, so a ListenerSet whose listener has the name of a listener of the Gateway makes every such route
  fail with a duplicate section name.
\<close>

theorem same_named_listener_rejects_route:
  assumes "p \<in> set parentRefs" and "pref_Kind p = None" and "pref_Group p = None" and "pref_SectionName p = None" and "pref_Port p = None"
    and "gws (nsname (deref_or routeNs (pref_Namespace p)) (pref_Name p)) = Some gw"
    and "\<not> distinct (map (\<lambda>i. v1_Name (l_Source (g_heap gw ! i))) (g_Listeners gw))"
  shows "\<exists>err. buildSectionNameRefs parentRefs routeNs gws lsets = Inl err"
proof -
  from assms(1) obtain i where "i < length parentRefs" "parentRefs ! i = p" by (auto simp: in_set_conv_nth)
  then have "(i, p) \<in> set (enumerate 0 parentRefs)" by (simp add: in_set_enumerate_eq)
  moreover have "\<exists>e. section_name_refs gws lsets routeNs i p seen = Inl e" for seen
    using assms section_refs_duplicate
    by (simp add: section_name_refs_def Let_def parent_ref_kind_def resolveParentRef_def findGatewayForParentRef_def parent_sections_def)
  ultimately show ?thesis unfolding buildSectionNameRefs_def by (rule section_loop_error)
qed

text \<open>A Gateway and a ListenerSet, each with one valid listener of the name \<^verbatim>\<open>http\<close>, on different ports.\<close>

definition same_name_gateway :: "Gateway go" where
  "same_name_gateway =
     bind_go (build_gateway sample_env sample_name (sample_gateway [sample_listener ''http'' None 80 HTTPProtocolType None]) None [] True ())
       (\<lambda>(g, r). bind_go (mergeGatewayAndListenerSetListeners sample_env g
            [sample_listenerset ''extra'' [sample_listener ''http'' None 88 HTTPProtocolType None]] r)
          (\<lambda>(_, g', _). Inr g'))"

theorem same_named_listener_rejects_route_witness:
  "\<exists>gw err. same_name_gateway = Inr gw \<and> list_all l_Valid (g_heap gw) \<and> length (g_Listeners gw) = 2 \<and>
     buildSectionNameRefs [whole_gateway_ref ''ns'' ''gw''] ''ns'' [sample_name \<mapsto> gw] Map.empty = Inl err"
proof -
  have "case same_name_gateway of Inl _ \<Rightarrow> False
    | Inr gw \<Rightarrow> list_all l_Valid (g_heap gw) \<and> length (g_Listeners gw) = 2 \<and>
        \<not> distinct (map (\<lambda>i. v1_Name (l_Source (g_heap gw ! i))) (g_Listeners gw))"
    by code_simp
  then obtain gw where gw: "same_name_gateway = Inr gw" "list_all l_Valid (g_heap gw)" "length (g_Listeners gw) = 2"
    and dup: "\<not> distinct (map (\<lambda>i. v1_Name (l_Source (g_heap gw ! i))) (g_Listeners gw))"
    by (auto split: sum.splits)
  have "\<exists>err. buildSectionNameRefs [whole_gateway_ref ''ns'' ''gw''] ''ns'' [sample_name \<mapsto> gw] Map.empty = Inl err"
    by (rule same_named_listener_rejects_route [where p = "whole_gateway_ref ''ns'' ''gw''" and gw = gw]) (use dup in simp_all)
  with gw show ?thesis by (elim exE) (intro exI conjI)
qed

end
