(* ===== verification/EventLoop.thy ===== *)
theory EventLoop
  imports Prelude
begin

text \<open>
  The event loop of the controller: \<^verbatim>\<open>internal/framework/events/loop.go\<close>.

  The loop and the goroutine that handles a batch run concurrently. Each branch of the \<^verbatim>\<open>select\<close> statement is a
  function on the state, and an inductive step relation gives the interleavings: an event arrives, the handler
  reads one more event of its batch, the handler is done, the context is cancelled. The two buffers are slices over
  arrays in a store, so that the sharing of arrays by \<^verbatim>\<open>append\<close> and by \<^verbatim>\<open>nextBatch[:0]\<close> is part of the model: that the handler is not
  disturbed by the events that arrive while it runs is a theorem.
\<close>

section \<open>Slices\<close>

record slice =
  sl_ptr :: nat
  sl_len :: nat

text \<open>The arrays, by address, with their cells; a cell that was never written is None.\<close>

type_synonym 'e memory = "nat \<Rightarrow> 'e option list"

definition contents :: "'e memory \<Rightarrow> slice \<Rightarrow> 'e list" where
  "contents mem s = List.map_filter id (take (sl_len s) (mem (sl_ptr s)))"

section \<open>State\<close>

datatype phase = Running | Draining | Stopped

record 'e EventLoop =
  el_mem :: "'e memory"
  el_alloc :: nat
  el_currentBatch :: slice
  el_nextBatch :: slice
  el_handling :: bool
  el_handler :: "(slice \<times> nat) option"
  el_phase :: phase
  el_currentBatchID :: nat

text \<open>
  \<open>el_handler\<close> is the goroutine: the batch it was given and how many events of it it has read. \<open>el_alloc\<close> is the next
  address of the allocator.

  \<^verbatim>\<open>append\<close>: in place when the capacity suffices, otherwise into a new array, whose capacity \<open>grow\<close> is up to the
  runtime.
\<close>

definition append_next :: "(nat \<Rightarrow> nat) \<Rightarrow> 'e \<Rightarrow> 'e EventLoop \<Rightarrow> 'e EventLoop" where
  "append_next grow e el =
     (let s = el_nextBatch el; cells = el_mem el (sl_ptr s); n = sl_len s in
      if n < length cells then
        el\<lparr>el_mem := (el_mem el)(sl_ptr s := cells[n := Some e]), el_nextBatch := s\<lparr>sl_len := Suc n\<rparr>\<rparr>
      else
        el\<lparr>el_mem := (el_mem el)(el_alloc el := take n cells @ Some e # replicate (grow n) None), el_alloc := Suc (el_alloc el),
           el_nextBatch := \<lparr>sl_ptr = el_alloc el, sl_len = Suc n\<rparr>\<rparr>)"

definition swapBatches :: "'e EventLoop \<Rightarrow> 'e EventLoop" where
  "swapBatches el = el\<lparr>el_currentBatch := el_nextBatch el, el_nextBatch := (el_currentBatch el)\<lparr>sl_len := 0\<rparr>\<rparr>"

definition handleBatch :: "'e EventLoop \<Rightarrow> 'e EventLoop" where
  "handleBatch el = el\<lparr>el_handler := Some (el_currentBatch el, 0), el_currentBatchID := Suc (el_currentBatchID el)\<rparr>"

definition swapAndHandleBatch :: "'e EventLoop \<Rightarrow> 'e EventLoop" where
  "swapAndHandleBatch el = (handleBatch (swapBatches el))\<lparr>el_handling := True\<rparr>"

text \<open>
  \<^verbatim>\<open>NewEventLoop\<close> and the start of \<^verbatim>\<open>Start\<close>: the first batch is in an array of its own; if it cannot be prepared the loop does not
  start.
\<close>

definition NewEventLoop :: "'e EventLoop" where
  "NewEventLoop =
     \<lparr>el_mem = (\<lambda>_. []), el_alloc = 2, el_currentBatch = \<lparr>sl_ptr = 0, sl_len = 0\<rparr>, el_nextBatch = \<lparr>sl_ptr = 1, sl_len = 0\<rparr>,
      el_handling = False, el_handler = None, el_phase = Running, el_currentBatchID = 0\<rparr>"

definition Start :: "string + 'e list \<Rightarrow> string + 'e EventLoop" where
  "Start prepared =
     (case prepared of
        Inl err \<Rightarrow> Inl (''failed to prepare the first batch: '' @ err)
      | Inr batch \<Rightarrow>
          (let el = NewEventLoop in
           Inr ((handleBatch (el\<lparr>el_mem := (el_mem el)(el_alloc el := map Some batch), el_alloc := Suc (el_alloc el),
                   el_currentBatch := \<lparr>sl_ptr = el_alloc el, sl_len = length batch\<rparr>\<rparr>))\<lparr>el_handling := True\<rparr>)))"

section \<open>The branches of the select statement\<close>

definition on_event :: "(nat \<Rightarrow> nat) \<Rightarrow> 'e \<Rightarrow> 'e EventLoop \<Rightarrow> 'e EventLoop" where
  "on_event grow e el =
     (let el1 = append_next grow e el in if \<not> el_handling el1 then swapAndHandleBatch el1 else el1)"

definition on_done :: "'e EventLoop \<Rightarrow> 'e EventLoop" where
  "on_done el =
     (let el1 = el\<lparr>el_handling := False, el_handler := None\<rparr> in
      if sl_len (el_nextBatch el1) > 0 then swapAndHandleBatch el1 else el1)"

definition on_cancel :: "'e EventLoop \<Rightarrow> 'e EventLoop" where
  "on_cancel el = el\<lparr>el_phase := (if el_handling el then Draining else Stopped)\<rparr>"

definition on_drained :: "'e EventLoop \<Rightarrow> 'e EventLoop" where
  "on_drained el = el\<lparr>el_phase := Stopped, el_handler := None\<rparr>"

section \<open>Interleavings\<close>

datatype 'e label = Recv 'e | Deliver 'e | Done | Cancel

text \<open>The handler is done when it has read its whole batch; it then blocks until the loop takes the signal.\<close>

definition handler_finished :: "'e EventLoop \<Rightarrow> bool" where
  "handler_finished el = (case el_handler el of None \<Rightarrow> False | Some (b, i) \<Rightarrow> i = sl_len b)"

inductive step :: "(nat \<Rightarrow> nat) \<Rightarrow> 'e EventLoop \<Rightarrow> 'e label \<Rightarrow> 'e EventLoop \<Rightarrow> bool" for grow where
  recv: "el_phase el = Running \<Longrightarrow> step grow el (Recv e) (on_event grow e el)"
| deliver: "el_handler el = Some (b, i) \<Longrightarrow> i < sl_len b \<Longrightarrow> i < length (el_mem el (sl_ptr b)) \<Longrightarrow>
    el_mem el (sl_ptr b) ! i = Some e \<Longrightarrow> step grow el (Deliver e) (el\<lparr>el_handler := Some (b, Suc i)\<rparr>)"
| finish: "el_phase el = Running \<Longrightarrow> handler_finished el \<Longrightarrow> step grow el Done (on_done el)"
| cancel: "el_phase el = Running \<Longrightarrow> step grow el Cancel (on_cancel el)"
| drained: "el_phase el = Draining \<Longrightarrow> handler_finished el \<Longrightarrow> step grow el Done (on_drained el)"

inductive run :: "(nat \<Rightarrow> nat) \<Rightarrow> 'e EventLoop \<Rightarrow> 'e label list \<Rightarrow> 'e EventLoop \<Rightarrow> bool" for grow where
  nil: "run grow el [] el"
| snoc: "run grow el tr el' \<Longrightarrow> step grow el' l el'' \<Longrightarrow> run grow el (tr @ [l]) el''"


definition received :: "'e label list \<Rightarrow> 'e list" where
  "received tr = List.map_filter (\<lambda>l. case l of Recv e \<Rightarrow> Some e | _ \<Rightarrow> None) tr"

definition delivered :: "'e label list \<Rightarrow> 'e list" where
  "delivered tr = List.map_filter (\<lambda>l. case l of Deliver e \<Rightarrow> Some e | _ \<Rightarrow> None) tr"

lemma trace_simps [simp]:
  "received [] = []" "delivered [] = []"
  "received (tr @ tr') = received tr @ received tr'" "delivered (tr @ tr') = delivered tr @ delivered tr'"
  "received [Recv e] = [e]" "received [Deliver e] = []" "received [Done] = []" "received [Cancel] = []"
  "delivered [Recv e] = []" "delivered [Deliver e] = [e]" "delivered [Done] = []" "delivered [Cancel] = []"
  by (simp_all add: received_def delivered_def List.map_filter_def)

section \<open>The invariant\<close>

text \<open>A slice is sound when it lies in its array and all its cells are written.\<close>

definition slice_ok :: "'e EventLoop \<Rightarrow> slice \<Rightarrow> bool" where
  "slice_ok el s \<longleftrightarrow> sl_ptr s < el_alloc el \<and> sl_len s \<le> length (el_mem el (sl_ptr s)) \<and>
     (\<forall>i < sl_len s. el_mem el (sl_ptr s) ! i \<noteq> None)"

text \<open>Events given to the handler that it has not read yet, and events waiting for the next batch.\<close>

definition in_flight :: "'e EventLoop \<Rightarrow> 'e list" where
  "in_flight el = (case el_handler el of None \<Rightarrow> [] | Some (b, i) \<Rightarrow> drop i (contents (el_mem el) b))"

definition waiting :: "'e EventLoop \<Rightarrow> 'e list" where
  "waiting el = contents (el_mem el) (el_nextBatch el)"

definition loop_inv :: "'e EventLoop \<Rightarrow> bool" where
  "loop_inv el \<longleftrightarrow>
     slice_ok el (el_currentBatch el) \<and> slice_ok el (el_nextBatch el) \<and>
     sl_ptr (el_currentBatch el) \<noteq> sl_ptr (el_nextBatch el) \<and>
     (case el_handler el of None \<Rightarrow> True | Some (b, i) \<Rightarrow> b = el_currentBatch el \<and> i \<le> sl_len b) \<and>
     (el_phase el \<noteq> Stopped \<longrightarrow> (el_handling el \<longleftrightarrow> el_handler el \<noteq> None)) \<and>
     (el_phase el = Draining \<longrightarrow> el_handling el) \<and> (el_phase el = Stopped \<longrightarrow> el_handler el = None) \<and>
     (el_phase el = Running \<longrightarrow> \<not> el_handling el \<longrightarrow> sl_len (el_nextBatch el) = 0)"

lemma contents_eq: "slice_ok el s \<Longrightarrow> map Some (contents (el_mem el) s) = take (sl_len s) (el_mem el (sl_ptr s))"
proof -
  have "map Some (List.map_filter id xs) = xs" if "\<forall>x \<in> set xs. x \<noteq> None" for xs :: "'a option list"
    using that by (induction xs) (auto simp: List.map_filter_simps)
  moreover assume "slice_ok el s"
  then have "\<forall>x \<in> set (take (sl_len s) (el_mem el (sl_ptr s))). x \<noteq> None"
    by (auto simp: slice_ok_def in_set_conv_nth)
  ultimately show ?thesis by (simp add: contents_def)
qed

lemma length_contents: "slice_ok el s \<Longrightarrow> length (contents (el_mem el) s) = sl_len s"
  using contents_eq [of el s] by (metis length_map length_take min.absorb2 slice_ok_def)

lemma contents_nth: "slice_ok el s \<Longrightarrow> i < sl_len s \<Longrightarrow> el_mem el (sl_ptr s) ! i = Some (contents (el_mem el) s ! i)"
  using contents_eq [of el s] by (metis length_contents nth_map nth_take)

lemma contents_empty [simp]: "contents mem (s\<lparr>sl_len := 0\<rparr>) = []" "sl_len s = 0 \<Longrightarrow> contents mem s = []"
  by (simp_all add: contents_def List.map_filter_def)

lemma contents_other: "sl_ptr s \<noteq> p \<Longrightarrow> contents (mem(p := cells)) s = contents mem s"
  by (simp add: contents_def)

lemma slice_ok_empty: "slice_ok el s \<Longrightarrow> slice_ok el (s\<lparr>sl_len := 0\<rparr>)"
  by (simp add: slice_ok_def)

text \<open>Appending an event: the next batch grows by it and no other slice is disturbed.\<close>

lemma append_next_result:
  assumes "slice_ok el (el_nextBatch el)"
  shows "slice_ok (append_next grow e el) (el_nextBatch (append_next grow e el))"
    and "waiting (append_next grow e el) = waiting el @ [e]"
    and "slice_ok el s \<Longrightarrow> sl_ptr s \<noteq> sl_ptr (el_nextBatch el) \<Longrightarrow>
      slice_ok (append_next grow e el) s \<and> contents (el_mem (append_next grow e el)) s = contents (el_mem el) s \<and>
      sl_ptr s \<noteq> sl_ptr (el_nextBatch (append_next grow e el))"
    and "sl_len (el_nextBatch (append_next grow e el)) = Suc (sl_len (el_nextBatch el))"
proof -
  let ?n = "sl_len (el_nextBatch el)" and ?cells = "el_mem el (sl_ptr (el_nextBatch el))"
  have ok: "?n \<le> length ?cells" "\<forall>i < ?n. ?cells ! i \<noteq> None" "sl_ptr (el_nextBatch el) < el_alloc el"
    using assms by (auto simp: slice_ok_def)
  have filt: "List.map_filter id (xs @ [Some e]) = List.map_filter id xs @ [e]" for xs :: "'a option list"
    by (simp add: List.map_filter_def)
  show "slice_ok (append_next grow e el) (el_nextBatch (append_next grow e el))"
    using ok by (auto simp: append_next_def Let_def slice_ok_def nth_append nth_list_update less_Suc_eq)
  have "take (Suc ?n) (?cells[?n := Some e]) = take ?n ?cells @ [Some e]" if "?n < length ?cells"
    using that by (simp add: take_Suc_conv_app_nth)
  moreover have "take (Suc ?n) (take ?n ?cells @ Some e # xs) = take ?n ?cells @ [Some e]" if "\<not> ?n < length ?cells" for xs
    using that ok(1) by simp
  ultimately show "waiting (append_next grow e el) = waiting el @ [e]"
    by (auto simp: append_next_def Let_def waiting_def contents_def filt)
  show "slice_ok el s \<Longrightarrow> sl_ptr s \<noteq> sl_ptr (el_nextBatch el) \<Longrightarrow>
      slice_ok (append_next grow e el) s \<and> contents (el_mem (append_next grow e el)) s = contents (el_mem el) s \<and>
      sl_ptr s \<noteq> sl_ptr (el_nextBatch (append_next grow e el))"
    by (auto simp: append_next_def Let_def slice_ok_def contents_def)
  show "sl_len (el_nextBatch (append_next grow e el)) = Suc ?n"
    by (simp add: append_next_def Let_def)
qed

lemma append_next_fields [simp]:
  "el_currentBatch (append_next grow e el) = el_currentBatch el" "el_handling (append_next grow e el) = el_handling el"
  "el_handler (append_next grow e el) = el_handler el" "el_phase (append_next grow e el) = el_phase el"
  by (simp_all add: append_next_def Let_def)

lemma swapAndHandleBatch_fields [simp]:
  "el_currentBatch (swapAndHandleBatch el) = el_nextBatch el"
  "el_nextBatch (swapAndHandleBatch el) = (el_currentBatch el)\<lparr>sl_len := 0\<rparr>"
  "el_handler (swapAndHandleBatch el) = Some (el_nextBatch el, 0)" "el_handling (swapAndHandleBatch el)"
  "el_phase (swapAndHandleBatch el) = el_phase el" "el_mem (swapAndHandleBatch el) = el_mem el" "el_alloc (swapAndHandleBatch el) = el_alloc el"
  by (simp_all add: swapAndHandleBatch_def handleBatch_def swapBatches_def)

text \<open>Swapping starts the handler on the waiting events.\<close>

lemma swapAndHandleBatch_result:
  assumes "slice_ok el (el_currentBatch el)" and "slice_ok el (el_nextBatch el)"
    and "sl_ptr (el_currentBatch el) \<noteq> sl_ptr (el_nextBatch el)" and "el_phase el = Running"
  shows "loop_inv (swapAndHandleBatch el)" and "in_flight (swapAndHandleBatch el) = waiting el" and "waiting (swapAndHandleBatch el) = []"
  using assms by (auto simp: loop_inv_def slice_ok_def in_flight_def waiting_def)

lemma on_event_result:
  assumes "loop_inv el" and "el_phase el = Running"
  shows "loop_inv (on_event grow e el) \<and> in_flight (on_event grow e el) @ waiting (on_event grow e el) = in_flight el @ waiting el @ [e]"
proof -
  have ok: "slice_ok el (el_currentBatch el)" "slice_ok el (el_nextBatch el)" "sl_ptr (el_currentBatch el) \<noteq> sl_ptr (el_nextBatch el)"
    using assms(1) by (auto simp: loop_inv_def)
  note a = append_next_result [OF ok(2), where grow = grow and e = e]
  note cur = a(3) [OF ok(1,3)]
  show ?thesis
  proof (cases "el_handling el")
    case True
    then have "on_event grow e el = append_next grow e el" by (simp add: on_event_def Let_def)
    moreover have "loop_inv (append_next grow e el)"
      using assms True a cur by (auto simp: loop_inv_def split: option.splits)
    moreover have "in_flight (append_next grow e el) = in_flight el"
      using assms(1) cur by (auto simp: in_flight_def loop_inv_def split: option.splits)
    ultimately show ?thesis using a(2) by simp
  next
    case False
    then have "on_event grow e el = swapAndHandleBatch (append_next grow e el)" by (simp add: on_event_def Let_def)
    moreover have "el_handler el = None" "waiting el = []"
      using assms False by (cases "el_handler el"; auto simp: loop_inv_def waiting_def)+
    moreover note swapAndHandleBatch_result [of "append_next grow e el"]
    ultimately show ?thesis using a cur assms(2) by (simp add: in_flight_def)
  qed
qed

lemma on_done_result:
  assumes "loop_inv el" and "el_phase el = Running" and "handler_finished el"
  shows "loop_inv (on_done el) \<and> in_flight (on_done el) @ waiting (on_done el) = waiting el \<and> in_flight el = []"
proof -
  have ok: "slice_ok el (el_currentBatch el)" "slice_ok el (el_nextBatch el)" "sl_ptr (el_currentBatch el) \<noteq> sl_ptr (el_nextBatch el)"
    using assms(1) by (auto simp: loop_inv_def)
  let ?el = "el\<lparr>el_handling := False, el_handler := None\<rparr>"
  have empty: "in_flight el = []"
    using assms(1,3) ok(1) by (auto simp: in_flight_def handler_finished_def loop_inv_def length_contents split: option.splits)
  show ?thesis
  proof (cases "sl_len (el_nextBatch el) > 0")
    case True
    then have "on_done el = swapAndHandleBatch ?el" by (simp add: on_done_def Let_def)
    moreover have "slice_ok ?el s = slice_ok el s" "waiting ?el = waiting el" for s by (simp_all add: slice_ok_def waiting_def)
    ultimately show ?thesis using swapAndHandleBatch_result [of ?el] ok assms(2) empty by simp
  next
    case False
    then have "on_done el = ?el" by (simp add: on_done_def Let_def)
    then show ?thesis using assms ok False empty by (auto simp: loop_inv_def slice_ok_def in_flight_def waiting_def)
  qed
qed

section \<open>Runs\<close>

lemma deliver_result:
  assumes "loop_inv el" and "el_handler el = Some (b, i)" and "i < sl_len b" and "el_mem el (sl_ptr b) ! i = Some e"
  shows "loop_inv (el\<lparr>el_handler := Some (b, Suc i)\<rparr>)"
    and "e # in_flight (el\<lparr>el_handler := Some (b, Suc i)\<rparr>) = in_flight el"
    and "waiting (el\<lparr>el_handler := Some (b, Suc i)\<rparr>) = waiting el"
proof -
  have ok: "slice_ok el b" using assms(1,2) by (auto simp: loop_inv_def)
  show "loop_inv (el\<lparr>el_handler := Some (b, Suc i)\<rparr>)"
    using assms by (auto simp: loop_inv_def slice_ok_def)
  have "contents (el_mem el) b ! i = e" using contents_nth [OF ok assms(3)] assms(4) by simp
  then show "e # in_flight (el\<lparr>el_handler := Some (b, Suc i)\<rparr>) = in_flight el"
    using assms(2,3) length_contents [OF ok] by (auto simp: in_flight_def Cons_nth_drop_Suc)
  show "waiting (el\<lparr>el_handler := Some (b, Suc i)\<rparr>) = waiting el" by (simp add: waiting_def)
qed

lemma on_cancel_result:
  "loop_inv el \<Longrightarrow> el_phase el = Running \<Longrightarrow> loop_inv (on_cancel el) \<and> in_flight (on_cancel el) = in_flight el \<and> waiting (on_cancel el) = waiting el"
  by (auto simp: on_cancel_def loop_inv_def slice_ok_def in_flight_def waiting_def split: option.splits)

lemma on_drained_result:
  assumes "loop_inv el" and "handler_finished el"
  shows "loop_inv (on_drained el) \<and> in_flight (on_drained el) = in_flight el \<and> waiting (on_drained el) = waiting el"
proof -
  have "in_flight el = []"
    using assms by (auto simp: in_flight_def handler_finished_def loop_inv_def length_contents split: option.splits)
  with assms(1) show ?thesis by (auto simp: on_drained_def loop_inv_def slice_ok_def in_flight_def waiting_def)
qed

text \<open>One step keeps the invariant and the balance of events.\<close>

lemma step_result:
  assumes "step grow el l el'" and "loop_inv el"
  shows "loop_inv el' \<and> delivered [l] @ in_flight el' @ waiting el' = in_flight el @ waiting el @ received [l]"
  using assms
proof (cases rule: step.cases)
  case (recv e)
  with on_event_result [OF assms(2)] show ?thesis by simp
next
  case (deliver b i e)
  with deliver_result [OF assms(2)] show ?thesis by (metis append_Cons append_Nil append_Nil2 trace_simps(6,10))
next
  case finish
  with on_done_result [OF assms(2)] show ?thesis by simp
next
  case cancel
  with on_cancel_result [OF assms(2)] show ?thesis by simp
next
  case drained
  with on_drained_result [OF assms(2)] show ?thesis by simp
qed

lemma Start_result:
  assumes "Start (Inr batch) = Inr el"
  shows "loop_inv el" and "in_flight el = batch" and "waiting el = []" and "el_phase el = Running"
proof -
  have "take (length batch) (map Some batch) = map Some batch" by simp
  moreover have "List.map_filter id (map Some batch) = batch" by (induction batch) (simp_all add: List.map_filter_simps)
  ultimately show "in_flight el = batch" and "waiting el = []" and "el_phase el = Running" and "loop_inv el"
    using assms
    by (auto simp: Start_def NewEventLoop_def handleBatch_def Let_def in_flight_def waiting_def contents_def loop_inv_def slice_ok_def
        List.map_filter_def)
qed

lemma run_result:
  assumes "run grow el tr el'" and "loop_inv el"
  shows "loop_inv el' \<and> delivered tr @ in_flight el' @ waiting el' = in_flight el @ waiting el @ received tr"
  using assms
proof (induction rule: run.induct)
  case (snoc el tr el' l el'')
  with step_result [OF snoc.hyps(2)] show ?case by simp
qed simp

lemma run_append: "run grow b tr' c \<Longrightarrow> run grow a tr b \<Longrightarrow> run grow a (tr @ tr') c"
proof (induction rule: run.induct)
  case (snoc el tr' el' l el'')
  then show ?case using run.snoc [of grow a "tr @ tr'" el' l el''] by simp
qed simp

section \<open>Progress\<close>

text \<open>The steps of the loop and its handler that need nothing from outside.\<close>

definition internal :: "'e label \<Rightarrow> bool" where
  "internal l = (case l of Deliver _ \<Rightarrow> True | Done \<Rightarrow> True | _ \<Rightarrow> False)"

definition work :: "'e EventLoop \<Rightarrow> nat" where
  "work el = 2 * length (in_flight el) + 3 * length (waiting el) + (if el_handler el = None then 0 else 1)"

lemma handler_finished_handler: "handler_finished el \<Longrightarrow> el_handler el \<noteq> None"
  by (cases "el_handler el") (auto simp: handler_finished_def)

lemma on_done_work:
  assumes "loop_inv el" and "el_phase el = Running" and "handler_finished el"
  shows "work (on_done el) < work el"
proof -
  note h = handler_finished_handler [OF assms(3)]
  note r = on_done_result [OF assms]
  have len: "sl_len (el_nextBatch el) = length (waiting el)"
    using assms(1) length_contents [of el "el_nextBatch el"] by (simp add: loop_inv_def waiting_def)
  show ?thesis
  proof (cases "waiting el = []")
    case True
    then have "el_handler (on_done el) = None" using len by (simp add: on_done_def Let_def)
    with r True h show ?thesis by (simp add: work_def)
  next
    case False
    then have "waiting (on_done el) = []" using len by (auto simp: on_done_def Let_def waiting_def)
    moreover have "0 < length (waiting el)" using False by simp
    ultimately show ?thesis using r h by (auto simp: work_def)
  qed
qed

lemma internal_step_work:
  assumes "step grow el l el'" and "internal l" and "loop_inv el"
  shows "work el' < work el"
  using assms(1)
proof (cases rule: step.cases)
  case (deliver b i e)
  have len: "Suc (length (in_flight el')) = length (in_flight el)" "waiting el' = waiting el"
    using deliver deliver_result [OF assms(3)] by (metis length_Cons)+
  have "el_handler el \<noteq> None" using deliver by simp
  with len show ?thesis by (simp add: work_def)
next
  case finish
  with on_done_work [OF assms(3)] show ?thesis by simp
next
  case drained
  then have "el_handler el \<noteq> None" "el_handler el' = None" by (auto simp: on_drained_def dest: handler_finished_handler)
  moreover have "in_flight el' = in_flight el" "waiting el' = waiting el" using drained on_drained_result [OF assms(3)] by simp_all
  ultimately show ?thesis by (simp add: work_def)
qed (use assms(2) in \<open>simp_all add: internal_def\<close>)

lemma internal_run_bounded:
  assumes "run grow el tr el'" and "list_all internal tr" and "loop_inv el"
  shows "length tr + work el' \<le> work el"
  using assms
proof (induction rule: run.induct)
  case (snoc el tr el' l el'')
  moreover have "loop_inv el'" using run_result [OF snoc.hyps(1)] snoc.prems by simp
  ultimately show ?case using internal_step_work [OF snoc.hyps(2)] by simp
qed simp

lemma handler_progress:
  assumes "loop_inv el" and "el_handler el \<noteq> None" and "el_phase el \<noteq> Stopped"
  shows "\<exists>l el'. internal l \<and> step grow el l el'"
proof -
  from assms(2) obtain b i where h: "el_handler el = Some (b, i)" by auto
  have ok: "slice_ok el b" "i \<le> sl_len b" using assms(1) h by (auto simp: loop_inv_def)
  show ?thesis
  proof (cases "i < sl_len b")
    case True
    then have "step grow el (Deliver (contents (el_mem el) b ! i)) (el\<lparr>el_handler := Some (b, Suc i)\<rparr>)"
      using ok(1) contents_nth [OF ok(1)] by (intro step.deliver [OF h]) (auto simp: slice_ok_def)
    moreover have "internal (Deliver (contents (el_mem el) b ! i))" by (simp add: internal_def)
    ultimately show ?thesis by blast
  next
    case False
    then have fin: "handler_finished el" using h ok(2) by (simp add: handler_finished_def)
    moreover have "internal Done" by (simp add: internal_def)
    ultimately show ?thesis
      using assms(3) step.finish [OF _ fin] step.drained [OF _ fin] by (cases "el_phase el") blast+
  qed
qed

lemma quiescent_delivered:
  assumes "loop_inv el" and "el_phase el = Running" and "\<not> (\<exists>l el'. internal l \<and> step grow el l el')"
  shows "in_flight el = [] \<and> waiting el = []"
proof -
  have "el_handler el = None" using handler_progress [OF assms(1)] assms(2,3) by fastforce
  with assms(1,2) show ?thesis by (auto simp: loop_inv_def in_flight_def waiting_def)
qed

lemma internal_phase: "step grow el l el' \<Longrightarrow> internal l \<Longrightarrow> el_phase el = Running \<Longrightarrow> el_phase el' = Running"
  by (erule step.cases) (auto simp: internal_def on_done_def Let_def)

lemma internal_run_phase:
  "run grow el tr el' \<Longrightarrow> list_all internal tr \<Longrightarrow> el_phase el = Running \<Longrightarrow> el_phase el' = Running"
  by (induction rule: run.induct) (auto dest: internal_phase)

section \<open>Executing a trace\<close>

text \<open>The step relation is deterministic in its label; the function below computes the successor.\<close>

definition exec_step :: "(nat \<Rightarrow> nat) \<Rightarrow> 'e label \<Rightarrow> 'e EventLoop \<Rightarrow> 'e EventLoop option" where
  "exec_step grow l el =
     (case l of
        Recv e \<Rightarrow> if el_phase el = Running then Some (on_event grow e el) else None
      | Deliver e \<Rightarrow>
          (case el_handler el of
             None \<Rightarrow> None
           | Some (b, i) \<Rightarrow>
               if i < sl_len b \<and> i < length (el_mem el (sl_ptr b)) \<and> el_mem el (sl_ptr b) ! i = Some e
               then Some (el\<lparr>el_handler := Some (b, Suc i)\<rparr>) else None)
      | Done \<Rightarrow>
          if handler_finished el
          then (case el_phase el of Running \<Rightarrow> Some (on_done el) | Draining \<Rightarrow> Some (on_drained el) | Stopped \<Rightarrow> None)
          else None
      | Cancel \<Rightarrow> if el_phase el = Running then Some (on_cancel el) else None)"

fun exec_trace :: "(nat \<Rightarrow> nat) \<Rightarrow> 'e label list \<Rightarrow> 'e EventLoop \<Rightarrow> 'e EventLoop option" where
  "exec_trace grow [] el = Some el"
| "exec_trace grow (l # tr) el = (case exec_step grow l el of None \<Rightarrow> None | Some el' \<Rightarrow> exec_trace grow tr el')"

lemma step_exec_iff: "step grow el l el' \<longleftrightarrow> exec_step grow l el = Some el'"
proof
  show "step grow el l el' \<Longrightarrow> exec_step grow l el = Some el'"
    by (erule step.cases) (auto simp: exec_step_def)
  show "exec_step grow l el = Some el' \<Longrightarrow> step grow el l el'"
    by (auto simp: exec_step_def split: label.splits option.splits if_splits prod.splits phase.splits
        intro: step.recv step.deliver step.finish step.cancel step.drained)
qed

lemma exec_trace_run: "exec_trace grow tr el = Some el' \<Longrightarrow> run grow el tr el'"
proof (induction tr arbitrary: el)
  case (Cons l tr)
  then obtain el1 where s: "exec_step grow l el = Some el1" and r: "exec_trace grow tr el1 = Some el'"
    by (auto split: option.splits)
  have "run grow el [l] el1" using run.snoc [OF run.nil, of grow el l el1] s by (simp add: step_exec_iff)
  then show ?case using run_append [OF Cons.IH [OF r]] by fastforce
qed (auto intro: run.nil)

section \<open>Properties\<close>

text \<open>
  C5. No event is lost, duplicated or reordered. In every interleaving of the loop, its handler and the arrival of events,
  the events the handler has read so far, followed by the rest of its batch and by the events waiting for the next batch,
  are exactly the first batch followed by the events received, in order. In particular a batch is not changed
  by the events that arrive while it is handled, although the buffers share and reuse their arrays.
\<close>

theorem events_exactly_once:
  assumes "Start (Inr batch) = Inr el" and "run grow el tr el'"
  shows "delivered tr @ in_flight el' @ waiting el' = batch @ received tr"
  using run_result [OF assms(2)] Start_result [OF assms(1)] by simp

theorem events_exactly_once_witness:
  "\<exists>el el'. Start (Inr [''a'', ''b'']) = Inr el \<and>
     run (\<lambda>n. n) el [Recv ''c'', Deliver ''a'', Recv ''d'', Deliver ''b'', Done, Deliver ''c''] el' \<and>
     [''a'', ''b'', ''c''] @ in_flight el' @ waiting el' = [''a'', ''b'', ''c'', ''d'']"
proof -
  let ?tr = "[Recv ''c'', Deliver ''a'', Recv ''d'', Deliver ''b'', Done, Deliver ''c'']"
  obtain el where el: "Start (Inr [''a'', ''b'']) = Inr el" by (simp add: Start_def Let_def)
  have "case Start (Inr [''a'', ''b'']) of Inl _ \<Rightarrow> False | Inr el \<Rightarrow> exec_trace (\<lambda>n. n) ?tr el \<noteq> None" by code_simp
  then obtain el' where "exec_trace (\<lambda>n. n) ?tr el = Some el'" using el by auto
  then have r: "run (\<lambda>n. n) el ?tr el'" by (rule exec_trace_run)
  from events_exactly_once [OF el r] have "[''a'', ''b'', ''c''] @ in_flight el' @ waiting el' = [''a'', ''b'', ''c'', ''d'']"
    by (simp add: delivered_def received_def List.map_filter_simps)
  with el r show ?thesis by blast
qed

text \<open>
  C13. Every event is handled. From any state of a run that was not cancelled, the loop and its handler on their own make only
  finitely many steps, and when they can make no further step all events received so far have been handled.
\<close>

theorem events_eventually_handled:
  assumes "Start (Inr batch) = Inr el" and "run grow el tr el'" and "el_phase el' = Running"
    and "run grow el' tr' el''" and "list_all internal tr'"
  shows "length tr' \<le> work el' \<and>
    (\<not> (\<exists>l el3. internal l \<and> step grow el'' l el3) \<longrightarrow> delivered (tr @ tr') = batch @ received tr)"
proof -
  have inv: "loop_inv el'" using run_result [OF assms(2)] Start_result [OF assms(1)] by simp
  have inv': "loop_inv el''" using run_result [OF assms(4)] inv by simp
  have "run grow el (tr @ tr') el''" by (rule run_append [OF assms(4,2)])
  then have "delivered (tr @ tr') @ in_flight el'' @ waiting el'' = batch @ received (tr @ tr')"
    using run_result Start_result [OF assms(1)] by fastforce
  moreover have "received tr' = []" using assms(5)
    by (induction tr') (auto simp: received_def List.map_filter_simps internal_def split: label.splits)
  moreover have "el_phase el'' = Running" by (rule internal_run_phase [OF assms(4,5,3)])
  ultimately show ?thesis
    using quiescent_delivered [OF inv'] internal_run_bounded [OF assms(4,5) inv] by auto
qed

theorem events_eventually_handled_witness:
  "\<exists>el el' el''. Start (Inr [''a'']) = Inr el \<and> run (\<lambda>n. n) el [Recv ''b''] el' \<and>
     run (\<lambda>n. n) el' [Deliver ''a'', Done, Deliver ''b'', Done] el'' \<and> 4 \<le> work el' \<and>
     delivered [Recv ''b'', Deliver ''a'', Done, Deliver ''b'', Done] = [''a'', ''b'']"
proof -
  let ?tr = "[Recv ''b'']" and ?tr' = "[Deliver ''a'', Done, Deliver ''b'', Done]"
  have "case Start (Inr [''a'']) of Inl _ \<Rightarrow> False | Inr el \<Rightarrow>
      (case exec_trace (\<lambda>n. n) ?tr el of None \<Rightarrow> False | Some el' \<Rightarrow> el_phase el' = Running \<and>
        (case exec_trace (\<lambda>n. n) ?tr' el' of None \<Rightarrow> False | Some el'' \<Rightarrow> el_handler el'' = None))" by code_simp
  then obtain el el' el'' where el: "Start (Inr [''a'']) = Inr el" and e: "exec_trace (\<lambda>n. n) ?tr el = Some el'"
    and ph: "el_phase el' = Running" and e': "exec_trace (\<lambda>n. n) ?tr' el' = Some el''" and h: "el_handler el'' = None"
    by (auto split: sum.splits option.splits)
  note r = exec_trace_run [OF e] and r' = exec_trace_run [OF e']
  have i: "list_all internal ?tr'" by (simp add: internal_def)
  have "\<not> (\<exists>l el3. internal l \<and> step (\<lambda>n. n) el'' l el3)"
    using h by (auto simp: step_exec_iff exec_step_def internal_def handler_finished_def split: label.splits)
  with events_eventually_handled [OF el r ph r' i]
  have "4 \<le> work el'" and "delivered (?tr @ ?tr') = [''a''] @ received ?tr" by auto
  with el r r' show ?thesis by (simp add: received_def List.map_filter_simps) blast
qed

text \<open>
  C37. Shutdown is graceful. A loop that was cancelled stops only after the batch being handled was read to its end: once it
  is stopped the handler has read a prefix of what was received, made of whole batches, and only the events of the batch
  that was never started are dropped. A stopped loop makes no further step.
\<close>

theorem shutdown_completes_batch:
  assumes "Start (Inr batch) = Inr el" and "run grow el tr el'" and "el_phase el' = Stopped"
  shows "delivered tr @ waiting el' = batch @ received tr \<and> \<not> (\<exists>l el''. step grow el' l el'')"
proof -
  have inv: "loop_inv el'" and ev: "delivered tr @ in_flight el' @ waiting el' = batch @ received tr"
    using run_result [OF assms(2)] Start_result [OF assms(1)] by simp_all
  then have h: "el_handler el' = None" using assms(3) by (simp add: loop_inv_def)
  with assms(3) have "exec_step grow l el' = None" for l
    by (simp add: exec_step_def handler_finished_def split: label.splits)
  with ev h show ?thesis by (simp add: in_flight_def step_exec_iff)
qed

theorem shutdown_completes_batch_witness:
  "\<exists>el el'. Start (Inr [''a'']) = Inr el \<and> run (\<lambda>n. n) el [Recv ''b'', Cancel, Deliver ''a'', Done] el' \<and> waiting el' = [''b'']"
proof -
  let ?tr = "[Recv ''b'', Cancel, Deliver ''a'', Done]"
  have "case Start (Inr [''a'']) of Inl _ \<Rightarrow> False | Inr el \<Rightarrow>
      (case exec_trace (\<lambda>n. n) ?tr el of None \<Rightarrow> False | Some el' \<Rightarrow> el_phase el' = Stopped)" by code_simp
  then obtain el el' where el: "Start (Inr [''a'']) = Inr el" and e: "exec_trace (\<lambda>n. n) ?tr el = Some el'"
    and ph: "el_phase el' = Stopped" by (auto split: sum.splits option.splits)
  note r = exec_trace_run [OF e]
  from shutdown_completes_batch [OF el r ph] have "waiting el' = [''b'']"
    by (simp add: delivered_def received_def List.map_filter_simps)
  with el r show ?thesis by blast
qed

end
