(* ===== verification/HTTPMatches.thy ===== *)
theory HTTPMatches
  imports Ordering
begin

text \<open>
  Matching of HTTP requests. The controller encodes the match of a routing rule as a list of strings
  (\<^verbatim>\<open>createRouteMatch\<close> in \<^verbatim>\<open>internal/controller/nginx/config/servers.go\<close>); the JavaScript module
  \<^verbatim>\<open>internal/controller/nginx/modules/src/httpmatches.js\<close>, which runs inside NGINX, decodes the strings and picks the first
  match a request satisfies. Both sides are modelled here. The declarative reading of a match, \<open>satisfies\<close>, does not mention
  the encoding; the main lemmas show that the two sides together implement it.

  The request headers, the query arguments, regular expressions and \<^verbatim>\<open>querystring.stringify\<close> belong to NGINX and to
  the JavaScript runtime; they are parameters.
\<close>

section \<open>The encoder\<close>

fun MatchType_string :: "MatchType \<Rightarrow> string" where
  "MatchType_string MatchTypeExact = ''Exact''"
| "MatchType_string MatchTypeRegularExpression = ''RegularExpression''"

text \<open>\<^verbatim>\<open>strings.ToLower\<close> on ASCII, which is what header names consist of.\<close>

definition lower_char :: "char \<Rightarrow> char" where
  "lower_char c = (if CHR ''A'' \<le> c \<and> c \<le> CHR ''Z'' then char_of (of_char c + 32 :: nat) else c)"

definition to_lower :: "string \<Rightarrow> string" where
  "to_lower s = map lower_char s"

record routeMatch =
  rm_Method :: string
  rm_RedirectPath :: string
  rm_Headers :: "string list"
  rm_QueryParams :: "string list"
  rm_Any :: bool

definition createQueryParamKeyValString :: "HTTPQueryParamMatch \<Rightarrow> string" where
  "createQueryParamKeyValString p = qm_Name p @ ''='' @ MatchType_string (qm_Type p) @ ''='' @ qm_Value p"

definition createHeaderKeyValString :: "HTTPHeaderMatch \<Rightarrow> string" where
  "createHeaderKeyValString h = hm_Name h @ '':'' @ MatchType_string (hm_Type h) @ '':'' @ hm_Value h"

definition isPathOnlyMatch :: "Match \<Rightarrow> bool" where
  "isPathOnlyMatch m \<longleftrightarrow> m_Method m = None \<and> m_Headers m = [] \<and> m_QueryParams m = []"

text \<open>Only the first entry for every header name counts, names being compared without case.\<close>

definition first_headers :: "HTTPHeaderMatch list \<Rightarrow> HTTPHeaderMatch list" where
  "first_headers hs = first_by (\<lambda>h. to_lower (hm_Name h)) {} hs"

definition createRouteMatch :: "Match \<Rightarrow> string \<Rightarrow> routeMatch" where
  "createRouteMatch m redirectPath =
     (let hm = \<lparr>rm_Method = [], rm_RedirectPath = redirectPath, rm_Headers = [], rm_QueryParams = [], rm_Any = False\<rparr> in
      if isPathOnlyMatch m then hm\<lparr>rm_Any := True\<rparr>
      else hm\<lparr>rm_Method := deref_or [] (m_Method m),
             rm_Headers := map createHeaderKeyValString (first_headers (m_Headers m)),
             rm_QueryParams := map createQueryParamKeyValString (m_QueryParams m)\<rparr>)"

section \<open>The JavaScript module\<close>

text \<open>
  Exceptions of the module are values. A match arrives through JSON, which omits empty fields: an absent field is the empty
  value here, and the module tests both for truth in the same way. A query argument that occurs several times is an array.
\<close>

datatype js_error =
    MatchKeyUndefined
  | KeyNotInMatches string
  | InvalidMatchList
  | InvalidHeaderMatch string
  | InvalidMatchType string
  | InvalidQueryParameter string
  | InvalidRegExp string
  | NoRedirectPath routeMatch

type_synonym 'a js = "js_error + 'a"

datatype arg = ArgString string | ArgArray "string list"

record request =
  r_method :: string
  r_headersIn :: "string \<Rightarrow> string option"
  r_args :: "string \<Rightarrow> arg option"
  r_match_key :: "string option"

text \<open>\<^verbatim>\<open>s.indexOf(c, from)\<close> and \<^verbatim>\<open>s.slice(i, j)\<close> for indices that are in range.\<close>

fun index_aux :: "char \<Rightarrow> string \<Rightarrow> int \<Rightarrow> int" where
  "index_aux c [] i = -1"
| "index_aux c (x # xs) i = (if x = c then i else index_aux c xs (i + 1))"

definition indexOf :: "string \<Rightarrow> char \<Rightarrow> int \<Rightarrow> int" where
  "indexOf s c from = index_aux c (drop (nat from) s) (int (nat from))"

definition js_slice :: "string \<Rightarrow> int \<Rightarrow> int \<Rightarrow> string" where
  "js_slice s i j = take (nat (j - i)) (drop (nat i) s)"

text \<open>
  \<open>re\<close> is \<^verbatim>\<open>new RegExp(p).test(v)\<close>, None when the pattern does not compile. \<^verbatim>\<open>values.some\<close> stops at the first success.
\<close>

fun some_matches :: "(string \<Rightarrow> string \<Rightarrow> bool option) \<Rightarrow> string \<Rightarrow> string list \<Rightarrow> bool js" where
  "some_matches re p [] = Inr False"
| "some_matches re p (v # vs) =
     (case re p v of None \<Rightarrow> Inl (InvalidRegExp p) | Some True \<Rightarrow> Inr True | Some False \<Rightarrow> some_matches re p vs)"

text \<open>The parts of an encoded header match: the first two colons delimit them.\<close>

definition header_parts :: "string \<Rightarrow> (string \<times> string \<times> string) js" where
  "header_parts h =
     (let firstColon = indexOf h CHR '':'' 0; secondColon = indexOf h CHR '':'' (firstColon + 1) in
      if firstColon = -1 \<or> secondColon = -1 then Inl (InvalidHeaderMatch h)
      else Inr (js_slice h 0 firstColon, js_slice h (firstColon + 1) secondColon, js_slice h (secondColon + 1) (int (length h))))"

definition header_matches :: "(string \<Rightarrow> string \<Rightarrow> bool option) \<Rightarrow> (string \<Rightarrow> string option) \<Rightarrow> string \<Rightarrow> bool js" where
  "header_matches re requestHeaders h =
     (case header_parts h of
        Inl e \<Rightarrow> Inl e
      | Inr (name, type, matchValue) \<Rightarrow>
          (case requestHeaders name of
             None \<Rightarrow> Inr False
           | Some val \<Rightarrow>
               if val = [] then Inr False
               else
                 let values = split_on CHR '','' val in
                 if \<not> (type = ''Exact'' \<or> type = ''RegularExpression'') then Inl (InvalidMatchType type)
                 else if type = ''Exact'' then Inr (matchValue \<in> set values)
                 else some_matches re matchValue values))"

fun headersMatch :: "(string \<Rightarrow> string \<Rightarrow> bool option) \<Rightarrow> (string \<Rightarrow> string option) \<Rightarrow> string list \<Rightarrow> bool js" where
  "headersMatch re requestHeaders [] = Inr True"
| "headersMatch re requestHeaders (h # hs) =
     (case header_matches re requestHeaders h of
        Inl e \<Rightarrow> Inl e
      | Inr found \<Rightarrow> if \<not> found then Inr False else headersMatch re requestHeaders hs)"

text \<open>An empty array is truthy in JavaScript, its first element is undefined.\<close>

definition arg_value :: "arg \<Rightarrow> string option option" where
  "arg_value a =
     (case a of
        ArgString s \<Rightarrow> if s = [] then None else Some (Some s)
      | ArgArray vs \<Rightarrow> Some (case vs of [] \<Rightarrow> None | v # _ \<Rightarrow> Some v))"

definition param_parts :: "string \<Rightarrow> (string \<times> string \<times> string) js" where
  "param_parts p =
     (let firstIdx = indexOf p CHR ''='' 0 in
      if firstIdx = -1 \<or> firstIdx = 0 then Inl (InvalidQueryParameter p)
      else
        let idx = indexOf p CHR ''='' (firstIdx + 1) in
        if idx = -1 \<or> idx = 0 \<or> idx = int (length p) - 1 then Inl (InvalidQueryParameter p)
        else Inr (js_slice p 0 firstIdx, js_slice p (firstIdx + 1) idx, js_slice p (idx + 1) (int (length p))))"

definition param_matches :: "(string \<Rightarrow> string \<Rightarrow> bool option) \<Rightarrow> (string \<Rightarrow> arg option) \<Rightarrow> string \<Rightarrow> bool js" where
  "param_matches re requestParams p =
     (case param_parts p of
        Inl e \<Rightarrow> Inl e
      | Inr (key, type, kv1) \<Rightarrow>
          if \<not> (type = ''Exact'' \<or> type = ''RegularExpression'') then Inl (InvalidMatchType type)
          else case requestParams key of
                 None \<Rightarrow> Inr False
               | Some a \<Rightarrow>
                   (case arg_value a of
                      None \<Rightarrow> Inr False
                    | Some val \<Rightarrow>
                        if type = ''Exact'' then Inr (val = Some kv1)
                        else case re kv1 (deref_or ''undefined'' val) of
                               None \<Rightarrow> Inl (InvalidRegExp kv1)
                             | Some b \<Rightarrow> Inr b))"

fun paramsMatch :: "(string \<Rightarrow> string \<Rightarrow> bool option) \<Rightarrow> (string \<Rightarrow> arg option) \<Rightarrow> string list \<Rightarrow> bool js" where
  "paramsMatch re requestParams [] = Inr True"
| "paramsMatch re requestParams (p # ps) =
     (case param_matches re requestParams p of
        Inl e \<Rightarrow> Inl e
      | Inr found \<Rightarrow> if \<not> found then Inr False else paramsMatch re requestParams ps)"

definition testMatch :: "(string \<Rightarrow> string \<Rightarrow> bool option) \<Rightarrow> request \<Rightarrow> routeMatch \<Rightarrow> bool js" where
  "testMatch re r m =
     (if rm_Any m then Inr True
      else if rm_Method m \<noteq> [] \<and> r_method r \<noteq> rm_Method m then Inr False
      else case headersMatch re (r_headersIn r) (rm_Headers m) of
             Inl e \<Rightarrow> Inl e
           | Inr False \<Rightarrow> Inr False
           | Inr True \<Rightarrow> paramsMatch re (r_args r) (rm_QueryParams m))"

fun findWinningMatch :: "(string \<Rightarrow> string \<Rightarrow> bool option) \<Rightarrow> request \<Rightarrow> routeMatch list \<Rightarrow> routeMatch option js" where
  "findWinningMatch re r [] = Inr None"
| "findWinningMatch re r (m # ms) =
     (case testMatch re r m of
        Inl e \<Rightarrow> Inl e
      | Inr found \<Rightarrow> if found then Inr (Some m) else findWinningMatch re r ms)"

definition verifyMatchList :: "routeMatch list \<Rightarrow> unit js" where
  "verifyMatchList matchList = (if matchList = [] then Inl InvalidMatchList else Inr ())"

definition extractMatchesFromRequest :: "request \<Rightarrow> (string \<Rightarrow> routeMatch list option) \<Rightarrow> routeMatch list js" where
  "extractMatchesFromRequest r matches =
     (case r_match_key r of
        None \<Rightarrow> Inl MatchKeyUndefined
      | Some key \<Rightarrow>
          if key = [] then Inl MatchKeyUndefined
          else case matches key of
                 None \<Rightarrow> Inl (KeyNotInMatches key)
               | Some matchList \<Rightarrow>
                   (case verifyMatchList matchList of Inl _ \<Rightarrow> Inl InvalidMatchList | Inr _ \<Rightarrow> Inr matchList))"

text \<open>What the module does with the request; a status code comes with the error that was logged.\<close>

datatype js_result = InternalRedirect string | Return nat "js_error option"

definition redirectForMatchList ::
    "(string \<Rightarrow> string \<Rightarrow> bool option) \<Rightarrow> ((string \<Rightarrow> arg option) \<Rightarrow> string) \<Rightarrow> request \<Rightarrow> routeMatch list \<Rightarrow> js_result" where
  "redirectForMatchList re stringify r matchList =
     (case findWinningMatch re r matchList of
        Inl e \<Rightarrow> Return 500 (Some e)
      | Inr None \<Rightarrow> Return 404 None
      | Inr (Some m) \<Rightarrow>
          if rm_RedirectPath m = [] then Return 500 (Some (NoRedirectPath m))
          else
            let args = stringify (r_args r); args' = (if args \<noteq> [] then ''?'' @ args else args) in
            InternalRedirect (rm_RedirectPath m @ args'))"

definition redirect ::
    "(string \<Rightarrow> string \<Rightarrow> bool option) \<Rightarrow> ((string \<Rightarrow> arg option) \<Rightarrow> string) \<Rightarrow> (string \<Rightarrow> routeMatch list option) \<Rightarrow> request \<Rightarrow> js_result" where
  "redirect re stringify matches r =
     (case extractMatchesFromRequest r matches of
        Inl e \<Rightarrow> Return 500 (Some e)
      | Inr matchList \<Rightarrow> redirectForMatchList re stringify r matchList)"

section \<open>What a match means\<close>

text \<open>
  A header entry counts unless an earlier entry has the same name without case. A header or an argument with an empty value
  counts as absent; of several values of an argument the first one counts, of several values of a header any.
\<close>

definition value_satisfies :: "(string \<Rightarrow> string \<Rightarrow> bool option) \<Rightarrow> MatchType \<Rightarrow> string \<Rightarrow> string \<Rightarrow> bool" where
  "value_satisfies re t expected actual =
     (case t of MatchTypeExact \<Rightarrow> actual = expected | MatchTypeRegularExpression \<Rightarrow> re expected actual = Some True)"

definition header_satisfied :: "(string \<Rightarrow> string \<Rightarrow> bool option) \<Rightarrow> request \<Rightarrow> HTTPHeaderMatch \<Rightarrow> bool" where
  "header_satisfied re r h =
     (case r_headersIn r (hm_Name h) of
        None \<Rightarrow> False
      | Some val \<Rightarrow> val \<noteq> [] \<and> (\<exists>v \<in> set (split_on CHR '','' val). value_satisfies re (hm_Type h) (hm_Value h) v))"

definition param_satisfied :: "(string \<Rightarrow> string \<Rightarrow> bool option) \<Rightarrow> request \<Rightarrow> HTTPQueryParamMatch \<Rightarrow> bool" where
  "param_satisfied re r p =
     (case r_args r (qm_Name p) of
        Some (ArgString v) \<Rightarrow> v \<noteq> [] \<and> value_satisfies re (qm_Type p) (qm_Value p) v
      | Some (ArgArray (v # _)) \<Rightarrow> value_satisfies re (qm_Type p) (qm_Value p) v
      | _ \<Rightarrow> False)"

definition header_counts :: "HTTPHeaderMatch list \<Rightarrow> nat \<Rightarrow> bool" where
  "header_counts hs i \<longleftrightarrow> (\<forall>j < i. to_lower (hm_Name (hs ! j)) \<noteq> to_lower (hm_Name (hs ! i)))"

definition satisfies :: "(string \<Rightarrow> string \<Rightarrow> bool option) \<Rightarrow> request \<Rightarrow> Match \<Rightarrow> bool" where
  "satisfies re r m \<longleftrightarrow>
     (m_Method m = None \<or> m_Method m = Some (r_method r)) \<and>
     (\<forall>i < length (m_Headers m). header_counts (m_Headers m) i \<longrightarrow> header_satisfied re r (m_Headers m ! i)) \<and>
     (\<forall>p \<in> set (m_QueryParams m). param_satisfied re r p)"

text \<open>
  What the validation of routes guarantees of a match: a method is not empty, names do not contain the separators,
  query parameters have a name and a value, and regular expressions compile.
\<close>

definition compiles :: "(string \<Rightarrow> string \<Rightarrow> bool option) \<Rightarrow> MatchType \<Rightarrow> string \<Rightarrow> bool" where
  "compiles re t p \<longleftrightarrow> t = MatchTypeRegularExpression \<longrightarrow> (\<forall>v. re p v \<noteq> None)"

definition wf_match :: "(string \<Rightarrow> string \<Rightarrow> bool option) \<Rightarrow> Match \<Rightarrow> bool" where
  "wf_match re m \<longleftrightarrow>
     m_Method m \<noteq> Some [] \<and>
     (\<forall>h \<in> set (m_Headers m). CHR '':'' \<notin> set (hm_Name h) \<and> compiles re (hm_Type h) (hm_Value h)) \<and>
     (\<forall>p \<in> set (m_QueryParams m). qm_Name p \<noteq> [] \<and> CHR ''='' \<notin> set (qm_Name p) \<and> qm_Value p \<noteq> [] \<and>
        compiles re (qm_Type p) (qm_Value p))"

section \<open>Decoding\<close>

lemma index_aux_first: "c \<notin> set a \<Longrightarrow> index_aux c (a @ c # b) i = i + int (length a)"
  by (induction a arbitrary: i) auto

lemma indexOf_first: "drop (nat from) s = a @ c # b \<Longrightarrow> c \<notin> set a \<Longrightarrow> indexOf s c from = int (nat from + length a)"
  by (simp add: indexOf_def index_aux_first)

lemma split_at_separators:
  assumes "c \<notin> set a" and "c \<notin> set t" and s_def: "s = a @ c # t @ c # b"
  shows "indexOf s c 0 = int (length a)" and "indexOf s c (int (length a) + 1) = int (length a + 1 + length t)"
    and "js_slice s 0 (int (length a)) = a" and "js_slice s (int (length a) + 1) (int (length a + 1 + length t)) = t"
    and "js_slice s (int (length a + 1 + length t) + 1) (int (length s)) = b"
proof -
  have n: "nat (int (length a) + 1) = Suc (length a)" by simp
  show "indexOf s c 0 = int (length a)"
    using indexOf_first [of 0 s a c "t @ c # b"] assms by simp
  show "indexOf s c (int (length a) + 1) = int (length a + 1 + length t)"
    using indexOf_first [of "int (length a) + 1" s t c b] assms n by simp
  show "js_slice s 0 (int (length a)) = a" by (simp add: js_slice_def s_def)
  show "js_slice s (int (length a) + 1) (int (length a + 1 + length t)) = t"
    using n by (simp add: js_slice_def s_def)
  have "nat (int (length a + 1 + length t) + 1) = length a + length t + 2" by simp
  then show "js_slice s (int (length a + 1 + length t) + 1) (int (length s)) = b"
    by (simp add: js_slice_def s_def)
qed

lemma MatchType_string_no_sep: "CHR '':'' \<notin> set (MatchType_string t)" "CHR ''='' \<notin> set (MatchType_string t)"
  by (cases t; simp)+

lemma header_parts_encoded:
  assumes "CHR '':'' \<notin> set (hm_Name h)"
  shows "header_parts (createHeaderKeyValString h) = Inr (hm_Name h, MatchType_string (hm_Type h), hm_Value h)"
  using split_at_separators [OF assms MatchType_string_no_sep(1) refl, of "hm_Type h" "hm_Value h"]
  by (simp add: header_parts_def createHeaderKeyValString_def Let_def)

lemma param_parts_encoded:
  assumes "CHR ''='' \<notin> set (qm_Name p)" and "qm_Name p \<noteq> []" and "qm_Value p \<noteq> []"
  shows "param_parts (createQueryParamKeyValString p) = Inr (qm_Name p, MatchType_string (qm_Type p), qm_Value p)"
  using split_at_separators [OF assms(1) MatchType_string_no_sep(2) refl, of "qm_Type p" "qm_Value p"] assms(2,3)
  by (simp add: param_parts_def createQueryParamKeyValString_def Let_def)

section \<open>Matching\<close>

lemma some_matches_compiled:
  "\<forall>v. re p v \<noteq> None \<Longrightarrow> some_matches re p vs = Inr (\<exists>v \<in> set vs. re p v = Some True)"
proof (induction vs)
  case (Cons v vs)
  then obtain b where "re p v = Some b" by blast
  with Cons show ?case by (cases b) simp_all
qed simp

lemma header_matches_encoded:
  assumes "CHR '':'' \<notin> set (hm_Name h)" and "compiles re (hm_Type h) (hm_Value h)"
  shows "header_matches re (r_headersIn r) (createHeaderKeyValString h) = Inr (header_satisfied re r h)"
proof (cases "hm_Type h")
  case MatchTypeExact
  then show ?thesis
    by (auto simp: header_matches_def header_parts_encoded [OF assms(1)] header_satisfied_def value_satisfies_def
        split: option.splits)
next
  case MatchTypeRegularExpression
  moreover from this have "\<forall>v. re (hm_Value h) v \<noteq> None" using assms(2) by (simp add: compiles_def)
  ultimately show ?thesis
    by (auto simp: header_matches_def header_parts_encoded [OF assms(1)] header_satisfied_def value_satisfies_def
        some_matches_compiled split: option.splits)
qed

lemma param_matches_encoded:
  assumes "CHR ''='' \<notin> set (qm_Name p)" and "qm_Name p \<noteq> []" and "qm_Value p \<noteq> []" and "compiles re (qm_Type p) (qm_Value p)"
    and "\<And>k. r_args r k \<noteq> Some (ArgArray [])"
  shows "param_matches re (r_args r) (createQueryParamKeyValString p) = Inr (param_satisfied re r p)"
proof -
  note parts = param_parts_encoded [OF assms(1-3)]
  have test: "(case re (qm_Value p) v of None \<Rightarrow> Inl (InvalidRegExp (qm_Value p)) | Some b \<Rightarrow> Inr b) =
      Inr (value_satisfies re MatchTypeRegularExpression (qm_Value p) v)" if "qm_Type p = MatchTypeRegularExpression" for v
    using that assms(4) by (auto simp: compiles_def value_satisfies_def split: option.split)
  show ?thesis
  proof (cases "r_args r (qm_Name p)")
    case None
    then show ?thesis by (cases "qm_Type p") (simp_all add: param_matches_def parts param_satisfied_def)
  next
    case (Some a)
    show ?thesis
    proof (cases a)
      case (ArgString v)
      with Some test show ?thesis
        by (cases "qm_Type p") (auto simp: param_matches_def parts param_satisfied_def arg_value_def value_satisfies_def)
    next
      case (ArgArray vs)
      then obtain v vs' where "vs = v # vs'" using Some assms(5) by (cases vs) auto
      with Some ArgArray test show ?thesis
        by (cases "qm_Type p") (auto simp: param_matches_def parts param_satisfied_def arg_value_def value_satisfies_def)
    qed
  qed
qed

lemma headersMatch_encoded:
  assumes "\<forall>h \<in> set hs. CHR '':'' \<notin> set (hm_Name h) \<and> compiles re (hm_Type h) (hm_Value h)"
  shows "headersMatch re (r_headersIn r) (map createHeaderKeyValString hs) = Inr (\<forall>h \<in> set hs. header_satisfied re r h)"
  using assms by (induction hs) (simp_all add: header_matches_encoded)

lemma paramsMatch_encoded:
  assumes "\<forall>p \<in> set ps. qm_Name p \<noteq> [] \<and> CHR ''='' \<notin> set (qm_Name p) \<and> qm_Value p \<noteq> [] \<and> compiles re (qm_Type p) (qm_Value p)"
    and "\<And>k. r_args r k \<noteq> Some (ArgArray [])"
  shows "paramsMatch re (r_args r) (map createQueryParamKeyValString ps) = Inr (\<forall>p \<in> set ps. param_satisfied re r p)"
  using assms(1) by (induction ps) (simp_all add: param_matches_encoded [OF _ _ _ _ assms(2)])

text \<open>The headers that are encoded are those that count.\<close>

lemma set_first_headers: "set (first_headers hs) = {hs ! i |i. i < length hs \<and> header_counts hs i}"
  by (simp add: first_headers_def set_first_by first_at_def header_counts_def)

lemma satisfies_first_headers:
  "satisfies re r m \<longleftrightarrow> (m_Method m = None \<or> m_Method m = Some (r_method r)) \<and>
     (\<forall>h \<in> set (first_headers (m_Headers m)). header_satisfied re r h) \<and> (\<forall>p \<in> set (m_QueryParams m). param_satisfied re r p)"
  unfolding satisfies_def set_first_headers by auto

lemma createRouteMatch_RedirectPath [simp]: "rm_RedirectPath (createRouteMatch m p) = p"
  by (simp add: createRouteMatch_def Let_def)

lemma testMatch_encoded:
  assumes "wf_match re m" and "\<And>k. r_args r k \<noteq> Some (ArgArray [])"
  shows "testMatch re r (createRouteMatch m p) = Inr (satisfies re r m)"
proof (cases "isPathOnlyMatch m")
  case True
  then show ?thesis by (simp add: testMatch_def createRouteMatch_def satisfies_def isPathOnlyMatch_def)
next
  case False
  have hs: "headersMatch re (r_headersIn r) (map createHeaderKeyValString (first_headers (m_Headers m))) =
      Inr (\<forall>h \<in> set (first_headers (m_Headers m)). header_satisfied re r h)"
    using assms(1) by (intro headersMatch_encoded) (auto simp: set_first_headers wf_match_def)
  have ps: "paramsMatch re (r_args r) (map createQueryParamKeyValString (m_QueryParams m)) =
      Inr (\<forall>p \<in> set (m_QueryParams m). param_satisfied re r p)"
    using assms(1) by (intro paramsMatch_encoded assms(2)) (simp add: wf_match_def)
  have "deref_or [] (m_Method m) \<noteq> [] \<and> r_method r \<noteq> deref_or [] (m_Method m) \<longleftrightarrow>
      \<not> (m_Method m = None \<or> m_Method m = Some (r_method r))"
    using assms(1) by (cases "m_Method m") (auto simp: wf_match_def)
  with False hs ps show ?thesis
    by (auto simp: testMatch_def createRouteMatch_def satisfies_first_headers split: bool.split)
qed

lemma findWinningMatch_encoded:
  assumes "\<And>k. r_args r k \<noteq> Some (ArgArray [])" and "\<forall>(m, p) \<in> set rules. wf_match re m"
  shows "findWinningMatch re r (map (\<lambda>(m, p). createRouteMatch m p) rules) =
    Inr (map_option (\<lambda>(m, p). createRouteMatch m p) (List.find (\<lambda>(m, p). satisfies re r m) rules))"
  using assms(2) by (induction rules) (auto simp: testMatch_encoded [OF _ assms(1)])

text \<open>The encoded rules, as the module sees them, send a request to the first rule it satisfies.\<close>

lemma redirect_encoded:
  assumes "\<And>k. r_args r k \<noteq> Some (ArgArray [])" and "\<forall>(m, p) \<in> set rules. wf_match re m \<and> p \<noteq> []" and "rules \<noteq> []"
    and "r_match_key r = Some key" and "key \<noteq> []" and "matches key = Some (map (\<lambda>(m, p). createRouteMatch m p) rules)"
  shows "redirect re stringify matches r =
    (case List.find (\<lambda>(m, p). satisfies re r m) rules of
       None \<Rightarrow> Return 404 None
     | Some (m, p) \<Rightarrow> InternalRedirect (p @ (if stringify (r_args r) = [] then [] else ''?'' @ stringify (r_args r))))"
proof -
  let ?ms = "map (\<lambda>(m, p). createRouteMatch m p) rules"
  have "extractMatchesFromRequest r matches = Inr ?ms"
    using assms(3-6) by (simp add: extractMatchesFromRequest_def verifyMatchList_def)
  moreover have "findWinningMatch re r ?ms = Inr (map_option (\<lambda>(m, p). createRouteMatch m p) (List.find (\<lambda>(m, p). satisfies re r m) rules))"
    using assms(2) by (intro findWinningMatch_encoded assms(1)) auto
  moreover have "p \<noteq> []" if "List.find (\<lambda>(m, p). satisfies re r m) rules = Some (m, p)" for m p
  proof -
    have "(m, p) \<in> set rules" using that by (metis find_Some_iff nth_mem)
    with assms(2) show ?thesis by auto
  qed
  ultimately show ?thesis
    by (auto simp: redirect_def redirectForMatchList_def Let_def split: option.split)
qed

section \<open>Properties\<close>

text \<open>
  C20. The encoding of header and query matches can be decoded. For a header name without a colon, and for a query parameter
  with a name without an equals sign and a value, the JavaScript module recovers exactly the name, the kind of match and the
  value the controller encoded, whatever separators the value contains.
\<close>

theorem match_strings_roundtrip:
  assumes "CHR '':'' \<notin> set (hm_Name h)" and "CHR ''='' \<notin> set (qm_Name p)" and "qm_Name p \<noteq> []" and "qm_Value p \<noteq> []"
  shows "header_parts (createHeaderKeyValString h) = Inr (hm_Name h, MatchType_string (hm_Type h), hm_Value h) \<and>
    param_parts (createQueryParamKeyValString p) = Inr (qm_Name p, MatchType_string (qm_Type p), qm_Value p)"
  using header_parts_encoded [OF assms(1)] param_parts_encoded [OF assms(2-4)] by simp

theorem match_strings_roundtrip_witness:
  "header_parts ''X-Time:Exact:10:30'' = Inr (''X-Time'', ''Exact'', ''10:30'') \<and>
   param_parts ''q=RegularExpression=a=b'' = Inr (''q'', ''RegularExpression'', ''a=b'')"
  using match_strings_roundtrip
    [of "\<lparr>hm_Name = ''X-Time'', hm_Value = ''10:30'', hm_Type = MatchTypeExact\<rparr>"
        "\<lparr>qm_Name = ''q'', qm_Value = ''a=b'', qm_Type = MatchTypeRegularExpression\<rparr>"]
  by (simp add: createHeaderKeyValString_def createQueryParamKeyValString_def)

end
