(* ===== verification/Dataplane.thy ===== *)
theory Dataplane
  imports HTTPMatches FilterAPI Complex_Main
begin

text \<open>
  The data plane configuration: the types of \<^verbatim>\<open>internal/controller/state/dataplane/types.go\<close> that the generator of the
  NGINX configuration reads, and the types of \<^verbatim>\<open>internal/controller/nginx/config/http/config.go\<close> it produces. Fields that
  only the text templates read and that no modelled function computes with are carried along where a function copies them.
  A \<^verbatim>\<open>float64\<close> is its value, a rational number.
\<close>

section \<open>Strings\<close>

text \<open>\<^verbatim>\<open>strings.ReplaceAll\<close> for a single character, \<^verbatim>\<open>strings.Contains\<close>, and \<^verbatim>\<open>%.2f\<close> (rounding half to even).\<close>

definition replace_char :: "char \<Rightarrow> string \<Rightarrow> string \<Rightarrow> string" where
  "replace_char c r s = concat (map (\<lambda>x. if x = c then r else [x]) s)"

fun str_contains :: "string \<Rightarrow> string \<Rightarrow> bool" where
  "str_contains [] p \<longleftrightarrow> p = []"
| "str_contains (x # xs) p \<longleftrightarrow> has_prefix (x # xs) p \<or> str_contains xs p"

definition round_half_even :: "rat \<Rightarrow> int" where
  "round_half_even x =
     (let f = \<lfloor>x\<rfloor>; d = x - of_int f in if d < 1 / 2 then f else if d > 1 / 2 then f + 1 else if even f then f else f + 1)"

definition fmt_2f :: "rat \<Rightarrow> string" where
  "fmt_2f x =
     (let k = round_half_even (\<bar>x\<bar> * 100); r = k mod 100 in
      (if x < 0 then ''-'' else []) @ show_int (k div 100) @ ''.'' @ (if r < 10 then ''0'' else []) @ show_int r)"

section \<open>Filters\<close>

record HTTPHeader =
  hh_Name :: string
  hh_Value :: string

record HTTPHeaderFilter =
  hf_Set :: "HTTPHeader list"
  hf_Add :: "HTTPHeader list"
  hf_Remove :: "string list"

datatype PathModifierType = ReplaceFullPath | ReplacePrefixMatch

record HTTPPathModifier =
  pm_Replacement :: string
  pm_Type :: PathModifierType

record HTTPRequestRedirectFilter =
  rr_Scheme :: "string option"
  rr_Hostname :: "string option"
  rr_Port :: "int option"
  rr_StatusCode :: "int option"
  rr_Path :: "HTTPPathModifier option"

record HTTPURLRewriteFilter =
  rw_Hostname :: "string option"
  rw_Path :: "HTTPPathModifier option"

record HTTPRequestMirrorFilter =
  mf_Name :: "string option"
  mf_Namespace :: "string option"
  mf_Target :: "string option"
  mf_Percent :: "rat option"

record Snippet =
  sn_Name :: string
  sn_Contents :: string

record SnippetsFilter =
  sf_LocationSnippet :: "Snippet option"
  sf_ServerSnippet :: "Snippet option"

record HTTPCORSFilter =
  cors_AllowOrigins :: "string list"
  cors_AllowMethods :: "string list"
  cors_AllowHeaders :: "string list"
  cors_ExposeHeaders :: "string list"
  cors_AllowCredentials :: bool
  cors_MaxAge :: int

record VerifyTLS =
  vt_CertBundleID :: string
  vt_Hostname :: string
  vt_RootCAPath :: string

record HTTPExternalAuthFilter =
  ea_VerifyTLS :: "VerifyTLS option"
  ea_UpstreamName :: string
  ea_InternalPath :: string
  ea_PathPrefix :: string
  ea_AllowedRequestHeaders :: "string list"
  ea_AllowedResponseHeaders :: "string list"
  ea_ForwardBody :: bool
  ea_MaxBodySize :: nat

record dp_AuthBasic =
  dab_SecretName :: string
  dab_SecretNamespace :: string
  dab_Realm :: string
  dab_Data :: "string option"

record OIDCProvider =
  op_TokenHint :: "bool option"
  op_LogoutURI :: "string option"
  op_FrontChannelLogoutURI :: "string option"
  op_Timeout :: "string option"
  op_PostLogoutURI :: "string option"
  op_CookieName :: "string option"
  op_ConfigURL :: "string option"
  op_PKCE :: "bool option"
  op_ClientID :: string
  op_Issuer :: string
  op_RedirectURI :: string
  op_ClientSecret :: string
  op_Name :: string
  op_ExtraAuthArgs :: string
  op_CACertBundleID :: string
  op_CRLBundleID :: string
  op_CRLData :: "string option"
  op_CACertData :: "string option"

text \<open>The zero value of a provider.\<close>

definition new_oidc_provider :: OIDCProvider where
  "new_oidc_provider =
     \<lparr>op_TokenHint = None, op_LogoutURI = None, op_FrontChannelLogoutURI = None, op_Timeout = None, op_PostLogoutURI = None,
      op_CookieName = None, op_ConfigURL = None, op_PKCE = None, op_ClientID = [], op_Issuer = [], op_RedirectURI = [],
      op_ClientSecret = [], op_Name = [], op_ExtraAuthArgs = [], op_CACertBundleID = [], op_CRLBundleID = [],
      op_CRLData = None, op_CACertData = None\<rparr>"

record dp_AuthJWTRemote =
  djr_CACertBundlePath :: string
  djr_URI :: string
  djr_Path :: string

record dp_AuthJWT =
  daj_KeyCache :: "string option"
  daj_Remote :: "dp_AuthJWTRemote option"
  daj_SecretName :: string
  daj_SecretNamespace :: string
  daj_Realm :: string
  daj_Data :: "string option"
  daj_Leeway :: "string option"
  daj_AuthRequireVariable :: string
  daj_AuthZProxySetHeaders :: "HTTPHeader list"

record AuthenticationFilter =
  af_Basic :: "dp_AuthBasic option"
  af_OIDC :: "OIDCProvider option"
  af_JWT :: "dp_AuthJWT option"

text \<open>\<^verbatim>\<open>InvalidFilter\<close> is a pointer to an empty struct: a flag.\<close>

record HTTPFilters =
  f_InvalidFilter :: bool
  f_RequestRedirect :: "HTTPRequestRedirectFilter option"
  f_RequestURLRewrite :: "HTTPURLRewriteFilter option"
  f_RequestHeaderModifiers :: "HTTPHeaderFilter option"
  f_ResponseHeaderModifiers :: "HTTPHeaderFilter option"
  f_AuthenticationFilter :: "AuthenticationFilter option"
  f_CORSFilter :: "HTTPCORSFilter option"
  f_ExternalAuthFilter :: "HTTPExternalAuthFilter option"
  f_RequestMirrors :: "HTTPRequestMirrorFilter list"
  f_SnippetsFilters :: "SnippetsFilter list"

section \<open>Backends\<close>

record dp_EndpointPickerConfig =
  dep_EndpointPickerRef :: "EndpointPickerRef option"
  dep_NsName :: string

record Backend =
  b_VerifyTLS :: "VerifyTLS option"
  b_EndpointPickerConfig :: "dp_EndpointPickerConfig option"
  b_UpstreamName :: string
  b_ExternalHostname :: string
  b_AppProtocol :: string
  b_Weight :: int
  b_Valid :: bool

record BackendGroup =
  bg_Source :: NamespacedName
  bg_Backends :: "Backend list"
  bg_RuleIdx :: nat
  bg_PathRuleIdx :: nat

definition BackendGroup_Name :: "BackendGroup \<Rightarrow> string" where
  "BackendGroup_Name bg =
     ''group_'' @ nn_Namespace (bg_Source bg) @ ''__'' @ nn_Name (bg_Source bg) @ ''_rule'' @ show_nat (bg_RuleIdx bg) @
     ''_pathRule'' @ show_nat (bg_PathRuleIdx bg)"

type_synonym match_rule = "(HTTPFilters, BackendGroup) MatchRule"
type_synonym 'p path_rule = "(HTTPFilters, BackendGroup, 'p) PathRule"

record dp_SSL =
  dssl_Protocols :: string
  dssl_Ciphers :: string
  dssl_ClientCertBundleID :: string
  dssl_VerifyClient :: string
  dssl_KeyPairIDs :: "string list"
  dssl_RequireVerifiedCert :: bool
  dssl_PreferServerCiphers :: bool

record 'p VirtualServer =
  vs_SSL :: "dp_SSL option"
  vs_Hostname :: string
  vs_PathRules :: "'p path_rule list"
  vs_Policies :: "'p list"
  vs_Port :: int
  vs_IsDefault :: bool

section \<open>The generated configuration\<close>

record Header =
  hd_Name :: string
  hd_Value :: string

record ResponseHeaders =
  rh_Add :: "Header list"
  rh_Set :: "Header list"
  rh_Remove :: "string list"

text \<open>A \<^verbatim>\<open>StatusCode\<close> is an int, the body of a return is empty when absent.\<close>

record http_Return =
  ret_Body :: string
  ret_Code :: int

record ProxySSLVerify =
  psv_TrustedCertificate :: string
  psv_Name :: string

record AuthExternalRequest =
  aer_ProxySSLVerify :: "ProxySSLVerify option"
  aer_InternalPath :: string
  aer_UpstreamName :: string
  aer_PathPrefix :: string
  aer_AllowedRequestHeaders :: "string list"
  aer_AllowedResponseHeaders :: "string list"
  aer_ForwardBody :: bool

record AuthBasic =
  ab_Realm :: string
  ab_File :: string

record AuthJWTRemote =
  ajr_TrustedCertificate :: string
  ajr_URI :: string
  ajr_Path :: string

record AuthJWT =
  aj_KeyCache :: "string option"
  aj_Remote :: "AuthJWTRemote option"
  aj_Leeway :: "string option"
  aj_Realm :: string
  aj_File :: string
  aj_AuthRequire :: string
  aj_ProxySetHeaders :: "Header list"

record Include =
  inc_Name :: string
  inc_Content :: string

text \<open>The type of a location; \<open>LocationTypeUnset\<close> is the empty string of a location built without a type.\<close>

datatype LocationType =
    InternalLocationType
  | ExternalLocationType
  | RedirectLocationType
  | InferenceExternalLocationType
  | InferenceInternalLocationType
  | LocationTypeUnset

record Location =
  l_Return :: "http_Return option"
  l_ProxySSLVerify :: "ProxySSLVerify option"
  l_AuthExternalRequest :: "AuthExternalRequest option"
  l_AuthJWT :: "AuthJWT option"
  l_AuthBasic :: "AuthBasic option"
  l_ProxyPassRequestBody :: string
  l_ProxyPassRequestHeaders :: string
  l_MirrorSplitClientsVariableName :: string
  l_EPPInternalPath :: string
  l_EPPHost :: string
  l_Type :: LocationType
  l_Path :: string
  l_HTTPMatchKey :: string
  l_ProxyPass :: string
  l_ProxyHTTPVersion :: string
  l_AuthOIDCProviderName :: string
  l_ResponseHeaders :: ResponseHeaders
  l_ProxySetHeaders :: "Header list"
  l_Rewrites :: "string list"
  l_MirrorPaths :: "string list"
  l_Includes :: "Include list"
  l_CORSHeaders :: "Header list"
  l_EPPPort :: int
  l_ClientMaxBodySize :: nat
  l_GRPC :: bool

text \<open>The zero value of \<^verbatim>\<open>http.Location\<close> with a path and a type.\<close>

definition new_location :: "string \<Rightarrow> LocationType \<Rightarrow> Location" where
  "new_location path type =
     \<lparr>l_Return = None, l_ProxySSLVerify = None, l_AuthExternalRequest = None, l_AuthJWT = None, l_AuthBasic = None,
      l_ProxyPassRequestBody = [], l_ProxyPassRequestHeaders = [], l_MirrorSplitClientsVariableName = [],
      l_EPPInternalPath = [], l_EPPHost = [], l_Type = type, l_Path = path, l_HTTPMatchKey = [], l_ProxyPass = [],
      l_ProxyHTTPVersion = [], l_AuthOIDCProviderName = [], l_ResponseHeaders = \<lparr>rh_Add = [], rh_Set = [], rh_Remove = []\<rparr>,
      l_ProxySetHeaders = [], l_Rewrites = [], l_MirrorPaths = [], l_Includes = [], l_CORSHeaders = [], l_EPPPort = 0,
      l_ClientMaxBodySize = 0, l_GRPC = False\<rparr>"

lemma new_location_simps [simp]:
  "l_Path (new_location p t) = p" "l_Type (new_location p t) = t" "l_HTTPMatchKey (new_location p t) = []"
  "l_Includes (new_location p t) = []" "l_Rewrites (new_location p t) = []" "l_Return (new_location p t) = None"
  "l_AuthJWT (new_location p t) = None" "l_AuthExternalRequest (new_location p t) = None"
  by (simp_all add: new_location_def)

record http_SSL =
  ssl_Protocols :: string
  ssl_Ciphers :: string
  ssl_ClientCertificate :: string
  ssl_VerifyClient :: string
  ssl_Certificates :: "string list"
  ssl_CertificateKeys :: "string list"
  ssl_RequireVerifiedCert :: bool
  ssl_PreferServerCiphers :: bool

record Server =
  sv_SSL :: "http_SSL option"
  sv_MisdirectedRequestVars :: "(string \<times> string) option"
  sv_ServerName :: string
  sv_Listen :: string
  sv_Locations :: "Location list"
  sv_Includes :: "Include list"
  sv_IsDefaultHTTP :: bool
  sv_IsDefaultSSL :: bool
  sv_GRPC :: bool
  sv_IsSocket :: bool

section \<open>The policy generators\<close>

text \<open>
  The interface \<^verbatim>\<open>policies.Generator\<close> is an argument of the functions that create servers and locations; the files it
  generates come from text templates.
\<close>

record policy_File =
  pf_Name :: string
  pf_Content :: string

record 'p generator =
  g_GenerateForServer :: "'p list \<Rightarrow> Server \<Rightarrow> policy_File list"
  g_GenerateForLocation :: "'p list \<Rightarrow> Location \<Rightarrow> policy_File list"
  g_GenerateForInternalLocation :: "'p list \<Rightarrow> policy_File list"

end
