(* ===== verification/Locations.thy ===== *)
theory Locations
  imports Dataplane
begin

text \<open>
  The contents of one NGINX location: the functions of \<^verbatim>\<open>internal/controller/nginx/config/servers.go\<close> from
  \<^verbatim>\<open>updateLocation\<close> down, with the names of \<^verbatim>\<open>variable_names.go\<close>, \<^verbatim>\<open>split_clients.go\<close>, \<^verbatim>\<open>generator.go\<close> and the
  includes of \<^verbatim>\<open>includes.go\<close> they use. Locations are built by updating a record, as in the code; the only panic is the nil dereference in
  \<^verbatim>\<open>updateLocationRedirectFilter\<close>.
\<close>

section \<open>Names\<close>

definition includesFolder :: string where "includesFolder = ''/etc/nginx/includes''"
definition secretsFolder :: string where "secretsFolder = ''/etc/nginx/secrets''"
definition InternalRoutePathPrefix :: string where "InternalRoutePathPrefix = ''/_ngf-internal''"
definition InternalMirrorRoutePathPrefix :: string where "InternalMirrorRoutePathPrefix = InternalRoutePathPrefix @ ''-mirror''"
definition invalidBackendRef :: string where "invalidBackendRef = ''invalid-backend-ref''"
definition AlpineSSLRootCAPath :: string where "AlpineSSLRootCAPath = ''/etc/ssl/cert.pem''"
definition AppProtocolTypeH2C :: string where "AppProtocolTypeH2C = ''kubernetes.io/h2c''"

definition headerToNginxVar :: "string \<Rightarrow> string" where
  "headerToNginxVar h = to_lower (replace_char CHR ''-'' ''_'' h)"

definition convertStringToSafeVariableName :: "string \<Rightarrow> string" where
  "convertStringToSafeVariableName s = replace_char CHR ''-'' ''_'' s"

definition generateAddHeaderMapVariableName :: "string \<Rightarrow> string" where
  "generateAddHeaderMapVariableName name = to_lower (convertStringToSafeVariableName name) @ ''_header_var''"

definition generateCORSAllowedOriginVariableName :: "string \<Rightarrow> nat \<Rightarrow> nat \<Rightarrow> string" where
  "generateCORSAllowedOriginVariableName serverID pathRuleIndex matchRuleIndex =
     ''$cors_allowed_origin_server'' @ serverID @ ''_path'' @ show_nat pathRuleIndex @ ''_match'' @ show_nat matchRuleIndex"

definition generateCORSAllowCredentialsVariableName :: "string \<Rightarrow> nat \<Rightarrow> nat \<Rightarrow> string" where
  "generateCORSAllowCredentialsVariableName serverID pathRuleIndex matchRuleIndex =
     ''$cors_allow_credentials_server'' @ serverID @ ''_path'' @ show_nat pathRuleIndex @ ''_match'' @ show_nat matchRuleIndex"

definition convertSplitClientVariableName :: "string \<Rightarrow> string" where
  "convertSplitClientVariableName name =
     (let safeName = convertStringToSafeVariableName name; safeName = replace_char CHR ''/'' ''_'' safeName in
      replace_char CHR ''.'' ''_'' safeName)"

text \<open>\<^verbatim>\<open>filepath.Join\<close> of the folder and a file name that contains neither slashes nor dot segments.\<close>

definition generatePEMFileName :: "string \<Rightarrow> string" where
  "generatePEMFileName fileID = secretsFolder @ ''/'' @ fileID @ ''.pem''"

definition generateCertBundleFileName :: "string \<Rightarrow> string" where
  "generateCertBundleFileName fileID = secretsFolder @ ''/'' @ fileID @ ''.crt''"

definition generateAuthFileName :: "string \<Rightarrow> string" where
  "generateAuthFileName fileID = secretsFolder @ ''/'' @ fileID"

definition GenerateAuthBasicFileID :: "string \<Rightarrow> string \<Rightarrow> string" where
  "GenerateAuthBasicFileID namespace name = ''basic_auth_'' @ namespace @ ''_'' @ name"

definition GenerateAuthJWTFileID :: "string \<Rightarrow> string \<Rightarrow> string" where
  "GenerateAuthJWTFileID namespace name = ''jwt_auth_'' @ namespace @ ''_'' @ name"

section \<open>Includes\<close>

definition createIncludesFromPolicyGenerateResult :: "policy_File list \<Rightarrow> Include list" where
  "createIncludesFromPolicyGenerateResult resFiles =
     map (\<lambda>f. \<lparr>inc_Name = includesFolder @ ''/'' @ pf_Name f, inc_Content = pf_Content f\<rparr>) resFiles"

definition createIncludeFromSnippet :: "Snippet \<Rightarrow> Include" where
  "createIncludeFromSnippet snippet =
     \<lparr>inc_Name = includesFolder @ ''/'' @ sn_Name snippet @ ''.conf'', inc_Content = sn_Contents snippet\<rparr>"

text \<open>The map of \<^verbatim>\<open>deduplicateIncludes\<close> keeps the first include of every name.\<close>

definition deduplicateIncludes :: "Include list \<Rightarrow> Include list" where
  "deduplicateIncludes includes = first_by inc_Name {} includes"

definition createIncludesFromLocationSnippetsFilters :: "SnippetsFilter list \<Rightarrow> Include list" where
  "createIncludesFromLocationSnippetsFilters filters =
     deduplicateIncludes (List.map_filter (\<lambda>f. map_option createIncludeFromSnippet (sf_LocationSnippet f)) filters)"

definition createIncludesFromServerSnippetsFilters :: "'p VirtualServer \<Rightarrow> Include list" where
  "createIncludesFromServerSnippetsFilters server =
     deduplicateIncludes
       (concat (map (\<lambda>pr. concat (map (\<lambda>mr.
          List.map_filter (\<lambda>sf. map_option createIncludeFromSnippet (sf_ServerSnippet sf)) (f_SnippetsFilters (mr_Filters mr)))
          (pr_MatchRules pr))) (vs_PathRules server)))"

section \<open>Backends\<close>

definition createProxySSLVerify :: "VerifyTLS option \<Rightarrow> ProxySSLVerify option" where
  "createProxySSLVerify v =
     map_option (\<lambda>v. \<lparr>psv_TrustedCertificate =
         (if vt_CertBundleID v \<noteq> [] then generateCertBundleFileName (vt_CertBundleID v) else vt_RootCAPath v),
       psv_Name = vt_Hostname v\<rparr>) v"

fun createProxyTLSFromBackends :: "Backend list \<Rightarrow> ProxySSLVerify option" where
  "createProxyTLSFromBackends [] = None"
| "createProxyTLSFromBackends (b # bs) =
     (case createProxySSLVerify (b_VerifyTLS b) of Some v \<Rightarrow> Some v | None \<Rightarrow> createProxyTLSFromBackends bs)"

definition generateProtocolString :: "ProxySSLVerify option \<Rightarrow> bool \<Rightarrow> string" where
  "generateProtocolString ssl grpc =
     (if \<not> grpc then (if ssl \<noteq> None then ''https'' else ''http'') else if ssl \<noteq> None then ''grpcs'' else ''grpc'')"

text \<open>The loop of \<^verbatim>\<open>allValidBackendsAreH2C\<close>, with \<open>hasValid\<close> as its accumulator.\<close>

fun h2c_loop :: "bool \<Rightarrow> Backend list \<Rightarrow> bool" where
  "h2c_loop hasValid [] = hasValid"
| "h2c_loop hasValid (b # bs) =
     (if \<not> b_Valid b then h2c_loop hasValid bs
      else if b_AppProtocol b \<noteq> AppProtocolTypeH2C then False
      else h2c_loop True bs)"

definition allValidBackendsAreH2C :: "Backend list \<Rightarrow> bool" where
  "allValidBackendsAreH2C backends = h2c_loop False backends"

definition resolveProxyHTTPVersion :: "Backend list \<Rightarrow> bool \<Rightarrow> string" where
  "resolveProxyHTTPVersion backends grpc = (if \<not> grpc \<and> allValidBackendsAreH2C backends then ''2'' else [])"

definition backendGroupNeedsSplit :: "BackendGroup \<Rightarrow> bool" where
  "backendGroupNeedsSplit group' \<longleftrightarrow> length (bg_Backends group') > 1"

definition backendGroupName :: "BackendGroup \<Rightarrow> string" where
  "backendGroupName group' =
     (case bg_Backends group' of
        [] \<Rightarrow> invalidBackendRef
      | [b] \<Rightarrow> if b_Weight b = 0 \<or> \<not> b_Valid b then invalidBackendRef else b_UpstreamName b
      | _ \<Rightarrow> BackendGroup_Name group')"

definition createProxyPass ::
    "BackendGroup \<Rightarrow> HTTPURLRewriteFilter option \<Rightarrow> string \<Rightarrow> bool \<Rightarrow> bool \<Rightarrow> LocationType \<Rightarrow> string" where
  "createProxyPass backendGroup filter' protocol grpc inferenceBackend locationType =
     (let requestURI =
            (if \<not> grpc \<and> locationType = InternalLocationType \<and> (case filter' of None \<Rightarrow> True | Some f \<Rightarrow> rw_Path f = None)
             then ''$request_uri'' else []);
          backendName = backendGroupName backendGroup in
      if inferenceBackend \<and> \<not> str_contains backendName invalidBackendRef then
        ''http://$inference_backend_'' @ replace_char CHR ''-'' ''_'' backendName @ requestURI
      else if backendGroupNeedsSplit backendGroup then
        protocol @ ''://$'' @ convertStringToSafeVariableName backendName @ requestURI
      else protocol @ ''://'' @ backendName @ requestURI)"

section \<open>Headers\<close>

abbreviation header :: "string \<Rightarrow> string \<Rightarrow> Header" where
  "header n v \<equiv> \<lparr>hd_Name = n, hd_Value = v\<rparr>"

definition grpcAuthorityHeader :: Header where "grpcAuthorityHeader = header ''Authority'' ''$gw_api_compliant_host''"
definition httpConnectionHeader :: Header where "httpConnectionHeader = header ''Connection'' ''$connection_upgrade''"
definition keepAliveConnectionHeader :: Header where "keepAliveConnectionHeader = header ''Connection'' ''$connection_keepalive''"
definition httpUpgradeHeader :: Header where "httpUpgradeHeader = header ''Upgrade'' ''$http_upgrade''"

definition createHeaders :: "HTTPHeader list \<Rightarrow> Header list" where
  "createHeaders headers = map (\<lambda>h. header (hh_Name h) (hh_Value h)) headers"

definition createHeadersWithVarName :: "HTTPHeader list \<Rightarrow> Header list" where
  "createHeadersWithVarName headers =
     map (\<lambda>h. header (hh_Name h) (''${'' @ generateAddHeaderMapVariableName (hh_Name h) @ ''}'' @ hh_Value h)) headers"

definition createBaseProxySetHeaders :: "string \<Rightarrow> Header list \<Rightarrow> Header list" where
  "createBaseProxySetHeaders externalHostname extraHeaders =
     [header ''Host'' (if externalHostname \<noteq> [] then externalHostname else ''$gw_api_compliant_host''),
      header ''X-Forwarded-For'' ''$proxy_add_x_forwarded_for'', header ''X-Real-IP'' ''$remote_addr'',
      header ''X-Forwarded-Proto'' ''$scheme'', header ''X-Forwarded-Host'' ''$host'',
      header ''X-Forwarded-Port'' ''$server_port''] @ extraHeaders"

definition disabled_headers :: "string list \<Rightarrow> string list" where
  "disabled_headers disableBaseProxySetHeaders =
     concat (map (\<lambda>h. if h = ''*''
                     then [''X-Forwarded-For'', ''X-Forwarded-Proto'', ''X-Forwarded-Host'', ''X-Forwarded-Port'', ''X-Real-IP'']
                     else [h]) disableBaseProxySetHeaders)"

definition filterBaseProxySetHeaders :: "Header list \<Rightarrow> string list \<Rightarrow> Header list" where
  "filterBaseProxySetHeaders baseHeaders disableBaseProxySetHeaders =
     (if disableBaseProxySetHeaders = [] then baseHeaders
      else [h \<leftarrow> baseHeaders. hd_Name h \<notin> set (disabled_headers disableBaseProxySetHeaders)])"

definition getConnectionHeader :: "(string \<Rightarrow> bool) \<Rightarrow> Backend list \<Rightarrow> Header" where
  "getConnectionHeader keepAliveCheck backends =
     (if list_ex (\<lambda>b. keepAliveCheck (b_UpstreamName b)) backends then keepAliveConnectionHeader else httpConnectionHeader)"

text \<open>The first header with the name Host gets the hostname of the rewrite.\<close>

fun set_host :: "string \<Rightarrow> Header list \<Rightarrow> Header list" where
  "set_host v [] = []"
| "set_host v (h # hs) = (if hd_Name h = ''Host'' then h\<lparr>hd_Value := v\<rparr> # hs else h # set_host v hs)"

text \<open>Base headers are added unless a header of the same name, an earlier base header included, is there.\<close>

fun add_missing :: "Header list \<Rightarrow> Header list \<Rightarrow> Header list" where
  "add_missing proxySetHeaders [] = proxySetHeaders"
| "add_missing proxySetHeaders (h # hs) =
     (if list_ex (\<lambda>p. hd_Name h = hd_Name p) proxySetHeaders then add_missing proxySetHeaders hs
      else add_missing (proxySetHeaders @ [h]) hs)"

definition generateProxySetHeaders :: "HTTPFilters \<Rightarrow> Header list \<Rightarrow> Header list" where
  "generateProxySetHeaders filters baseHeaders =
     (let baseHeaders =
            (case f_RequestURLRewrite filters of
               None \<Rightarrow> baseHeaders
             | Some rw \<Rightarrow> (case rw_Hostname rw of None \<Rightarrow> baseHeaders | Some h \<Rightarrow> set_host h baseHeaders)) in
      case f_RequestHeaderModifiers filters of
        None \<Rightarrow> baseHeaders
      | Some hf \<Rightarrow>
          add_missing
            (createHeadersWithVarName (hf_Add hf) @ createHeaders (hf_Set hf) @ map (\<lambda>h. header h []) (hf_Remove hf))
            baseHeaders)"

definition generateResponseHeaders :: "HTTPFilters \<Rightarrow> ResponseHeaders" where
  "generateResponseHeaders filters =
     (case f_ResponseHeaderModifiers filters of
        None \<Rightarrow> \<lparr>rh_Add = [], rh_Set = [], rh_Remove = []\<rparr>
      | Some hf \<Rightarrow> \<lparr>rh_Add = createHeaders (hf_Add hf), rh_Set = createHeaders (hf_Set hf), rh_Remove = hf_Remove hf\<rparr>)"

definition generateCORSHeaders :: "HTTPCORSFilter \<Rightarrow> string \<Rightarrow> nat \<Rightarrow> nat \<Rightarrow> Header list" where
  "generateCORSHeaders c serverID pathRuleIndex matchRuleIndex =
     (if cors_AllowOrigins c \<noteq> []
      then [header ''Access-Control-Allow-Origin'' (generateCORSAllowedOriginVariableName serverID pathRuleIndex matchRuleIndex)] else []) @
     (if cors_AllowMethods c \<noteq> [] then [header ''Access-Control-Allow-Methods'' (join '', '' (cors_AllowMethods c))] else []) @
     (if cors_AllowHeaders c \<noteq> [] then [header ''Access-Control-Allow-Headers'' (join '', '' (cors_AllowHeaders c))] else []) @
     (if cors_ExposeHeaders c \<noteq> [] then [header ''Access-Control-Expose-Headers'' (join '', '' (cors_ExposeHeaders c))] else []) @
     (if cors_AllowCredentials c
      then [header ''Access-Control-Allow-Credentials'' (generateCORSAllowCredentialsVariableName serverID pathRuleIndex matchRuleIndex)] else []) @
     (if cors_MaxAge c > 0 then [header ''Access-Control-Max-Age'' (show_int (cors_MaxAge c))] else [])"

section \<open>Rewrites\<close>

record rewriteConfig =
  rc_InternalRewrite :: string
  rc_MainRewrite :: string

definition createMainRewriteForFilters :: "HTTPPathModifier \<Rightarrow> 'p path_rule \<Rightarrow> string" where
  "createMainRewriteForFilters pathModifier pathRule =
     (case pm_Type pathModifier of
        ReplaceFullPath \<Rightarrow> ''^ '' @ pm_Replacement pathModifier
      | ReplacePrefixMatch \<Rightarrow>
          if pr_PathType pathRule \<noteq> PathTypePrefix then []
          else
            let filterPrefix = (if pm_Replacement pathModifier = [] then ''/'' else pm_Replacement pathModifier);
                escapedPath = replace_char CHR ''$'' [CHR 0x5C, CHR ''$''] (pr_Path pathRule);
                filterSlash = has_suffix filterPrefix ''/''; pathSlash = has_suffix (pr_Path pathRule) ''/'';
                regex = (if filterSlash \<and> \<not> pathSlash then ''^'' @ escapedPath @ ''(?:/([^?]*))?'' else ''^'' @ escapedPath @ ''([^?]*)?'');
                replacement = (if pathSlash \<and> \<not> filterSlash then filterPrefix @ ''/$1?$args?'' else filterPrefix @ ''$1?$args?'')
            in regex @ '' '' @ replacement)"

definition createRewritesValForRewriteFilter :: "HTTPURLRewriteFilter option \<Rightarrow> 'p path_rule \<Rightarrow> rewriteConfig option" where
  "createRewritesValForRewriteFilter filter' pathRule =
     (case filter' of
        None \<Rightarrow> None
      | Some f \<Rightarrow>
          (case rw_Path f of
             None \<Rightarrow> Some \<lparr>rc_InternalRewrite = [], rc_MainRewrite = []\<rparr>
           | Some pm \<Rightarrow>
               let mainRewrite = createMainRewriteForFilters pm pathRule in
               if mainRewrite = [] then None
               else Some \<lparr>rc_InternalRewrite = ''^ $request_uri'', rc_MainRewrite = mainRewrite @ '' break''\<rparr>))"

text \<open>The scheme, host and port of a redirect.\<close>

definition redirect_target :: "HTTPRequestRedirectFilter \<Rightarrow> int \<Rightarrow> string \<times> string" where
  "redirect_target f listenerPort =
     (let hostname = deref_or ''$host'' (rr_Hostname f); port = deref_or listenerPort (rr_Port f);
          hostnamePort = hostname @ '':'' @ show_int port in
      case rr_Scheme f of
        None \<Rightarrow> (''$scheme'', hostnamePort)
      | Some scheme \<Rightarrow>
          (scheme,
           if port = 80 \<and> scheme = ''http'' \<or> port = 443 \<and> scheme = ''https'' then hostname
           else if rr_Port f = None \<and> (scheme = ''http'' \<or> scheme = ''https'') then hostname
           else hostnamePort))"

definition createReturnAndRewriteConfigForRedirectFilter ::
    "HTTPRequestRedirectFilter \<Rightarrow> int \<Rightarrow> 'p path_rule \<Rightarrow> http_Return option \<times> rewriteConfig option" where
  "createReturnAndRewriteConfigForRedirectFilter f listenerPort pathRule =
     (let (scheme, hostnamePort) = redirect_target f listenerPort; code = deref_or 302 (rr_StatusCode f) in
      case rr_Path f of
        None \<Rightarrow>
          (Some \<lparr>ret_Body = scheme @ ''://'' @ hostnamePort @ ''$request_uri'', ret_Code = code\<rparr>,
           Some \<lparr>rc_InternalRewrite = [], rc_MainRewrite = []\<rparr>)
      | Some pm \<Rightarrow>
          let mainRewrite = createMainRewriteForFilters pm pathRule in
          if mainRewrite = [] then (None, None)
          else
            (Some \<lparr>ret_Body = scheme @ ''://'' @ hostnamePort @ ''$uri$is_args$args'', ret_Code = code\<rparr>,
             Some \<lparr>rc_InternalRewrite = [], rc_MainRewrite = mainRewrite\<rparr>))"

section \<open>Updating a location\<close>

definition deduplicateStrings :: "string list \<Rightarrow> string list" where
  "deduplicateStrings content = first_by (\<lambda>s. s) {} content"

text \<open>The second result is read without a nil check.\<close>

definition updateLocationRedirectFilter :: "Location \<Rightarrow> HTTPRequestRedirectFilter \<Rightarrow> int \<Rightarrow> 'p path_rule \<Rightarrow> Location go" where
  "updateLocationRedirectFilter location redirectFilter listenerPort pathRule =
     (case createReturnAndRewriteConfigForRedirectFilter redirectFilter listenerPort pathRule of
        (ret, None) \<Rightarrow> Inl NilDeref
      | (ret, Some rewrite) \<Rightarrow>
          let location = (if rc_MainRewrite rewrite \<noteq> [] then location\<lparr>l_Rewrites := l_Rewrites location @ [rc_MainRewrite rewrite]\<rparr> else location) in
          Inr (location\<lparr>l_Return := ret\<rparr>))"

definition updateLocationRewriteFilter :: "Location \<Rightarrow> HTTPURLRewriteFilter option \<Rightarrow> 'p path_rule \<Rightarrow> Location" where
  "updateLocationRewriteFilter location rewriteFilter pathRule =
     (case createRewritesValForRewriteFilter rewriteFilter pathRule of
        None \<Rightarrow> location
      | Some rewrites \<Rightarrow>
          location\<lparr>l_Rewrites := l_Rewrites location @
            (if l_Type location = InternalLocationType \<and> rc_InternalRewrite rewrites \<noteq> [] then [rc_InternalRewrite rewrites] else []) @
            (if rc_MainRewrite rewrites \<noteq> [] then [rc_MainRewrite rewrites] else [])\<rparr>)"

definition update_auth_jwt :: "dp_AuthJWT \<Rightarrow> AuthJWT" where
  "update_auth_jwt j =
     \<lparr>aj_KeyCache = daj_KeyCache j,
      aj_Remote = map_option (\<lambda>r. \<lparr>ajr_TrustedCertificate =
          (if djr_CACertBundlePath r \<noteq> [] then generateCertBundleFileName (djr_CACertBundlePath r) else AlpineSSLRootCAPath),
          ajr_URI = djr_URI r, ajr_Path = djr_Path r\<rparr>) (daj_Remote j),
      aj_Leeway = daj_Leeway j, aj_Realm = daj_Realm j,
      aj_File = (if daj_Remote j = None then generateAuthFileName (GenerateAuthJWTFileID (daj_SecretNamespace j) (daj_SecretName j)) else []),
      aj_AuthRequire = daj_AuthRequireVariable j, aj_ProxySetHeaders = createHeaders (daj_AuthZProxySetHeaders j)\<rparr>"

definition updateLocationAuthenticationFilter :: "Location \<Rightarrow> AuthenticationFilter option \<Rightarrow> Location" where
  "updateLocationAuthenticationFilter location authenticationFilter =
     (case authenticationFilter of
        None \<Rightarrow> location
      | Some f \<Rightarrow>
          let location = (case af_Basic f of None \<Rightarrow> location
                | Some b \<Rightarrow> location\<lparr>l_AuthBasic := Some \<lparr>ab_Realm = dab_Realm b,
                    ab_File = generateAuthFileName (GenerateAuthBasicFileID (dab_SecretNamespace b) (dab_SecretName b))\<rparr>\<rparr>);
              location = (case af_JWT f of None \<Rightarrow> location | Some j \<Rightarrow> location\<lparr>l_AuthJWT := Some (update_auth_jwt j)\<rparr>) in
          (case af_OIDC f of None \<Rightarrow> location | Some p \<Rightarrow> location\<lparr>l_AuthOIDCProviderName := op_Name p\<rparr>))"

definition updateLocationExternalAuthFilter :: "Location \<Rightarrow> HTTPExternalAuthFilter option \<Rightarrow> Location" where
  "updateLocationExternalAuthFilter location filter' =
     (case filter' of
        None \<Rightarrow> location
      | Some f \<Rightarrow>
          let location = location\<lparr>l_AuthExternalRequest := Some
                \<lparr>aer_ProxySSLVerify = createProxySSLVerify (ea_VerifyTLS f), aer_InternalPath = ea_InternalPath f,
                 aer_UpstreamName = ea_UpstreamName f, aer_PathPrefix = ea_PathPrefix f,
                 aer_AllowedRequestHeaders = ea_AllowedRequestHeaders f, aer_AllowedResponseHeaders = ea_AllowedResponseHeaders f,
                 aer_ForwardBody = ea_ForwardBody f\<rparr>\<rparr> in
          if ea_MaxBodySize f > 0 then location\<lparr>l_ClientMaxBodySize := ea_MaxBodySize f\<rparr> else location)"

definition updateLocationCORSFilter :: "Location \<Rightarrow> HTTPCORSFilter option \<Rightarrow> string \<Rightarrow> nat \<Rightarrow> nat \<Rightarrow> Location" where
  "updateLocationCORSFilter location corsFilter serverID pathRuleIndex matchRuleIndex =
     (case corsFilter of
        None \<Rightarrow> location
      | Some c \<Rightarrow>
          let corsHeaders = generateCORSHeaders c serverID pathRuleIndex matchRuleIndex in
          if corsHeaders \<noteq> [] then location\<lparr>l_CORSHeaders := corsHeaders\<rparr> else location)"

definition updateLocationMirrorRoute :: "Location \<Rightarrow> string \<Rightarrow> bool \<Rightarrow> Location" where
  "updateLocationMirrorRoute location path grpc =
     (if has_prefix path InternalMirrorRoutePathPrefix then
        let location = location\<lparr>l_Type := InternalLocationType\<rparr> in
        if grpc then location\<lparr>l_Rewrites := [''^ $request_uri break'']\<rparr> else location
      else location)"

definition updateLocationMirrorFilters :: "Location \<Rightarrow> HTTPRequestMirrorFilter list \<Rightarrow> string \<Rightarrow> rat option \<Rightarrow> Location" where
  "updateLocationMirrorFilters location mirrorFilters path mirrorPercentage =
     (let location = location\<lparr>l_MirrorPaths := deduplicateStrings (l_MirrorPaths location @ List.map_filter mf_Target mirrorFilters)\<rparr> in
      case mirrorPercentage of
        None \<Rightarrow> location
      | Some pct \<Rightarrow>
          if pct \<noteq> 100 then location\<lparr>l_MirrorSplitClientsVariableName := convertSplitClientVariableName (path @ ''_'' @ fmt_2f pct)\<rparr>
          else location)"

text \<open>The external hostname is that of the first backend that has one.\<close>

definition updateLocationProxySettings ::
    "Location \<Rightarrow> match_rule \<Rightarrow> bool \<Rightarrow> bool \<Rightarrow> (string \<Rightarrow> bool) \<Rightarrow> string list \<Rightarrow> Location" where
  "updateLocationProxySettings location matchRule grpc inferenceBackend keepAliveCheck disableBaseProxySetHeaders =
     (let backends = bg_Backends (mr_BackendGroup matchRule); filters = mr_Filters matchRule;
          version = resolveProxyHTTPVersion backends grpc;
          extraHeaders = (if version = ''2'' then [] else if grpc then [grpcAuthorityHeader]
                          else [httpUpgradeHeader, getConnectionHeader keepAliveCheck backends]);
          externalHostname = (case List.find (\<lambda>b. b_ExternalHostname b \<noteq> []) backends of None \<Rightarrow> [] | Some b \<Rightarrow> b_ExternalHostname b);
          baseProxySetHeaders = filterBaseProxySetHeaders (createBaseProxySetHeaders externalHostname extraHeaders) disableBaseProxySetHeaders;
          ssl = createProxyTLSFromBackends backends in
      location\<lparr>l_ProxyHTTPVersion := version, l_ProxySetHeaders := generateProxySetHeaders filters baseProxySetHeaders,
        l_ProxySSLVerify := ssl, l_ResponseHeaders := generateResponseHeaders filters,
        l_ProxyPass := createProxyPass (mr_BackendGroup matchRule) (f_RequestURLRewrite filters) (generateProtocolString ssl grpc) grpc
          inferenceBackend (l_Type location),
        l_GRPC := grpc\<rparr>)"

text \<open>What all locations of one server share: its port, its ID, the keep-alive check and the disabled headers.\<close>

record server_env =
  se_serverID :: string
  se_port :: int
  se_keepAliveCheck :: "string \<Rightarrow> bool"
  se_disableBaseProxySetHeaders :: "string list"

definition updateLocation ::
    "server_env \<Rightarrow> match_rule \<Rightarrow> 'p path_rule \<Rightarrow> Location \<Rightarrow> rat option \<Rightarrow> nat \<Rightarrow> nat \<Rightarrow> Location go" where
  "updateLocation env matchRule pathRule location mirrorPercentage matchRuleIndex pathRuleIndex =
     (let filters = mr_Filters matchRule; grpc = pr_GRPC pathRule in
      if f_InvalidFilter filters then Inr (location\<lparr>l_Return := Some \<lparr>ret_Body = [], ret_Code = 500\<rparr>\<rparr>)
      else
        let location = updateLocationMirrorRoute location (pr_Path pathRule) grpc;
            location = location\<lparr>l_Includes := l_Includes location @ createIncludesFromLocationSnippetsFilters (f_SnippetsFilters filters)\<rparr>;
            location = updateLocationAuthenticationFilter location (f_AuthenticationFilter filters);
            location = updateLocationExternalAuthFilter location (f_ExternalAuthFilter filters);
            location = updateLocationCORSFilter location (f_CORSFilter filters) (se_serverID env) pathRuleIndex matchRuleIndex in
        case f_RequestRedirect filters of
          Some redirectFilter \<Rightarrow> updateLocationRedirectFilter location redirectFilter (se_port env) pathRule
        | None \<Rightarrow>
            let location = updateLocationRewriteFilter location (f_RequestURLRewrite filters) pathRule;
                location = updateLocationMirrorFilters location (f_RequestMirrors filters) (pr_Path pathRule) mirrorPercentage in
            Inr (updateLocationProxySettings location matchRule grpc (pr_HasInferenceBackends pathRule) (se_keepAliveCheck env)
              (se_disableBaseProxySetHeaders env)))"

end
