(* ===== verification/Servers.thy ===== *)
theory Servers
  imports Locations
begin

text \<open>
  The servers and locations of the generated configuration: \<^verbatim>\<open>createServers\<close>, \<^verbatim>\<open>createLocations\<close> and what they call, in
  \<^verbatim>\<open>internal/controller/nginx/config/servers.go\<close>. For every path rule there are external locations, and for rules with
  further conditions internal locations that the JavaScript module redirects to, together with the list of matches the module reads.

  The regular expression library is a parameter: \<open>re2 p s\<close> is the result of matching, None when the pattern does not compile.
\<close>

section \<open>External locations\<close>

definition needsInternalLocationsForMatches :: "'p path_rule \<Rightarrow> bool" where
  "needsInternalLocationsForMatches rule =
     (if length (pr_MatchRules rule) > 1 then True
      else length (pr_MatchRules rule) = 1 \<and> \<not> isPathOnlyMatch (mr_Match (pr_MatchRules rule ! 0)))"

definition isNonSlashedPrefixPath :: "PathType \<Rightarrow> string \<Rightarrow> bool" where
  "isNonSlashedPrefixPath pathType path \<longleftrightarrow> pathType = PathTypePrefix \<and> \<not> has_suffix path ''/''"

text \<open>The map of paths to path types is the set of its pairs. The location count is the capacity the code reserves.\<close>

type_synonym pathAndTypeMap = "(string \<times> PathType) list"

definition rule_location_count :: "'p path_rule \<Rightarrow> nat" where
  "rule_location_count rule =
     1 + (if isNonSlashedPrefixPath (pr_PathType rule) (pr_Path rule) then 1 else 0) +
     sum_list (map (\<lambda>mr.
       let numBackends = length (bg_Backends (mr_BackendGroup mr)) in
       if \<not> pr_HasInferenceBackends rule then (if needsInternalLocationsForMatches rule then 1 else 0)
       else if needsInternalLocationsForMatches rule then (if numBackends > 1 then 1 + numBackends * 2 else 2)
       else if numBackends > 1 then numBackends * 2 else 1) (pr_MatchRules rule))"

definition getMaxLocationCountAndPathMap :: "'p path_rule list \<Rightarrow> nat \<times> pathAndTypeMap" where
  "getMaxLocationCountAndPathMap pathRules =
     (sum_list (map rule_location_count pathRules) + 1, map (\<lambda>rule. (pr_Path rule, pr_PathType rule)) pathRules)"

definition exactPath :: "string \<Rightarrow> string" where
  "exactPath path = ''= '' @ path"

definition createPath :: "'p path_rule \<Rightarrow> string" where
  "createPath rule =
     (case pr_PathType rule of
        PathTypeExact \<Rightarrow> exactPath (pr_Path rule)
      | PathTypePrefix \<Rightarrow> pr_Path rule
      | PathTypeRegularExpression \<Rightarrow> ''~ ^'' @ pr_Path rule)"

definition getLocationTypeForPathRule :: "'p path_rule \<Rightarrow> LocationType" where
  "getLocationTypeForPathRule rule =
     (if needsInternalLocationsForMatches rule then RedirectLocationType
      else if pr_HasInferenceBackends rule then InferenceExternalLocationType
      else ExternalLocationType)"

definition initializeExternalLocations :: "'p path_rule \<Rightarrow> pathAndTypeMap \<Rightarrow> Location list" where
  "initializeExternalLocations rule pathsAndTypes =
     (let locType = getLocationTypeForPathRule rule; externalLocPath = createPath rule in
      if isNonSlashedPrefixPath (pr_PathType rule) externalLocPath then
        let exactPathExists = ((pr_Path rule, PathTypeExact) \<in> set pathsAndTypes);
            trailingSlashPrefixPathExists = ((pr_Path rule @ ''/'', PathTypePrefix) \<in> set pathsAndTypes) in
        if exactPathExists \<and> trailingSlashPrefixPathExists then []
        else
          (if \<not> trailingSlashPrefixPathExists then [new_location (externalLocPath @ ''/'') locType] else []) @
          (if \<not> exactPathExists then [new_location (exactPath (pr_Path rule)) locType] else [])
      else [new_location externalLocPath locType])"

definition matchesRootPath :: "(string \<Rightarrow> string \<Rightarrow> bool option) \<Rightarrow> 'p path_rule \<Rightarrow> bool" where
  "matchesRootPath re2 rule =
     (if pr_Path rule = ''/'' then True
      else if pr_PathType rule \<noteq> PathTypeRegularExpression then False
      else case re2 (pr_Path rule) ''/'' of None \<Rightarrow> False | Some matched \<Rightarrow> matched)"

definition createDefaultRootLocation :: Location where
  "createDefaultRootLocation = (new_location ''= /'' LocationTypeUnset)\<lparr>l_Return := Some \<lparr>ret_Body = [], ret_Code = 404\<rparr>\<rparr>"

text \<open>Mirror targets with the highest percentage asked for; no percentage means all requests.\<close>

definition mirror_target :: "HTTPRequestMirrorFilter \<Rightarrow> (string \<times> rat) list \<Rightarrow> (string \<times> rat) list" where
  "mirror_target mirrorFilter mirrorTargets =
     (case mf_Target mirrorFilter of
        None \<Rightarrow> mirrorTargets
      | Some target \<Rightarrow>
          (case mf_Percent mirrorFilter of
             None \<Rightarrow> AList.update target 100 mirrorTargets
           | Some percentage \<Rightarrow>
               (case map_of mirrorTargets target of
                  None \<Rightarrow> AList.update target percentage mirrorTargets
                | Some old \<Rightarrow> if percentage > old then AList.update target percentage mirrorTargets else mirrorTargets)))"

definition extractMirrorTargetsWithPercentages :: "'p path_rule list \<Rightarrow> (string \<times> rat) list" where
  "extractMirrorTargetsWithPercentages pathRules =
     fold mirror_target (concat (map (\<lambda>rule. concat (map (\<lambda>mr. f_RequestMirrors (mr_Filters mr)) (pr_MatchRules rule))) pathRules)) []"

text \<open>Every match rule updates all external locations of the path in turn.\<close>

definition updateLocations ::
    "server_env \<Rightarrow> nat \<Rightarrow> nat \<Rightarrow> match_rule \<Rightarrow> 'p path_rule \<Rightarrow> rat option \<Rightarrow> Location list \<Rightarrow> Location list go" where
  "updateLocations env pathRuleIdx matchRuleIdx matchRule pathRule mirrorPercentage buildLocations =
     fold_go (\<lambda>loc updated. bind_go (updateLocation env matchRule pathRule loc mirrorPercentage matchRuleIdx pathRuleIdx)
       (\<lambda>loc'. Inr (updated @ [loc']))) buildLocations []"

definition updateExternalLocationsForRule ::
    "server_env \<Rightarrow> nat \<Rightarrow> 'p path_rule \<Rightarrow> rat option \<Rightarrow> Location list \<Rightarrow> Location list go" where
  "updateExternalLocationsForRule env pathRuleIdx rule mirrorPercentage extLocations =
     fold_go (\<lambda>i. updateLocations env pathRuleIdx i (pr_MatchRules rule ! i) rule mirrorPercentage)
       [0..<length (pr_MatchRules rule)] extLocations"

section \<open>Internal locations\<close>

definition createMatchLocation :: "string \<Rightarrow> bool \<Rightarrow> Location" where
  "createMatchLocation path grpc =
     (new_location path InternalLocationType)\<lparr>l_Rewrites := (if grpc then [''^ $request_uri break''] else [])\<rparr>"

definition internal_match_path :: "nat \<Rightarrow> nat \<Rightarrow> string" where
  "internal_match_path pathRuleIdx matchRuleIdx =
     InternalRoutePathPrefix @ ''-rule'' @ show_nat pathRuleIdx @ ''-route'' @ show_nat matchRuleIdx"

definition initializeInternalMatchLocation :: "nat \<Rightarrow> nat \<Rightarrow> Match \<Rightarrow> bool \<Rightarrow> Location \<times> routeMatch" where
  "initializeInternalMatchLocation pathRuleIdx matchRuleIdx m grpc =
     (let path = internal_match_path pathRuleIdx matchRuleIdx in (createMatchLocation path grpc, createRouteMatch m path))"

definition generateInternalInferenceEPPLocationPath :: "string \<Rightarrow> NamespacedName \<Rightarrow> nat \<Rightarrow> nat \<Rightarrow> string" where
  "generateInternalInferenceEPPLocationPath upstreamName source ruleIdx pathRuleIdx =
     InternalRoutePathPrefix @ ''-'' @ upstreamName @ ''-'' @ nn_Namespace source @ ''-'' @ nn_Name source @
     ''-routeRule'' @ show_nat ruleIdx @ ''-pathRule'' @ show_nat pathRuleIdx"

definition initializeInternalInferenceEPPLocation :: "Backend \<Rightarrow> NamespacedName \<Rightarrow> nat \<Rightarrow> nat \<Rightarrow> Location" where
  "initializeInternalInferenceEPPLocation b source ruleIdx pathRuleIdx =
     new_location (generateInternalInferenceEPPLocationPath (b_UpstreamName b) source ruleIdx pathRuleIdx) InferenceInternalLocationType"

definition initializeInternalInferenceProxyPassLocation :: "nat \<Rightarrow> nat \<Rightarrow> nat \<Rightarrow> Location" where
  "initializeInternalInferenceProxyPassLocation pathRuleIdx matchRuleIdx backendIdx =
     new_location (InternalRoutePathPrefix @ ''-proxy-pass-rule'' @ show_nat pathRuleIdx @ ''-route'' @ show_nat matchRuleIdx @
       ''-backend'' @ show_nat backendIdx @ ''-inference'') InternalLocationType"

definition initializeInternalInferenceSplitClientsLocation :: "nat \<Rightarrow> nat \<Rightarrow> Location" where
  "initializeInternalInferenceSplitClientsLocation pathRuleIdx matchRuleIdx =
     new_location (InternalRoutePathPrefix @ ''-split-clients-rule'' @ show_nat pathRuleIdx @ ''-route'' @ show_nat matchRuleIdx @
       ''-inference'') InternalLocationType"

definition createInferenceSplitClientsVariableName :: "string \<Rightarrow> string" where
  "createInferenceSplitClientsVariableName groupName = ''inference_backend_'' @ groupName"

definition setLocationEPPConfig :: "Location \<Rightarrow> string \<Rightarrow> string \<Rightarrow> int \<Rightarrow> Location" where
  "setLocationEPPConfig location eppInternalPath eppHost eppPort =
     location\<lparr>l_EPPInternalPath := eppInternalPath, l_EPPHost := eppHost, l_EPPPort := eppPort\<rparr>"

text \<open>The callers check that the configuration and its reference are there.\<close>

definition epp_config :: "Backend \<Rightarrow> (dp_EndpointPickerConfig \<times> EndpointPickerRef) option" where
  "epp_config b =
     (case b_EndpointPickerConfig b of
        None \<Rightarrow> None
      | Some c \<Rightarrow> map_option (Pair c) (dep_EndpointPickerRef c))"

definition extractEPPConfig :: "dp_EndpointPickerConfig \<Rightarrow> EndpointPickerRef \<Rightarrow> string \<times> int" where
  "extractEPPConfig c eppRef =
     (if dep_NsName c \<noteq> [] then epr_Name eppRef @ ''.'' @ dep_NsName c else epr_Name eppRef,
      case epr_Port eppRef of None \<Rightarrow> 0 | Some p \<Rightarrow> p)"

definition single_backend_rule :: "match_rule \<Rightarrow> Backend \<Rightarrow> match_rule" where
  "single_backend_rule r b = r\<lparr>mr_BackendGroup := (mr_BackendGroup r)\<lparr>bg_Backends := [b]\<rparr>\<rparr>"

definition proxy_pass_location ::
    "server_env \<Rightarrow> 'p generator \<Rightarrow> 'p path_rule \<Rightarrow> nat \<Rightarrow> match_rule \<Rightarrow> nat \<Rightarrow> rat option \<Rightarrow> nat \<Rightarrow> Backend \<Rightarrow> Location go" where
  "proxy_pass_location env gen rule pathRuleIdx r matchRuleIdx mirrorPercentage backendIdx b =
     updateLocation env (single_backend_rule r b) rule
       ((initializeInternalInferenceProxyPassLocation pathRuleIdx matchRuleIdx backendIdx)
          \<lparr>l_Includes := createIncludesFromPolicyGenerateResult (g_GenerateForInternalLocation gen (pr_Policies rule))\<rparr>)
       mirrorPercentage matchRuleIdx pathRuleIdx"

definition epp_location :: "'p generator \<Rightarrow> 'p path_rule \<Rightarrow> match_rule \<Rightarrow> Backend \<Rightarrow> Location" where
  "epp_location gen rule r b =
     (let bg = mr_BackendGroup r in
      (initializeInternalInferenceEPPLocation b (bg_Source bg) (bg_RuleIdx bg) (bg_PathRuleIdx bg))
        \<lparr>l_Includes := createIncludesFromPolicyGenerateResult (g_GenerateForInternalLocation gen (pr_Policies rule))\<rparr>)"

text \<open>
  The loop over the backends of one inference rule: the locations so far, the paths seen, the path of the last endpoint picker location. It stops
  with \<open>True\<close> at a path that was seen before.
\<close>

fun inference_backends ::
    "server_env \<Rightarrow> 'p generator \<Rightarrow> 'p path_rule \<Rightarrow> nat \<Rightarrow> match_rule \<Rightarrow> nat \<Rightarrow> rat option \<Rightarrow> nat \<Rightarrow> Backend list \<Rightarrow>
     Location list \<times> string set \<times> string \<Rightarrow> (Location list \<times> string set \<times> string \<times> bool) go" where
  "inference_backends env gen rule pri r mri pct i [] (locs, seen, eppPath) = Inr (locs, seen, eppPath, False)"
| "inference_backends env gen rule pri r mri pct i (b # bs) (locs, seen, eppPath) =
     bind_go (proxy_pass_location env gen rule pri r mri pct i b) (\<lambda>proxyPass.
       let epp = epp_location gen rule r b; mapKey = l_Path epp in
       if mapKey \<in> seen then Inr (locs, seen, mapKey, True)
       else
         let locs = locs @ [proxyPass];
             locs = (case epp_config b of
                       None \<Rightarrow> locs
                     | Some (c, eppRef) \<Rightarrow>
                         let (eppHost, portNum) = extractEPPConfig c eppRef in
                         locs @ [setLocationEPPConfig epp (l_Path proxyPass) eppHost portNum]) in
         inference_backends env gen rule pri r mri pct (Suc i) bs (locs, insert mapKey seen, mapKey))"

definition split_clients_location :: "'p generator \<Rightarrow> 'p path_rule \<Rightarrow> nat \<Rightarrow> match_rule \<Rightarrow> nat \<Rightarrow> Location" where
  "split_clients_location gen rule pathRuleIdx r matchRuleIdx =
     (initializeInternalInferenceSplitClientsLocation pathRuleIdx matchRuleIdx)
       \<lparr>l_Includes := createIncludesFromPolicyGenerateResult (g_GenerateForInternalLocation gen (pr_Policies rule)),
        l_Rewrites := [''^ $'' @ createInferenceSplitClientsVariableName
          (convertStringToSafeVariableName (BackendGroup_Name (mr_BackendGroup r))) @ '' last'']\<rparr>"

text \<open>One match rule of a path: its internal locations and, unless it is skipped, its match.\<close>

definition internal_location_for_match ::
    "server_env \<Rightarrow> 'p generator \<Rightarrow> nat \<Rightarrow> 'p path_rule \<Rightarrow> rat option \<Rightarrow> nat \<Rightarrow>
     Location list \<times> routeMatch list \<times> string set \<Rightarrow> (Location list \<times> routeMatch list \<times> string set) go" where
  "internal_location_for_match env gen pathRuleIdx rule mirrorPercentage matchRuleIdx st =
     (let (internalLocations, matches, unique) = st; r = pr_MatchRules rule ! matchRuleIdx in
      if \<not> pr_HasInferenceBackends rule then
        let (intLocation, m) = initializeInternalMatchLocation pathRuleIdx matchRuleIdx (mr_Match r) (pr_GRPC rule) in
        bind_go (updateLocation env r rule
            (intLocation\<lparr>l_Includes := createIncludesFromPolicyGenerateResult (g_GenerateForInternalLocation gen (pr_Policies rule))\<rparr>)
            mirrorPercentage matchRuleIdx pathRuleIdx)
          (\<lambda>intLocation. Inr (internalLocations @ [intLocation], matches @ [m], unique))
      else
        let backends = bg_Backends (mr_BackendGroup r) in
        bind_go (inference_backends env gen rule pathRuleIdx r matchRuleIdx mirrorPercentage 0 backends (internalLocations, unique, []))
          (\<lambda>(internalLocations, unique, eppPath, skipMatch).
             if skipMatch then Inr (internalLocations, matches, unique)
             else if length backends > 1 then
               let splitLocation = split_clients_location gen rule pathRuleIdx r matchRuleIdx in
               Inr (internalLocations @ [splitLocation], matches @ [createRouteMatch (mr_Match r) (l_Path splitLocation)], unique)
             else Inr (internalLocations, matches @ [createRouteMatch (mr_Match r) eppPath], unique)))"

definition createInternalLocationsForRule ::
    "server_env \<Rightarrow> 'p generator \<Rightarrow> nat \<Rightarrow> 'p path_rule \<Rightarrow> rat option \<Rightarrow> (Location list \<times> routeMatch list) go" where
  "createInternalLocationsForRule env gen pathRuleIdx rule mirrorPercentage =
     bind_go (fold_go (internal_location_for_match env gen pathRuleIdx rule mirrorPercentage) [0..<length (pr_MatchRules rule)] ([], [], {}))
       (\<lambda>(internalLocations, matches, unique). Inr (internalLocations, matches))"

text \<open>Inference backends without further conditions.\<close>

definition inference_backend_locations ::
    "server_env \<Rightarrow> 'p generator \<Rightarrow> nat \<Rightarrow> 'p path_rule \<Rightarrow> rat option \<Rightarrow> nat \<Rightarrow> nat \<Rightarrow>
     Location list \<times> Location list \<Rightarrow> (Location list \<times> Location list) go" where
  "inference_backend_locations env gen pathRuleIdx rule mirrorPercentage matchRuleIdx backendIdx st =
     (let (locs, extLocations) = st; r = pr_MatchRules rule ! matchRuleIdx; backends = bg_Backends (mr_BackendGroup r); b = backends ! backendIdx in
      bind_go (proxy_pass_location env gen rule pathRuleIdx r matchRuleIdx mirrorPercentage backendIdx b) (\<lambda>proxyPass.
        let locs = locs @ [proxyPass] in
        case epp_config b of
          None \<Rightarrow> Inr (locs, extLocations)
        | Some (c, eppRef) \<Rightarrow>
            let (eppHost, portNum) = extractEPPConfig c eppRef in
            if length backends > 1
            then Inr (locs @ [setLocationEPPConfig (epp_location gen rule r b) (l_Path proxyPass) eppHost portNum], extLocations)
            else Inr (locs, map (\<lambda>l. setLocationEPPConfig l (l_Path proxyPass) eppHost portNum) extLocations)))"

definition inference_match_locations ::
    "server_env \<Rightarrow> 'p generator \<Rightarrow> nat \<Rightarrow> 'p path_rule \<Rightarrow> rat option \<Rightarrow> nat \<Rightarrow> Location list \<times> Location list \<Rightarrow>
     (Location list \<times> Location list) go" where
  "inference_match_locations env gen pathRuleIdx rule mirrorPercentage matchRuleIdx st =
     (let (locs, extLocations) = st; r = pr_MatchRules rule ! matchRuleIdx; backends = bg_Backends (mr_BackendGroup r);
          rewrite = ''^ $'' @ createInferenceSplitClientsVariableName
            (convertStringToSafeVariableName (BackendGroup_Name (mr_BackendGroup r))) @ '' last'';
          extLocations = (if length backends > 1
            then map (\<lambda>l. l\<lparr>l_Rewrites := l_Rewrites l @ [rewrite], l_Type := ExternalLocationType\<rparr>) extLocations else extLocations) in
      fold_go (inference_backend_locations env gen pathRuleIdx rule mirrorPercentage matchRuleIdx) [0..<length backends] (locs, extLocations))"

definition createInferenceLocationsForRule ::
    "server_env \<Rightarrow> 'p generator \<Rightarrow> nat \<Rightarrow> 'p path_rule \<Rightarrow> rat option \<Rightarrow> Location list \<Rightarrow> Location list go" where
  "createInferenceLocationsForRule env gen pathRuleIdx rule mirrorPercentage extLocations =
     bind_go (fold_go (inference_match_locations env gen pathRuleIdx rule mirrorPercentage) [0..<length (pr_MatchRules rule)] ([], extLocations))
       (\<lambda>(locs, extLocations). Inr (locs @ extLocations))"

section \<open>Locations for authentication\<close>

definition findOIDCProviders :: "'p path_rule list \<Rightarrow> OIDCProvider list" where
  "findOIDCProviders pathRules =
     first_by op_Name {}
       (concat (map (\<lambda>rule. List.map_filter (\<lambda>mr. case f_AuthenticationFilter (mr_Filters mr) of None \<Rightarrow> None | Some f \<Rightarrow> af_OIDC f)
          (pr_MatchRules rule)) pathRules))"

definition existingExactPathSet :: "'p path_rule list \<Rightarrow> string set" where
  "existingExactPathSet pathRules =
     set (map pr_Path [rule \<leftarrow> pathRules. \<not> isNonSlashedPrefixPath (pr_PathType rule) (pr_Path rule)])"

definition createOIDCCallbackLocation :: "OIDCProvider \<Rightarrow> string \<Rightarrow> Location" where
  "createOIDCCallbackLocation provider path =
     (new_location (''= '' @ path) ExternalLocationType)\<lparr>l_AuthOIDCProviderName := op_Name provider\<rparr>"

definition oidc_paths :: "OIDCProvider \<Rightarrow> string list" where
  "oidc_paths provider =
     (if has_prefix (op_RedirectURI provider) ''/'' then [op_RedirectURI provider] else []) @
     (case op_LogoutURI provider of None \<Rightarrow> [] | Some u \<Rightarrow> [u]) @
     (case op_FrontChannelLogoutURI provider of None \<Rightarrow> [] | Some u \<Rightarrow> [u])"

definition createOIDCLocations :: "'p path_rule list \<Rightarrow> Location list" where
  "createOIDCLocations pathRules =
     map (\<lambda>(provider, path). createOIDCCallbackLocation provider path)
       (first_by snd (existingExactPathSet pathRules)
         (concat (map (\<lambda>provider. map (Pair provider) (oidc_paths provider)) (findOIDCProviders pathRules))))"

definition extractUniqueJWKSLocations :: "Location list \<Rightarrow> Location list" where
  "extractUniqueJWKSLocations locations =
     map (\<lambda>remote. (new_location (ajr_Path remote) InternalLocationType)
         \<lparr>l_ProxyPass := ajr_URI remote,
          l_ProxySSLVerify := (if ajr_TrustedCertificate remote \<noteq> []
            then Some \<lparr>psv_TrustedCertificate = ajr_TrustedCertificate remote, psv_Name = []\<rparr> else None)\<rparr>)
       (first_by ajr_Path {} (List.map_filter (\<lambda>loc. case l_AuthJWT loc of None \<Rightarrow> None | Some j \<Rightarrow> aj_Remote j) locations))"

definition external_auth_location :: "AuthExternalRequest \<Rightarrow> Location" where
  "external_auth_location ar =
     (new_location (aer_InternalPath ar) InternalLocationType)
       \<lparr>l_ProxyPass := generateProtocolString (aer_ProxySSLVerify ar) False @ ''://'' @ aer_UpstreamName ar @ aer_PathPrefix ar,
        l_ProxySetHeaders :=
          [header ''Host'' ''$gw_api_compliant_host'', header ''Path'' ''$request_uri'', header ''Method'' ''$request_method'',
           header ''Authorization'' ''$http_authorization''] @
          map (\<lambda>h. header h (''$http_'' @ headerToNginxVar h)) (aer_AllowedRequestHeaders ar),
        l_ProxySSLVerify := aer_ProxySSLVerify ar,
        l_ProxyPassRequestBody := (if \<not> aer_ForwardBody ar then ''off'' else []),
        l_ProxyPassRequestHeaders := ''off''\<rparr>"

definition extractExternalAuthInternalLocations :: "Location list \<Rightarrow> Location list" where
  "extractExternalAuthInternalLocations locations =
     map external_auth_location (first_by aer_InternalPath {} (List.map_filter l_AuthExternalRequest locations))"

section \<open>All locations of a server\<close>

text \<open>The match pairs of a server, as the map that is written to \<^verbatim>\<open>matches.json\<close>.\<close>

type_synonym httpMatchPairs = "string \<rightharpoonup> routeMatch list"

definition match_key :: "string \<Rightarrow> nat \<Rightarrow> string" where
  "match_key serverID pathRuleIdx = serverID @ ''_'' @ show_nat pathRuleIdx"

definition external_locations :: "'p generator \<Rightarrow> 'p path_rule \<Rightarrow> pathAndTypeMap \<Rightarrow> Location list" where
  "external_locations gen rule pathsAndTypes =
     map (\<lambda>l. l\<lparr>l_Includes := createIncludesFromPolicyGenerateResult (g_GenerateForLocation gen (pr_Policies rule) l)\<rparr>)
       (initializeExternalLocations rule pathsAndTypes)"

definition locations_for_rule ::
    "server_env \<Rightarrow> 'p generator \<Rightarrow> 'p path_rule list \<Rightarrow> nat \<Rightarrow> Location list \<times> httpMatchPairs \<Rightarrow> (Location list \<times> httpMatchPairs) go" where
  "locations_for_rule env gen pathRules pathRuleIdx st =
     (let (locs, matchPairs) = st; rule = pathRules ! pathRuleIdx;
          mirrorPercentage = map_of (extractMirrorTargetsWithPercentages pathRules) (pr_Path rule);
          extLocations = external_locations gen rule (snd (getMaxLocationCountAndPathMap pathRules)) in
      if \<not> needsInternalLocationsForMatches rule \<and> \<not> pr_HasInferenceBackends rule then
        bind_go (updateExternalLocationsForRule env pathRuleIdx rule mirrorPercentage extLocations)
          (\<lambda>extLocations. Inr (locs @ extLocations, matchPairs))
      else if needsInternalLocationsForMatches rule then
        bind_go (createInternalLocationsForRule env gen pathRuleIdx rule mirrorPercentage) (\<lambda>(internalLocations, matches).
          let key = match_key (se_serverID env) pathRuleIdx;
              matchPairs = (if extLocations = [] then matchPairs else matchPairs(key \<mapsto> matches)) in
          Inr (locs @ map (\<lambda>l. l\<lparr>l_HTTPMatchKey := key\<rparr>) extLocations @ internalLocations, matchPairs))
      else
        bind_go (createInferenceLocationsForRule env gen pathRuleIdx rule mirrorPercentage extLocations)
          (\<lambda>inferenceLocations. Inr (locs @ inferenceLocations, matchPairs)))"

text \<open>The locations that do not belong to a path rule.\<close>

definition extra_locations :: "(string \<Rightarrow> string \<Rightarrow> bool option) \<Rightarrow> 'p path_rule list \<Rightarrow> Location list \<Rightarrow> Location list" where
  "extra_locations re2 pathRules locs =
     (let locs = locs @ createOIDCLocations pathRules;
          locs = (if \<not> list_ex (matchesRootPath re2) pathRules then locs @ [createDefaultRootLocation] else locs);
          locs = locs @ extractUniqueJWKSLocations locs in
      locs @ extractExternalAuthInternalLocations locs)"

definition createLocations ::
    "(string \<Rightarrow> string \<Rightarrow> bool option) \<Rightarrow> 'p generator \<Rightarrow> server_env \<Rightarrow> 'p VirtualServer \<Rightarrow> (Location list \<times> httpMatchPairs \<times> bool) go" where
  "createLocations re2 gen env server =
     (let pathRules = vs_PathRules server in
      bind_go (fold_go (locations_for_rule env gen pathRules) [0..<length pathRules] ([], Map.empty)) (\<lambda>(locs, matchPairs).
        Inr (extra_locations re2 pathRules locs, matchPairs, list_ex pr_GRPC pathRules)))"

section \<open>Servers\<close>

definition misdirectedRequestSNIVar :: "int \<Rightarrow> string" where
  "misdirectedRequestSNIVar port = ''$sni_listener_id_'' @ show_int port"

definition misdirectedRequestHostVar :: "int \<Rightarrow> string" where
  "misdirectedRequestHostVar port = ''$host_listener_id_'' @ show_int port"

definition getSocketNameHTTPS :: "int \<Rightarrow> string" where
  "getSocketNameHTTPS port = ''unix:/var/run/nginx/https'' @ show_int port @ ''.sock''"

definition new_server :: Server where
  "new_server =
     \<lparr>sv_SSL = None, sv_MisdirectedRequestVars = None, sv_ServerName = [], sv_Listen = [], sv_Locations = [], sv_Includes = [],
      sv_IsDefaultHTTP = False, sv_IsDefaultSSL = False, sv_GRPC = False, sv_IsSocket = False\<rparr>"

text \<open>\<^verbatim>\<open>buildHTTPSSL\<close> dereferences its argument.\<close>

definition buildHTTPSSL :: "dp_SSL option \<Rightarrow> http_SSL go" where
  "buildHTTPSSL ssl =
     (case ssl of
        None \<Rightarrow> Inl NilDeref
      | Some s \<Rightarrow>
          let files = map generatePEMFileName (dssl_KeyPairIDs s) in
          Inr \<lparr>ssl_Protocols = dssl_Protocols s, ssl_Ciphers = dssl_Ciphers s,
            ssl_ClientCertificate = (if dssl_ClientCertBundleID s \<noteq> [] then generateCertBundleFileName (dssl_ClientCertBundleID s) else []),
            ssl_VerifyClient = dssl_VerifyClient s, ssl_Certificates = files, ssl_CertificateKeys = files,
            ssl_RequireVerifiedCert = dssl_RequireVerifiedCert s, ssl_PreferServerCiphers = dssl_PreferServerCiphers s\<rparr>)"

definition server_includes :: "'p generator \<Rightarrow> 'p VirtualServer \<Rightarrow> Server \<Rightarrow> Server" where
  "server_includes gen virtualServer server =
     server\<lparr>sv_Includes := createIncludesFromPolicyGenerateResult (g_GenerateForServer gen (vs_Policies virtualServer) server) @
       createIncludesFromServerSnippetsFilters virtualServer\<rparr>"

record servers_conf =
  sc_re2 :: "string \<Rightarrow> string \<Rightarrow> bool option"
  sc_keepAliveCheck :: "string \<Rightarrow> bool"
  sc_DisableBaseProxySetHeaders :: "string list"
  sc_DisableSNIHostValidation :: bool

definition env_of :: "servers_conf \<Rightarrow> string \<Rightarrow> 'p VirtualServer \<Rightarrow> server_env" where
  "env_of conf serverID virtualServer =
     \<lparr>se_serverID = serverID, se_port = vs_Port virtualServer, se_keepAliveCheck = sc_keepAliveCheck conf,
      se_disableBaseProxySetHeaders = sc_DisableBaseProxySetHeaders conf\<rparr>"

definition createServer ::
    "servers_conf \<Rightarrow> 'p generator \<Rightarrow> 'p VirtualServer \<Rightarrow> string \<Rightarrow> (Server \<times> httpMatchPairs) go" where
  "createServer conf gen virtualServer serverID =
     (let listen = show_int (vs_Port virtualServer) in
      if vs_IsDefault virtualServer then Inr (new_server\<lparr>sv_IsDefaultHTTP := True, sv_Listen := listen\<rparr>, Map.empty)
      else
        bind_go (createLocations (sc_re2 conf) gen (env_of conf serverID virtualServer) virtualServer) (\<lambda>(locs, matchPairs, grpc).
          Inr (server_includes gen virtualServer
            (new_server\<lparr>sv_ServerName := vs_Hostname virtualServer, sv_Locations := locs, sv_Listen := listen, sv_GRPC := grpc\<rparr>), matchPairs)))"

definition createSSLServer ::
    "servers_conf \<Rightarrow> 'p generator \<Rightarrow> 'p VirtualServer \<Rightarrow> string \<Rightarrow> (Server \<times> httpMatchPairs) go" where
  "createSSLServer conf gen virtualServer serverID =
     (let listen = show_int (vs_Port virtualServer) in
      if vs_IsDefault virtualServer then
        let server = new_server\<lparr>sv_IsDefaultSSL := True, sv_Listen := listen\<rparr> in
        (case vs_SSL virtualServer of
           None \<Rightarrow> Inr (server, Map.empty)
         | Some ssl \<Rightarrow> bind_go (buildHTTPSSL (Some ssl)) (\<lambda>ssl. Inr (server\<lparr>sv_SSL := Some ssl\<rparr>, Map.empty)))
      else
        bind_go (createLocations (sc_re2 conf) gen (env_of conf serverID virtualServer) virtualServer) (\<lambda>(locs, matchPairs, grpc).
        bind_go (buildHTTPSSL (vs_SSL virtualServer)) (\<lambda>ssl.
          Inr (server_includes gen virtualServer
            (new_server\<lparr>sv_ServerName := vs_Hostname virtualServer, sv_SSL := Some ssl, sv_Locations := locs, sv_GRPC := grpc,
               sv_Listen := listen,
               sv_MisdirectedRequestVars := (if \<not> sc_DisableSNIHostValidation conf
                 then Some (misdirectedRequestSNIVar (vs_Port virtualServer), misdirectedRequestHostVar (vs_Port virtualServer)) else None)\<rparr>),
             matchPairs))))"

text \<open>\<open>tlsPorts\<close>: the ports of the TLS servers of the configuration, which share their port through a socket.\<close>

definition add_http_server ::
    "servers_conf \<Rightarrow> 'p generator \<Rightarrow> 'p VirtualServer list \<Rightarrow> nat \<Rightarrow> Server list \<times> httpMatchPairs \<Rightarrow> (Server list \<times> httpMatchPairs) go" where
  "add_http_server conf gen httpServers idx st =
     (let (servers, finalMatchPairs) = st in
      bind_go (createServer conf gen (httpServers ! idx) (show_nat idx)) (\<lambda>(httpServer, matchPairs).
        Inr (servers @ [httpServer], finalMatchPairs ++ matchPairs)))"

definition add_ssl_server ::
    "servers_conf \<Rightarrow> 'p generator \<Rightarrow> int list \<Rightarrow> 'p VirtualServer list \<Rightarrow> nat \<Rightarrow> Server list \<times> httpMatchPairs \<Rightarrow> (Server list \<times> httpMatchPairs) go" where
  "add_ssl_server conf gen tlsPorts sslServers idx st =
     (let (servers, finalMatchPairs) = st; s = sslServers ! idx in
      bind_go (createSSLServer conf gen s (''SSL_'' @ show_nat idx)) (\<lambda>(sslServer, matchPairs).
        let sslServer = (if vs_Port s \<in> set tlsPorts then sslServer\<lparr>sv_Listen := getSocketNameHTTPS (vs_Port s), sv_IsSocket := True\<rparr> else sslServer) in
        Inr (servers @ [sslServer], finalMatchPairs ++ matchPairs)))"

definition createServers ::
    "servers_conf \<Rightarrow> 'p generator \<Rightarrow> int list \<Rightarrow> 'p VirtualServer list \<Rightarrow> 'p VirtualServer list \<Rightarrow> (Server list \<times> httpMatchPairs) go" where
  "createServers conf gen tlsPorts httpServers sslServers =
     bind_go (fold_go (add_http_server conf gen httpServers) [0..<length httpServers] ([], Map.empty)) (\<lambda>st.
       fold_go (add_ssl_server conf gen tlsPorts sslServers) [0..<length sslServers] st)"

end
