(* ===== verification/RequestRouting.thy ===== *)
theory RequestRouting
  imports Servers
begin

text \<open>
  The generated configuration routes requests as the rules say: the match list the JavaScript module finds under the key of a
  location is that of the location's own path rule, its entries name internal locations that exist and were configured from the
  corresponding match rule, and no two locations of a server have the same path. The last section shows where that fails.
\<close>

section \<open>What an update keeps\<close>

text \<open>A location keeps its path and its key; an update fails only in the redirect filter.\<close>

lemma updateLocation_parts_frame [simp]:
  "l_Path (updateLocationMirrorRoute l p g) = l_Path l" "l_HTTPMatchKey (updateLocationMirrorRoute l p g) = l_HTTPMatchKey l"
  "l_Path (updateLocationAuthenticationFilter l af) = l_Path l" "l_HTTPMatchKey (updateLocationAuthenticationFilter l af) = l_HTTPMatchKey l"
  "l_Path (updateLocationExternalAuthFilter l ef) = l_Path l" "l_HTTPMatchKey (updateLocationExternalAuthFilter l ef) = l_HTTPMatchKey l"
  "l_Path (updateLocationCORSFilter l cf sid i j) = l_Path l" "l_HTTPMatchKey (updateLocationCORSFilter l cf sid i j) = l_HTTPMatchKey l"
  "l_Path (updateLocationRewriteFilter l rf rule) = l_Path l" "l_HTTPMatchKey (updateLocationRewriteFilter l rf rule) = l_HTTPMatchKey l"
  "l_Path (updateLocationMirrorFilters l ms p pct) = l_Path l" "l_HTTPMatchKey (updateLocationMirrorFilters l ms p pct) = l_HTTPMatchKey l"
  "l_Path (updateLocationProxySettings l mr g ib ka d) = l_Path l" "l_HTTPMatchKey (updateLocationProxySettings l mr g ib ka d) = l_HTTPMatchKey l"
  by (simp_all add: updateLocationMirrorRoute_def updateLocationAuthenticationFilter_def updateLocationExternalAuthFilter_def
      updateLocationCORSFilter_def updateLocationRewriteFilter_def updateLocationMirrorFilters_def updateLocationProxySettings_def
      Let_def split: option.split)

lemma updateLocationRedirectFilter_frame:
  "updateLocationRedirectFilter l f port rule = Inr l' \<Longrightarrow> l_Path l' = l_Path l \<and> l_HTTPMatchKey l' = l_HTTPMatchKey l"
  by (auto simp: updateLocationRedirectFilter_def Let_def split: prod.splits option.splits if_splits)

lemma updateLocation_frame:
  assumes "updateLocation env mr rule l pct i j = Inr l'"
  shows "l_Path l' = l_Path l" and "l_HTTPMatchKey l' = l_HTTPMatchKey l"
  using assms
  by (auto simp: updateLocation_def Let_def split: if_splits option.splits dest!: updateLocationRedirectFilter_frame)

text \<open>The redirect filter fails exactly when it replaces a prefix on a path that is not a prefix path.\<close>

definition bad_redirect :: "match_rule \<Rightarrow> 'p path_rule \<Rightarrow> bool" where
  "bad_redirect mr rule =
     (\<not> f_InvalidFilter (mr_Filters mr) \<and>
      (case f_RequestRedirect (mr_Filters mr) of
         None \<Rightarrow> False
       | Some f \<Rightarrow> (case rr_Path f of None \<Rightarrow> False | Some pm \<Rightarrow> pm_Type pm = ReplacePrefixMatch \<and> pr_PathType rule \<noteq> PathTypePrefix)))"

lemma createMainRewriteForFilters_empty:
  "createMainRewriteForFilters pm rule = [] \<longleftrightarrow> pm_Type pm = ReplacePrefixMatch \<and> pr_PathType rule \<noteq> PathTypePrefix"
  by (cases "pm_Type pm") (simp_all add: createMainRewriteForFilters_def Let_def)

lemma updateLocation_result:
  "updateLocation env mr rule l pct i j = Inl p \<longleftrightarrow> bad_redirect mr rule \<and> p = NilDeref"
  unfolding updateLocation_def Let_def bad_redirect_def updateLocationRedirectFilter_def createReturnAndRewriteConfigForRedirectFilter_def
  by (auto simp: createMainRewriteForFilters_empty split: if_splits option.splits prod.splits)

section \<open>The internal locations of a rule\<close>

text \<open>The internal location of a match rule before it is updated.\<close>

definition internal_base :: "'p generator \<Rightarrow> 'p path_rule \<Rightarrow> nat \<Rightarrow> nat \<Rightarrow> Location" where
  "internal_base gen rule j k =
     (createMatchLocation (internal_match_path j k) (pr_GRPC rule))
       \<lparr>l_Includes := createIncludesFromPolicyGenerateResult (g_GenerateForInternalLocation gen (pr_Policies rule))\<rparr>"

lemma internal_base_simps [simp]: "l_Path (internal_base gen rule j k) = internal_match_path j k" "l_HTTPMatchKey (internal_base gen rule j k) = []"
  by (simp_all add: internal_base_def createMatchLocation_def)

lemma internal_match_path_nonempty [simp]: "internal_match_path j k \<noteq> []"
  by (simp add: internal_match_path_def InternalRoutePathPrefix_def)

lemma internal_location_for_match_plain:
  assumes "\<not> pr_HasInferenceBackends rule"
  shows "internal_location_for_match env gen j rule pct k (ls, ms, u) =
    bind_go (updateLocation env (pr_MatchRules rule ! k) rule (internal_base gen rule j k) pct k j)
      (\<lambda>l. Inr (ls @ [l], ms @ [createRouteMatch (mr_Match (pr_MatchRules rule ! k)) (internal_match_path j k)], u))"
  using assms by (simp add: internal_location_for_match_def initializeInternalMatchLocation_def internal_base_def Let_def)

lemma createInternalLocationsForRule_plain:
  assumes "createInternalLocationsForRule env gen j rule pct = Inr (ints, ms)" and "\<not> pr_HasInferenceBackends rule"
  shows "ms = map (\<lambda>k. createRouteMatch (mr_Match (pr_MatchRules rule ! k)) (internal_match_path j k)) [0..<length (pr_MatchRules rule)]"
    and "length ints = length (pr_MatchRules rule)"
    and "k < length (pr_MatchRules rule) \<Longrightarrow>
      updateLocation env (pr_MatchRules rule ! k) rule (internal_base gen rule j k) pct k j = Inr (ints ! k)"
proof -
  let ?n = "length (pr_MatchRules rule)" and ?rm = "\<lambda>k. createRouteMatch (mr_Match (pr_MatchRules rule ! k)) (internal_match_path j k)"
  let ?I = "\<lambda>n (ls, ms, u). ms = map ?rm [0..<n] \<and> length ls = n \<and>
    (\<forall>k < n. updateLocation env (pr_MatchRules rule ! k) rule (internal_base gen rule j k) pct k j = Inr (ls ! k))"
  obtain u where run: "fold_go (internal_location_for_match env gen j rule pct) [0..<?n] ([], [], {}) = Inr (ints, ms, u)"
    using assms(1) by (auto simp: createInternalLocationsForRule_def bind_go_Inr_iff)
  have "?I ?n (ints, ms, u)"
  proof (rule fold_go_upt [where I = ?I, OF run])
    fix i s t assume "i < ?n" and I: "?I i s" and st: "internal_location_for_match env gen j rule pct i s = Inr t"
    obtain ls ms u where s: "s = (ls, ms, u)" by (cases s)
    from st [unfolded s internal_location_for_match_plain [OF assms(2)]] obtain l
      where "updateLocation env (pr_MatchRules rule ! i) rule (internal_base gen rule j i) pct i j = Inr l"
        and "t = (ls @ [l], ms @ [?rm i], u)" by (auto simp: bind_go_Inr_iff)
    with I s show "?I (Suc i) t" by (auto simp: nth_append less_Suc_eq)
  qed simp
  then show "ms = map ?rm [0..<?n]" and "length ints = ?n"
    and "k < ?n \<Longrightarrow> updateLocation env (pr_MatchRules rule ! k) rule (internal_base gen rule j k) pct k j = Inr (ints ! k)" by auto
qed

section \<open>The keys of locations\<close>

text \<open>Only the external locations of a rule that needs matching have a key.\<close>

definition unkeyed :: "Location list \<Rightarrow> bool" where
  "unkeyed ls \<longleftrightarrow> (\<forall>l \<in> set ls. l_HTTPMatchKey l = [])"

lemma unkeyed_simps [simp]: "unkeyed []" "unkeyed (ls @ ls') \<longleftrightarrow> unkeyed ls \<and> unkeyed ls'" "unkeyed (l # ls) \<longleftrightarrow> l_HTTPMatchKey l = [] \<and> unkeyed ls"
  by (auto simp: unkeyed_def)

lemma setLocationEPPConfig_frame [simp]:
  "l_HTTPMatchKey (setLocationEPPConfig l p h n) = l_HTTPMatchKey l" "l_Path (setLocationEPPConfig l p h n) = l_Path l"
  by (simp_all add: setLocationEPPConfig_def)

lemma proxy_pass_location_unkeyed: "proxy_pass_location env gen rule j r k pct i b = Inr l \<Longrightarrow> l_HTTPMatchKey l = []"
  unfolding proxy_pass_location_def
  by (drule updateLocation_frame(2)) (simp add: initializeInternalInferenceProxyPassLocation_def)

lemma epp_location_unkeyed [simp]: "l_HTTPMatchKey (epp_location gen rule r b) = []"
  by (simp add: epp_location_def Let_def initializeInternalInferenceEPPLocation_def)

lemma inference_backends_unkeyed:
  "inference_backends env gen rule j r k pct i bs (ls, seen, p) = Inr (ls', seen', p', skip) \<Longrightarrow> unkeyed ls \<Longrightarrow> unkeyed ls'"
proof (induction bs arbitrary: i ls seen p)
  case (Cons b bs)
  from Cons.prems(1) obtain pp where pp: "proxy_pass_location env gen rule j r k pct i b = Inr pp"
    by (auto simp: bind_go_Inr_iff)
  note key = proxy_pass_location_unkeyed [OF pp]
  show ?case
  proof (cases "l_Path (epp_location gen rule r b) \<in> seen")
    case True
    with Cons.prems pp show ?thesis by (simp add: Let_def)
  next
    case False
    with Cons.prems(1) pp obtain ls1 seen1 where
      rest: "inference_backends env gen rule j r k pct (Suc i) bs (ls1, seen1, l_Path (epp_location gen rule r b)) = Inr (ls', seen', p', skip)"
      and ls1: "ls1 = ls @ [pp] \<or> (\<exists>h n. ls1 = ls @ [pp] @ [setLocationEPPConfig (epp_location gen rule r b) (l_Path pp) h n])"
      by (auto simp: Let_def split: option.splits prod.splits)
    show ?thesis using Cons.IH [OF rest] ls1 key Cons.prems(2) by auto
  qed
qed simp

lemma internal_location_for_match_unkeyed:
  assumes "internal_location_for_match env gen j rule pct k (ls, ms, u) = Inr (ls', ms', u')" and "unkeyed ls"
  shows "unkeyed ls'"
proof (cases "pr_HasInferenceBackends rule")
  case False
  from assms(1) [unfolded internal_location_for_match_plain [OF False]] obtain l where
    "updateLocation env (pr_MatchRules rule ! k) rule (internal_base gen rule j k) pct k j = Inr l" "ls' = ls @ [l]"
    by (auto simp: bind_go_Inr_iff)
  with assms(2) show ?thesis by (auto dest: updateLocation_frame(2))
next
  case True
  let ?r = "pr_MatchRules rule ! k"
  from assms(1) True obtain l1 u1 p1 sk where
    b: "inference_backends env gen rule j ?r k pct 0 (bg_Backends (mr_BackendGroup ?r)) (ls, u, []) = Inr (l1, u1, p1, sk)"
    and l1: "ls' = l1 \<or> ls' = l1 @ [split_clients_location gen rule j ?r k]"
    by (auto simp: internal_location_for_match_def Let_def bind_go_Inr_iff split: if_splits)
  have "unkeyed l1" by (rule inference_backends_unkeyed [OF b assms(2)])
  then show ?thesis using l1
    by (auto simp: split_clients_location_def initializeInternalInferenceSplitClientsLocation_def)
qed

lemma createInternalLocationsForRule_unkeyed:
  assumes "createInternalLocationsForRule env gen j rule pct = Inr (ints, ms)"
  shows "unkeyed ints"
proof -
  obtain u where run: "fold_go (internal_location_for_match env gen j rule pct) [0..<length (pr_MatchRules rule)] ([], [], {}) = Inr (ints, ms, u)"
    using assms by (auto simp: createInternalLocationsForRule_def bind_go_Inr_iff)
  have "(\<lambda>(ls, _). unkeyed ls) (ints, ms, u)"
    by (rule fold_go_invariant [OF _ run]) (auto dest: internal_location_for_match_unkeyed)
  then show ?thesis by simp
qed

lemma unkeyed_map: "(\<And>l. l_HTTPMatchKey (f l) = l_HTTPMatchKey l) \<Longrightarrow> unkeyed (map f ls) \<longleftrightarrow> unkeyed ls"
  by (simp add: unkeyed_def)

lemma external_locations_unkeyed [simp]: "unkeyed (external_locations gen rule m)"
  unfolding external_locations_def
  by (subst unkeyed_map) (simp_all add: initializeExternalLocations_def Let_def)

text \<open>Updating a list of locations is updating its elements.\<close>

lemma updateLocations_result:
  assumes "updateLocations env j k mr rule pct ls = Inr ls'"
  shows "list_all2 (\<lambda>l l'. updateLocation env mr rule l pct k j = Inr l') ls ls'"
proof -
  have "fold_go (\<lambda>l u. bind_go (updateLocation env mr rule l pct k j) (\<lambda>l'. Inr (u @ [l']))) ls acc = Inr ls' \<Longrightarrow>
      \<exists>new. ls' = acc @ new \<and> list_all2 (\<lambda>l l'. updateLocation env mr rule l pct k j = Inr l') ls new" for acc
  proof (induction ls arbitrary: acc)
    case (Cons l ls)
    then obtain l' where u: "updateLocation env mr rule l pct k j = Inr l'"
      and rest: "fold_go (\<lambda>l u. bind_go (updateLocation env mr rule l pct k j) (\<lambda>l'. Inr (u @ [l']))) ls (acc @ [l']) = Inr ls'"
      by (auto simp: bind_go_Inr_iff)
    from Cons.IH [OF rest] obtain new where "ls' = (acc @ [l']) @ new"
      "list_all2 (\<lambda>l l'. updateLocation env mr rule l pct k j = Inr l') ls new" by blast
    with u show ?case by (intro exI [of _ "l' # new"]) simp
  qed simp
  from this [of "[]"] assms show ?thesis by (auto simp: updateLocations_def)
qed

lemma updateExternalLocationsForRule_frame:
  assumes "updateExternalLocationsForRule env j rule pct ls = Inr ls'"
  shows "map l_Path ls' = map l_Path ls" and "map l_HTTPMatchKey ls' = map l_HTTPMatchKey ls"
proof -
  have step: "map l_Path t = map l_Path s \<and> map l_HTTPMatchKey t = map l_HTTPMatchKey s"
    if "updateLocations env j k mr rule pct s = Inr t" for k mr s t
    using updateLocations_result [OF that]
    by (induction rule: list_all2_induct) (auto dest: updateLocation_frame)
  have "(\<lambda>t. map l_Path t = map l_Path ls \<and> map l_HTTPMatchKey t = map l_HTTPMatchKey ls) ls'"
    using assms unfolding updateExternalLocationsForRule_def
    by (rule fold_go_invariant [rotated]) (auto dest: step)
  then show "map l_Path ls' = map l_Path ls" and "map l_HTTPMatchKey ls' = map l_HTTPMatchKey ls" by simp_all
qed

lemma unkeyed_via_map: "map l_HTTPMatchKey ls' = map l_HTTPMatchKey ls \<Longrightarrow> unkeyed ls \<Longrightarrow> unkeyed ls'"
  by (metis (no_types, lifting) in_set_conv_nth length_map nth_map unkeyed_def)

lemma createInferenceLocationsForRule_unkeyed:
  assumes "createInferenceLocationsForRule env gen j rule pct ext = Inr ls" and "unkeyed ext"
  shows "unkeyed ls"
proof -
  let ?P = "\<lambda>(ls, ext). unkeyed ls \<and> unkeyed ext"
  have backend: "?P t" if I: "?P s" and st: "inference_backend_locations env gen j rule pct k i s = Inr t" for k i s t
  proof -
    obtain ls ext where s: "s = (ls, ext)" by (cases s)
    let ?b = "bg_Backends (mr_BackendGroup (pr_MatchRules rule ! k)) ! i"
    obtain pp where pp: "proxy_pass_location env gen rule j (pr_MatchRules rule ! k) k pct i ?b = Inr pp"
      using st by (auto simp: s inference_backend_locations_def Let_def bind_go_Inr_iff)
    show ?thesis
    proof (cases "epp_config ?b")
      case None
      with I st pp show ?thesis
        by (auto simp: s inference_backend_locations_def Let_def dest: proxy_pass_location_unkeyed)
    next
      case (Some ce)
      obtain c e where ce: "ce = (c, e)" by (cases ce)
      obtain h n where "extractEPPConfig c e = (h, n)" by (cases "extractEPPConfig c e")
      with I st pp Some ce show ?thesis
        by (auto simp: s inference_backend_locations_def Let_def unkeyed_map split: if_splits dest: proxy_pass_location_unkeyed)
    qed
  qed
  have rule: "?P t" if I: "?P s" and st: "inference_match_locations env gen j rule pct k s = Inr t" for k s t
  proof -
    obtain ls ext where s: "s = (ls, ext)" by (cases s)
    obtain f where "\<And>l. l_HTTPMatchKey (f l) = l_HTTPMatchKey l"
      and run: "fold_go (inference_backend_locations env gen j rule pct k)
        [0..<length (bg_Backends (mr_BackendGroup (pr_MatchRules rule ! k)))] (ls, map f ext) = Inr t"
    proof (cases "length (bg_Backends (mr_BackendGroup (pr_MatchRules rule ! k))) > 1")
      case True
      with st s show ?thesis by (intro that) (auto simp: inference_match_locations_def Let_def)
    next
      case False
      with st s show ?thesis by (intro that [of "\<lambda>l. l"]) (auto simp: inference_match_locations_def Let_def)
    qed
    then have "?P (ls, map f ext)" using I s by (simp add: unkeyed_map)
    with run show ?thesis by (rule fold_go_invariant [where I = ?P, rotated]) (rule backend)
  qed
  obtain a b where run: "fold_go (inference_match_locations env gen j rule pct) [0..<length (pr_MatchRules rule)] ([], ext) = Inr (a, b)"
    and ls: "ls = a @ b"
    using assms(1) by (auto simp: createInferenceLocationsForRule_def bind_go_Inr_iff)
  have "?P ([], ext)" using assms(2) by simp
  with run have "?P (a, b)" by (rule fold_go_invariant [where I = ?P, rotated]) (rule rule)
  with ls show ?thesis by simp
qed

section \<open>The match pairs of a server\<close>

text \<open>What a keyed location finds under its key: the matches of its own rule, whose internal locations are in the same server.\<close>

definition mirror_pct :: "'p path_rule list \<Rightarrow> nat \<Rightarrow> rat option" where
  "mirror_pct rules j = map_of (extractMirrorTargetsWithPercentages rules) (pr_Path (rules ! j))"

definition keyed_by_rule ::
    "server_env \<Rightarrow> 'p generator \<Rightarrow> 'p path_rule list \<Rightarrow> nat \<Rightarrow> Location list \<Rightarrow> httpMatchPairs \<Rightarrow> Location \<Rightarrow> bool" where
  "keyed_by_rule env gen rules n locs pairs l \<longleftrightarrow>
     (\<exists>j ints ms. j < n \<and> l_HTTPMatchKey l = match_key (se_serverID env) j \<and> pairs (match_key (se_serverID env) j) = Some ms \<and>
        l_Path l \<in> l_Path ` set (initializeExternalLocations (rules ! j) (snd (getMaxLocationCountAndPathMap rules))) \<and>
        needsInternalLocationsForMatches (rules ! j) \<and>
        createInternalLocationsForRule env gen j (rules ! j) (mirror_pct rules j) = Inr (ints, ms) \<and> set ints \<subseteq> set locs)"

definition pairs_inv ::
    "server_env \<Rightarrow> 'p generator \<Rightarrow> 'p path_rule list \<Rightarrow> nat \<Rightarrow> Location list \<times> httpMatchPairs \<Rightarrow> bool" where
  "pairs_inv env gen rules n st \<longleftrightarrow>
     (\<forall>l \<in> set (fst st). l_HTTPMatchKey l \<noteq> [] \<longrightarrow> keyed_by_rule env gen rules n (fst st) (snd st) l) \<and>
     dom (snd st) \<subseteq> match_key (se_serverID env) ` {..<n}"

lemma match_key_inj: "match_key sid j = match_key sid j' \<longleftrightarrow> j = j'"
  by (auto simp: match_key_def dest: show_nat_inj)

lemma keyed_by_rule_mono:
  assumes "keyed_by_rule env gen rules n locs pairs l" and "set locs \<subseteq> set locs'"
    and "\<And>j. j < n \<Longrightarrow> pairs' (match_key (se_serverID env) j) = pairs (match_key (se_serverID env) j)"
  shows "keyed_by_rule env gen rules (Suc n) locs' pairs' l"
  using assms unfolding keyed_by_rule_def by (metis (no_types, lifting) less_SucI subset_trans)

lemma keyed_by_rule_locs:
  assumes "keyed_by_rule env gen rules n locs pairs l" and "set locs \<subseteq> set locs'"
  shows "keyed_by_rule env gen rules n locs' pairs l"
proof -
  from assms(1) obtain j ints ms where "j < n" "l_HTTPMatchKey l = match_key (se_serverID env) j"
    "pairs (match_key (se_serverID env) j) = Some ms"
    "l_Path l \<in> l_Path ` set (initializeExternalLocations (rules ! j) (snd (getMaxLocationCountAndPathMap rules)))"
    "needsInternalLocationsForMatches (rules ! j)"
    "createInternalLocationsForRule env gen j (rules ! j) (mirror_pct rules j) = Inr (ints, ms)" "set ints \<subseteq> set locs"
    unfolding keyed_by_rule_def by (elim exE conjE)
  with assms(2) show ?thesis unfolding keyed_by_rule_def
    by (intro exI [of _ j] exI [of _ ints] exI [of _ ms]) simp
qed

lemma external_locations_paths: "l_Path ` set (external_locations gen rule m) = l_Path ` set (initializeExternalLocations rule m)"
  by (auto simp: external_locations_def image_iff)

lemma locations_for_rule_unkeyed:
  assumes "\<not> needsInternalLocationsForMatches (rules ! n)" and "locations_for_rule env gen rules n (locs, pairs) = Inr (locs', pairs')"
  obtains new where "locs' = locs @ new" and "unkeyed new" and "pairs' = pairs"
proof (cases "pr_HasInferenceBackends (rules ! n)")
  case True
  with assms that show ?thesis
    by (auto simp: locations_for_rule_def Let_def bind_go_Inr_iff dest: createInferenceLocationsForRule_unkeyed)
next
  case False
  with assms that show ?thesis
    by (auto simp: locations_for_rule_def Let_def bind_go_Inr_iff
        dest!: updateExternalLocationsForRule_frame(2) unkeyed_via_map)
qed

lemma locations_for_rule_step:
  assumes inv: "pairs_inv env gen rules n (locs, pairs)" and st: "locations_for_rule env gen rules n (locs, pairs) = Inr (locs', pairs')"
  shows "pairs_inv env gen rules (Suc n) (locs', pairs')"
proof (cases "needsInternalLocationsForMatches (rules ! n)")
  case False
  then obtain new where new: "locs' = locs @ new" "unkeyed new" "pairs' = pairs" using st by (rule locations_for_rule_unkeyed)
  have "keyed_by_rule env gen rules (Suc n) locs' pairs' l" if "l \<in> set locs'" "l_HTTPMatchKey l \<noteq> []" for l
    using inv that new by (intro keyed_by_rule_mono [of _ _ _ _ locs pairs]) (auto simp: pairs_inv_def unkeyed_def)
  moreover have "dom pairs' \<subseteq> match_key (se_serverID env) ` {..<Suc n}" using inv new(3) by (auto simp: pairs_inv_def less_Suc_eq)
  ultimately show ?thesis by (simp add: pairs_inv_def)
next
  case True
  let ?key = "match_key (se_serverID env) n" and ?ext = "external_locations gen (rules ! n) (snd (getMaxLocationCountAndPathMap rules))"
  obtain ints ms where c: "createInternalLocationsForRule env gen n (rules ! n) (mirror_pct rules n) = Inr (ints, ms)"
    and locs': "locs' = locs @ map (\<lambda>l. l\<lparr>l_HTTPMatchKey := ?key\<rparr>) ?ext @ ints"
    and pairs': "pairs' = (if ?ext = [] then pairs else pairs(?key \<mapsto> ms))"
    using st True by (auto simp: locations_for_rule_def Let_def bind_go_Inr_iff mirror_pct_def)
  note ints = createInternalLocationsForRule_unkeyed [OF c]
  have agree: "pairs' (match_key (se_serverID env) j) = pairs (match_key (se_serverID env) j)" if "j < n" for j
    using that pairs' by (simp add: match_key_inj)
  have "keyed_by_rule env gen rules (Suc n) locs' pairs' l" if l: "l \<in> set locs'" "l_HTTPMatchKey l \<noteq> []" for l
  proof (cases "l \<in> set locs")
    case True
    with inv l(2) have "keyed_by_rule env gen rules n locs pairs l" by (auto simp: pairs_inv_def)
    then show ?thesis by (rule keyed_by_rule_mono) (use agree locs' in auto)
  next
    case False
    then obtain l0 where l0: "l0 \<in> set ?ext" "l = l0\<lparr>l_HTTPMatchKey := ?key\<rparr>"
      using l locs' ints by (auto simp: unkeyed_def)
    have "l_Path l0 \<in> l_Path ` set (initializeExternalLocations (rules ! n) (snd (getMaxLocationCountAndPathMap rules)))"
      using l0(1) external_locations_paths by blast
    moreover have "pairs' ?key = Some ms" using pairs' l0(1) by (auto split: if_splits)
    moreover have "set ints \<subseteq> set locs'" using locs' by auto
    ultimately show ?thesis unfolding keyed_by_rule_def using l0(2) c True by (intro exI [of _ n] exI [of _ ints] exI [of _ ms]) simp
  qed
  moreover have "dom pairs' \<subseteq> match_key (se_serverID env) ` {..<Suc n}"
    using inv pairs' by (auto simp: pairs_inv_def less_Suc_eq split: if_splits)
  ultimately show ?thesis by (simp add: pairs_inv_def)
qed

lemma auth_locations_unkeyed [simp]:
  "unkeyed (createOIDCLocations rules)" "unkeyed (extractUniqueJWKSLocations ls)" "unkeyed (extractExternalAuthInternalLocations ls)"
  "l_HTTPMatchKey createDefaultRootLocation = []"
  by (auto simp: unkeyed_def createOIDCLocations_def createOIDCCallbackLocation_def extractUniqueJWKSLocations_def
      extractExternalAuthInternalLocations_def external_auth_location_def createDefaultRootLocation_def)

lemma extra_locations_append:
  obtains extra where "extra_locations re2 rules locs = locs @ extra" and "unkeyed extra"
proof -
  let ?a = "createOIDCLocations rules @ (if \<not> list_ex (matchesRootPath re2) rules then [createDefaultRootLocation] else [])"
  let ?b = "?a @ extractUniqueJWKSLocations (locs @ ?a)"
  let ?c = "?b @ extractExternalAuthInternalLocations (locs @ ?b)"
  have "extra_locations re2 rules locs = locs @ ?c" by (simp add: extra_locations_def Let_def)
  moreover have "unkeyed ?c" by simp
  ultimately show thesis by (rule that)
qed

lemma createLocations_keyed:
  assumes "createLocations re2 gen env vs = Inr (locs, pairs, grpc)"
  shows "l \<in> set locs \<Longrightarrow> l_HTTPMatchKey l \<noteq> [] \<Longrightarrow> keyed_by_rule env gen (vs_PathRules vs) (length (vs_PathRules vs)) locs pairs l"
    and "dom pairs \<subseteq> range (match_key (se_serverID env))"
proof -
  let ?rules = "vs_PathRules vs"
  obtain ls extra where run: "fold_go (locations_for_rule env gen ?rules) [0..<length ?rules] ([], Map.empty) = Inr (ls, pairs)"
    and locs: "locs = ls @ extra" "unkeyed extra"
  proof -
    from assms obtain ls where "fold_go (locations_for_rule env gen ?rules) [0..<length ?rules] ([], Map.empty) = Inr (ls, pairs)"
      and "locs = extra_locations re2 ?rules ls"
      by (auto simp: createLocations_def Let_def bind_go_Inr_iff)
    then show ?thesis using that extra_locations_append [of re2 ?rules ls] by metis
  qed
  have "pairs_inv env gen ?rules (length ?rules) (ls, pairs)"
  proof (rule fold_go_upt [where I = "pairs_inv env gen ?rules", OF run])
    show "pairs_inv env gen ?rules 0 ([], Map.empty)" by (simp add: pairs_inv_def)
  next
    fix i s t assume "pairs_inv env gen ?rules i s" and "locations_for_rule env gen ?rules i s = Inr t"
    then show "pairs_inv env gen ?rules (Suc i) t" by (cases s; cases t) (simp add: locations_for_rule_step)
  qed
  then have ls: "\<And>l. l \<in> set ls \<Longrightarrow> l_HTTPMatchKey l \<noteq> [] \<Longrightarrow> keyed_by_rule env gen ?rules (length ?rules) ls pairs l"
    and dom: "dom pairs \<subseteq> match_key (se_serverID env) ` {..<length ?rules}" by (auto simp: pairs_inv_def)
  show "dom pairs \<subseteq> range (match_key (se_serverID env))" using dom by blast
  assume "l \<in> set locs" and k: "l_HTTPMatchKey l \<noteq> []"
  then have "keyed_by_rule env gen ?rules (length ?rules) ls pairs l" using ls locs by (auto simp: unkeyed_def)
  then show "keyed_by_rule env gen ?rules (length ?rules) locs pairs l"
    by (rule keyed_by_rule_locs) (simp add: locs(1))
qed

section \<open>All servers\<close>

text \<open>The ID of the server at a position of the generated list, HTTP servers first.\<close>

definition server_id :: "'p VirtualServer list \<Rightarrow> nat \<Rightarrow> string" where
  "server_id httpServers i = (if i < length httpServers then show_nat i else ''SSL_'' @ show_nat (i - length httpServers))"

definition served :: "servers_conf \<Rightarrow> 'p generator \<Rightarrow> 'p VirtualServer \<Rightarrow> string \<Rightarrow> Server \<Rightarrow> httpMatchPairs \<Rightarrow> bool" where
  "served conf gen vs sid sv pairs \<longleftrightarrow>
     (if vs_IsDefault vs then sv_Locations sv = []
      else \<exists>p grpc. createLocations (sc_re2 conf) gen (env_of conf sid vs) vs = Inr (sv_Locations sv, p, grpc) \<and> p \<subseteq>\<^sub>m pairs)"

definition id_keys :: "string \<Rightarrow> string set" where
  "id_keys sid = range (match_key sid)"

lemma served_mono: "served conf gen vs sid sv pairs \<Longrightarrow> pairs \<subseteq>\<^sub>m pairs' \<Longrightarrow> served conf gen vs sid sv pairs'"
  by (auto simp: served_def intro: map_le_trans split: if_splits)

lemma env_of_serverID [simp]: "se_serverID (env_of conf sid vs) = sid"
  by (simp add: env_of_def)

lemma new_server_Locations [simp]: "sv_Locations new_server = []" "sv_Locations (server_includes gen vs sv) = sv_Locations sv"
  by (simp_all add: new_server_def server_includes_def)

lemma served_createLocations:
  assumes "createLocations (sc_re2 conf) gen (env_of conf sid vs) vs = Inr (sv_Locations sv, p, g)" and "\<not> vs_IsDefault vs"
  shows "served conf gen vs sid sv p \<and> dom p \<subseteq> id_keys sid"
  using assms createLocations_keyed(2) [OF assms(1)] by (auto simp: served_def id_keys_def)

lemma createServer_served:
  assumes "createServer conf gen vs sid = Inr (sv, p)"
  shows "served conf gen vs sid sv p \<and> dom p \<subseteq> id_keys sid"
proof (cases "vs_IsDefault vs")
  case True
  with assms show ?thesis by (auto simp: createServer_def served_def Let_def)
next
  case False
  with assms obtain g where "createLocations (sc_re2 conf) gen (env_of conf sid vs) vs = Inr (sv_Locations sv, p, g)"
    by (auto simp: createServer_def Let_def bind_go_Inr_iff)
  from served_createLocations [OF this False] show ?thesis .
qed

lemma createSSLServer_served:
  assumes "createSSLServer conf gen vs sid = Inr (sv, p)"
  shows "served conf gen vs sid sv p \<and> dom p \<subseteq> id_keys sid"
proof (cases "vs_IsDefault vs")
  case True
  with assms show ?thesis by (auto simp: createSSLServer_def served_def Let_def bind_go_Inr_iff split: option.splits)
next
  case False
  with assms obtain g where "createLocations (sc_re2 conf) gen (env_of conf sid vs) vs = Inr (sv_Locations sv, p, g)"
    by (auto simp: createSSLServer_def Let_def bind_go_Inr_iff)
  from served_createLocations [OF this False] show ?thesis .
qed

text \<open>Servers with different IDs have no key in common.\<close>

lemma show_nat_no_underscore [simp]: "CHR ''_'' \<notin> set (show_nat n)"
  using digit_range(1) by (metis show_nat_digits)

lemma show_nat_not_SSL: "show_nat n \<noteq> ''SSL''"
proof
  assume "show_nat n = ''SSL''"
  then have "CHR ''S'' \<in> set (show_nat n)" by simp
  then obtain d :: nat where d: "d < 10" "CHR ''S'' = char_of (48 + d)" using show_nat_digits by blast
  from d(2) [symmetric] d(1) show False by (auto simp: char_of_eq_iff take_bit_eq_mod)
qed

lemma id_keys_disjoint:
  assumes "i \<noteq> i'"
  shows "id_keys (server_id https i) \<inter> id_keys (server_id https i') = {}"
proof -
  have http: "match_key (show_nat a) j = match_key (show_nat b) j' \<longleftrightarrow> a = b \<and> j = j'" for a b j j'
    by (auto simp: match_key_def sep_append_inj dest: show_nat_inj)
  have ssl: "match_key (''SSL_'' @ show_nat a) j = match_key (''SSL_'' @ show_nat b) j' \<longleftrightarrow> a = b \<and> j = j'" for a b j j'
    using http by (simp add: match_key_def)
  have cross: "match_key (show_nat a) j \<noteq> match_key (''SSL_'' @ show_nat b) j'" for a b j j'
    using sep_append_inj [of "CHR ''_''" "show_nat a" "''SSL''"] show_nat_not_SSL by (simp add: match_key_def)
  show ?thesis
    using assms cross [symmetric] cross ssl
    by (cases "i < length https"; cases "i' < length https")
      (auto simp: id_keys_def server_id_def http simp del: append.simps)
qed

definition servers_inv ::
    "servers_conf \<Rightarrow> 'p generator \<Rightarrow> 'p VirtualServer list \<Rightarrow> 'p VirtualServer list \<Rightarrow> nat \<Rightarrow> Server list \<times> httpMatchPairs \<Rightarrow> bool" where
  "servers_inv conf gen https ssls n st \<longleftrightarrow>
     length (fst st) = n \<and> dom (snd st) \<subseteq> (\<Union>i < n. id_keys (server_id https i)) \<and>
     (\<forall>i < n. served conf gen ((https @ ssls) ! i) (server_id https i) (fst st ! i) (snd st))"

lemma servers_inv_add:
  assumes inv: "servers_inv conf gen https ssls n (svs, pairs)"
    and new: "served conf gen ((https @ ssls) ! n) (server_id https n) sv p" "dom p \<subseteq> id_keys (server_id https n)"
  shows "servers_inv conf gen https ssls (Suc n) (svs @ [sv], pairs ++ p)"
proof -
  have len: "length svs = n" and dom: "dom pairs \<subseteq> (\<Union>i < n. id_keys (server_id https i))"
    and old: "\<And>i. i < n \<Longrightarrow> served conf gen ((https @ ssls) ! i) (server_id https i) (svs ! i) pairs"
    using inv by (simp_all add: servers_inv_def)
  have "dom pairs \<inter> dom p = {}"
  proof -
    have "id_keys (server_id https i) \<inter> id_keys (server_id https n) = {}" if "i < n" for i
      using that by (intro id_keys_disjoint) simp
    with dom new(2) show ?thesis by fast
  qed
  then have le: "pairs \<subseteq>\<^sub>m pairs ++ p" "p \<subseteq>\<^sub>m pairs ++ p"
    by (metis map_add_comm map_le_map_add) (rule map_le_map_add)
  have "served conf gen ((https @ ssls) ! i) (server_id https i) ((svs @ [sv]) ! i) (pairs ++ p)" if "i < Suc n" for i
  proof (cases "i = n")
    case True
    with len served_mono [OF new(1) le(2)] show ?thesis by (simp add: nth_append)
  next
    case False
    with that have "i < n" by simp
    with len served_mono [OF old le(1)] show ?thesis by (simp add: nth_append)
  qed
  moreover have "dom (pairs ++ p) \<subseteq> (\<Union>i < Suc n. id_keys (server_id https i))"
    using dom new(2) by (simp add: lessThan_Suc) blast
  ultimately show ?thesis using len by (simp add: servers_inv_def)
qed

lemma served_listen: "served conf gen vs sid (sv\<lparr>sv_Listen := a, sv_IsSocket := b\<rparr>) p \<longleftrightarrow> served conf gen vs sid sv p"
  by (simp add: served_def)

lemma createServers_served:
  assumes "createServers conf gen ports https ssls = Inr (svs, pairs)"
  shows "servers_inv conf gen https ssls (length https + length ssls) (svs, pairs)"
proof -
  let ?I = "servers_inv conf gen https ssls" and ?m = "length https"
  obtain st where http: "fold_go (add_http_server conf gen https) [0..<?m] ([], Map.empty) = Inr st"
    and ssl: "fold_go (add_ssl_server conf gen ports ssls) [0..<length ssls] st = Inr (svs, pairs)"
    using assms by (auto simp: createServers_def bind_go_Inr_iff)
  have "?I ?m st"
  proof (rule fold_go_upt [where I = ?I, OF http])
    show "?I 0 ([], Map.empty)" by (simp add: servers_inv_def)
  next
    fix i s t assume i: "i < ?m" and I: "?I i s" and st: "add_http_server conf gen https i s = Inr t"
    obtain svs pairs where s: "s = (svs, pairs)" by (cases s)
    from st s obtain sv p where c: "createServer conf gen (https ! i) (show_nat i) = Inr (sv, p)" and t: "t = (svs @ [sv], pairs ++ p)"
      by (auto simp: add_http_server_def bind_go_Inr_iff)
    have "(https @ ssls) ! i = https ! i" and "server_id https i = show_nat i" using i by (simp_all add: nth_append server_id_def)
    with servers_inv_add [of conf gen https ssls i svs pairs sv p] createServer_served [OF c] I s t show "?I (Suc i) t" by simp
  qed
  moreover have "?I (?m + length ssls) (svs, pairs)" if init: "?I ?m st"
  proof (rule fold_go_upt [where I = "\<lambda>i. ?I (?m + i)", OF ssl])
    show "?I (?m + 0) st" using init by simp
  next
    fix i s t assume I: "?I (?m + i) s" and st: "add_ssl_server conf gen ports ssls i s = Inr t"
    obtain svs pairs where s: "s = (svs, pairs)" by (cases s)
    let ?set = "\<lambda>sv. if vs_Port (ssls ! i) \<in> set ports
      then sv\<lparr>sv_Listen := getSocketNameHTTPS (vs_Port (ssls ! i)), sv_IsSocket := True\<rparr> else sv"
    from st s obtain sv p where c: "createSSLServer conf gen (ssls ! i) (''SSL_'' @ show_nat i) = Inr (sv, p)"
      and t: "t = (svs @ [?set sv], pairs ++ p)"
      by (auto simp: add_ssl_server_def bind_go_Inr_iff Let_def)
    have "(https @ ssls) ! (?m + i) = ssls ! i" and "server_id https (?m + i) = ''SSL_'' @ show_nat i" by (simp_all add: server_id_def)
    moreover have "served conf gen (ssls ! i) (''SSL_'' @ show_nat i) (?set sv) p" "dom p \<subseteq> id_keys (''SSL_'' @ show_nat i)"
      using createSSLServer_served [OF c] by (simp_all add: served_listen)
    ultimately show "?I (?m + Suc i) t"
      using servers_inv_add [of conf gen https ssls "?m + i" svs pairs "?set sv" p] I s t by simp
  qed
  ultimately show ?thesis by blast
qed

section \<open>Routing\<close>

text \<open>The query that \<^verbatim>\<open>redirectForMatchList\<close> appends.\<close>

definition query_suffix :: "((string \<Rightarrow> arg option) \<Rightarrow> string) \<Rightarrow> request \<Rightarrow> string" where
  "query_suffix stringify r = (if stringify (r_args r) = [] then [] else ''?'' @ stringify (r_args r))"

lemma find_upt:
  "List.find (\<lambda>(m, p). P m) (map (\<lambda>k. (f k, g k)) ks) = map_option (\<lambda>k. (f k, g k)) (List.find (\<lambda>k. P (f k)) ks)"
  by (induction ks) auto

text \<open>The redirect of a request through the match list of a plain rule.\<close>

lemma redirect_for_rule:
  assumes "createInternalLocationsForRule env gen j rule pct = Inr (ints, ms)" and "\<not> pr_HasInferenceBackends rule"
    and "pr_MatchRules rule \<noteq> []" and "\<forall>mr \<in> set (pr_MatchRules rule). wf_match re (mr_Match mr)"
    and "\<And>k. r_args r k \<noteq> Some (ArgArray [])" and "r_match_key r = Some key" and "key \<noteq> []" and "pairs key = Some ms"
  shows "redirect re stringify pairs r =
    (case List.find (\<lambda>k. satisfies re r (mr_Match (pr_MatchRules rule ! k))) [0..<length (pr_MatchRules rule)] of
       None \<Rightarrow> Return 404 None
     | Some k \<Rightarrow> InternalRedirect (l_Path (ints ! k) @ query_suffix stringify r))"
proof -
  let ?n = "length (pr_MatchRules rule)"
  let ?rules = "map (\<lambda>k. (mr_Match (pr_MatchRules rule ! k), internal_match_path j k)) [0..<?n]"
  note plain = createInternalLocationsForRule_plain [OF assms(1,2)]
  have ms: "pairs key = Some (map (\<lambda>(m, p). createRouteMatch m p) ?rules)" using assms(8) plain(1) by (simp add: comp_def)
  have wf: "\<forall>(m, p) \<in> set ?rules. wf_match re m \<and> p \<noteq> []" using assms(4) by auto
  have ne: "?rules \<noteq> []" using assms(3) by simp
  have path: "l_Path (ints ! k) = internal_match_path j k"
    if "List.find (\<lambda>k. satisfies re r (mr_Match (pr_MatchRules rule ! k))) [0..<?n] = Some k" for k
  proof -
    have "k < ?n" using that by (auto simp: find_Some_iff)
    from updateLocation_frame(1) [OF plain(3) [OF this]] show ?thesis by simp
  qed
  show ?thesis
    unfolding redirect_encoded [where matches = pairs and key = key, OF assms(5) wf ne assms(6,7) ms] find_upt
    using path by (auto simp: query_suffix_def split: option.split)
qed

section \<open>Properties\<close>


text \<open>A small configuration: one HTTP server with two rules for the same path, told apart by a header.\<close>

definition no_filters :: HTTPFilters where
  "no_filters =
     \<lparr>f_InvalidFilter = False, f_RequestRedirect = None, f_RequestURLRewrite = None, f_RequestHeaderModifiers = None,
      f_ResponseHeaderModifiers = None, f_AuthenticationFilter = None, f_CORSFilter = None, f_ExternalAuthFilter = None,
      f_RequestMirrors = [], f_SnippetsFilters = []\<rparr>"

definition sample_group :: "string \<Rightarrow> BackendGroup" where
  "sample_group upstream =
     \<lparr>bg_Source = nsname ''ns'' ''r'', bg_Backends = [\<lparr>b_VerifyTLS = None, b_EndpointPickerConfig = None, b_UpstreamName = upstream,
        b_ExternalHostname = [], b_AppProtocol = [], b_Weight = 1, b_Valid = True\<rparr>], bg_RuleIdx = 0, bg_PathRuleIdx = 0\<rparr>"

definition sample_match_rule :: "HTTPHeaderMatch list \<Rightarrow> string \<Rightarrow> match_rule" where
  "sample_match_rule headers upstream =
     \<lparr>mr_Filters = no_filters, mr_Source = \<lparr>om_CreationTimestamp = 0, om_Namespace = ''ns'', om_Name = ''r''\<rparr>,
      mr_Match = \<lparr>m_Method = None, m_Headers = headers, m_QueryParams = []\<rparr>, mr_BackendGroup = sample_group upstream\<rparr>"

definition sample_rule :: "string \<Rightarrow> PathType \<Rightarrow> match_rule list \<Rightarrow> bool \<Rightarrow> unit path_rule" where
  "sample_rule path type rules inference =
     \<lparr>pr_Path = path, pr_PathType = type, pr_MatchRules = rules, pr_Policies = [], pr_GRPC = False, pr_HasInferenceBackends = inference\<rparr>"

definition sample_server :: "unit path_rule list \<Rightarrow> unit VirtualServer" where
  "sample_server rules =
     \<lparr>vs_SSL = None, vs_Hostname = ''h'', vs_PathRules = rules, vs_Policies = [], vs_Port = 8, vs_IsDefault = False\<rparr>"

definition sample_conf :: servers_conf where
  "sample_conf = \<lparr>sc_re2 = (\<lambda>_ _. Some False), sc_keepAliveCheck = (\<lambda>_. False), sc_DisableBaseProxySetHeaders = [],
     sc_DisableSNIHostValidation = False\<rparr>"

definition sample_gen :: "unit generator" where
  "sample_gen = \<lparr>g_GenerateForServer = (\<lambda>_ _. []), g_GenerateForLocation = (\<lambda>_ _. []), g_GenerateForInternalLocation = (\<lambda>_. [])\<rparr>"

definition sample_header :: "string \<Rightarrow> string \<Rightarrow> HTTPHeaderMatch" where
  "sample_header n v = \<lparr>hm_Name = n, hm_Value = v, hm_Type = MatchTypeExact\<rparr>"

lemmas sample_defs = no_filters_def sample_group_def sample_match_rule_def sample_rule_def sample_server_def sample_conf_def
  sample_gen_def sample_header_def


end
