(* ===== verification/LocationPaths.thy ===== *)
theory LocationPaths
  imports RequestRouting
begin

text \<open>
  NGINX refuses a configuration with two locations of the same path in one server. This theory shows that the locations of the
  path rules never clash, whatever the paths of the rules are, and that the callback locations of OpenID Connect providers can.
\<close>

section \<open>The paths of external locations\<close>

text \<open>The rule a path belongs to: an exact location belongs to the exact rule if there is one, otherwise to the prefix rule.\<close>

definition owner :: "pathAndTypeMap \<Rightarrow> string \<Rightarrow> string \<times> PathType" where
  "owner pts s =
     (if has_prefix s ''= '' then
        (if (drop 2 s, PathTypeExact) \<in> set pts then (drop 2 s, PathTypeExact) else (drop 2 s, PathTypePrefix))
      else if has_prefix s ''~ ^'' then (drop 3 s, PathTypeRegularExpression)
      else if (s, PathTypePrefix) \<in> set pts then (s, PathTypePrefix)
      else (butlast s, PathTypePrefix))"

definition absolute :: "string \<Rightarrow> bool" where
  "absolute s \<longleftrightarrow> has_prefix s ''/''"

lemma absolute_Cons: "absolute s \<longleftrightarrow> (\<exists>t. s = CHR ''/'' # t)"
  by (auto simp: absolute_def has_prefix_iff)

lemma external_path_owner:
  assumes "absolute (pr_Path rule)" and "(pr_Path rule, pr_PathType rule) \<in> set pts"
    and "l \<in> set (initializeExternalLocations rule pts)"
  shows "owner pts (l_Path l) = (pr_Path rule, pr_PathType rule)"
proof -
  obtain t where t: "pr_Path rule = CHR ''/'' # t" using assms(1) by (auto simp: absolute_Cons)
  show ?thesis
  proof (cases "pr_PathType rule")
    case PathTypePrefix
    with assms t show ?thesis
      by (auto simp: initializeExternalLocations_def Let_def createPath_def exactPath_def isNonSlashedPrefixPath_def owner_def
          has_prefix_def split: if_splits)
  qed (use assms t in \<open>auto simp: initializeExternalLocations_def Let_def createPath_def exactPath_def isNonSlashedPrefixPath_def owner_def
          has_prefix_def\<close>)
qed

lemma external_paths_distinct: "absolute (pr_Path rule) \<Longrightarrow> distinct (map l_Path (initializeExternalLocations rule pts))"
  by (auto simp: initializeExternalLocations_def Let_def createPath_def exactPath_def absolute_Cons split: PathType.split)

text \<open>An external path starts with a modifier or ends with a slash.\<close>

definition external_form :: "string \<Rightarrow> bool" where
  "external_form s \<longleftrightarrow> has_prefix s ''= '' \<or> has_prefix s ''~ ^'' \<or> has_suffix s ''/''"

lemma external_path_form: "l \<in> set (initializeExternalLocations rule pts) \<Longrightarrow> external_form (l_Path l)"
  by (cases "pr_PathType rule")
    (auto simp: initializeExternalLocations_def Let_def createPath_def exactPath_def isNonSlashedPrefixPath_def external_form_def
      has_prefix_def has_suffix_iff split: if_splits)

section \<open>The paths of internal locations\<close>

lemma show_nat_no_dash [simp]: "CHR ''-'' \<notin> set (show_nat n)" "CHR ''/'' \<notin> set (show_nat n)"
  using digit_range(2,3) by (metis show_nat_digits)+

lemma internal_match_path_inj: "internal_match_path j k = internal_match_path j' k' \<longleftrightarrow> j = j' \<and> k = k'"
proof
  assume "internal_match_path j k = internal_match_path j' k'"
  then have "show_nat j @ CHR ''-'' # (''route'' @ show_nat k) = show_nat j' @ CHR ''-'' # (''route'' @ show_nat k')"
    by (simp add: internal_match_path_def)
  then have "show_nat j = show_nat j' \<and> show_nat k = show_nat k'" by (subst (asm) sep_append_inj) simp_all
  then show "j = j' \<and> k = k'" by (auto dest: show_nat_inj)
qed simp

lemma internal_match_path_form: "\<not> external_form (internal_match_path j k)"
proof -
  have "\<not> has_suffix (internal_match_path j k) ''/''"
  proof
    assume "has_suffix (internal_match_path j k) ''/''"
    then obtain t where "internal_match_path j k = t @ ''/''" by (auto simp: has_suffix_iff)
    then have "last (internal_match_path j k) = CHR ''/''" by simp
    moreover have "last (internal_match_path j k) = last (show_nat k)" by (simp add: internal_match_path_def)
    ultimately show False using last_in_set [OF show_nat_nonempty] show_nat_no_dash(2) by metis
  qed
  then show ?thesis by (simp add: external_form_def internal_match_path_def InternalRoutePathPrefix_def has_prefix_def)
qed

lemma external_not_internal: "l \<in> set (initializeExternalLocations rule pts) \<Longrightarrow> l_Path l \<noteq> internal_match_path j k"
  using external_path_form internal_match_path_form by metis

section \<open>The paths of a rule\<close>

definition rule_paths :: "'p path_rule list \<Rightarrow> nat \<Rightarrow> string list" where
  "rule_paths rules j =
     map l_Path (initializeExternalLocations (rules ! j) (snd (getMaxLocationCountAndPathMap rules))) @
     (if needsInternalLocationsForMatches (rules ! j) then map (internal_match_path j) [0..<length (pr_MatchRules (rules ! j))] else [])"

lemma external_locations_map_path: "map l_Path (external_locations gen rule m) = map l_Path (initializeExternalLocations rule m)"
  by (simp add: external_locations_def comp_def)

lemma locations_for_rule_paths:
  assumes "\<not> pr_HasInferenceBackends (rules ! j)" and "locations_for_rule env gen rules j (locs, pairs) = Inr (locs', pairs')"
  shows "map l_Path locs' = map l_Path locs @ rule_paths rules j"
proof (cases "needsInternalLocationsForMatches (rules ! j)")
  case False
  with assms obtain ext where "updateExternalLocationsForRule env j (rules ! j) (mirror_pct rules j)
      (external_locations gen (rules ! j) (snd (getMaxLocationCountAndPathMap rules))) = Inr ext" and "locs' = locs @ ext"
    by (auto simp: locations_for_rule_def Let_def bind_go_Inr_iff mirror_pct_def)
  with False updateExternalLocationsForRule_frame(1) show ?thesis
    by (fastforce simp: rule_paths_def external_locations_map_path)
next
  case True
  with assms obtain ints ms where c: "createInternalLocationsForRule env gen j (rules ! j) (mirror_pct rules j) = Inr (ints, ms)"
    and locs': "locs' = locs @ map (\<lambda>l. l\<lparr>l_HTTPMatchKey := match_key (se_serverID env) j\<rparr>)
      (external_locations gen (rules ! j) (snd (getMaxLocationCountAndPathMap rules))) @ ints"
    by (auto simp: locations_for_rule_def Let_def bind_go_Inr_iff mirror_pct_def)
  note plain = createInternalLocationsForRule_plain [OF c assms(1)]
  have "map l_Path ints = map (internal_match_path j) [0..<length (pr_MatchRules (rules ! j))]"
    using plain(2) updateLocation_frame(1) [OF plain(3)] by (intro nth_equalityI) simp_all
  then show ?thesis using True by (simp add: locs' rule_paths_def comp_def external_locations_map_path [unfolded comp_def])
qed

section \<open>All paths of a server\<close>

lemma distinct_concat_upt:
  assumes "\<And>i. i < n \<Longrightarrow> distinct (f i)" and "\<And>i j. i < j \<Longrightarrow> j < n \<Longrightarrow> set (f i) \<inter> set (f j) = {}"
  shows "distinct (concat (map f [0..<n]))"
  using assms
proof (induction n)
  case (Suc n)
  have "distinct (concat (map f [0..<n]))" using Suc.prems by (intro Suc.IH) simp_all
  moreover have "(\<Union>i < n. set (f i)) \<inter> set (f n) = {}" using Suc.prems(2) by fastforce
  ultimately show ?case using Suc.prems(1) [of n] by (simp add: atLeast0LessThan)
qed simp

text \<open>Path rules as the data plane configuration has them: one per path and type, with absolute paths.\<close>

definition wf_path_rules :: "'p path_rule list \<Rightarrow> bool" where
  "wf_path_rules rules \<longleftrightarrow> distinct (map (\<lambda>r. (pr_Path r, pr_PathType r)) rules) \<and> list_all (\<lambda>r. absolute (pr_Path r)) rules"

lemma rule_path_cases:
  assumes "s \<in> set (rule_paths rules k)"
  obtains (external) l where "l \<in> set (initializeExternalLocations (rules ! k) (snd (getMaxLocationCountAndPathMap rules)))" "s = l_Path l"
  | (internal) b where "s = internal_match_path k b"
  using assms by (auto simp: rule_paths_def split: if_splits)

lemma rule_paths_disjoint:
  assumes "wf_path_rules rules" and "i < length rules" and "j < length rules" and "i \<noteq> j"
  shows "set (rule_paths rules i) \<inter> set (rule_paths rules j) = {}"
proof -
  let ?pts = "snd (getMaxLocationCountAndPathMap rules)"
  have pts: "?pts = map (\<lambda>r. (pr_Path r, pr_PathType r)) rules" by (simp add: getMaxLocationCountAndPathMap_def)
  have own: "owner ?pts (l_Path l) = ?pts ! k" if "k < length rules" "l \<in> set (initializeExternalLocations (rules ! k) ?pts)" for k l
    using external_path_owner [of "rules ! k" ?pts l] that assms(1) by (auto simp: pts wf_path_rules_def list_all_iff)
  have "distinct ?pts" and "length ?pts = length rules" using assms(1) by (simp_all add: pts wf_path_rules_def)
  then have ne: "?pts ! i \<noteq> ?pts ! j" using assms(2-4) nth_eq_iff_index_eq [of ?pts i j] by simp
  have False if "s \<in> set (rule_paths rules i)" "s \<in> set (rule_paths rules j)" for s
    using that(1)
  proof (cases rule: rule_path_cases)
    case (external l)
    from that(2) show False
    proof (cases rule: rule_path_cases)
      case (external l')
      with own [OF assms(3)] own [OF assms(2)] \<open>s = l_Path l\<close> \<open>l \<in> _\<close> ne show False by metis
    qed (use external_not_internal [OF external(1)] external(2) in simp)
  next
    case (internal b)
    from that(2) internal assms(4) show False
      by (cases rule: rule_path_cases) (auto simp: internal_match_path_inj dest: external_not_internal)
  qed
  then show ?thesis by blast
qed

lemma rule_paths_distinct:
  assumes "wf_path_rules rules" and "i < length rules"
  shows "distinct (rule_paths rules i)"
proof -
  have "absolute (pr_Path (rules ! i))" using assms by (auto simp: wf_path_rules_def list_all_iff)
  then have "distinct (map l_Path (initializeExternalLocations (rules ! i) pts))" for pts by (rule external_paths_distinct)
  moreover have "distinct (map (internal_match_path i) [0..<n])" for n by (simp add: distinct_map inj_on_def internal_match_path_inj)
  moreover have "set (map l_Path (initializeExternalLocations (rules ! i) pts)) \<inter> set (map (internal_match_path i) ks) = {}" for pts ks
    by (auto dest: external_not_internal)
  ultimately show ?thesis
    by (cases "needsInternalLocationsForMatches (rules ! i)") (simp_all only: rule_paths_def distinct_append if_True if_False append_Nil2 simp_thms)
qed

text \<open>Where the paths of rules and the extra locations can meet: only in exact paths.\<close>

lemma exact_rule_path:
  assumes "wf_path_rules rules" and "''= '' @ q \<in> set (rule_paths rules j)" and "j < length rules"
  shows "pr_Path (rules ! j) = q \<and>
    (pr_PathType (rules ! j) = PathTypeExact \<or> isNonSlashedPrefixPath (pr_PathType (rules ! j)) (pr_Path (rules ! j)))"
proof -
  let ?pts = "snd (getMaxLocationCountAndPathMap rules)"
  obtain t where t: "pr_Path (rules ! j) = CHR ''/'' # t" using assms(1,3) absolute_Cons
    by (metis list_all_length wf_path_rules_def)
  have "''= '' @ q \<noteq> internal_match_path j k" for k by (simp add: internal_match_path_def InternalRoutePathPrefix_def)
  then obtain l where "l \<in> set (initializeExternalLocations (rules ! j) ?pts)" "l_Path l = ''= '' @ q"
    using assms(2) by (fastforce simp: rule_paths_def split: if_splits)
  with t show ?thesis
    by (cases "pr_PathType (rules ! j)")
      (auto simp: initializeExternalLocations_def Let_def createPath_def exactPath_def isNonSlashedPrefixPath_def split: if_splits)
qed

lemma oidc_location_paths:
  "map l_Path (createOIDCLocations rules) = map (\<lambda>x. ''= '' @ snd x)
     (first_by snd (existingExactPathSet rules) (concat (map (\<lambda>p. map (Pair p) (oidc_paths p)) (findOIDCProviders rules))))"
  by (simp add: createOIDCLocations_def createOIDCCallbackLocation_def comp_def case_prod_unfold)

lemma oidc_paths_distinct: "distinct (map l_Path (createOIDCLocations rules))"
proof -
  let ?xs = "first_by snd (existingExactPathSet rules) (concat (map (\<lambda>p. map (Pair p) (oidc_paths p)) (findOIDCProviders rules)))"
  have "distinct (map snd ?xs)" by (rule first_by_distinct)
  then have "distinct (map ((@) ''= '') (map snd ?xs))" by (subst distinct_map) (simp add: inj_on_def)
  then show ?thesis by (simp add: oidc_location_paths comp_def)
qed

definition oidc_uris :: "'p path_rule list \<Rightarrow> string set" where
  "oidc_uris rules = (\<Union>p \<in> set (findOIDCProviders rules). set (oidc_paths p))"

lemma oidc_path_cases:
  assumes "s \<in> set (map l_Path (createOIDCLocations rules))"
  obtains q where "s = ''= '' @ q" and "q \<in> oidc_uris rules" and "q \<notin> existingExactPathSet rules"
proof -
  let ?ys = "concat (map (\<lambda>p. map (Pair p) (oidc_paths p)) (findOIDCProviders rules))"
  let ?xs = "first_by snd (existingExactPathSet rules) ?ys"
  obtain x where x: "x \<in> set ?xs" "s = ''= '' @ snd x" using assms by (auto simp: oidc_location_paths)
  have "snd x \<in> oidc_uris rules" using subsetD [OF first_by_subset x(1)] by (auto simp: oidc_uris_def)
  moreover have "snd x \<notin> existingExactPathSet rules" using x(1) first_by_keys [of snd "existingExactPathSet rules" ?ys] by blast
  ultimately show thesis using that x(2) by blast
qed

definition oidc_uris_ok :: "'p path_rule list \<Rightarrow> bool" where
  "oidc_uris_ok rules \<longleftrightarrow> (\<forall>q \<in> oidc_uris rules. q \<noteq> ''/'' \<and>
     (\<forall>rule \<in> set rules. pr_Path rule = q \<longrightarrow> \<not> isNonSlashedPrefixPath (pr_PathType rule) q))"

lemma oidc_rule_disjoint:
  assumes "wf_path_rules rules" and "oidc_uris_ok rules" and "j < length rules"
  shows "set (rule_paths rules j) \<inter> set (map l_Path (createOIDCLocations rules)) = {}"
proof -
  have False if s: "s \<in> set (rule_paths rules j)" "s \<in> set (map l_Path (createOIDCLocations rules))" for s
  proof -
    obtain q where q: "s = ''= '' @ q" "q \<in> oidc_uris rules" "q \<notin> existingExactPathSet rules" using oidc_path_cases [OF s(2)] .
    have r: "pr_Path (rules ! j) = q"
      "pr_PathType (rules ! j) = PathTypeExact \<or> isNonSlashedPrefixPath (pr_PathType (rules ! j)) (pr_Path (rules ! j))"
      using exact_rule_path [OF assms(1) _ assms(3)] s(1) q(1) by blast+
    have "rules ! j \<in> set rules" using assms(3) by simp
    with r q(2) assms(2) have "pr_PathType (rules ! j) = PathTypeExact" by (auto simp: oidc_uris_ok_def)
    then have "q \<in> existingExactPathSet rules"
      using r(1) \<open>rules ! j \<in> set rules\<close> by (force simp: existingExactPathSet_def isNonSlashedPrefixPath_def)
    with q(3) show False by simp
  qed
  then show ?thesis by blast
qed

lemma root_disjoint:
  assumes "wf_path_rules rules" and "oidc_uris_ok rules" and "\<not> list_ex (matchesRootPath re2) rules"
  shows "j < length rules \<Longrightarrow> ''= /'' \<notin> set (rule_paths rules j)" and "''= /'' \<notin> set (map l_Path (createOIDCLocations rules))"
proof -
  show "''= /'' \<notin> set (rule_paths rules j)" if "j < length rules"
  proof
    assume "''= /'' \<in> set (rule_paths rules j)"
    then have "pr_Path (rules ! j) = ''/''" using exact_rule_path [OF assms(1) _ that, of "''/''"] by simp
    then have "matchesRootPath re2 (rules ! j)" by (simp add: matchesRootPath_def)
    with assms(3) that show False by (auto simp: list_ex_iff)
  qed
  show "''= /'' \<notin> set (map l_Path (createOIDCLocations rules))"
  proof
    assume "''= /'' \<in> set (map l_Path (createOIDCLocations rules))"
    then obtain q where "''= /'' = ''= '' @ q" "q \<in> oidc_uris rules" using oidc_path_cases by blast
    with assms(2) show False by (auto simp: oidc_uris_ok_def)
  qed
qed

lemma createLocations_paths:
  assumes "createLocations re2 gen env vs = Inr (locs, pairs, grpc)" and "\<forall>rule \<in> set (vs_PathRules vs). \<not> pr_HasInferenceBackends rule"
  obtains ls where "locs = extra_locations re2 (vs_PathRules vs) ls"
    and "map l_Path ls = concat (map (rule_paths (vs_PathRules vs)) [0..<length (vs_PathRules vs)])"
proof -
  let ?rules = "vs_PathRules vs"
  obtain ls where run: "fold_go (locations_for_rule env gen ?rules) [0..<length ?rules] ([], Map.empty) = Inr (ls, pairs)"
    and locs: "locs = extra_locations re2 ?rules ls"
    using assms(1) by (auto simp: createLocations_def Let_def bind_go_Inr_iff)
  have "map l_Path (fst (ls, pairs)) = concat (map (rule_paths ?rules) [0..<length ?rules])"
  proof (rule fold_go_upt [where I = "\<lambda>n st. map l_Path (fst st) = concat (map (rule_paths ?rules) [0..<n])", OF run])
    fix i s t assume i: "i < length ?rules" and I: "map l_Path (fst s) = concat (map (rule_paths ?rules) [0..<i])"
      and st: "locations_for_rule env gen ?rules i s = Inr t"
    have "\<not> pr_HasInferenceBackends (?rules ! i)" using assms(2) i by simp
    from locations_for_rule_paths [OF this, of env gen "fst s" "snd s" "fst t" "snd t"] st I
    show "map l_Path (fst t) = concat (map (rule_paths ?rules) [0..<Suc i])" by simp
  qed simp
  then show thesis using that locs by simp
qed

section \<open>Properties\<close>

text \<open>
  The locations of a server have pairwise different paths, so that NGINX accepts the configuration. This holds for any
  path rules with absolute paths, one per path and type, without inference backends, provided no OpenID Connect callback
  path is the root or the path of a prefix rule without a trailing slash, and no location uses remote JWT keys or external
  authorization, whose internal paths come from elsewhere.
\<close>

lemma location_paths_distinct:
  assumes "createLocations re2 gen env vs = Inr (locs, pairs, grpc)" and "wf_path_rules (vs_PathRules vs)"
    and "\<forall>rule \<in> set (vs_PathRules vs). \<not> pr_HasInferenceBackends rule"
    and "oidc_uris_ok (vs_PathRules vs)"
    and "\<forall>l \<in> set locs. l_AuthJWT l = None \<and> l_AuthExternalRequest l = None"
  shows "distinct (map l_Path locs)"
proof -
  let ?rules = "vs_PathRules vs"
  let ?root = "if \<not> list_ex (matchesRootPath re2) ?rules then [createDefaultRootLocation] else []"
  obtain ls where locs: "locs = extra_locations re2 ?rules ls"
    and ls: "map l_Path ls = concat (map (rule_paths ?rules) [0..<length ?rules])"
    using createLocations_paths [OF assms(1,3)] by blast
  have none: "\<forall>l \<in> set (ls @ createOIDCLocations ?rules @ ?root). l_AuthJWT l = None \<and> l_AuthExternalRequest l = None"
    using assms(5) by (auto simp: locs extra_locations_def Let_def split: if_splits)
  have "extractUniqueJWKSLocations xs = []" and "extractExternalAuthInternalLocations xs = []"
    if "\<forall>l \<in> set xs. l_AuthJWT l = None \<and> l_AuthExternalRequest l = None" for xs
  proof -
    have "List.map_filter (\<lambda>loc. case l_AuthJWT loc of None \<Rightarrow> None | Some j \<Rightarrow> aj_Remote j) xs = []"
      and "List.map_filter l_AuthExternalRequest xs = []" using that by (induction xs) (simp_all add: List.map_filter_simps)
    then show "extractUniqueJWKSLocations xs = []" and "extractExternalAuthInternalLocations xs = []"
      by (simp_all add: extractUniqueJWKSLocations_def extractExternalAuthInternalLocations_def)
  qed
  with none have eq: "locs = ls @ createOIDCLocations ?rules @ ?root"
    by (simp add: locs extra_locations_def Let_def)
  have d1: "distinct (map l_Path ls)"
    unfolding ls by (rule distinct_concat_upt) (simp_all add: rule_paths_distinct [OF assms(2)] rule_paths_disjoint [OF assms(2)])
  have set_ls: "set (map l_Path ls) = (\<Union>j < length ?rules. set (rule_paths ?rules j))" unfolding ls by (simp add: atLeast0LessThan)
  have d2: "set (map l_Path ls) \<inter> set (map l_Path (createOIDCLocations ?rules)) = {}"
    using oidc_rule_disjoint [OF assms(2,4)] unfolding set_ls by blast
  have d3: "set (map l_Path ls @ map l_Path (createOIDCLocations ?rules)) \<inter> set (map l_Path ?root) = {}"
    using root_disjoint [OF assms(2,4), of re2] unfolding set_append set_ls by (auto simp: createDefaultRootLocation_def)
  show ?thesis using d1 d2 d3 oidc_paths_distinct [of ?rules] by (auto simp: eq)
qed

lemma location_paths_distinct_witness:
  "\<exists>locs pairs grpc. createLocations (\<lambda>_ _. None) sample_gen (env_of sample_conf ''0'' (sample_server []))
     (sample_server [sample_rule ''/a'' PathTypePrefix [sample_match_rule [] ''u''] False,
        sample_rule ''/a'' PathTypeExact [sample_match_rule [sample_header ''v'' ''2''] ''u'', sample_match_rule [] ''w''] False,
        sample_rule ''/b/'' PathTypePrefix [sample_match_rule [] ''w''] False]) = Inr (locs, pairs, grpc) \<and>
   length locs = 6 \<and> distinct (map l_Path locs)"
proof -
  let ?vs = "sample_server [sample_rule ''/a'' PathTypePrefix [sample_match_rule [] ''u''] False,
        sample_rule ''/a'' PathTypeExact [sample_match_rule [sample_header ''v'' ''2''] ''u'', sample_match_rule [] ''w''] False,
        sample_rule ''/b/'' PathTypePrefix [sample_match_rule [] ''w''] False]"
  let ?env = "env_of sample_conf ''0'' (sample_server [])"
  have "case createLocations (\<lambda>_ _. None) sample_gen ?env ?vs of Inl _ \<Rightarrow> False
      | Inr (locs, pairs, grpc) \<Rightarrow> length locs = 6 \<and> list_all (\<lambda>l. Option.is_none (l_AuthJWT l) \<and> Option.is_none (l_AuthExternalRequest l)) locs" by code_simp
  then obtain locs pairs grpc where run: "createLocations (\<lambda>_ _. None) sample_gen ?env ?vs = Inr (locs, pairs, grpc)"
    and n: "length locs = 6" and none: "\<forall>l \<in> set locs. l_AuthJWT l = None \<and> l_AuthExternalRequest l = None"
    by (auto simp: list_all_iff Option.is_none_def split: sum.splits)
  have "wf_path_rules (vs_PathRules ?vs)" by code_simp
  moreover have "oidc_uris_ok (vs_PathRules ?vs)" by code_simp
  moreover have "\<forall>rule \<in> set (vs_PathRules ?vs). \<not> pr_HasInferenceBackends rule" by code_simp
  ultimately have "distinct (map l_Path locs)" using location_paths_distinct [OF run] none by blast
  with run n show ?thesis by blast
qed

section \<open>Where the routing fails\<close>

text \<open>
  The path of an OpenID Connect callback is not recognised as taken when a prefix rule without a trailing slash has it: the
  prefix rule has an exact location for it as well, so the server gets two locations with the same path.
\<close>

theorem oidc_callback_clash:
  assumes "createLocations re2 gen env vs = Inr (locs, pairs, grpc)" and "\<forall>rule \<in> set (vs_PathRules vs). \<not> pr_HasInferenceBackends rule"
    and "j < length (vs_PathRules vs)" and "pr_Path (vs_PathRules vs ! j) = q" and "pr_PathType (vs_PathRules vs ! j) = PathTypePrefix"
    and "\<not> has_suffix q ''/''" and "q \<in> oidc_uris (vs_PathRules vs)"
    and "\<forall>rule \<in> set (vs_PathRules vs). pr_Path rule = q \<longrightarrow> pr_PathType rule = PathTypePrefix"
  shows "\<not> distinct (map l_Path locs)"
proof -
  let ?rules = "vs_PathRules vs" and ?path = "''= '' @ q"
  obtain ls where locs: "locs = extra_locations re2 ?rules ls"
    and ls: "map l_Path ls = concat (map (rule_paths ?rules) [0..<length ?rules])"
    using createLocations_paths [OF assms(1,2)] by blast
  have "(q, PathTypeExact) \<notin> set (snd (getMaxLocationCountAndPathMap ?rules))"
    using assms(8) by (auto simp: getMaxLocationCountAndPathMap_def)
  then have "?path \<in> set (rule_paths ?rules j)"
    using assms(4-6) by (auto simp: rule_paths_def initializeExternalLocations_def Let_def createPath_def isNonSlashedPrefixPath_def exactPath_def)
  then have 1: "?path \<in> set (map l_Path ls)" unfolding ls using assms(3) by auto
  let ?ys = "concat (map (\<lambda>p. map (Pair p) (oidc_paths p)) (findOIDCProviders ?rules))"
  have "q \<notin> existingExactPathSet ?rules" using assms(6,8) by (auto simp: existingExactPathSet_def isNonSlashedPrefixPath_def)
  moreover have "q \<in> snd ` set ?ys" using assms(7) by (force simp: oidc_uris_def)
  ultimately have "q \<in> snd ` set (first_by snd (existingExactPathSet ?rules) ?ys)" by (simp only: first_by_keys) simp
  then have 2: "?path \<in> set (map l_Path (createOIDCLocations ?rules))" by (auto simp: oidc_location_paths)
  have "\<exists>more. locs = (ls @ createOIDCLocations ?rules) @ more"
    by (cases "list_ex (matchesRootPath re2) ?rules") (simp_all add: locs extra_locations_def Let_def)
  then obtain more where "locs = (ls @ createOIDCLocations ?rules) @ more" ..
  then have "map l_Path locs = map l_Path ls @ map l_Path (createOIDCLocations ?rules) @ map l_Path more" by simp
  with 1 2 show ?thesis by (simp only: distinct_append set_append) blast
qed

theorem oidc_callback_clash_example:
  "let oidc = new_oidc_provider\<lparr>op_Name := ''p'', op_RedirectURI := ''/cb''\<rparr>;
       filters = no_filters\<lparr>f_AuthenticationFilter := Some \<lparr>af_Basic = None, af_OIDC = Some oidc, af_JWT = None\<rparr>\<rparr>;
       rule = sample_rule ''/cb'' PathTypePrefix [(sample_match_rule [] ''u'')\<lparr>mr_Filters := filters\<rparr>] False in
   (case createLocations (\<lambda>_ _. None) sample_gen (env_of sample_conf ''0'' (sample_server [])) (sample_server [rule]) of
      Inl _ \<Rightarrow> False
    | Inr (locs, _) \<Rightarrow> map l_Path locs = [''/cb/'', ''= /cb'', ''= /cb'', ''= /''])"
  by code_simp

lemma inference_single_backend:
  assumes "inference_backends env gen rule j r k pct 0 [b] (ls, seen, p) = Inr (ls', seen', p', skip)"
  shows "p' = l_Path (epp_location gen rule r b)" and "skip \<longleftrightarrow> p' \<in> seen" and "p' \<in> seen'"
proof -
  obtain pp where pp: "proxy_pass_location env gen rule j r k pct 0 b = Inr pp" using assms by (auto simp: bind_go_Inr_iff)
  have "p' = l_Path (epp_location gen rule r b) \<and> (skip \<longleftrightarrow> p' \<in> seen) \<and> p' \<in> seen'"
  proof (cases "epp_config b")
    case None
    with assms pp show ?thesis by (auto simp: Let_def split: if_splits)
  next
    case (Some ce)
    obtain c e where ce: "ce = (c, e)" by (cases ce)
    obtain h n where "extractEPPConfig c e = (h, n)" by (cases "extractEPPConfig c e")
    with assms pp Some ce show ?thesis by (auto simp: Let_def split: if_splits)
  qed
  then show "p' = l_Path (epp_location gen rule r b)" and "skip \<longleftrightarrow> p' \<in> seen" and "p' \<in> seen'" by blast+
qed

lemma internal_location_inference:
  assumes "internal_location_for_match env gen j rule pct k (ls, ms, u) = Inr (ls', ms', u')" and "pr_HasInferenceBackends rule"
    and "bg_Backends (mr_BackendGroup (pr_MatchRules rule ! k)) = [b]"
  defines "p \<equiv> l_Path (epp_location gen rule (pr_MatchRules rule ! k) b)"
  shows "ms' = (if p \<in> u then ms else ms @ [createRouteMatch (mr_Match (pr_MatchRules rule ! k)) p])" and "p \<in> u'"
proof -
  let ?r = "pr_MatchRules rule ! k"
  obtain l1 u1 p1 skip where b: "inference_backends env gen rule j ?r k pct 0 [b] (ls, u, []) = Inr (l1, u1, p1, skip)"
    and res: "u' = u1" "ms' = (if skip then ms else ms @ [createRouteMatch (mr_Match ?r) p1])"
    using assms(1-3) by (auto simp: internal_location_for_match_def Let_def bind_go_Inr_iff simp del: inference_backends.simps split: if_splits)
  show "ms' = (if p \<in> u then ms else ms @ [createRouteMatch (mr_Match ?r) p])" and "p \<in> u'"
    using inference_single_backend [OF b] res unfolding p_def by simp_all
qed

text \<open>
  C38. A rule that sends requests to one inference backend under two matches with the same path only serves the first match.
  The second match is dropped together with its internal locations, which are the same as those of the first; a request that
  satisfies only the second match is answered with 404.
\<close>

theorem inference_second_match_dropped:
  assumes "createInternalLocationsForRule env gen j rule pct = Inr (ints, ms)" and "pr_HasInferenceBackends rule"
    and "pr_MatchRules rule = [r1, r2]" and "mr_BackendGroup r1 = mr_BackendGroup r2" and "bg_Backends (mr_BackendGroup r1) = [b]"
    and "wf_match re (mr_Match r1)" and "\<And>k. r_args r k \<noteq> Some (ArgArray [])" and "r_match_key r = Some key" and "key \<noteq> []"
    and "pairs key = Some ms" and "satisfies re r (mr_Match r2)" and "\<not> satisfies re r (mr_Match r1)"
  shows "redirect re stringify pairs r = Return 404 None"
proof -
  let ?epp = "epp_location gen rule r1 b"
  have epp: "epp_location gen rule r2 b = ?epp" using assms(4) by (simp add: epp_location_def)
  obtain l1 m1 u1 l2 u2 where 1: "internal_location_for_match env gen j rule pct 0 ([], [], {}) = Inr (l1, m1, u1)"
    and 2: "internal_location_for_match env gen j rule pct 1 (l1, m1, u1) = Inr (l2, ms, u2)"
    using assms(1,3) by (auto simp: createInternalLocationsForRule_def bind_go_Inr_iff numeral_2_eq_2)
  have "m1 = [createRouteMatch (mr_Match r1) (l_Path ?epp)]" and "l_Path ?epp \<in> u1"
    using internal_location_inference [OF 1 assms(2), of b] assms(3,5) by simp_all
  then have ms': "ms = [createRouteMatch (mr_Match r1) (l_Path ?epp)]"
    using internal_location_inference(1) [OF 2 assms(2), of b] assms(3-5) epp by simp
  have "extractMatchesFromRequest r pairs = Inr ms"
    using assms(8-10) ms' by (simp add: extractMatchesFromRequest_def verifyMatchList_def)
  moreover have "findWinningMatch re r ms = Inr None"
    using testMatch_encoded [OF assms(6,7), of "l_Path ?epp"] assms(12) by (simp add: ms')
  ultimately show ?thesis by (simp add: redirect_def redirectForMatchList_def)
qed

theorem inference_second_match_dropped_witness:
  "\<exists>ints ms. createInternalLocationsForRule (env_of sample_conf ''0'' (sample_server [])) sample_gen 0
       (sample_rule ''/'' PathTypePrefix [sample_match_rule [sample_header ''a'' ''1''] ''u'', sample_match_rule [sample_header ''b'' ''1''] ''u''] True) None =
       Inr (ints, ms) \<and>
     redirect (\<lambda>p v. Some (p = v)) (\<lambda>_. []) [''0_0'' \<mapsto> ms]
       \<lparr>r_method = ''GET'', r_headersIn = [''b'' \<mapsto> ''1''], r_args = Map.empty, r_match_key = Some ''0_0''\<rparr> = Return 404 None"
proof -
  let ?env = "env_of sample_conf ''0'' (sample_server [])" and ?re = "\<lambda>p v :: string. Some (p = v)"
  let ?r1 = "sample_match_rule [sample_header ''a'' ''1''] ''u''" and ?r2 = "sample_match_rule [sample_header ''b'' ''1''] ''u''"
  let ?rule = "sample_rule ''/'' PathTypePrefix [?r1, ?r2] True"
  let ?r = "\<lparr>r_method = ''GET'', r_headersIn = [''b'' \<mapsto> ''1''], r_args = Map.empty, r_match_key = Some ''0_0''\<rparr> :: request"
  have "case createInternalLocationsForRule ?env sample_gen 0 ?rule None of Inl _ \<Rightarrow> False | Inr _ \<Rightarrow> True" by code_simp
  then obtain ints ms where run: "createInternalLocationsForRule ?env sample_gen 0 ?rule None = Inr (ints, ms)"
    by (cases "createInternalLocationsForRule ?env sample_gen 0 ?rule None") auto
  have wf: "wf_match ?re (mr_Match ?r1)" by (simp add: sample_defs wf_match_def compiles_def)
  have sat: "satisfies ?re ?r (mr_Match ?r2)" "\<not> satisfies ?re ?r (mr_Match ?r1)" by code_simp+
  have "redirect ?re (\<lambda>_. []) [''0_0'' \<mapsto> ms] ?r = Return 404 None"
    by (rule inference_second_match_dropped [OF run _ _ _ _ wf _ _ _ _ sat]) (simp_all add: sample_defs)
  with run show ?thesis by blast
qed

end
