(* ===== verification/ServersTotal.thy ===== *)
theory ServersTotal
  imports RequestRouting
begin

text \<open>
  When the generation of servers panics. The only sources are the redirect filter that replaces a prefix on a path that is not
  a prefix path, whose missing rewrite is dereferenced, and a TLS server without certificates. In all other cases the
  servers are generated, one for each virtual server.
\<close>

section \<open>Totality of the parts\<close>

lemma fold_go_runs: "(\<And>x s. x \<in> set xs \<Longrightarrow> \<exists>t. f x s = Inr t) \<Longrightarrow> \<exists>t. fold_go f xs s = Inr t"
  using fold_go_total [where I = "\<lambda>_. True" and f = f and xs = xs] by simp

definition ok_rule :: "'p path_rule \<Rightarrow> bool" where
  "ok_rule rule \<longleftrightarrow> (\<forall>mr \<in> set (pr_MatchRules rule). \<not> bad_redirect mr rule)"

lemma updateLocation_total:
  assumes "\<not> bad_redirect mr rule"
  shows "\<exists>l'. updateLocation env mr rule l pct k j = Inr l'"
  using assms updateLocation_result [of env mr rule l pct k j] by (cases "updateLocation env mr rule l pct k j") auto

lemma bad_redirect_single [simp]: "bad_redirect (single_backend_rule r b) rule = bad_redirect r rule"
  by (simp add: bad_redirect_def single_backend_rule_def)

lemma updateLocations_total:
  assumes "\<not> bad_redirect mr rule"
  shows "\<exists>ls'. updateLocations env j k mr rule pct ls = Inr ls'"
  unfolding updateLocations_def
proof (rule fold_go_runs)
  fix l updated
  obtain l' where "updateLocation env mr rule l pct k j = Inr l'" using updateLocation_total [OF assms] by blast
  then show "\<exists>t. bind_go (updateLocation env mr rule l pct k j) (\<lambda>loc'. Inr (updated @ [loc'])) = Inr t" by simp
qed

lemma updateExternalLocationsForRule_total:
  assumes "ok_rule rule"
  shows "\<exists>ls'. updateExternalLocationsForRule env j rule pct ls = Inr ls'"
proof -
  have "\<exists>t. fold_go (\<lambda>i. updateLocations env j i (pr_MatchRules rule ! i) rule pct) [0..<length (pr_MatchRules rule)] ls = Inr t"
    by (rule fold_go_runs, rule updateLocations_total) (use assms in \<open>simp add: ok_rule_def\<close>)
  then show ?thesis by (simp add: updateExternalLocationsForRule_def)
qed

lemma proxy_pass_location_total:
  assumes "\<not> bad_redirect r rule"
  shows "\<exists>l. proxy_pass_location env gen rule j r k pct i b = Inr l"
  using updateLocation_total [of "single_backend_rule r b" rule] assms by (simp add: proxy_pass_location_def)

lemma inference_backends_total:
  assumes "\<not> bad_redirect r rule"
  shows "\<exists>ls seen p skip. inference_backends env gen rule j r k pct i bs st = Inr (ls, seen, p, skip)"
proof (induction bs arbitrary: i st)
  case Nil
  then show ?case by (cases st) auto
next
  case (Cons b bs)
  obtain ls seen p where st: "st = (ls, seen, p)" by (cases st)
  obtain pp where "proxy_pass_location env gen rule j r k pct i b = Inr pp" using proxy_pass_location_total [OF assms] by blast
  with Cons show ?case by (auto simp: st Let_def)
qed

lemma internal_location_for_match_total:
  assumes "\<not> bad_redirect (pr_MatchRules rule ! k) rule"
  shows "\<exists>st'. internal_location_for_match env gen j rule pct k st = Inr st'"
proof -
  obtain ls ms u where st: "st = (ls, ms, u)" by (cases st)
  show ?thesis
  proof (cases "pr_HasInferenceBackends rule")
    case False
    obtain l where "updateLocation env (pr_MatchRules rule ! k) rule (internal_base gen rule j k) pct k j = Inr l"
      using updateLocation_total [OF assms] by blast
    then show ?thesis by (simp add: st internal_location_for_match_plain [OF False])
  next
    case True
    let ?bs = "bg_Backends (mr_BackendGroup (pr_MatchRules rule ! k))"
    obtain a b c d where "inference_backends env gen rule j (pr_MatchRules rule ! k) k pct 0 ?bs (ls, u, []) = Inr (a, b, c, d)"
      using inference_backends_total [OF assms] by blast
    with True show ?thesis by (auto simp: st internal_location_for_match_def Let_def)
  qed
qed

lemma createInternalLocationsForRule_total:
  assumes "ok_rule rule"
  shows "\<exists>ints ms. createInternalLocationsForRule env gen j rule pct = Inr (ints, ms)"
proof -
  have "\<exists>t. fold_go (internal_location_for_match env gen j rule pct) [0..<length (pr_MatchRules rule)] ([], [], {}) = Inr t"
    by (rule fold_go_runs, rule internal_location_for_match_total) (use assms in \<open>simp add: ok_rule_def\<close>)
  then show ?thesis by (auto simp: createInternalLocationsForRule_def)
qed

lemma inference_match_locations_total:
  assumes "\<not> bad_redirect (pr_MatchRules rule ! k) rule"
  shows "\<exists>st'. inference_match_locations env gen j rule pct k st = Inr st'"
proof -
  have backend: "\<exists>t. inference_backend_locations env gen j rule pct k i s = Inr t" for i s
  proof -
    let ?b = "bg_Backends (mr_BackendGroup (pr_MatchRules rule ! k)) ! i"
    obtain pp where "proxy_pass_location env gen rule j (pr_MatchRules rule ! k) k pct i ?b = Inr pp"
      using proxy_pass_location_total [OF assms] by blast
    then show ?thesis
      by (cases s; cases "epp_config ?b") (auto simp: inference_backend_locations_def Let_def split: prod.split)
  qed
  obtain locs ext where st: "st = (locs, ext)" by (cases st)
  show ?thesis
    unfolding st inference_match_locations_def Let_def prod.case by (rule fold_go_runs) (rule backend)
qed

lemma createInferenceLocationsForRule_total:
  assumes "ok_rule rule"
  shows "\<exists>res. createInferenceLocationsForRule env gen j rule pct ext = Inr res"
proof -
  have "\<exists>t. fold_go (inference_match_locations env gen j rule pct) [0..<length (pr_MatchRules rule)] ([], ext) = Inr t"
    by (rule fold_go_runs, rule inference_match_locations_total) (use assms in \<open>simp add: ok_rule_def\<close>)
  then show ?thesis by (auto simp: createInferenceLocationsForRule_def)
qed

section \<open>Servers\<close>

lemma createLocations_total:
  assumes "\<forall>rule \<in> set (vs_PathRules vs). ok_rule rule"
  shows "\<exists>locs pairs grpc. createLocations re2 gen env vs = Inr (locs, pairs, grpc)"
proof -
  let ?rules = "vs_PathRules vs"
  have "\<exists>t. locations_for_rule env gen ?rules j st = Inr t" if "j \<in> set [0..<length ?rules]" for j st
  proof -
    have ok: "ok_rule (?rules ! j)" using that assms by simp
    obtain locs pairs where st: "st = (locs, pairs)" by (cases st)
    let ?ext = "external_locations gen (?rules ! j) (snd (getMaxLocationCountAndPathMap ?rules))"
    obtain a where "updateExternalLocationsForRule env j (?rules ! j) (mirror_pct ?rules j) ?ext = Inr a"
      using updateExternalLocationsForRule_total [OF ok] by blast
    moreover obtain b c where "createInternalLocationsForRule env gen j (?rules ! j) (mirror_pct ?rules j) = Inr (b, c)"
      using createInternalLocationsForRule_total [OF ok] by blast
    moreover obtain d where "createInferenceLocationsForRule env gen j (?rules ! j) (mirror_pct ?rules j) ?ext = Inr d"
      using createInferenceLocationsForRule_total [OF ok] by blast
    ultimately show ?thesis by (simp add: st locations_for_rule_def Let_def mirror_pct_def)
  qed
  from fold_go_runs [where f = "locations_for_rule env gen ?rules" and xs = "[0..<length ?rules]", OF this]
  obtain res where "fold_go (locations_for_rule env gen ?rules) [0..<length ?rules] ([], Map.empty) = Inr res" by blast
  then show ?thesis by (cases res) (simp add: createLocations_def Let_def)
qed

definition ok_server :: "'p VirtualServer \<Rightarrow> bool" where
  "ok_server vs \<longleftrightarrow> vs_IsDefault vs \<or> (\<forall>rule \<in> set (vs_PathRules vs). ok_rule rule)"

lemma createServer_total: "ok_server vs \<Longrightarrow> \<exists>sv p. createServer conf gen vs sid = Inr (sv, p)"
  using createLocations_total [of vs "sc_re2 conf" gen "env_of conf sid vs"]
  by (auto simp: ok_server_def createServer_def Let_def)

lemma createSSLServer_total:
  "ok_server vs \<Longrightarrow> vs_IsDefault vs \<or> vs_SSL vs \<noteq> None \<Longrightarrow> \<exists>sv p. createSSLServer conf gen vs sid = Inr (sv, p)"
  using createLocations_total [of vs "sc_re2 conf" gen "env_of conf sid vs"]
  by (auto simp: ok_server_def createSSLServer_def buildHTTPSSL_def Let_def split: option.split)

section \<open>Properties\<close>

text \<open>
  C39. Generating the servers does not panic, unless a rule redirects with a prefix replacement on a path that is not a prefix
  path, or a TLS server has no certificate: in all other cases there is one server for every virtual server. An update
  of a location panics in exactly the first of the two cases.
\<close>

theorem createServers_total:
  assumes "\<forall>vs \<in> set (https @ ssls). ok_server vs" and "\<forall>vs \<in> set ssls. vs_IsDefault vs \<or> vs_SSL vs \<noteq> None"
  shows "(\<exists>svs pairs. createServers conf gen ports https ssls = Inr (svs, pairs) \<and> length svs = length https + length ssls) \<and>
    (\<forall>env mr rule l pct k j. (\<exists>p. updateLocation env mr (rule :: 'p path_rule) l pct k j = Inl p) \<longleftrightarrow> bad_redirect mr rule)"
proof
  have "\<exists>t. add_http_server conf gen https i st = Inr t" if "i \<in> set [0..<length https]" for i st
  proof -
    have "ok_server (https ! i)" using assms(1) that by simp
    then obtain a b where "createServer conf gen (https ! i) (show_nat i) = Inr (a, b)" using createServer_total by blast
    then show ?thesis by (cases st) (simp add: add_http_server_def)
  qed
  from fold_go_runs [where f = "add_http_server conf gen https" and xs = "[0..<length https]", OF this]
  obtain st where http: "fold_go (add_http_server conf gen https) [0..<length https] ([], Map.empty) = Inr st" by blast
  have "\<exists>t. add_ssl_server conf gen ports ssls i st = Inr t" if "i \<in> set [0..<length ssls]" for i st
  proof -
    have "ok_server (ssls ! i)" "vs_IsDefault (ssls ! i) \<or> vs_SSL (ssls ! i) \<noteq> None" using assms that by simp_all
    then obtain a b where "createSSLServer conf gen (ssls ! i) (''SSL_'' @ show_nat i) = Inr (a, b)"
      using createSSLServer_total by blast
    then show ?thesis by (cases st) (simp add: add_ssl_server_def Let_def)
  qed
  from fold_go_runs [where f = "add_ssl_server conf gen ports ssls" and xs = "[0..<length ssls]", OF this]
  obtain res where "fold_go (add_ssl_server conf gen ports ssls) [0..<length ssls] st = Inr res" by blast
  with http obtain svs pairs where run: "createServers conf gen ports https ssls = Inr (svs, pairs)"
    by (cases res) (simp add: createServers_def)
  from createServers_served [OF run] have "length svs = length https + length ssls" by (simp add: servers_inv_def)
  with run show "\<exists>svs pairs. createServers conf gen ports https ssls = Inr (svs, pairs) \<and> length svs = length https + length ssls" by blast
qed (simp add: updateLocation_result)

theorem createServers_total_witness:
  "(\<exists>svs pairs. createServers sample_conf sample_gen []
      [sample_server [sample_rule ''/'' PathTypePrefix [sample_match_rule [] ''u''] False]] [] = Inr (svs, pairs) \<and> length svs = 1) \<and>
   updateLocation (env_of sample_conf ''0'' (sample_server []))
     ((sample_match_rule [] ''u'')\<lparr>mr_Filters := no_filters\<lparr>f_RequestRedirect := Some \<lparr>rr_Scheme = None, rr_Hostname = None, rr_Port = None,
        rr_StatusCode = None, rr_Path = Some \<lparr>pm_Replacement = ''/b'', pm_Type = ReplacePrefixMatch\<rparr>\<rparr>\<rparr>\<rparr>)
     (sample_rule ''/a'' PathTypeExact [] False) (new_location ''= /a'' ExternalLocationType) None 0 0 = Inl NilDeref"
  (is "_ \<and> updateLocation ?env ?mr ?rule ?l None 0 0 = _")
proof -
  let ?vs = "sample_server [sample_rule ''/'' PathTypePrefix [sample_match_rule [] ''u''] False]"
  have ok: "\<forall>vs \<in> set ([?vs] @ []). ok_server vs" by (simp add: ok_server_def ok_rule_def bad_redirect_def sample_defs)
  have ssl: "\<forall>vs \<in> set ([] :: unit VirtualServer list). vs_IsDefault vs \<or> vs_SSL vs \<noteq> None" by simp
  note t = createServers_total [OF ok ssl, of sample_conf sample_gen "[]"]
  have "bad_redirect ?mr ?rule" by (simp add: bad_redirect_def sample_defs)
  with t have "\<exists>p. updateLocation ?env ?mr ?rule ?l None 0 0 = Inl p" by blast
  then have "updateLocation ?env ?mr ?rule ?l None 0 0 = Inl NilDeref" by (auto simp: updateLocation_result)
  moreover have "\<exists>svs pairs. createServers sample_conf sample_gen [] [?vs] [] = Inr (svs, pairs) \<and> length svs = 1"
    using conjunct1 [OF t] by simp
  ultimately show ?thesis by blast
qed

end
