(* ===== verification/Float64.thy ===== *)
theory Float64
  imports Dataplane "HOL-Library.Log_Nat"
begin

text \<open>
  The \<^verbatim>\<open>float64\<close> arithmetic of Go, which is that of IEEE 754 doubles: the result of an operation is the exact result
  rounded to the nearest number with a 53 bit significand, ties to the even one. A double is its value, a rational number. The
  range of the exponent is not modelled: the code computes with percentages of 32 bit integers only, far from its ends.
  \<^verbatim>\<open>int32\<close> arithmetic wraps around.
\<close>

section \<open>Integers\<close>

definition int32 :: "int \<Rightarrow> int" where
  "int32 x = signed_take_bit 31 x"

lemma int32_id: "- (2 ^ 31) \<le> x \<Longrightarrow> x < 2 ^ 31 \<Longrightarrow> int32 x = x"
  unfolding int32_def by (rule signed_take_bit_int_eq_self) simp_all

section \<open>Rounding\<close>

definition exponent :: "rat \<Rightarrow> int" where
  "exponent x = (let (n, d) = quotient_of x; k = bitlen n - bitlen d in if 2 powi k \<le> x then k else k - 1)"

definition rnd :: "rat \<Rightarrow> rat" where
  "rnd x = (if x = 0 then 0 else let u = 2 powi (exponent \<bar>x\<bar> - 52) in of_int (round_half_even (x / u)) * u)"

definition fsub :: "rat \<Rightarrow> rat \<Rightarrow> rat" where
  "fsub x y = rnd (x - y)"

definition fmul :: "rat \<Rightarrow> rat \<Rightarrow> rat" where
  "fmul x y = rnd (x * y)"

definition fdiv :: "rat \<Rightarrow> rat \<Rightarrow> rat" where
  "fdiv x y = rnd (x / y)"

lemma round_half_even_error: "\<bar>of_int (round_half_even x) - x\<bar> \<le> 1 / 2"
proof -
  have "of_int \<lfloor>x\<rfloor> \<le> x" and "x < of_int \<lfloor>x\<rfloor> + 1" by linarith+
  then show ?thesis by (auto simp: round_half_even_def Let_def abs_le_iff)
qed

lemma round_half_even_near: "\<bar>x - of_int k\<bar> < 1 / 2 \<Longrightarrow> round_half_even x = k"
  using round_half_even_error [of x] by linarith

lemma round_half_even_of_int [simp]: "round_half_even (of_int k) = k"
  by (rule round_half_even_near) simp

lemma exponent_bounds:
  assumes "x > 0"
  shows "2 powi exponent x \<le> x" and "x < 2 powi (exponent x + 1)"
proof -
  obtain n d where q: "quotient_of x = (n, d)" by fastforce
  have d: "d > 0" using quotient_of_denom_pos [OF q] .
  have x: "x = of_int n / of_int d" using quotient_of_div [OF q] .
  then have n: "n > 0" using assms d by (simp add: zero_less_divide_iff)
  define a b where "a = nat (bitlen n - 1)" and "b = nat (bitlen d - 1)"
  have pos: "bitlen n > 0" "bitlen d > 0" using n d by (simp_all add: bitlen_def floorlog_eq_zero_iff neq0_conv [symmetric] del: neq0_conv)
  then have bits: "bitlen n = int a + 1" "bitlen d = int b + 1" by (simp_all add: a_def b_def)
  have nb: "(2::int) ^ a \<le> n" "n < 2 ^ Suc a" using bitlen_bounds [OF n] bits by (simp_all add: nat_add_distrib)
  have db: "(2::int) ^ b \<le> d" "d < 2 ^ Suc b" using bitlen_bounds [OF d] bits by (simp_all add: nat_add_distrib)
  have k: "exponent x = (if 2 powi (int a - int b) \<le> x then int a - int b else int a - int b - 1)"
    by (simp add: exponent_def q bits)
  have pw: "(2::rat) powi (int a - int b) = 2 ^ a / 2 ^ b" by (simp add: power_int_diff)
  have "(of_int n :: rat) < of_int (2 ^ Suc a)" "(of_int (2 ^ b) :: rat) \<le> of_int d" "(of_int (2 ^ a) :: rat) \<le> of_int n"
    "(of_int d :: rat) < of_int (2 ^ Suc b)" using nb db by (simp_all only: of_int_less_iff of_int_le_iff)
  then have r: "(of_int n :: rat) < 2 * 2 ^ a" "(2 ^ b :: rat) \<le> of_int d" "(2 ^ a :: rat) \<le> of_int n" "(of_int d :: rat) < 2 * 2 ^ b"
    by simp_all
  have up: "x < 2 * (2 ^ a / 2 ^ b)"
  proof -
    have "x \<le> of_int n / 2 ^ b" unfolding x using r(2) n d by (intro divide_left_mono) simp_all
    also have "\<dots> < 2 * 2 ^ a / 2 ^ b" using r(1) by (simp add: divide_strict_right_mono)
    finally show ?thesis by simp
  qed
  have lo: "(2 ^ a / 2 ^ b) / 2 \<le> x"
  proof -
    have "(2 ^ a / 2 ^ b :: rat) / 2 = 2 ^ a / (2 * 2 ^ b)" by simp
    also have "\<dots> \<le> of_int n / (2 * 2 ^ b)" using r(3) by (simp add: divide_right_mono)
    also have "\<dots> \<le> of_int n / of_int d" using r(4) n d by (intro divide_left_mono) simp_all
    finally show ?thesis by (simp add: x)
  qed
  have step: "(2::rat) powi (i + 1) = 2 * 2 powi i" for i by (simp add: power_int_add)
  have half: "(2::rat) powi (i - 1) = 2 powi i / 2" for i by (simp add: power_int_diff)
  show "2 powi exponent x \<le> x" using lo by (auto simp: k pw half)
  show "x < 2 powi (exponent x + 1)" using up by (auto simp: k pw step half)
qed

lemma rnd_0 [simp]: "rnd 0 = 0"
  by (simp add: rnd_def)

lemma rnd_error: "\<bar>rnd x - x\<bar> \<le> \<bar>x\<bar> / 2 ^ 53"
proof (cases "x = 0")
  case False
  define u :: rat where "u = 2 powi (exponent \<bar>x\<bar> - 52)"
  have u: "u > 0" by (simp add: u_def)
  have "rnd x - x = (of_int (round_half_even (x / u)) - x / u) * u" using False u by (simp add: rnd_def Let_def u_def left_diff_distrib)
  then have "\<bar>rnd x - x\<bar> = \<bar>of_int (round_half_even (x / u)) - x / u\<bar> * u" using u by (simp add: abs_mult)
  also have "\<dots> \<le> 1 / 2 * u" using round_half_even_error [of "x / u"] u by (intro mult_right_mono) simp_all
  also have "\<dots> = 2 powi exponent \<bar>x\<bar> / 2 ^ 53" by (simp add: u_def power_int_diff)
  also have "\<dots> \<le> \<bar>x\<bar> / 2 ^ 53" using exponent_bounds(1) [of "\<bar>x\<bar>"] False by (intro divide_right_mono) simp_all
  finally show ?thesis .
qed simp

lemma rnd_of_int:
  assumes "\<bar>n\<bar> \<le> 2 ^ 52"
  shows "rnd (of_int n) = of_int n"
proof (cases "n = 0")
  case False
  let ?x = "\<bar>of_int n :: rat\<bar>"
  have pos: "?x > 0" using False by simp
  have "exponent ?x \<le> 52"
  proof (rule ccontr)
    assume "\<not> ?thesis"
    then have "(2::rat) powi 53 \<le> 2 powi exponent ?x" by (intro power_int_increasing) simp_all
    also have "\<dots> \<le> ?x" using exponent_bounds(1) [OF pos] .
    also have "\<dots> = of_int \<bar>n\<bar>" by simp
    also have "\<dots> \<le> of_int (2 ^ 52)" using assms by (simp only: of_int_le_iff)
    finally show False by simp
  qed
  then have k: "exponent ?x = 52 - int (nat (52 - exponent ?x))" by simp
  then obtain k where k: "exponent ?x = 52 - int k" by blast
  have "round_half_even (of_int n * 2 ^ k) = n * 2 ^ k" using round_half_even_of_int [of "n * 2 ^ k"] by simp
  then show ?thesis using False by (simp add: rnd_def Let_def k power_int_minus field_simps)
qed simp

lemma rnd_nonneg: "0 \<le> x \<Longrightarrow> 0 \<le> rnd x"
proof -
  assume "0 \<le> x"
  moreover from this have "\<bar>x\<bar> / 2 ^ 53 \<le> x" by simp
  ultimately show ?thesis using rnd_error [of x] by linarith
qed

lemma fmt_2f_near: "0 \<le> x \<Longrightarrow> 0 \<le> k \<Longrightarrow> \<bar>x * 100 - of_int k\<bar> < 1 / 2 \<Longrightarrow> fmt_2f x = fmt_2f (of_int k / 100)"
  using round_half_even_near [of "x * 100" k] by (simp add: fmt_2f_def Let_def)

lemma int32_wrap: "2 ^ 31 \<le> x \<Longrightarrow> x < 2 ^ 32 \<Longrightarrow> int32 x = x - 2 ^ 32"
proof -
  assume "2 ^ 31 \<le> x" "x < 2 ^ 32"
  then have "int32 (x - 2 ^ 32) = x - 2 ^ 32" by (intro int32_id) simp_all
  moreover have "int32 x = int32 (x - 2 ^ 32)"
    by (simp add: int32_def signed_take_bit_eq_iff_take_bit_eq take_bit_eq_mod mod_diff_eq [symmetric])
  ultimately show ?thesis by simp
qed

lemma rnd_neg: "x < 0 \<Longrightarrow> rnd x < 0"
proof -
  assume "x < 0"
  moreover from this have "\<bar>x\<bar> / 2 ^ 53 < - x" by simp
  ultimately show ?thesis using rnd_error [of x] by linarith
qed

end
