(* ===== verification/SplitClients.thy ===== *)
theory SplitClients
  imports Float64 Servers
begin

text \<open>
  The split clients that distribute the requests of a rule over its backends, and the requests that are mirrored
  (\<^verbatim>\<open>internal/controller/nginx/config/split_clients.go\<close> and its template). The properties say that the printed percentages
  of a group add up to one hundred percent and follow the weights, although they are computed with doubles.
\<close>

section \<open>Split clients\<close>

record SplitClientDistribution =
  scd_Percent :: string
  scd_Value :: string

record SplitClient =
  scl_VariableName :: string
  scl_Distributions :: "SplitClientDistribution list"

definition createRequestMirrorSplitClients :: "'p VirtualServer list \<Rightarrow> SplitClient list" where
  "createRequestMirrorSplitClients servers =
     concat (map (\<lambda>server. map (\<lambda>(path, percentage).
         \<lparr>scl_VariableName = convertSplitClientVariableName (path @ ''_'' @ fmt_2f percentage),
          scl_Distributions = [\<lparr>scd_Percent = fmt_2f percentage, scd_Value = path\<rparr>, \<lparr>scd_Percent = ''*'', scd_Value = [CHR 0x22, CHR 0x22]\<rparr>]\<rparr>)
       (filter (\<lambda>(path, percentage). percentage \<noteq> 100) (extractMirrorTargetsWithPercentages (vs_PathRules server)))) servers)"

definition removeDuplicateSplitClients :: "SplitClient list \<Rightarrow> SplitClient list" where
  "removeDuplicateSplitClients splitClients = first_by scl_VariableName {} splitClients"

definition getSplitClientValue :: "Backend \<Rightarrow> NamespacedName \<Rightarrow> nat \<Rightarrow> nat \<Rightarrow> string" where
  "getSplitClientValue b source ruleIdx pathRuleIdx =
     (if b_Valid b then
        (if b_EndpointPickerConfig b \<noteq> None then generateInternalInferenceEPPLocationPath (b_UpstreamName b) source ruleIdx pathRuleIdx
         else b_UpstreamName b)
      else invalidBackendRef)"

definition percentOf :: "int \<Rightarrow> int \<Rightarrow> rat" where
  "percentOf weight totalWeight =
     (let p = fdiv (fmul (of_int weight) 100) (of_int totalWeight) in fdiv (of_int \<lfloor>fmul p 100\<rfloor>) 100)"

definition total_weight :: "Backend list \<Rightarrow> int" where
  "total_weight backends = fold (\<lambda>b t. int32 (t + b_Weight b)) backends 0"

definition distribution_step ::
    "BackendGroup \<Rightarrow> int \<Rightarrow> Backend \<Rightarrow> rat \<times> SplitClientDistribution list \<Rightarrow> rat \<times> SplitClientDistribution list" where
  "distribution_step bg totalWeight b st =
     (let (availablePercentage, distributions) = st; percentage = percentOf (b_Weight b) totalWeight in
      (fsub availablePercentage percentage,
       distributions @ [\<lparr>scd_Percent = fmt_2f percentage,
         scd_Value = getSplitClientValue b (bg_Source bg) (bg_RuleIdx bg) (bg_PathRuleIdx bg)\<rparr>]))"

definition createBackendGroupSplitClientDistributions :: "BackendGroup \<Rightarrow> SplitClientDistribution list" where
  "createBackendGroupSplitClientDistributions bg =
     (if \<not> backendGroupNeedsSplit bg then []
      else
        let backends = bg_Backends bg; totalWeight = total_weight backends in
        if totalWeight = 0 then [\<lparr>scd_Percent = ''100'', scd_Value = invalidBackendRef\<rparr>]
        else
          let (availablePercentage, distributions) = fold (distribution_step bg totalWeight) (butlast backends) (100, []);
              lastBackend = last backends in
          distributions @ [\<lparr>scd_Percent = fmt_2f availablePercentage,
            scd_Value = getSplitClientValue lastBackend (bg_Source bg) (bg_RuleIdx bg) (bg_PathRuleIdx bg)\<rparr>])"

definition createBackendGroupSplitClients :: "BackendGroup list \<Rightarrow> SplitClient list" where
  "createBackendGroupSplitClients backendGroups =
     concat (map (\<lambda>bg.
       let variableName = convertStringToSafeVariableName (BackendGroup_Name bg);
           distributions = createBackendGroupSplitClientDistributions bg in
       if distributions = [] then []
       else [\<lparr>scl_VariableName =
                (if b_EndpointPickerConfig (hd (bg_Backends bg)) \<noteq> None then createInferenceSplitClientsVariableName variableName
                 else variableName),
              scl_Distributions = distributions\<rparr>]) backendGroups)"

definition collectAllSplitClients :: "BackendGroup list \<Rightarrow> 'p VirtualServer list \<Rightarrow> 'p VirtualServer list \<Rightarrow> SplitClient list" where
  "collectAllSplitClients backendGroups httpServers sslServers =
     removeDuplicateSplitClients
       (createBackendGroupSplitClients backendGroups @ createRequestMirrorSplitClients httpServers @ createRequestMirrorSplitClients sslServers)"

text \<open>The line the template prints for a distribution, and the whole block of a split client.\<close>

definition distribution_line :: "SplitClientDistribution \<Rightarrow> string" where
  "distribution_line d =
     CHR 0x0A # ''    '' @
     (if scd_Percent d = ''0.00'' then ''# '' @ scd_Percent d @ ''% '' @ scd_Value d
      else if scd_Percent d = ''*'' then ''* '' @ scd_Value d
      else scd_Percent d @ ''% '' @ scd_Value d) @ '';''"

definition splitClientsTemplateText :: "SplitClient list \<Rightarrow> string" where
  "splitClientsTemplateText splitClients =
     CHR 0x0A # concat (map (\<lambda>sc.
       CHR 0x0A # ''split_clients $request_id $'' @ scl_VariableName sc @ '' {'' @
       concat (map distribution_line (scl_Distributions sc)) @ [CHR 0x0A, CHR 0x7D, CHR 0x0A]) splitClients) @ [CHR 0x0A]"

section \<open>Percentages\<close>

text \<open>The hundredths of a percent a backend gets: the rounded down share, or one less when the doubles miss a whole number.\<close>

definition share :: "int \<Rightarrow> int \<Rightarrow> int" where
  "share w t = \<lfloor>fmul (fdiv (fmul (of_int w) 100) (of_int t)) 100\<rfloor>"

lemma percentOf_share: "percentOf w t = fdiv (of_int (share w t)) 100"
  by (simp add: percentOf_def share_def Let_def)

lemma share_error:
  assumes "0 \<le> w" and "w \<le> t" and "0 < t" and "t < 2 ^ 31"
  shows "\<bar>fmul (fdiv (fmul (of_int w) 100) (of_int t)) 100 - 10000 * of_int w / of_int t\<bar> < 1 / 2 ^ 31"
proof -
  define s :: rat where "s = of_int w / of_int t"
  have s: "0 \<le> s" "s \<le> 1" using assms by (simp_all add: s_def)
  have "fmul (of_int w) 100 = 100 * of_int w" using rnd_of_int [of "w * 100"] assms by (simp add: fmul_def)
  then have p: "fdiv (fmul (of_int w) 100) (of_int t) = rnd (100 * s)" by (simp add: fdiv_def s_def)
  let ?p = "rnd (100 * s)"
  have "\<bar>?p - 100 * s\<bar> \<le> 100 * s / 2 ^ 53" using rnd_error [of "100 * s"] s by simp
  also have "\<dots> \<le> 1 / 10000000000000" using s by simp
  finally have 1: "\<bar>?p - 100 * s\<bar> \<le> 1 / 10000000000000" .
  then have le: "?p \<le> 101" using s by linarith
  have "\<bar>rnd (?p * 100) - ?p * 100\<bar> \<le> ?p * 100 / 2 ^ 53"
    using rnd_error [of "?p * 100"] rnd_nonneg [of "100 * s"] s by simp
  also have "\<dots> \<le> 1 / 100000000000" using le by simp
  finally have 2: "\<bar>rnd (?p * 100) - ?p * 100\<bar> \<le> 1 / 100000000000" .
  have "\<bar>rnd (?p * 100) - 10000 * s\<bar> < 1 / 2147483648" using 1 2 unfolding abs_le_iff abs_less_iff by linarith
  then show ?thesis unfolding p by (simp add: fmul_def s_def)
qed

lemma share_bounds:
  assumes "0 \<le> w" and "w \<le> t" and "0 < t" and "t < 2 ^ 31"
  shows "t * share w t \<le> 10000 * w" and "10000 * w \<le> t * (share w t + 1)" and "0 \<le> share w t"
proof -
  define q :: rat where "q = fmul (fdiv (fmul (of_int w) 100) (of_int t)) 100"
  have "(of_int t :: rat) < of_int (2 ^ 31)" using assms(4) by (simp only: of_int_less_iff)
  then have t: "0 < (of_int t :: rat)" "(of_int t :: rat) < 2 ^ 31" using assms(3) by simp_all
  have err: "\<bar>q - 10000 * of_int w / of_int t\<bar> * of_int t < 1"
  proof -
    have "\<bar>q - 10000 * of_int w / of_int t\<bar> * of_int t \<le> 1 / 2 ^ 31 * of_int t"
      using share_error [OF assms] t by (intro mult_right_mono) (simp_all add: q_def less_imp_le)
    also have "\<dots> < 1" using t by simp
    finally show ?thesis .
  qed
  have "(q - 10000 * of_int w / of_int t) * of_int t = of_int t * q - 10000 * of_int w" using t by (simp add: field_simps)
  then have "\<bar>of_int t * q - 10000 * of_int w\<bar> = \<bar>q - 10000 * of_int w / of_int t\<bar> * of_int t"
    using t abs_mult [of "q - 10000 * of_int w / of_int t" "of_int t"] by simp
  then have d: "\<bar>of_int t * q - 10000 * of_int w\<bar> < 1" using err by simp
  have fl: "of_int (share w t) \<le> q" "q < of_int (share w t) + 1" unfolding share_def q_def by linarith+
  have "(of_int t :: rat) * of_int (share w t) \<le> of_int t * q" using fl t by simp
  then have "(of_int (t * share w t) :: rat) < of_int (10000 * w + 1)" using d by (simp add: abs_less_iff)
  then show 1: "t * share w t \<le> 10000 * w" by (simp only: of_int_less_iff)
  have "(of_int t :: rat) * q \<le> of_int t * (of_int (share w t) + 1)" using fl t by simp
  then have "(of_int (10000 * w) :: rat) < of_int (t * (share w t + 1) + 1)" using d by (simp add: abs_less_iff)
  then show 2: "10000 * w \<le> t * (share w t + 1)" by (simp only: of_int_less_iff)
  have "0 \<le> q" using assms by (simp add: q_def fmul_def fdiv_def rnd_nonneg)
  then show "0 \<le> share w t" by (simp add: share_def q_def)
qed

lemma share_le: "0 \<le> w \<Longrightarrow> w \<le> t \<Longrightarrow> 0 < t \<Longrightarrow> t < 2 ^ 31 \<Longrightarrow> share w t \<le> 10000"
proof -
  assume a: "0 \<le> w" "w \<le> t" "0 < t" "t < 2 ^ 31"
  have "t * share w t \<le> t * 10000" using share_bounds(1) [OF a] a(2) by linarith
  then show ?thesis using a(3) by (rule mult_left_le_imp_le)
qed

lemma percentOf_error:
  assumes "0 \<le> h" and "h \<le> 10000"
  shows "\<bar>fdiv (of_int h) 100 - of_int h / 100\<bar> \<le> 1 / 10000000000000" and "0 \<le> fdiv (of_int h) 100"
    and "fmt_2f (fdiv (of_int h) 100) = fmt_2f (of_int h / 100)"
proof -
  have h: "0 \<le> (of_int h :: rat)" "(of_int h :: rat) \<le> 10000"
    using assms of_int_le_iff [of h 10000, where ?'a = rat] by simp_all
  have "\<bar>fdiv (of_int h) 100 - of_int h / 100\<bar> \<le> of_int h / 100 / 2 ^ 53" using rnd_error [of "of_int h / 100"] h by (simp add: fdiv_def)
  also have "\<dots> \<le> 1 / 10000000000000" using h by simp
  finally show 1: "\<bar>fdiv (of_int h) 100 - of_int h / 100\<bar> \<le> 1 / 10000000000000" .
  show 2: "0 \<le> fdiv (of_int h) 100" using h by (simp add: fdiv_def rnd_nonneg)
  show "fmt_2f (fdiv (of_int h) 100) = fmt_2f (of_int h / 100)"
  proof (rule fmt_2f_near [OF 2 assms(1)])
    show "\<bar>fdiv (of_int h) 100 * 100 - of_int h\<bar> < 1 / 2" using 1 unfolding abs_le_iff abs_less_iff by linarith
  qed
qed

lemma remaining_error:
  fixes a d v h n :: rat
  assumes "\<bar>a - v\<bar> \<le> n / 100000000000" and "n \<le> 1000" and "\<bar>d - h\<bar> \<le> 1 / 10000000000000" and "0 \<le> h" and "h \<le> v" and "v \<le> 100"
  shows "\<bar>fsub a d - (v - h)\<bar> \<le> (n + 1) / 100000000000"
proof -
  have "\<bar>a - d\<bar> \<le> 101" using assms unfolding abs_le_iff by linarith
  then have "\<bar>a - d\<bar> / 2 ^ 53 \<le> 1 / 10000000000000" by simp
  with rnd_error [of "a - d"] have "\<bar>fsub a d - (a - d)\<bar> \<le> 1 / 10000000000000" unfolding fsub_def by (rule order_trans)
  then have "\<bar>fsub a d - (v - h)\<bar> \<le> n / 100000000000 + 2 / 10000000000000" using assms(1,3) unfolding abs_le_iff by linarith
  also have "\<dots> \<le> (n + 1) / 100000000000" by simp
  finally show ?thesis .
qed

definition entry :: "BackendGroup \<Rightarrow> string \<Rightarrow> Backend \<Rightarrow> SplitClientDistribution" where
  "entry bg pct b = \<lparr>scd_Percent = pct, scd_Value = getSplitClientValue b (bg_Source bg) (bg_RuleIdx bg) (bg_PathRuleIdx bg)\<rparr>"

lemma sum_share_le:
  assumes "\<forall>b \<in> set bs. 0 \<le> b_Weight b" and "sum_list (map b_Weight bs) \<le> t" and "0 < t" and "t < 2 ^ 31"
  shows "t * sum_list (map (\<lambda>b. share (b_Weight b) t) bs) \<le> 10000 * sum_list (map b_Weight bs)"
    and "10000 * sum_list (map b_Weight bs) \<le> t * (sum_list (map (\<lambda>b. share (b_Weight b) t) bs) + int (length bs))"
proof -
  have "t * sum_list (map (\<lambda>b. share (b_Weight b) t) bs) \<le> 10000 * sum_list (map b_Weight bs) \<and>
    10000 * sum_list (map b_Weight bs) \<le> t * (sum_list (map (\<lambda>b. share (b_Weight b) t) bs) + int (length bs))"
    using assms(1,2)
  proof (induction bs)
    case (Cons b bs)
    have nn: "0 \<le> sum_list (map b_Weight bs)" using Cons.prems(1) by (intro sum_list_nonneg) auto
    then show ?case using Cons share_bounds [of "b_Weight b" t] assms(3,4) by (simp add: distrib_left)
  qed simp
  then show "t * sum_list (map (\<lambda>b. share (b_Weight b) t) bs) \<le> 10000 * sum_list (map b_Weight bs)"
    and "10000 * sum_list (map b_Weight bs) \<le> t * (sum_list (map (\<lambda>b. share (b_Weight b) t) bs) + int (length bs))" by simp_all
qed

lemma total_weight_sum:
  assumes "\<forall>b \<in> set bs. 0 \<le> b_Weight b" and "sum_list (map b_Weight bs) < 2 ^ 31"
  shows "total_weight bs = sum_list (map b_Weight bs)"
proof -
  have "fold (\<lambda>b t. int32 (t + b_Weight b)) bs t = t + sum_list (map b_Weight bs)"
    if "0 \<le> t" "\<forall>b \<in> set bs. 0 \<le> b_Weight b" "t + sum_list (map b_Weight bs) < 2 ^ 31" for t
    using that
  proof (induction bs arbitrary: t)
    case (Cons b bs)
    have "0 \<le> sum_list (map b_Weight bs)" using Cons.prems(2) by (intro sum_list_nonneg) auto
    then have "int32 (t + b_Weight b) = t + b_Weight b" using Cons.prems by (intro int32_id) simp_all
    then show ?case using Cons by (simp add: add.assoc)
  qed simp
  from this [of 0] assms show ?thesis by (simp add: total_weight_def)
qed

lemma member_le_sum_list_int: "x \<in> set xs \<Longrightarrow> \<forall>y \<in> set xs. 0 \<le> y \<Longrightarrow> x \<le> (sum_list xs :: int)"
proof (induction xs)
  case (Cons a xs)
  then have "0 \<le> sum_list xs" by (intro sum_list_nonneg) auto
  with Cons show ?case by (cases "x = a") force+
qed simp

lemma sum_share_nonneg:
  assumes "\<forall>b \<in> set bs. 0 \<le> b_Weight b" and "sum_list (map b_Weight bs) \<le> t" and "0 < t" and "t < 2 ^ 31"
  shows "0 \<le> sum_list (map (\<lambda>b. share (b_Weight b) t) bs)"
proof (rule sum_list_nonneg)
  fix x assume "x \<in> set (map (\<lambda>b. share (b_Weight b) t) bs)"
  then obtain b where b: "b \<in> set bs" and x: "x = share (b_Weight b) t" by auto
  have "b_Weight b \<le> sum_list (map b_Weight bs)" using b assms(1) by (intro member_le_sum_list_int) auto
  then show "0 \<le> x" unfolding x using b assms by (intro share_bounds(3)) auto
qed

lemma distribution_loop:
  assumes "\<forall>b \<in> set bs. 0 \<le> b_Weight b" and "sum_list (map b_Weight bs) \<le> t" and "0 < t" and "t < 2 ^ 31" and "length bs \<le> 1000"
  shows "\<exists>a. fold (distribution_step bg t) bs (100, []) =
      (a, map (\<lambda>b. entry bg (fmt_2f (of_int (share (b_Weight b) t) / 100)) b) bs) \<and>
    \<bar>a - of_int (10000 - sum_list (map (\<lambda>b. share (b_Weight b) t) bs)) / 100\<bar> \<le> of_nat (length bs) / 100000000000"
  using assms(1,2,5)
proof (induction bs rule: rev_induct)
  case (snoc b bs)
  let ?S = "sum_list (map (\<lambda>b. share (b_Weight b) t) bs)" and ?h = "share (b_Weight b) t"
  have nn: "0 \<le> sum_list (map b_Weight bs)" using snoc.prems(1) by (intro sum_list_nonneg) auto
  obtain a where fd: "fold (distribution_step bg t) bs (100, []) = (a, map (\<lambda>b. entry bg (fmt_2f (of_int (share (b_Weight b) t) / 100)) b) bs)"
    and err: "\<bar>a - of_int (10000 - ?S) / 100\<bar> \<le> of_nat (length bs) / 100000000000"
    using snoc.IH snoc.prems by auto
  have w: "0 \<le> b_Weight b" "b_Weight b \<le> t" using snoc.prems nn by simp_all
  have h: "0 \<le> ?h" "?h \<le> 10000" using share_bounds(3) [OF w assms(3,4)] share_le [OF w assms(3,4)] by simp_all
  have "t * (?S + ?h) \<le> 10000 * (sum_list (map b_Weight bs) + b_Weight b)"
    using sum_share_le(1) [of "bs @ [b]" t] snoc.prems assms(3,4) by simp
  then have "t * (?S + ?h) \<le> t * 10000" using snoc.prems(2) by simp
  then have sum: "?S + ?h \<le> 10000" using assms(3) by (rule mult_left_le_imp_le)
  have S: "0 \<le> ?S" using snoc.prems assms(3,4) w(1) by (intro sum_share_nonneg) simp_all
  have r: "(of_int ?h :: rat) / 100 \<le> of_int (10000 - ?S) / 100" "(of_int (10000 - ?S) :: rat) / 100 \<le> 100"
    using sum S of_int_le_iff [of ?h "10000 - ?S", where ?'a = rat] of_int_le_iff [of "10000 - ?S" 10000, where ?'a = rat] by simp_all
  have "\<bar>fsub a (percentOf (b_Weight b) t) - (of_int (10000 - ?S) / 100 - of_int ?h / 100)\<bar> \<le> (of_nat (length bs) + 1) / 100000000000"
    unfolding percentOf_share using h(1) r snoc.prems(3) by (intro remaining_error [OF err] percentOf_error(1) h) simp_all
  moreover have "of_int (10000 - ?S) / 100 - of_int ?h / 100 = (of_int (10000 - (?S + ?h)) / 100 :: rat)"
    by (simp add: diff_divide_distrib add_divide_distrib)
  ultimately have "\<bar>fsub a (percentOf (b_Weight b) t) - of_int (10000 - (?S + ?h)) / 100\<bar> \<le> of_nat (Suc (length bs)) / 100000000000"
    by (simp only: of_nat_Suc add.commute)
  moreover have "fold (distribution_step bg t) (bs @ [b]) (100, []) =
      (fsub a (percentOf (b_Weight b) t), map (\<lambda>b. entry bg (fmt_2f (of_int (share (b_Weight b) t) / 100)) b) (bs @ [b]))"
    using percentOf_error(3) [OF h] by (simp add: fd distribution_step_def entry_def percentOf_share)
  ultimately show ?case by (simp only: map_append list.map sum_list.append sum_list.Cons sum_list.Nil length_append list.size add_0_right) force
qed simp

lemma show_int_0: "show_int 0 = ''0''"
  by code_simp

lemma last_percentage:
  assumes "\<bar>a - of_int k / 100\<bar> \<le> of_nat n / 100000000000" and "n \<le> 1000" and "0 \<le> k"
  shows "fmt_2f a = fmt_2f (of_int k / 100) \<or> k = 0 \<and> fmt_2f a = ''-0.00''"
proof -
  have "(of_nat n :: rat) \<le> 1000" using assms(2) of_nat_le_iff [of n 1000, where ?'a = rat] by simp
  then have near: "\<bar>a * 100 - of_int k\<bar> < 1 / 2" using assms(1) unfolding abs_le_iff abs_less_iff by linarith
  show ?thesis
  proof (cases "0 \<le> a")
    case True
    then show ?thesis using fmt_2f_near [OF _ assms(3) near] by simp
  next
    case False
    then have "(of_int k :: rat) < of_int 1" using near unfolding abs_less_iff by simp
    then have k: "k = 0" using assms(3) by (simp only: of_int_less_iff)
    then have "round_half_even (\<bar>a\<bar> * 100) = 0" using near False by (intro round_half_even_near) simp
    then have "fmt_2f a = ''-0.00''" using False show_int_0 by (simp add: fmt_2f_def Let_def)
    with k show ?thesis by simp
  qed
qed

section \<open>Properties\<close>

text \<open>
  C10. The percentages printed for a group of backends add up to exactly one hundred percent and follow the weights: counted in
  hundredths of a percent, every backend but the last gets its share rounded down, at most one hundredth less, and the last one
  gets the rest. This holds although the code computes with doubles. When nothing is left for the last backend its percentage
  is printed as 0.00 or as -0.00. There may be up to a thousand backends, with weights that are not negative and a sum that
  is positive and fits in 32 bits.
\<close>

theorem split_percentages:
  assumes "2 \<le> length (bg_Backends bg)" and "length (bg_Backends bg) \<le> 1000" and "\<forall>b \<in> set (bg_Backends bg). 0 \<le> b_Weight b"
    and "t = sum_list (map b_Weight (bg_Backends bg))" and "0 < t" and "t < 2 ^ 31" and "n = length (bg_Backends bg) - 1"
  shows "\<exists>ks. length ks = Suc n \<and> sum_list ks = 10000 \<and>
    (\<forall>i < n. 0 \<le> ks ! i \<and> t * ks ! i \<le> 10000 * b_Weight (bg_Backends bg ! i) \<and> 10000 * b_Weight (bg_Backends bg ! i) \<le> t * (ks ! i + 1)) \<and>
    10000 * b_Weight (bg_Backends bg ! n) \<le> t * ks ! n \<and> t * ks ! n \<le> 10000 * b_Weight (bg_Backends bg ! n) + t * int n \<and>
    (\<exists>pct. createBackendGroupSplitClientDistributions bg =
        map (\<lambda>i. entry bg (fmt_2f (of_int (ks ! i) / 100)) (bg_Backends bg ! i)) [0..<n] @ [entry bg pct (bg_Backends bg ! n)] \<and>
      (pct = fmt_2f (of_int (ks ! n) / 100) \<or> ks ! n = 0 \<and> pct = ''-0.00''))"
proof -
  let ?bs = "bg_Backends bg"
  define ini where "ini = butlast ?bs"
  define l where "l = last ?bs"
  have bs: "?bs = ini @ [l]" using assms(1) by (cases ?bs rule: rev_cases) (auto simp: ini_def l_def)
  have n: "length ini = n" using assms(7) by (simp add: ini_def)
  have w: "\<forall>b \<in> set ini. 0 \<le> b_Weight b" "0 \<le> b_Weight l" using assms(3) by (simp_all add: bs)
  have t: "sum_list (map b_Weight ini) + b_Weight l = t" using assms(4) by (simp add: bs)
  then have le: "sum_list (map b_Weight ini) \<le> t" using w(2) by simp
  have tw: "total_weight ?bs = t" using total_weight_sum [OF assms(3)] assms(4,6) by simp
  define hs where "hs = map (\<lambda>b. share (b_Weight b) t) ini"
  define k where "k = 10000 - sum_list hs"
  note sums = sum_share_le [OF w(1) le assms(5,6), folded hs_def]
  have "t * sum_list hs \<le> t * 10000" using sums(1) le by linarith
  then have "0 \<le> k" using assms(5) by (simp add: k_def)
  have n1: "n \<le> 1000" using assms(2,7) by simp
  obtain a where fd: "fold (distribution_step bg t) ini (100, []) = (a, map (\<lambda>b. entry bg (fmt_2f (of_int (share (b_Weight b) t) / 100)) b) ini)"
    and err: "\<bar>a - of_int k / 100\<bar> \<le> of_nat n / 100000000000"
    using distribution_loop [OF w(1) le assms(5,6), of bg] n1 n unfolding k_def hs_def by auto
  have ds: "createBackendGroupSplitClientDistributions bg =
      map (\<lambda>b. entry bg (fmt_2f (of_int (share (b_Weight b) t) / 100)) b) ini @ [entry bg (fmt_2f a) l]"
    using assms(1,5) tw fd by (simp add: createBackendGroupSplitClientDistributions_def backendGroupNeedsSplit_def Let_def entry_def ini_def l_def)
  have "map (\<lambda>b. entry bg (fmt_2f (of_int (share (b_Weight b) t) / 100)) b) ini =
      map (\<lambda>i. entry bg (fmt_2f (of_int ((hs @ [k]) ! i) / 100)) (?bs ! i)) [0..<n]"
    by (rule nth_equalityI) (auto simp: n hs_def bs nth_append)
  moreover have "0 \<le> hs ! i \<and> t * hs ! i \<le> 10000 * b_Weight (?bs ! i) \<and> 10000 * b_Weight (?bs ! i) \<le> t * (hs ! i + 1)" if "i < n" for i
  proof -
    have i: "ini ! i \<in> set ini" "?bs ! i = ini ! i" "hs ! i = share (b_Weight (ini ! i)) t" using that n by (simp_all add: bs nth_append hs_def)
    have "b_Weight (ini ! i) \<le> sum_list (map b_Weight ini)" using i w(1) by (intro member_le_sum_list_int) auto
    then show ?thesis using i w(1) le share_bounds [of "b_Weight (ini ! i)" t] assms(5,6) by simp
  qed
  moreover have "10000 * b_Weight l \<le> t * k" "t * k \<le> 10000 * b_Weight l + t * int n"
    using sums t by (simp_all add: k_def n algebra_simps)
  moreover have "length hs = n" "?bs ! n = l" using n by (simp_all add: hs_def bs nth_append)
  moreover note last_percentage [OF err n1 \<open>0 \<le> k\<close>]
  ultimately show ?thesis using ds by (intro exI [of _ "hs @ [k]"]) (auto simp: nth_append k_def)
qed

definition sample_backend :: "string \<Rightarrow> int \<Rightarrow> Backend" where
  "sample_backend name weight =
     \<lparr>b_VerifyTLS = None, b_EndpointPickerConfig = None, b_UpstreamName = name, b_ExternalHostname = [], b_AppProtocol = [],
      b_Weight = weight, b_Valid = True\<rparr>"

definition sample_group :: "Backend list \<Rightarrow> BackendGroup" where
  "sample_group backends = \<lparr>bg_Source = \<lparr>nn_Namespace = ''ns'', nn_Name = ''r''\<rparr>, bg_Backends = backends, bg_RuleIdx = 0, bg_PathRuleIdx = 0\<rparr>"

theorem split_percentages_witness:
  "createBackendGroupSplitClientDistributions (sample_group [sample_backend ''a'' 1, sample_backend ''b'' 2]) =
     [\<lparr>scd_Percent = ''33.33'', scd_Value = ''a''\<rparr>, \<lparr>scd_Percent = ''66.67'', scd_Value = ''b''\<rparr>] \<and>
   (\<exists>ks :: int list. length ks = 2 \<and> sum_list ks = 10000 \<and> 3 * ks ! 0 \<le> 10000 \<and> 10000 \<le> 3 * (ks ! 0 + 1))"
proof
  let ?g = "sample_group [sample_backend ''a'' 1, sample_backend ''b'' 2]"
  show "createBackendGroupSplitClientDistributions ?g =
     [\<lparr>scd_Percent = ''33.33'', scd_Value = ''a''\<rparr>, \<lparr>scd_Percent = ''66.67'', scd_Value = ''b''\<rparr>]" by code_simp
  have "2 \<le> length (bg_Backends ?g)" "length (bg_Backends ?g) \<le> 1000" "\<forall>b \<in> set (bg_Backends ?g). 0 \<le> b_Weight b"
    "3 = sum_list (map b_Weight (bg_Backends ?g))" "1 = length (bg_Backends ?g) - 1"
    by (simp_all add: sample_group_def sample_backend_def)
  from split_percentages [OF this(1-4) _ _ this(5)]
  show "\<exists>ks :: int list. length ks = 2 \<and> sum_list ks = 10000 \<and> 3 * ks ! 0 \<le> 10000 \<and> 10000 \<le> 3 * (ks ! 0 + 1)"
    by (auto simp: sample_group_def sample_backend_def numeral_2_eq_2)
qed

text \<open>
  C40. The rest of a group can be printed with a minus sign. For the weights 83, 42 and 0 the doubles leave slightly less than
  nothing for the last backend; its percentage is -0.00, which the template does not turn into a comment, as it does with 0.00,
  and so the generated file has a line with a negative percentage.
\<close>

theorem split_percentage_negative:
  assumes "bg_Backends bg = [b1, b2, b3]" and "b_Weight b1 = 83" and "b_Weight b2 = 42" and "b_Weight b3 = 0"
  shows "distribution_line (last (createBackendGroupSplitClientDistributions bg)) =
    CHR 0x0A # ''    -0.00% '' @ getSplitClientValue b3 (bg_Source bg) (bg_RuleIdx bg) (bg_PathRuleIdx bg) @ '';''"
proof -
  have "total_weight [b1, b2, b3] = int32 (int32 (int32 (0 + 83) + 42) + 0)" using assms by (simp add: total_weight_def)
  also have "\<dots> = 125" by code_simp
  finally have t: "total_weight [b1, b2, b3] = 125" .
  have "fmt_2f (fsub (fsub 100 (percentOf 83 125)) (percentOf 42 125)) = ''-0.00''" by code_simp
  then show ?thesis
    using assms t by (simp add: createBackendGroupSplitClientDistributions_def backendGroupNeedsSplit_def distribution_step_def distribution_line_def Let_def)
qed

theorem split_percentage_negative_witness:
  "distribution_line (last (createBackendGroupSplitClientDistributions
     (sample_group [sample_backend ''a'' 83, sample_backend ''b'' 42, sample_backend ''c'' 0]))) = CHR 0x0A # ''    -0.00% c;''"
  using split_percentage_negative [of "sample_group [sample_backend ''a'' 83, sample_backend ''b'' 42, sample_backend ''c'' 0]"]
  by (simp add: sample_group_def sample_backend_def getSplitClientValue_def)

end
