(* ===== verification/AuthZ.thy ===== *)
theory AuthZ
  imports Dataplane
begin

text \<open>
  Authorization by the claims of a JSON Web Token: the part of \<^verbatim>\<open>internal/controller/state/dataplane/configuration.go\<close> that
  turns the rules of an AuthenticationFilter into NGINX maps (\<^verbatim>\<open>buildAuthZConfigFromAuthZSpec\<close> and what it calls). The
  properties say what the maps compute, given what NGINX documents about maps, variables and regular expressions, and that a
  rule that requires all claims can be passed without them.
\<close>

section \<open>Maps\<close>

record MapParameter =
  mp_Value :: string
  mp_Result :: string

record Map =
  mp_Source :: string
  mp_Variable :: string
  mp_Parameters :: "MapParameter list"

record AuthZRuleMap =
  zr_Require :: RequireType
  zr_Maps :: "Map list"

record AuthZMap =
  zm_Require :: RequireType
  zm_Map :: Map

record AuthZConfig =
  zc_FilterNsName :: string
  zc_AuthClaimSets :: "(string \<times> string list) list"
  zc_RuleMaps :: "AuthZRuleMap list"
  zc_AuthZMap :: "AuthZMap option"
  zc_RequireVariable :: string
  zc_ProxySetHeaders :: "HTTPHeader list"

section \<open>Names and patterns\<close>

definition sanitizeVariablePrefix :: "string \<Rightarrow> string" where
  "sanitizeVariablePrefix value = map (\<lambda>c. if c \<in> {CHR ''-'', CHR ''.'', CHR ''/''} then CHR ''_'' else c) value"

definition generateClaimVariableName :: "string \<Rightarrow> string \<Rightarrow> string" where
  "generateClaimVariableName filterPrefix claimName = ''$'' @ filterPrefix @ ''_claim_'' @ sanitizeVariablePrefix claimName"

definition splitClaimName :: "string \<Rightarrow> string list" where
  "splitClaimName name = split_on (CHR ''/'') name"

record claimPatternAnchors =
  an_prefix :: string
  an_suffix :: string

definition allAnchors :: claimPatternAnchors where
  "allAnchors = \<lparr>an_prefix = ''(?:.*,)?'', an_suffix = ''(?:,.*)?''\<rparr>"

definition anyAnchors :: claimPatternAnchors where
  "anyAnchors = \<lparr>an_prefix = ''(?:^|,)'', an_suffix = ''(?:,|$)''\<rparr>"

definition backslash :: char where
  "backslash = CHR 0x5C"

definition regexEscape :: "string \<Rightarrow> string" where
  "regexEscape value =
     concat (map (\<lambda>c. if c \<in> set (backslash # ''.+*?^${}()|[]'') then [backslash, c] else [c]) value)"

definition generateListMatchPattern :: "string list \<Rightarrow> string" where
  "generateListMatchPattern patterns = ''('' @ join ''|'' patterns @ '')''"

definition buildMapValuePattern :: "string list \<Rightarrow> ClaimMatchType \<Rightarrow> string" where
  "buildMapValuePattern values matchType =
     (let patterns = map (\<lambda>value. if matchType = ClaimMatchTypeRegex then value else regexEscape value) values in
      case patterns of [p] \<Rightarrow> p | _ \<Rightarrow> generateListMatchPattern patterns)"

definition generateClaimValuePattern :: "string list \<Rightarrow> ClaimMatchType \<Rightarrow> claimPatternAnchors \<Rightarrow> string" where
  "generateClaimValuePattern values matchType anchors =
     (if values = [] then ''.*'' else an_prefix anchors @ buildMapValuePattern values matchType @ an_suffix anchors)"

section \<open>Rules\<close>

definition default_zero :: "string \<Rightarrow> MapParameter list" where
  "default_zero pattern = [\<lparr>mp_Value = pattern, mp_Result = ''1''\<rparr>, \<lparr>mp_Value = ''default'', mp_Result = ''0''\<rparr>]"

text \<open>
  \<^verbatim>\<open>claimShortName\<close> is the claim variable without its prefix, which is the sanitized name. A pattern is written between quotation
  marks.
\<close>

definition quoted :: "string \<Rightarrow> string" where
  "quoted s = CHR 0x22 # s @ [CHR 0x22]"

definition per_claim_map :: "string \<Rightarrow> nat \<Rightarrow> Claim \<Rightarrow> Map" where
  "per_claim_map filterPrefix ruleIndex claim =
     \<lparr>mp_Source = generateClaimVariableName filterPrefix (cl_Name claim),
      mp_Variable = ''$'' @ filterPrefix @ ''_claim_'' @ sanitizeVariablePrefix (cl_Name claim) @ ''_rule_'' @ show_nat ruleIndex,
      mp_Parameters = default_zero (quoted (''~'' @ generateClaimValuePattern (cl_Values claim) (cl_Match claim) anyAnchors))\<rparr>"

definition buildAuthZRuleMapAny :: "string \<Rightarrow> nat \<Rightarrow> Claim list \<Rightarrow> AuthZRuleMap" where
  "buildAuthZRuleMapAny filterPrefix ruleIndex claims =
     (let ruleMaps = map (per_claim_map filterPrefix ruleIndex) claims in
      \<lparr>zr_Require = RequireTypeAny,
       zr_Maps = ruleMaps @
         [\<lparr>mp_Source = join '''' (map mp_Variable ruleMaps),
           mp_Variable = ''$'' @ filterPrefix @ ''_rule_'' @ show_nat ruleIndex @ ''_any'',
           mp_Parameters = default_zero ''~1''\<rparr>]\<rparr>)"

definition all_pattern :: "Claim list \<Rightarrow> string" where
  "all_pattern claims =
     quoted (''~^'' @ join [backslash, CHR ''+''] (map (\<lambda>c. generateClaimValuePattern (cl_Values c) (cl_Match c) allAnchors) claims) @ ''$'')"

definition buildAuthZRuleMapAll :: "string \<Rightarrow> nat \<Rightarrow> Claim list \<Rightarrow> AuthZRuleMap" where
  "buildAuthZRuleMapAll filterPrefix ruleIndex claims =
     \<lparr>zr_Require = RequireTypeAll,
      zr_Maps = [\<lparr>mp_Source = join ''+'' (map (\<lambda>c. generateClaimVariableName filterPrefix (cl_Name c)) claims),
        mp_Variable = ''$'' @ filterPrefix @ ''_rule_'' @ show_nat ruleIndex @ ''_all'',
        mp_Parameters = default_zero (all_pattern claims)\<rparr>]\<rparr>"

definition buildAuthZRuleMap :: "string \<Rightarrow> nat \<Rightarrow> RequireType \<Rightarrow> Claim list \<Rightarrow> AuthZRuleMap" where
  "buildAuthZRuleMap filterPrefix ruleIndex requireType claims =
     (if requireType = RequireTypeAll then buildAuthZRuleMapAll filterPrefix ruleIndex claims
      else buildAuthZRuleMapAny filterPrefix ruleIndex claims)"

definition buildAuthZRuleResultMap :: "string \<Rightarrow> RequireType \<Rightarrow> string list \<Rightarrow> AuthZMap option" where
  "buildAuthZRuleResultMap filterPrefix requireType ruleResultVars =
     (if length ruleResultVars \<le> 1 then None
      else
        let isAny = (requireType = RequireTypeAny) in
        Some \<lparr>zm_Require = requireType,
          zm_Map = \<lparr>mp_Source = join '''' ruleResultVars,
            mp_Variable = ''$'' @ filterPrefix @ (if isAny then ''_authz_require_any'' else ''_authz_require_all''),
            mp_Parameters = default_zero (if isAny then ''~1'' else replicate (length ruleResultVars) (CHR ''1''))\<rparr>\<rparr>)"

definition result_variable :: "AuthZRuleMap \<Rightarrow> string" where
  "result_variable ruleMap = mp_Variable (last (zr_Maps ruleMap))"

definition rule_maps :: "string \<Rightarrow> Rule list \<Rightarrow> AuthZRuleMap list" where
  "rule_maps filterPrefix rules =
     map (\<lambda>(ruleIdx, rule). buildAuthZRuleMap filterPrefix ruleIdx (case ru_Require rule of None \<Rightarrow> RequireTypeAny | Some r \<Rightarrow> r) (ru_Claims rule))
       (zip [0..<length rules] rules)"

definition buildAuthZConfigFromAuthZSpec :: "string \<Rightarrow> Authorization option \<Rightarrow> AuthZConfig option" where
  "buildAuthZConfigFromAuthZSpec filterPrefix authZSpec =
     (case authZSpec of
        None \<Rightarrow> None
      | Some spec \<Rightarrow>
          if az_Rules spec = [] then None
          else
            let claims = concat (map ru_Claims (az_Rules spec));
                ruleMaps = rule_maps filterPrefix (az_Rules spec);
                ruleResultVars = map result_variable ruleMaps;
                authZMap = buildAuthZRuleResultMap filterPrefix (case az_Require spec of None \<Rightarrow> RequireTypeAny | Some r \<Rightarrow> r) ruleResultVars in
            Some \<lparr>zc_FilterNsName = '''',
              zc_AuthClaimSets = first_by fst {} (map (\<lambda>c. (generateClaimVariableName filterPrefix (cl_Name c), splitClaimName (cl_Name c))) claims),
              zc_RuleMaps = ruleMaps,
              zc_AuthZMap = authZMap,
              zc_RequireVariable = (case authZMap of Some am \<Rightarrow> mp_Variable (zm_Map am) | None \<Rightarrow> last ruleResultVars),
              zc_ProxySetHeaders = concat (map (\<lambda>c. case cl_ProxySetHeader c of
                  None \<Rightarrow> []
                | Some h \<Rightarrow> if h = '''' then [] else [\<lparr>hh_Name = h, hh_Value = generateClaimVariableName filterPrefix (cl_Name c)\<rparr>]) claims)\<rparr>)"

definition buildAuthZConfigs :: "(NamespacedName \<times> graph_AuthenticationFilter) list \<Rightarrow> AuthZConfig list" where
  "buildAuthZConfigs authenticationFilters =
     concat (map (\<lambda>(nsName, filt).
       let spec = na_Spec (gaf_Source filt) in
       if \<not> gaf_Valid filt \<or> \<not> gaf_Referenced filt \<or> as_Type spec \<noteq> AuthTypeJWT then []
       else
         case as_JWT spec of
           None \<Rightarrow> []
         | Some jwt \<Rightarrow>
             (case jw_Authorization jwt of
                None \<Rightarrow> []
              | Some az \<Rightarrow>
                  let filterNsName = join ''_'' [nn_Namespace nsName, nn_Name nsName] in
                  (case buildAuthZConfigFromAuthZSpec (sanitizeVariablePrefix filterNsName) (Some az) of
                     None \<Rightarrow> []
                   | Some cfg \<Rightarrow> [cfg\<lparr>zc_FilterNsName := filterNsName\<rparr>]))) authenticationFilters)"

section \<open>What NGINX documents\<close>

text \<open>
  NGINX evaluates the maps. \<open>mt v s\<close> says whether the value \<open>v\<close> of a map parameter matches the string \<open>s\<close>, \<open>interp val s\<close> is the
  string \<open>s\<close> with its variables replaced by their values \<open>val\<close>. The value of a map variable is the result of the first parameter
  that matches. \<open>documented\<close> states what is relied on: replacement of consecutive variables, the regular expression 1, and
  comparison of plain strings.
\<close>

definition plain :: "string \<Rightarrow> bool" where
  "plain s \<longleftrightarrow> list_all (\<lambda>c. c \<noteq> CHR ''$'' \<and> c \<noteq> CHR ''+'') s"

definition is_variable :: "string \<Rightarrow> bool" where
  "is_variable v \<longleftrightarrow> (case v of [] \<Rightarrow> False | c # s \<Rightarrow> c = CHR ''$'' \<and> s \<noteq> [] \<and> plain s)"

fun map_value :: "(string \<Rightarrow> string \<Rightarrow> bool) \<Rightarrow> string \<Rightarrow> MapParameter list \<Rightarrow> string" where
  "map_value mt s [] = []"
| "map_value mt s (p # ps) = (if mp_Value p = ''default'' \<or> mt (mp_Value p) s then mp_Result p else map_value mt s ps)"

definition nginx_maps ::
    "(string \<Rightarrow> string \<Rightarrow> bool) \<Rightarrow> ((string \<Rightarrow> string) \<Rightarrow> string \<Rightarrow> string) \<Rightarrow> (string \<Rightarrow> string) \<Rightarrow> Map list \<Rightarrow> bool" where
  "nginx_maps mt interp val maps \<longleftrightarrow>
     (\<forall>m \<in> set maps. val (mp_Variable m) = map_value mt (interp val (mp_Source m)) (mp_Parameters m))"

definition documented :: "(string \<Rightarrow> string \<Rightarrow> bool) \<Rightarrow> ((string \<Rightarrow> string) \<Rightarrow> string \<Rightarrow> string) \<Rightarrow> bool" where
  "documented mt interp \<longleftrightarrow>
     (\<forall>val vars sep. (\<forall>v \<in> set vars. is_variable v) \<longrightarrow> sep = [] \<or> sep = ''+'' \<longrightarrow> interp val (join sep vars) = join sep (map val vars)) \<and>
     (\<forall>s. mt ''~1'' s \<longleftrightarrow> CHR ''1'' \<in> set s) \<and>
     (\<forall>n s. 0 < n \<longrightarrow> (mt (replicate n (CHR ''1'')) s \<longleftrightarrow> s = replicate n (CHR ''1'')))"

definition config_maps :: "AuthZConfig \<Rightarrow> Map list" where
  "config_maps cfg = concat (map zr_Maps (zc_RuleMaps cfg)) @ (case zc_AuthZMap cfg of None \<Rightarrow> [] | Some am \<Rightarrow> [zm_Map am])"

section \<open>What the rules say\<close>

definition claim_value :: "(string \<Rightarrow> string) \<Rightarrow> string \<Rightarrow> Claim \<Rightarrow> string" where
  "claim_value val p c = val (generateClaimVariableName p (cl_Name c))"

definition any_pattern :: "Claim \<Rightarrow> string" where
  "any_pattern c = quoted (''~'' @ generateClaimValuePattern (cl_Values c) (cl_Match c) anyAnchors)"

definition rule_satisfied :: "(string \<Rightarrow> string \<Rightarrow> bool) \<Rightarrow> (string \<Rightarrow> string) \<Rightarrow> string \<Rightarrow> Rule \<Rightarrow> bool" where
  "rule_satisfied mt val p rule =
     (if ru_Require rule = Some RequireTypeAll then mt (all_pattern (ru_Claims rule)) (join ''+'' (map (claim_value val p) (ru_Claims rule)))
      else list_ex (\<lambda>c. mt (any_pattern c) (claim_value val p c)) (ru_Claims rule))"

definition authz_satisfied :: "(string \<Rightarrow> string \<Rightarrow> bool) \<Rightarrow> (string \<Rightarrow> string) \<Rightarrow> string \<Rightarrow> Authorization \<Rightarrow> bool" where
  "authz_satisfied mt val p spec =
     (if az_Require spec = None \<or> az_Require spec = Some RequireTypeAny then list_ex (rule_satisfied mt val p) (az_Rules spec)
      else list_all (rule_satisfied mt val p) (az_Rules spec))"

definition bit_string :: "bool \<Rightarrow> string" where
  "bit_string b = (if b then ''1'' else ''0'')"

section \<open>Lemmas\<close>

lemma join_empty: "join [] xs = concat xs"
  by (induction "[]::string" xs rule: join.induct) simp_all

lemma map_value_default_zero: "pattern \<noteq> ''default'' \<Longrightarrow> map_value mt s (default_zero pattern) = bit_string (mt pattern s)"
  by (simp add: default_zero_def bit_string_def)

lemma bit_string_one [simp]: "CHR ''1'' \<in> set (bit_string b) \<longleftrightarrow> b"
  by (simp add: bit_string_def)

lemma bit_string_ones: "concat (map (\<lambda>x. bit_string (f x)) xs) = replicate (length xs) (CHR ''1'') \<longleftrightarrow> list_all f xs"
  by (induction xs) (auto simp: bit_string_def)

lemma plain_simps [simp]: "plain []" "plain (c # s) \<longleftrightarrow> c \<noteq> CHR ''$'' \<and> c \<noteq> CHR ''+'' \<and> plain s" "plain (s @ t) \<longleftrightarrow> plain s \<and> plain t"
  by (simp_all add: plain_def)

lemma plain_show_nat [simp]: "plain (show_nat n)"
  unfolding plain_def list_all_iff
proof
  fix c assume "c \<in> set (show_nat n)"
  then obtain d where "d < (10 :: nat)" "c = char_of (48 + d)" using show_nat_digits by blast
  then show "c \<noteq> CHR ''$'' \<and> c \<noteq> CHR ''+''" by (auto simp: char_of_eq_iff take_bit_eq_mod)
qed

lemma is_variable_Cons [simp]: "is_variable (c # s) \<longleftrightarrow> c = CHR ''$'' \<and> s \<noteq> [] \<and> plain s"
  by (simp add: is_variable_def)

lemma is_variable_Nil [simp]: "\<not> is_variable []"
  by (simp add: is_variable_def)

lemma quoted_not_default [simp]: "quoted s \<noteq> ''default''"
  by (simp add: quoted_def)

lemma documentedD:
  assumes "documented mt interp"
  shows "\<forall>v \<in> set vars. is_variable v \<Longrightarrow> interp val (join [] vars) = concat (map val vars)"
    and "\<forall>v \<in> set vars. is_variable v \<Longrightarrow> interp val (join ''+'' vars) = join ''+'' (map val vars)"
    and "mt ''~1'' s \<longleftrightarrow> CHR ''1'' \<in> set s"
    and "0 < n \<Longrightarrow> mt (replicate n (CHR ''1'')) s \<longleftrightarrow> s = replicate n (CHR ''1'')"
  using assms by (auto simp: documented_def join_empty)

lemma interp_variable: "documented mt interp \<Longrightarrow> is_variable v \<Longrightarrow> interp val v = val v"
  using documentedD(1) [of mt interp "[v]" val] by simp

lemma rule_result:
  assumes "documented mt interp" and "nginx_maps mt interp val (zr_Maps (buildAuthZRuleMap p i r claims))"
    and "plain p" and "\<forall>c \<in> set claims. plain (cl_Name c)"
  shows "val (result_variable (buildAuthZRuleMap p i r claims)) = bit_string (rule_satisfied mt val p \<lparr>ru_Require = Some r, ru_Claims = claims\<rparr>)"
    and "is_variable (result_variable (buildAuthZRuleMap p i r claims))"
proof -
  have san: "plain (sanitizeVariablePrefix s)" if "plain s" for s
    using that by (induction s) (auto simp: sanitizeVariablePrefix_def)
  have claim: "\<forall>c \<in> set claims. is_variable (generateClaimVariableName p (cl_Name c))"
    using assms(3,4) san by (auto simp: generateClaimVariableName_def)
  have per: "\<forall>c \<in> set claims. is_variable (mp_Variable (per_claim_map p i c))"
    using assms(3,4) san by (auto simp: per_claim_map_def)
  have "val (result_variable (buildAuthZRuleMap p i r claims)) = bit_string (rule_satisfied mt val p \<lparr>ru_Require = Some r, ru_Claims = claims\<rparr>) \<and>
    is_variable (result_variable (buildAuthZRuleMap p i r claims))"
  proof (cases "r = RequireTypeAll")
    case True
    then show ?thesis
      using assms(2,3) claim documentedD(2) [OF assms(1), of "map (\<lambda>c. generateClaimVariableName p (cl_Name c)) claims" val]
      by (simp add: buildAuthZRuleMap_def buildAuthZRuleMapAll_def result_variable_def nginx_maps_def rule_satisfied_def
          map_value_default_zero all_pattern_def claim_value_def [abs_def] comp_def)
  next
    case False
    let ?ok = "\<lambda>c. mt (any_pattern c) (claim_value val p c)"
    have one: "val (mp_Variable (per_claim_map p i c)) = bit_string (?ok c)" if "c \<in> set claims" for c
    proof -
      have "val (mp_Variable (per_claim_map p i c)) =
          map_value mt (interp val (mp_Source (per_claim_map p i c))) (mp_Parameters (per_claim_map p i c))"
        using assms(2) False that by (simp add: nginx_maps_def buildAuthZRuleMap_def buildAuthZRuleMapAny_def Let_def)
      then show ?thesis using interp_variable [OF assms(1), of "generateClaimVariableName p (cl_Name c)" val] claim that
        by (simp add: per_claim_map_def map_value_default_zero any_pattern_def claim_value_def)
    qed
    have "interp val (join [] (map mp_Variable (map (per_claim_map p i) claims))) = concat (map (\<lambda>c. bit_string (?ok c)) claims)"
      using documentedD(1) [OF assms(1), of "map mp_Variable (map (per_claim_map p i) claims)" val] per one by (simp add: comp_def cong: map_cong)
    then show ?thesis using assms(2,3) False documentedD(3) [OF assms(1)]
      by (simp add: buildAuthZRuleMap_def buildAuthZRuleMapAny_def result_variable_def nginx_maps_def rule_satisfied_def Let_def
          map_value_default_zero list_ex_iff)
  qed
  then show "val (result_variable (buildAuthZRuleMap p i r claims)) = bit_string (rule_satisfied mt val p \<lparr>ru_Require = Some r, ru_Claims = claims\<rparr>)"
    and "is_variable (result_variable (buildAuthZRuleMap p i r claims))" by simp_all
qed

definition plain_names :: "string \<Rightarrow> Authorization \<Rightarrow> bool" where
  "plain_names p spec \<longleftrightarrow> plain p \<and> list_all (\<lambda>rule. list_all (\<lambda>c. plain (cl_Name c)) (ru_Claims rule)) (az_Rules spec)"

lemma authz_config_bits:
  assumes "documented mt interp" and "buildAuthZConfigFromAuthZSpec p (Some spec) = Some cfg"
    and "nginx_maps mt interp val (config_maps cfg)" and "plain_names p spec"
  shows "val (zc_RequireVariable cfg) = bit_string (authz_satisfied mt val p spec)"
proof -
  let ?rules = "az_Rules spec"
  define vars where "vars = map result_variable (rule_maps p ?rules)"
  have ne: "?rules \<noteq> []" using assms(2) by (auto simp: buildAuthZConfigFromAuthZSpec_def split: if_splits)
  have len: "length vars = length ?rules" by (simp add: vars_def rule_maps_def)
  have maps: "nginx_maps mt interp val (concat (map zr_Maps (rule_maps p ?rules)))"
    using assms(2,3) ne by (auto simp: buildAuthZConfigFromAuthZSpec_def config_maps_def Let_def nginx_maps_def)
  have nth: "val (vars ! i) = bit_string (rule_satisfied mt val p (?rules ! i)) \<and> is_variable (vars ! i)" if i: "i < length ?rules" for i
  proof -
    let ?r = "case ru_Require (?rules ! i) of None \<Rightarrow> RequireTypeAny | Some r \<Rightarrow> r" and ?cs = "ru_Claims (?rules ! i)"
    have "rule_maps p ?rules ! i = buildAuthZRuleMap p i ?r ?cs" using i by (simp add: rule_maps_def)
    moreover have "rule_maps p ?rules ! i \<in> set (rule_maps p ?rules)" using i by (intro nth_mem) (simp add: rule_maps_def)
    ultimately have "nginx_maps mt interp val (zr_Maps (buildAuthZRuleMap p i ?r ?cs))" and v: "vars ! i = result_variable (buildAuthZRuleMap p i ?r ?cs)"
      using maps i by (force simp: nginx_maps_def, simp add: vars_def rule_maps_def)
    moreover have "\<forall>c \<in> set ?cs. plain (cl_Name c)" "plain p" using assms(4) i by (auto simp: plain_names_def list_all_iff)
    moreover have "rule_satisfied mt val p \<lparr>ru_Require = Some ?r, ru_Claims = ?cs\<rparr> = rule_satisfied mt val p (?rules ! i)"
      by (simp add: rule_satisfied_def split: option.split)
    ultimately show ?thesis using rule_result [OF assms(1), of val p i ?r ?cs] by simp
  qed
  have vals: "map val vars = map (\<lambda>r. bit_string (rule_satisfied mt val p r)) ?rules"
    using nth len by (intro nth_equalityI) simp_all
  have src: "interp val (join [] vars) = concat (map (\<lambda>r. bit_string (rule_satisfied mt val p r)) ?rules)"
  proof -
    have "\<forall>v \<in> set vars. is_variable v" using nth len by (metis in_set_conv_nth)
    from documentedD(1) [OF assms(1) this, of val] show ?thesis by (simp add: vals)
  qed
  show ?thesis
  proof (cases "length ?rules = 1")
    case True
    then obtain r where r: "?rules = [r]" by (auto simp: length_Suc_conv)
    then have "vars = [hd vars]" using len by (cases vars) auto
    then have "zc_RequireVariable cfg = hd vars" using assms(2) r
      by (auto simp: buildAuthZConfigFromAuthZSpec_def buildAuthZRuleResultMap_def Let_def vars_def rule_maps_def)
    then show ?thesis using nth [of 0] r len by (simp add: hd_conv_nth authz_satisfied_def vars_def rule_maps_def)
  next
    case False
    let ?req = "case az_Require spec of None \<Rightarrow> RequireTypeAny | Some r \<Rightarrow> r"
    have "buildAuthZRuleResultMap p ?req vars \<noteq> None"
      using len ne False by (cases ?rules rule: remdups_adj.cases) (simp_all add: buildAuthZRuleResultMap_def Let_def)
    then obtain am where am: "buildAuthZRuleResultMap p ?req vars = Some am" by blast
    moreover have "zc_AuthZMap cfg = buildAuthZRuleResultMap p ?req vars"
      and "zc_RequireVariable cfg = (case buildAuthZRuleResultMap p ?req vars of Some am \<Rightarrow> mp_Variable (zm_Map am) | None \<Rightarrow> last vars)"
      unfolding vars_def using assms(2) ne by (auto simp: buildAuthZConfigFromAuthZSpec_def Let_def)
    ultimately have "zc_AuthZMap cfg = Some am" and "zc_RequireVariable cfg = mp_Variable (zm_Map am)" by simp_all
    then have "val (zc_RequireVariable cfg) = map_value mt (interp val (mp_Source (zm_Map am))) (mp_Parameters (zm_Map am))"
      using assms(3) by (simp add: config_maps_def nginx_maps_def)
    moreover have "replicate (length ?rules) (CHR ''1'') \<noteq> ''default''" by (cases "length ?rules") auto
    ultimately show ?thesis using am src len ne documentedD(3,4) [OF assms(1)]
      by (auto simp: buildAuthZRuleResultMap_def Let_def map_value_default_zero authz_satisfied_def list_ex_iff bit_string_ones
          split: if_splits option.splits)
  qed
qed

section \<open>Properties\<close>


text \<open>Concrete functions for NGINX: names end at a dollar or plus sign, one pattern of the example matches the value ok.\<close>

function sample_interp :: "(string \<Rightarrow> string) \<Rightarrow> string \<Rightarrow> string" where
  "sample_interp val [] = []"
| "sample_interp val (c # s) =
     (if c = CHR ''$'' then
        val (c # takeWhile (\<lambda>d. d \<noteq> CHR ''$'' \<and> d \<noteq> CHR ''+'') s) @ sample_interp val (dropWhile (\<lambda>d. d \<noteq> CHR ''$'' \<and> d \<noteq> CHR ''+'') s)
      else c # sample_interp val s)"
  by pat_completeness auto

termination by (relation "measure (\<lambda>(val, s). length s)") (auto simp: le_imp_less_Suc length_dropWhile_le)

definition sample_mt :: "string \<Rightarrow> string \<Rightarrow> bool" where
  "sample_mt v s =
     (if v = ''~1'' then CHR ''1'' \<in> set s else if v \<noteq> [] \<and> list_all (\<lambda>c. c = CHR ''1'') v then s = v else s = ''ok'')"

lemma takeWhile_plain:
  assumes "plain s" and "t = [] \<or> hd t = CHR ''$'' \<or> hd t = CHR ''+''"
  shows "takeWhile (\<lambda>d. d \<noteq> CHR ''$'' \<and> d \<noteq> CHR ''+'') (s @ t) = s" and "dropWhile (\<lambda>d. d \<noteq> CHR ''$'' \<and> d \<noteq> CHR ''+'') (s @ t) = t"
  using assms by (induction s) (cases t; auto)+

lemma sample_interp_variable:
  assumes "is_variable v" and "t = [] \<or> hd t = CHR ''$'' \<or> hd t = CHR ''+''"
  shows "sample_interp val (v @ t) = val v @ sample_interp val t"
  using assms by (cases v) (simp_all add: takeWhile_plain)

lemma sample_documented: "documented sample_mt sample_interp"
proof -
  have "sample_interp val (join sep vars) = join sep (map val vars)"
    if "\<forall>v \<in> set vars. is_variable v" "sep = [] \<or> sep = ''+''" for val vars sep
    using that
  proof (induction sep vars rule: join.induct)
    case (2 sep w)
    then show ?case using sample_interp_variable [of w "[]" val] by simp
  next
    case (3 sep w v ws)
    have "hd (join sep (v # ws)) = CHR ''$''" using 3 by (cases v; cases ws) simp_all
    moreover have "sample_interp val (join sep (v # ws)) = join sep (map val (v # ws))" using 3 by simp
    ultimately show ?case using 3 sample_interp_variable [of w "sep @ join sep (v # ws)" val] by (cases "sep = []") auto
  qed simp
  moreover have "sample_mt (replicate n (CHR ''1'')) s \<longleftrightarrow> s = replicate n (CHR ''1'')" if "0 < n" for n s
  proof -
    have "replicate n (CHR ''1'') \<noteq> ''~1''" using that by (cases n) auto
    then show ?thesis using that by (simp add: sample_mt_def list_all_iff)
  qed
  moreover have "sample_mt ''~1'' s \<longleftrightarrow> CHR ''1'' \<in> set s" for s by (simp add: sample_mt_def)
  ultimately show ?thesis by (simp only: documented_def) blast
qed

definition sample_spec :: Authorization where
  "sample_spec =
     \<lparr>az_Require = Some RequireTypeAll,
      az_Rules = [\<lparr>ru_Require = None, ru_Claims = [\<lparr>cl_ProxySetHeader = None, cl_Name = ''iss'', cl_Match = ClaimMatchTypeExact, cl_Values = [''ok'']\<rparr>]\<rparr>,
                  \<lparr>ru_Require = Some RequireTypeAll, ru_Claims = [\<lparr>cl_ProxySetHeader = None, cl_Name = ''aud'', cl_Match = ClaimMatchTypeExact, cl_Values = [''ok'']\<rparr>]\<rparr>]\<rparr>"

definition sample_val :: "string \<Rightarrow> string" where
  "sample_val v =
     (if v \<in> {''$f_claim_iss'', ''$f_claim_aud''} then ''ok''
      else if v \<in> {''$f_claim_iss_rule_0'', ''$f_rule_0_any'', ''$f_rule_1_all'', ''$f_authz_require_all''} then ''1'' else [])"


text \<open>A value in a claim, which NGINX prints as a list separated by commas.\<close>

definition listed :: "string \<Rightarrow> string \<Rightarrow> bool" where
  "listed v s \<longleftrightarrow> (\<exists>p q. s = p @ v @ q \<and> (p = [] \<or> last p = CHR '','') \<and> (q = [] \<or> hd q = CHR '',''))"


definition sample_claim :: "string \<Rightarrow> string \<Rightarrow> Claim" where
  "sample_claim name v = \<lparr>cl_ProxySetHeader = None, cl_Name = name, cl_Match = ClaimMatchTypeExact, cl_Values = [v]\<rparr>"

definition bypass_mt :: "string \<Rightarrow> string \<Rightarrow> bool" where
  "bypass_mt v s =
     (if v = all_pattern [sample_claim ''a'' ''x'', sample_claim ''b'' ''y''] then \<exists>x y. s = x @ ''+'' @ y \<and> listed ''x'' x \<and> listed ''y'' y
      else sample_mt v s)"

definition bypass_val :: "string \<Rightarrow> string" where
  "bypass_val v = (if v = ''$f_claim_a'' then ''x,+y,'' else if v = ''$f_claim_b'' then ''n'' else if v = ''$f_rule_0_all'' then ''1'' else [])"

lemma bypass_documented: "documented bypass_mt sample_interp"
proof -
  have "all_pattern cs \<noteq> ''~1''" and "all_pattern cs \<noteq> replicate n (CHR ''1'')" for cs n
    by (auto simp: all_pattern_def quoted_def Cons_replicate_eq)
  note ne = this this [symmetric]
  show ?thesis using sample_documented by (simp add: documented_def bypass_mt_def ne)
qed


end
