(* ===== verification/Convert.thy ===== *)
theory Convert
  imports AuthZ Float64 Locations BackendTLSPolicies
begin

text \<open>
  From the routes of the graph to the data plane: the conversions of matches and filters in
  \<^verbatim>\<open>internal/controller/state/dataplane/convert.go\<close>, the filters of a rule (\<^verbatim>\<open>createHTTPFilters\<close> of
  \<^verbatim>\<open>configuration.go\<close>) and the paths of mirrored requests (\<^verbatim>\<open>internal/controller/state/mirror/mirror.go\<close>). The property is
  about the percentage of requests a mirror filter asks for, whose computation can overflow.
\<close>

section \<open>Matches\<close>

definition map_go :: "('a \<Rightarrow> 'b go) \<Rightarrow> 'a list \<Rightarrow> 'b list go" where
  "map_go f xs = fold_go (\<lambda>x ys. bind_go (f x) (\<lambda>y. Inr (ys @ [y]))) xs []"

definition deref :: "'a option \<Rightarrow> 'a go" where
  "deref p = (case p of None \<Rightarrow> Inl NilDeref | Some x \<Rightarrow> Inr x)"

definition getPath :: "v1_HTTPPathMatch option \<Rightarrow> string" where
  "getPath path =
     (case path of
        None \<Rightarrow> ''/''
      | Some p \<Rightarrow> (case v1p_Value p of None \<Rightarrow> ''/'' | Some v \<Rightarrow> if v = [] then ''/'' else v))"

definition convertPathType :: "v1_PathMatchType \<Rightarrow> PathType go" where
  "convertPathType pathType =
     (case pathType of
        PathMatchPathPrefix \<Rightarrow> Inr PathTypePrefix
      | PathMatchExact \<Rightarrow> Inr PathTypeExact
      | PathMatchRegularExpression \<Rightarrow> Inr PathTypeRegularExpression
      | OtherPathMatch s \<Rightarrow> Inl (Panic (''unsupported path type: '' @ s)))"

definition convertMatchType :: "v1_ValueMatchType option \<Rightarrow> MatchType go" where
  "convertMatchType matchType =
     bind_go (deref matchType) (\<lambda>t. case t of
        ValueMatchExact \<Rightarrow> Inr MatchTypeExact
      | ValueMatchRegularExpression \<Rightarrow> Inr MatchTypeRegularExpression
      | OtherValueMatch s \<Rightarrow> Inl (Panic (''unsupported match type: '' @ s)))"

definition convertMatch :: "v1_HTTPRouteMatch \<Rightarrow> Match go" where
  "convertMatch m =
     bind_go (map_go (\<lambda>h. bind_go (convertMatchType (v1m_Type h)) (\<lambda>t.
         Inr \<lparr>hm_Name = v1m_Name h, hm_Value = v1m_Value h, hm_Type = t\<rparr>)) (v1r_Headers m)) (\<lambda>headers.
     bind_go (map_go (\<lambda>q. bind_go (convertMatchType (v1m_Type q)) (\<lambda>t.
         Inr \<lparr>qm_Name = v1m_Name q, qm_Value = v1m_Value q, qm_Type = t\<rparr>)) (v1r_QueryParams m)) (\<lambda>params.
       Inr \<lparr>m_Method = v1r_Method m, m_Headers = headers, m_QueryParams = params\<rparr>))"

section \<open>Redirects, rewrites, headers\<close>

definition convertPathModifier :: "v1_HTTPPathModifier option \<Rightarrow> HTTPPathModifier option go" where
  "convertPathModifier path =
     (case path of
        None \<Rightarrow> Inr None
      | Some p \<Rightarrow>
          (case v1pm_Type p of
             FullPathHTTPPathModifier \<Rightarrow>
               bind_go (deref (v1pm_ReplaceFullPath p)) (\<lambda>r. Inr (Some \<lparr>pm_Replacement = r, pm_Type = ReplaceFullPath\<rparr>))
           | PrefixMatchHTTPPathModifier \<Rightarrow>
               bind_go (deref (v1pm_ReplacePrefixMatch p)) (\<lambda>r. Inr (Some \<lparr>pm_Replacement = r, pm_Type = ReplacePrefixMatch\<rparr>))
           | OtherPathModifier _ \<Rightarrow> Inr None))"

definition convertHTTPRequestRedirectFilter :: "v1_HTTPRequestRedirectFilter option \<Rightarrow> HTTPRequestRedirectFilter go" where
  "convertHTTPRequestRedirectFilter filt =
     bind_go (deref filt) (\<lambda>f. bind_go (convertPathModifier (v1rr_Path f)) (\<lambda>path.
       Inr \<lparr>rr_Scheme = v1rr_Scheme f, rr_Hostname = v1rr_Hostname f, rr_Port = v1rr_Port f, rr_StatusCode = v1rr_StatusCode f,
            rr_Path = path\<rparr>))"

definition convertHTTPURLRewriteFilter :: "v1_HTTPURLRewriteFilter option \<Rightarrow> HTTPURLRewriteFilter go" where
  "convertHTTPURLRewriteFilter filt =
     bind_go (deref filt) (\<lambda>f. bind_go (convertPathModifier (v1ur_Path f)) (\<lambda>path.
       Inr \<lparr>rw_Hostname = v1ur_Hostname f, rw_Path = path\<rparr>))"

definition convertHTTPHeaderFilter :: "v1_HTTPHeaderFilter option \<Rightarrow> HTTPHeaderFilter go" where
  "convertHTTPHeaderFilter filt =
     (let conv = map (\<lambda>h. \<lparr>hh_Name = v1h_Name h, hh_Value = v1h_Value h\<rparr>) in
      bind_go (deref filt) (\<lambda>f. Inr \<lparr>hf_Set = conv (v1hf_Set f), hf_Add = conv (v1hf_Add f), hf_Remove = v1hf_Remove f\<rparr>))"

definition convertHTTPCORSFilter :: "v1_HTTPCORSFilter option \<Rightarrow> HTTPCORSFilter option" where
  "convertHTTPCORSFilter filt =
     map_option (\<lambda>f. \<lparr>cors_AllowOrigins = v1c_AllowOrigins f, cors_AllowMethods = v1c_AllowMethods f,
       cors_AllowHeaders = v1c_AllowHeaders f, cors_ExposeHeaders = v1c_ExposeHeaders f,
       cors_AllowCredentials = (v1c_AllowCredentials f = Some True), cors_MaxAge = v1c_MaxAge f\<rparr>) filt"

section \<open>Mirrors\<close>

definition BackendPath :: "nat \<Rightarrow> string option \<Rightarrow> string \<Rightarrow> NamespacedName \<Rightarrow> string" where
  "BackendPath idx namespace service routeNsName =
     InternalMirrorRoutePathPrefix @ ''-'' @ (case namespace of Some ns \<Rightarrow> ns @ ''/'' | None \<Rightarrow> []) @ service @ ''-'' @
     nn_Namespace routeNsName @ ''/'' @ nn_Name routeNsName @ ''-'' @ show_nat idx"

text \<open>
  The product of the numerator is an int32; the denominator of a fraction is positive, which the validation of the filter checks
  when it is given.
\<close>

definition mirror_percent :: "v1_HTTPRequestMirrorFilter \<Rightarrow> rat" where
  "mirror_percent f =
     (let percent =
        (case (v1mi_Percent f, v1mi_Fraction f) of
           (Some p, _) \<Rightarrow> of_int p
         | (None, Some fr) \<Rightarrow>
             fdiv (of_int (int32 (v1f_Numerator fr * 100))) (of_int (case v1f_Denominator fr of None \<Rightarrow> 100 | Some d \<Rightarrow> d))
         | (None, None) \<Rightarrow> 100)
      in if percent > 100 then 100 else percent)"

definition convertHTTPRequestMirrorFilter :: "v1_HTTPRequestMirrorFilter option \<Rightarrow> nat \<Rightarrow> NamespacedName \<Rightarrow> HTTPRequestMirrorFilter go" where
  "convertHTTPRequestMirrorFilter filt ruleIdx routeNsName =
     bind_go (deref filt) (\<lambda>f.
       if v1mi_Name f = [] then Inr \<lparr>mf_Name = None, mf_Namespace = None, mf_Target = None, mf_Percent = None\<rparr>
       else Inr \<lparr>mf_Name = Some (v1mi_Name f),
                 mf_Namespace = (case v1mi_Namespace f of None \<Rightarrow> None | Some ns \<Rightarrow> if ns = [] then None else Some ns),
                 mf_Target = Some (BackendPath ruleIdx (v1mi_Namespace f) (v1mi_Name f) routeNsName),
                 mf_Percent = Some (mirror_percent f)\<rparr>)"

section \<open>Snippets and certificates\<close>

definition createSnippetName :: "string \<Rightarrow> NamespacedName \<Rightarrow> string" where
  "createSnippetName nc name = ''SnippetsFilter_'' @ nc @ ''_'' @ nn_Namespace name @ ''_'' @ nn_Name name"

definition convertSnippetsFilter :: "graph_SnippetsFilter \<Rightarrow> SnippetsFilter" where
  "convertSnippetsFilter filt =
     (let snippet = (\<lambda>nc. map_option (\<lambda>s. \<lparr>sn_Name = createSnippetName nc (object_key (gsf_Source filt)), sn_Contents = s\<rparr>) (gsf_Snippets filt nc)) in
      \<lparr>sf_LocationSnippet = snippet ''http.server.location'', sf_ServerSnippet = snippet ''http.server''\<rparr>)"

definition generateSSLKeyPairID :: "NamespacedName \<Rightarrow> string" where
  "generateSSLKeyPairID secret = ''ssl_keypair_'' @ nn_Namespace secret @ ''_'' @ nn_Name secret"

definition generateCertBundleID :: "NamespacedName \<Rightarrow> string" where
  "generateCertBundleID caCertRef = ''cert_bundle_'' @ nn_Namespace caCertRef @ ''_'' @ nn_Name caCertRef"

definition crlBundleIDPrefix :: string where "crlBundleIDPrefix = ''crl_bundle''"

definition generateCRLBundleID :: "NamespacedName \<Rightarrow> string" where
  "generateCRLBundleID ref = crlBundleIDPrefix @ ''_'' @ nn_Namespace ref @ ''_'' @ nn_Name ref"

definition generateJWTRemoteTLSCABundleID :: "string \<Rightarrow> string \<Rightarrow> string" where
  "generateJWTRemoteTLSCABundleID namespace secretName = ''jwt_remote_tls_ca_'' @ namespace @ ''_'' @ secretName"

text \<open>A pointer to a policy is its key in the policies of the graph.\<close>

definition convertBackendTLS :: "policies \<Rightarrow> NamespacedName option \<Rightarrow> NamespacedName \<Rightarrow> VerifyTLS option" where
  "convertBackendTLS ps btp gwNsName =
     (case Option.bind btp (map_of ps) of
        None \<Rightarrow> None
      | Some p \<Rightarrow>
          if \<not> btp_Valid p \<or> gwNsName \<notin> set (btp_Gateways p) then None
          else Some
            (if nn_Name (btp_CaCertRef p) \<noteq> [] then
               \<lparr>vt_CertBundleID = generateCertBundleID (btp_CaCertRef p), vt_Hostname = vbtp_Hostname (btp_Source p), vt_RootCAPath = []\<rparr>
             else \<lparr>vt_CertBundleID = [], vt_Hostname = vbtp_Hostname (btp_Source p), vt_RootCAPath = AlpineSSLRootCAPath\<rparr>))"

section \<open>Authentication\<close>

text \<open>The Secrets of the graph; a Secret that does not exist has no source.\<close>

record corev1_Secret =
  cs_Namespace :: string
  cs_Data :: "string \<rightharpoonup> string"

type_synonym secrets = "NamespacedName \<rightharpoonup> corev1_Secret option"

definition secret_source :: "secrets \<Rightarrow> string \<Rightarrow> string \<Rightarrow> corev1_Secret option" where
  "secret_source referencedSecrets namespace name = Option.bind (referencedSecrets (nsname namespace name)) id"

definition convertAuthenticationFilterBasicAuth :: "ngf_AuthenticationFilter \<Rightarrow> secrets \<Rightarrow> dp_AuthBasic option" where
  "convertAuthenticationFilterBasicAuth source referencedSecrets =
     Option.bind (as_Basic (na_Spec source)) (\<lambda>specBasic.
       map_option (\<lambda>secret. \<lparr>dab_SecretName = ba_SecretRef specBasic, dab_SecretNamespace = cs_Namespace secret,
           dab_Realm = ba_Realm specBasic, dab_Data = cs_Data secret ''auth''\<rparr>)
         (secret_source referencedSecrets (om_Namespace (na_Meta source)) (ba_SecretRef specBasic)))"

text \<open>The first reference to an existing Secret gives the CA certificate.\<close>

fun setOIDCCACert :: "string list \<Rightarrow> string \<Rightarrow> secrets \<Rightarrow> OIDCProvider \<Rightarrow> OIDCProvider" where
  "setOIDCCACert [] namespace referencedSecrets oidc = oidc"
| "setOIDCCACert (ref # refs) namespace referencedSecrets oidc =
     (case secret_source referencedSecrets namespace ref of
        Some secret \<Rightarrow> oidc\<lparr>op_CACertBundleID := generateCertBundleID (nsname namespace ref), op_CACertData := cs_Data secret ''ca.crt''\<rparr>
      | None \<Rightarrow> setOIDCCACert refs namespace referencedSecrets oidc)"

definition setOIDCCRLCert :: "string \<Rightarrow> string \<Rightarrow> secrets \<Rightarrow> OIDCProvider \<Rightarrow> OIDCProvider" where
  "setOIDCCRLCert secretName namespace referencedSecrets oidc =
     (case secret_source referencedSecrets namespace secretName of
        Some secret \<Rightarrow> oidc\<lparr>op_CRLBundleID := generateCRLBundleID (nsname namespace secretName), op_CRLData := cs_Data secret ''ca.crl''\<rparr>
      | None \<Rightarrow> oidc)"

definition buildSortedExtraAuthArgs :: "(string \<times> string) list \<Rightarrow> string" where
  "buildSortedExtraAuthArgs extraAuthArgs =
     join ''&'' (map (\<lambda>k. k @ ''='' @ deref_or [] (map_of extraAuthArgs k)) (sort (map fst extraAuthArgs)))"

definition oidcCallBack :: string where "oidcCallBack = ''/oidc_callback''"

definition oidc_session :: "OIDCAuth \<Rightarrow> OIDCProvider \<Rightarrow> OIDCProvider" where
  "oidc_session spec oidc =
     (let oidc = oidc\<lparr>op_ExtraAuthArgs := buildSortedExtraAuthArgs (oa_ExtraAuthArgs spec)\<rparr>;
          oidc = (case oa_Session spec of
             None \<Rightarrow> oidc
           | Some s \<Rightarrow> oidc\<lparr>op_CookieName := os_CookieName s, op_Timeout := os_Timeout s\<rparr>) in
      case oa_Logout spec of
        None \<Rightarrow> oidc
      | Some l \<Rightarrow> oidc\<lparr>op_LogoutURI := ol_URI l, op_PostLogoutURI := ol_PostLogoutURI l,
          op_FrontChannelLogoutURI := ol_FrontChannelLogoutURI l, op_TokenHint := ol_TokenHint l\<rparr>)"

definition convertAuthenticationFilterOIDC :: "ngf_AuthenticationFilter \<Rightarrow> secrets \<Rightarrow> OIDCProvider option" where
  "convertAuthenticationFilterOIDC source referencedSecrets =
     (let namespace = om_Namespace (na_Meta source); name = om_Name (na_Meta source) in
      Option.bind (as_OIDC (na_Spec source)) (\<lambda>spec.
      map_option (\<lambda>clientSecret.
        let oidc = new_oidc_provider\<lparr>op_Name := namespace @ ''_'' @ name, op_Issuer := oa_Issuer spec, op_ClientID := oa_ClientID spec,
              op_ClientSecret := deref_or [] (cs_Data clientSecret ''client-secret''),
              op_RedirectURI := deref_or (oidcCallBack @ ''_'' @ namespace @ ''_'' @ name) (oa_RedirectURI spec),
              op_ConfigURL := oa_ConfigURL spec, op_PKCE := oa_PKCE spec\<rparr>;
            oidc = setOIDCCACert (oa_CACertificateRefs spec) namespace referencedSecrets oidc;
            oidc = (case oa_CRLSecretRef spec of None \<Rightarrow> oidc | Some ref \<Rightarrow> setOIDCCRLCert ref namespace referencedSecrets oidc) in
        oidc_session spec oidc) (secret_source referencedSecrets namespace (oa_ClientSecretRef spec))))"

fun ca_bundle_path :: "string list \<Rightarrow> string \<Rightarrow> secrets \<Rightarrow> string" where
  "ca_bundle_path [] namespace referencedSecrets = []"
| "ca_bundle_path (ref # refs) namespace referencedSecrets =
     (case secret_source referencedSecrets namespace ref of
        Some secret \<Rightarrow>
          if cs_Data secret ''ca.crt'' \<noteq> None then generateJWTRemoteTLSCABundleID namespace ref
          else ca_bundle_path refs namespace referencedSecrets
      | None \<Rightarrow> ca_bundle_path refs namespace referencedSecrets)"

definition convertRemoteJWTJwtAuthFilter :: "JWTRemoteKeySource \<Rightarrow> ObjectMeta \<Rightarrow> secrets \<Rightarrow> dp_AuthJWTRemote" where
  "convertRemoteJWTJwtAuthFilter remote meta referencedSecrets =
     \<lparr>djr_CACertBundlePath = ca_bundle_path (jr_CACertificateRefs remote) (om_Namespace meta) referencedSecrets,
      djr_URI = jr_URI remote,
      djr_Path = InternalRoutePathPrefix @ ''-'' @ om_Namespace meta @ ''_'' @ om_Name meta @ ''_jwks_uri''\<rparr>"

definition jwt_keys :: "JWTAuth \<Rightarrow> ObjectMeta \<Rightarrow> secrets \<Rightarrow> dp_AuthJWT option" where
  "jwt_keys specJWT meta referencedSecrets =
     (let jwt = \<lparr>daj_KeyCache = jw_KeyCache specJWT, daj_Remote = None, daj_SecretName = [], daj_SecretNamespace = [],
            daj_Realm = jw_Realm specJWT, daj_Data = None, daj_Leeway = None, daj_AuthRequireVariable = [], daj_AuthZProxySetHeaders = []\<rparr> in
      case (jw_Source specJWT, jw_File specJWT, jw_Remote specJWT) of
        (JWTKeySourceFile, Some ref, _) \<Rightarrow>
          map_option (\<lambda>secret. jwt\<lparr>daj_SecretName := ref, daj_SecretNamespace := cs_Namespace secret, daj_Data := cs_Data secret ''auth''\<rparr>)
            (secret_source referencedSecrets (om_Namespace meta) ref)
      | (JWTKeySourceRemote, _, Some remote) \<Rightarrow>
          Some (jwt\<lparr>daj_Remote := Some (convertRemoteJWTJwtAuthFilter remote meta referencedSecrets)\<rparr>)
      | _ \<Rightarrow> None)"

definition convertAuthenticationFilterJwtAuth :: "ngf_AuthenticationFilter \<Rightarrow> secrets \<Rightarrow> dp_AuthJWT option" where
  "convertAuthenticationFilterJwtAuth source referencedSecrets =
     (let meta = na_Meta source in
      Option.bind (as_JWT (na_Spec source)) (\<lambda>specJWT.
      map_option (\<lambda>result.
        let result = result\<lparr>daj_Leeway := jw_Leeway specJWT\<rparr>;
            filterPrefix = sanitizeVariablePrefix (join ''_'' [om_Namespace meta, om_Name meta]) in
        case buildAuthZConfigFromAuthZSpec filterPrefix (jw_Authorization specJWT) of
          None \<Rightarrow> result
        | Some cfg \<Rightarrow> result\<lparr>daj_AuthRequireVariable := zc_RequireVariable cfg, daj_AuthZProxySetHeaders := zc_ProxySetHeaders cfg\<rparr>)
        (jwt_keys specJWT meta referencedSecrets)))"

definition convertAuthenticationFilter :: "graph_AuthenticationFilter \<Rightarrow> secrets \<Rightarrow> AuthenticationFilter" where
  "convertAuthenticationFilter filt referencedSecrets =
     (let result = \<lparr>af_Basic = None, af_OIDC = None, af_JWT = None\<rparr>; source = gaf_Source filt in
      if \<not> gaf_Valid filt then result
      else case as_Type (na_Spec source) of
        AuthTypeBasic \<Rightarrow> result\<lparr>af_Basic := convertAuthenticationFilterBasicAuth source referencedSecrets\<rparr>
      | AuthTypeOIDC \<Rightarrow> result\<lparr>af_OIDC := convertAuthenticationFilterOIDC source referencedSecrets\<rparr>
      | AuthTypeJWT \<Rightarrow> result\<lparr>af_JWT := convertAuthenticationFilterJwtAuth source referencedSecrets\<rparr>
      | OtherAuthType _ \<Rightarrow> result)"

definition generateExternalAuthInternalPath :: "NamespacedName \<Rightarrow> nat \<Rightarrow> string" where
  "generateExternalAuthInternalPath routeNsName ruleIdx =
     InternalRoutePathPrefix @ ''-ext-auth-'' @ nn_Namespace routeNsName @ ''_'' @ nn_Name routeNsName @ ''_rule'' @ show_nat ruleIdx"

definition convertHTTPExternalAuthFilter ::
    "policies \<Rightarrow> v1_HTTPExternalAuthFilter option \<Rightarrow> BackendRef \<Rightarrow> NamespacedName \<Rightarrow> nat \<Rightarrow> NamespacedName \<Rightarrow> HTTPExternalAuthFilter option" where
  "convertHTTPExternalAuthFilter ps filt resolvedBackendRef routeNsName ruleIdx gwNsName =
     map_option (\<lambda>f.
       let conf = deref_or \<lparr>v1ha_Path = [], v1ha_AllowedRequestHeaders = [], v1ha_AllowedResponseHeaders = []\<rparr> (v1ea_HTTPAuthConfig f);
           size = deref_or 0 (v1ea_ForwardBody f) in
       \<lparr>ea_VerifyTLS = convertBackendTLS ps (br_BackendTLSPolicy resolvedBackendRef) gwNsName,
        ea_UpstreamName = ServicePortReference resolvedBackendRef,
        ea_InternalPath = generateExternalAuthInternalPath routeNsName ruleIdx,
        ea_PathPrefix = v1ha_Path conf, ea_AllowedRequestHeaders = v1ha_AllowedRequestHeaders conf,
        ea_AllowedResponseHeaders = v1ha_AllowedResponseHeaders conf, ea_ForwardBody = (size > 0), ea_MaxBodySize = size\<rparr>) filt"

section \<open>The filters of a rule\<close>

definition zero_filters :: HTTPFilters where
  "zero_filters =
     \<lparr>f_InvalidFilter = False, f_RequestRedirect = None, f_RequestURLRewrite = None, f_RequestHeaderModifiers = None,
      f_ResponseHeaderModifiers = None, f_AuthenticationFilter = None, f_CORSFilter = None, f_ExternalAuthFilter = None,
      f_RequestMirrors = [], f_SnippetsFilters = []\<rparr>"

text \<open>
  What converting a filter reads: the index and name of the rule's route, the Secrets and policies of the graph, the backends of the
  rule and the Gateway. The state is the result so far, with the identifiers of the certificate bundles collected for the whole
  configuration.
\<close>

record filter_env =
  fe_ruleIdx :: nat
  fe_routeNsName :: NamespacedName
  fe_secrets :: secrets
  fe_policies :: policies
  fe_backendRefs :: "BackendRef list"
  fe_gwNsName :: NamespacedName

definition first_only :: "(HTTPFilters \<Rightarrow> 'a option) \<Rightarrow> 'a go \<Rightarrow> (('a option \<Rightarrow> 'a option) \<Rightarrow> HTTPFilters \<Rightarrow> HTTPFilters)
    \<Rightarrow> HTTPFilters \<Rightarrow> HTTPFilters go" where
  "first_only sel conv upd r = (if sel r = None then bind_go conv (\<lambda>x. Inr (upd (\<lambda>_. Some x) r)) else Inr r)"

definition extension_filter :: "filter_env \<Rightarrow> ExtensionRefFilter option \<Rightarrow> HTTPFilters \<Rightarrow> HTTPFilters" where
  "extension_filter env ext r =
     (case ext of
        None \<Rightarrow> r
      | Some e \<Rightarrow>
          let r = (case er_SnippetsFilter e of
                None \<Rightarrow> r
              | Some s \<Rightarrow> r\<lparr>f_SnippetsFilters := f_SnippetsFilters r @ [convertSnippetsFilter s]\<rparr>) in
          case er_AuthenticationFilter e of
            None \<Rightarrow> r
          | Some a \<Rightarrow> r\<lparr>f_AuthenticationFilter := Some (convertAuthenticationFilter a (fe_secrets env))\<rparr>)"

definition external_auth_filter ::
    "filter_env \<Rightarrow> v1_HTTPExternalAuthFilter option \<Rightarrow> HTTPFilters \<times> string set \<Rightarrow> (HTTPFilters \<times> string set) go" where
  "external_auth_filter env filt st =
     (let (r, ids) = st in
      if f_ExternalAuthFilter r \<noteq> None then Inr (r, ids)
      else case find (\<lambda>br. br_IsExternalAuthBackend br \<and> br_Valid br) (fe_backendRefs env) of
        None \<Rightarrow> Inr (r, ids)
      | Some br \<Rightarrow>
          bind_go (deref (convertHTTPExternalAuthFilter (fe_policies env) filt br (fe_routeNsName env) (fe_ruleIdx env) (fe_gwNsName env))) (\<lambda>ea.
            Inr (r\<lparr>f_ExternalAuthFilter := Some ea\<rparr>,
              (case ea_VerifyTLS ea of None \<Rightarrow> ids | Some v \<Rightarrow> insert (vt_CertBundleID v) ids))))"

definition create_filter :: "filter_env \<Rightarrow> Filter \<Rightarrow> HTTPFilters \<times> string set \<Rightarrow> (HTTPFilters \<times> string set) go" where
  "create_filter env f st =
     (let (r, ids) = st; keep = (\<lambda>m. bind_go m (\<lambda>r. Inr (r, ids))) in
      case fl_FilterType f of
        FilterRequestRedirect \<Rightarrow>
          keep (first_only f_RequestRedirect (convertHTTPRequestRedirectFilter (fl_RequestRedirect f)) f_RequestRedirect_update r)
      | FilterURLRewrite \<Rightarrow>
          keep (first_only f_RequestURLRewrite (convertHTTPURLRewriteFilter (fl_URLRewrite f)) f_RequestURLRewrite_update r)
      | FilterRequestMirror \<Rightarrow>
          keep (bind_go (convertHTTPRequestMirrorFilter (fl_RequestMirror f) (fe_ruleIdx env) (fe_routeNsName env))
            (\<lambda>m. Inr (r\<lparr>f_RequestMirrors := f_RequestMirrors r @ [m]\<rparr>)))
      | FilterRequestHeaderModifier \<Rightarrow>
          keep (first_only f_RequestHeaderModifiers (convertHTTPHeaderFilter (fl_RequestHeaderModifier f)) f_RequestHeaderModifiers_update r)
      | FilterResponseHeaderModifier \<Rightarrow>
          keep (first_only f_ResponseHeaderModifiers (convertHTTPHeaderFilter (fl_ResponseHeaderModifier f)) f_ResponseHeaderModifiers_update r)
      | FilterExtensionRef \<Rightarrow> Inr (extension_filter env (fl_ResolvedExtensionRef f) r, ids)
      | FilterCORS \<Rightarrow> Inr (if f_CORSFilter r = None then r\<lparr>f_CORSFilter := convertHTTPCORSFilter (fl_CORS f)\<rparr> else r, ids)
      | FilterExternalAuth \<Rightarrow> external_auth_filter env (fl_ExternalAuth f) (r, ids)
      | OtherFilter _ \<Rightarrow> Inr (r, ids))"

definition createHTTPFilters :: "filter_env \<Rightarrow> Filter list \<Rightarrow> string set \<Rightarrow> (HTTPFilters \<times> string set) go" where
  "createHTTPFilters env filters ids = fold_go (create_filter env) filters (zero_filters, ids)"

section \<open>Properties\<close>



end
