(* ===== verification/HostRules.thy ===== *)
theory HostRules
  imports Convert
begin

text \<open>
  The virtual servers of the data plane: \<^verbatim>\<open>buildServers\<close>, \<^verbatim>\<open>hostPathRules\<close>, \<^verbatim>\<open>newBackendGroup\<close>, \<^verbatim>\<open>buildBackendGroups\<close> and what they
  call in \<^verbatim>\<open>internal/controller/state/dataplane/configuration.go\<close>. The rules of all routes attached to the listeners of a
  port are grouped by hostname, and by path within a hostname. Maps that the code iterates over are association lists; their
  order stands for any order of iteration.
\<close>

section \<open>Backend groups\<close>

record ReferencedService =
  rs_ExternalName :: string
  rs_IsExternalName :: bool

definition getExternalHostname :: "NamespacedName \<Rightarrow> (NamespacedName \<rightharpoonup> ReferencedService) \<Rightarrow> string" where
  "getExternalHostname svcNsName referencedServices =
     (case referencedServices svcNsName of
        None \<Rightarrow> []
      | Some svc \<Rightarrow> if rs_IsExternalName svc then rs_ExternalName svc else [])"

definition new_backend ::
    "policies \<Rightarrow> (NamespacedName \<rightharpoonup> ReferencedService) \<Rightarrow> NamespacedName \<Rightarrow> BackendRef \<Rightarrow> Backend" where
  "new_backend ps referencedServices gatewayName ref =
     \<lparr>b_VerifyTLS = convertBackendTLS ps (br_BackendTLSPolicy ref) gatewayName,
      b_EndpointPickerConfig =
        (case epc_EndpointPickerRef (br_EndpointPickerConfig ref) of
           None \<Rightarrow> None
         | Some e \<Rightarrow> Some \<lparr>dep_EndpointPickerRef = Some e, dep_NsName = epc_NsName (br_EndpointPickerConfig ref)\<rparr>),
      b_UpstreamName = ServicePortReference ref,
      b_ExternalHostname = getExternalHostname (br_SvcNsName ref) referencedServices,
      b_AppProtocol = deref_or [] (sp_AppProtocol (br_ServicePort ref)),
      b_Weight = br_Weight ref,
      b_Valid = (br_Valid ref \<and> br_InvalidForGateways ref gatewayName = None)\<rparr>"

definition newBackendGroup ::
    "policies \<Rightarrow> (NamespacedName \<rightharpoonup> ReferencedService) \<Rightarrow> BackendRef list \<Rightarrow> NamespacedName \<Rightarrow> NamespacedName \<Rightarrow> nat \<Rightarrow> BackendGroup \<times> bool" where
  "newBackendGroup ps referencedServices refs gatewayName sourceNsName ruleIdx =
     (let traffic = filter (\<lambda>ref. \<not> br_IsMirrorBackend ref \<and> \<not> br_IsExternalAuthBackend ref) refs in
      (\<lparr>bg_Source = sourceNsName, bg_Backends = map (new_backend ps referencedServices gatewayName) traffic, bg_RuleIdx = ruleIdx, bg_PathRuleIdx = 0\<rparr>,
       list_ex br_IsInferencePool traffic))"

type_synonym group_key = "NamespacedName \<times> nat \<times> nat"

definition group_key :: "BackendGroup \<Rightarrow> group_key" where
  "group_key g = (bg_Source g, bg_RuleIdx g, bg_PathRuleIdx g)"

definition server_groups :: "'p VirtualServer \<Rightarrow> BackendGroup list" where
  "server_groups s = concat (map (\<lambda>pr. map mr_BackendGroup (pr_MatchRules pr)) (vs_PathRules s))"

definition buildBackendGroups :: "'p VirtualServer list \<Rightarrow> BackendGroup list" where
  "buildBackendGroups servers =
     map snd (fold (\<lambda>g. AList.update (group_key g) g) (concat (map server_groups servers)) [])"

section \<open>Policies and TLS\<close>

definition buildPolicies :: "Gateway \<Rightarrow> Policy list \<Rightarrow> PolicyKey list" where
  "buildPolicies gateway graphPolicies =
     map po_Source (filter (\<lambda>p. po_Valid p \<and> object_key (gw_Meta (g_Source gateway)) \<notin> set (po_InvalidForGateways p) \<and>
       po_BundlePending p \<noteq> Some True) graphPolicies)"

definition getListenerHostname :: "string option \<Rightarrow> string" where
  "getListenerHostname h = (case h of None \<Rightarrow> wildcardHostname | Some s \<Rightarrow> if s = [] then wildcardHostname else s)"

definition buildSSL :: "Listener \<Rightarrow> dp_SSL" where
  "buildSSL listener =
     (let opt = (\<lambda>k. case v1_TLS (l_Source listener) of None \<Rightarrow> None | Some tls \<Rightarrow> map_of (tls_Options tls) k) in
      \<lparr>dssl_Protocols = deref_or [] (opt ''nginx.org/ssl-protocols''),
       dssl_Ciphers = deref_or [] (opt ''nginx.org/ssl-ciphers''),
       dssl_ClientCertBundleID = [], dssl_VerifyClient = [],
       dssl_KeyPairIDs = map generateSSLKeyPairID (l_ResolvedSecrets listener),
       dssl_RequireVerifiedCert = False,
       dssl_PreferServerCiphers = (opt ''nginx.org/ssl-prefer-server-ciphers'' = Some ''on'')\<rparr>)"

section \<open>Rules by hostname and path\<close>

type_synonym pathAndType = "string \<times> v1_PathMatchType"
type_synonym path_rules = "(pathAndType \<times> PolicyKey path_rule) list"

record hostPathRules =
  hp_rulesPerHost :: "(string \<times> path_rules) list"
  hp_listenersForHost :: "string \<rightharpoonup> Listener"
  hp_httpsListeners :: "Listener list"
  hp_rulesPort :: int
  hp_listenersExist :: bool

definition newHostPathRules :: hostPathRules where
  "newHostPathRules =
     \<lparr>hp_rulesPerHost = [], hp_listenersForHost = Map.empty, hp_httpsListeners = [], hp_rulesPort = 0, hp_listenersExist = False\<rparr>"

text \<open>What the graph offers: its routes, services, Secrets and backend TLS policies.\<close>

record graph_env =
  ge_routes :: "RouteKey \<rightharpoonup> L7Route"
  ge_services :: "NamespacedName \<rightharpoonup> ReferencedService"
  ge_secrets :: secrets
  ge_policies :: policies

fun accepted_hostnames :: "ParentRef list \<Rightarrow> string \<Rightarrow> string list go" where
  "accepted_hostnames [] key = Inr []"
| "accepted_hostnames (p # ps) key =
     bind_go (deref (pf_Attachment p)) (\<lambda>a.
       case map_of (at_AcceptedHostnames a) key of Some hs \<Rightarrow> Inr hs | None \<Rightarrow> accepted_hostnames ps key)"

definition init_host :: "Listener \<Rightarrow> string \<Rightarrow> hostPathRules \<Rightarrow> hostPathRules" where
  "init_host listener h hpr =
     (let hpr = (case hp_listenersForHost hpr h of
            Some prevListener \<Rightarrow>
              if listenerHostnameMoreSpecific (v1_Hostname (l_Source listener)) (v1_Hostname (l_Source prevListener))
              then hpr\<lparr>hp_listenersForHost := (hp_listenersForHost hpr)(h \<mapsto> listener)\<rparr> else hpr
          | None \<Rightarrow> hpr\<lparr>hp_listenersForHost := (hp_listenersForHost hpr)(h \<mapsto> listener)\<rparr>) in
      if map_of (hp_rulesPerHost hpr) h = None then hpr\<lparr>hp_rulesPerHost := AList.update h [] (hp_rulesPerHost hpr)\<rparr> else hpr)"

text \<open>What is the same for all matches of a rule of a route.\<close>

record rule_env =
  re_filters :: HTTPFilters
  re_policies :: "PolicyKey list"
  re_group :: BackendGroup
  re_inference :: bool
  re_source :: ObjectMeta
  re_grpc :: bool

definition upsert_match :: "rule_env \<Rightarrow> string \<Rightarrow> v1_HTTPRouteMatch \<Rightarrow> hostPathRules \<Rightarrow> hostPathRules go" where
  "upsert_match rl h m hpr =
     bind_go (deref (v1r_Path m)) (\<lambda>p. bind_go (deref (v1p_Type p)) (\<lambda>t.
       let path = getPath (v1r_Path m); key = (path, t); rules = deref_or [] (map_of (hp_rulesPerHost hpr) h) in
       bind_go (case map_of rules key of
            Some hostRule \<Rightarrow> Inr hostRule
          | None \<Rightarrow> bind_go (convertPathType t) (\<lambda>pt.
              Inr \<lparr>pr_Path = path, pr_PathType = pt, pr_MatchRules = [], pr_Policies = re_policies rl, pr_GRPC = False,
                   pr_HasInferenceBackends = False\<rparr>)) (\<lambda>hostRule.
       bind_go (convertMatch m) (\<lambda>mt.
         let hostRule = hostRule\<lparr>pr_GRPC := re_grpc rl,
               pr_HasInferenceBackends := (pr_HasInferenceBackends hostRule \<or> re_inference rl),
               pr_MatchRules := pr_MatchRules hostRule @
                 [\<lparr>mr_Filters = re_filters rl, mr_Source = re_source rl, mr_Match = mt, mr_BackendGroup = re_group rl\<rparr>]\<rparr> in
         Inr (hpr\<lparr>hp_rulesPerHost := AList.update h (AList.update key hostRule rules) (hp_rulesPerHost hpr)\<rparr>)))))"

definition rule_filters :: "graph_env \<Rightarrow> Listener \<Rightarrow> L7Route \<Rightarrow> nat \<Rightarrow> string set \<Rightarrow> (HTTPFilters \<times> string set) go" where
  "rule_filters ge listener route idx ids =
     (let rule = l7_Rules route ! idx in
      if rrf_Valid (rr_Filters rule) then
        createHTTPFilters
          \<lparr>fe_ruleIdx = idx, fe_routeNsName = object_key (l7_Source route), fe_secrets = ge_secrets ge, fe_policies = ge_policies ge,
           fe_backendRefs = rr_BackendRefs rule, fe_gwNsName = l_GatewayName listener\<rparr>
          (rrf_Filters (rr_Filters rule)) ids
      else Inr (zero_filters\<lparr>f_InvalidFilter := True\<rparr>, ids))"

definition rule_env_of :: "graph_env \<Rightarrow> Gateway \<Rightarrow> Listener \<Rightarrow> L7Route \<Rightarrow> nat \<Rightarrow> HTTPFilters \<Rightarrow> rule_env" where
  "rule_env_of ge gateway listener route idx filters =
     (let (bg, inference) = newBackendGroup (ge_policies ge) (ge_services ge) (rr_BackendRefs (l7_Rules route ! idx)) (l_GatewayName listener)
            (object_key (l7_Source route)) idx in
      \<lparr>re_filters = filters, re_policies = buildPolicies gateway (l7_Policies route), re_group = bg, re_inference = inference,
       re_source = l7_Source route, re_grpc = (l7_RouteType route = RouteTypeGRPC)\<rparr>)"

definition upsert_rule ::
    "graph_env \<Rightarrow> Gateway \<Rightarrow> Listener \<Rightarrow> L7Route \<Rightarrow> string list \<Rightarrow> nat \<Rightarrow> hostPathRules \<times> string set \<Rightarrow> (hostPathRules \<times> string set) go" where
  "upsert_rule ge gateway listener route hostnames idx st =
     (let (hpr, ids) = st; rule = l7_Rules route ! idx in
      if \<not> rr_ValidMatches rule then Inr (hpr, ids)
      else
        bind_go (rule_filters ge listener route idx ids) (\<lambda>(filters, ids).
          bind_go (fold_go (\<lambda>h. fold_go (upsert_match (rule_env_of ge gateway listener route idx filters) h) (rr_Matches rule)) hostnames hpr)
            (\<lambda>hpr. Inr (hpr, ids))))"

definition upsertRoute ::
    "graph_env \<Rightarrow> Gateway \<Rightarrow> Listener \<Rightarrow> L7Route \<Rightarrow> hostPathRules \<times> string set \<Rightarrow> (hostPathRules \<times> string set) go" where
  "upsertRoute ge gateway listener route st =
     bind_go (accepted_hostnames (l7_ParentRefs route) (CreateParentRefListenerKeyFromListener listener)) (\<lambda>hostnames.
       fold_go (upsert_rule ge gateway listener route hostnames) [0..<length (l7_Rules route)]
         (fold (init_host listener) hostnames (fst st), snd st))"

definition upsert_attached ::
    "graph_env \<Rightarrow> Gateway \<Rightarrow> Listener \<Rightarrow> RouteKey \<Rightarrow> hostPathRules \<times> string set \<Rightarrow> (hostPathRules \<times> string set) go" where
  "upsert_attached ge gateway l rk st =
     bind_go (deref (ge_routes ge rk)) (\<lambda>route. if \<not> l7_Valid route then Inr st else upsertRoute ge gateway l route st)"

definition upsertListener ::
    "graph_env \<Rightarrow> Gateway \<Rightarrow> Listener \<Rightarrow> hostPathRules \<times> string set \<Rightarrow> (hostPathRules \<times> string set) go" where
  "upsertListener ge gateway l st =
     (let (hpr, ids) = st;
          hpr = hpr\<lparr>hp_listenersExist := True, hp_rulesPort := v1_Port (l_Source l)\<rparr>;
          hpr = (if v1_Protocol (l_Source l) = HTTPSProtocolType then hpr\<lparr>hp_httpsListeners := hp_httpsListeners hpr @ [l]\<rparr> else hpr) in
      fold_go (upsert_attached ge gateway l) (l_Routes l) (hpr, ids))"

section \<open>Servers\<close>

definition set_path_rule_idx :: "'p path_rule list \<Rightarrow> 'p path_rule list" where
  "set_path_rule_idx rules =
     map (\<lambda>(i, r). r\<lparr>pr_MatchRules := map (\<lambda>mr. mr\<lparr>mr_BackendGroup := (mr_BackendGroup mr)\<lparr>bg_PathRuleIdx := i\<rparr>\<rparr>) (pr_MatchRules r)\<rparr>)
       (zip [0..<length rules] rules)"

definition server_ssl :: "Listener \<Rightarrow> dp_SSL option" where
  "server_ssl l = (if l_ResolvedSecrets l \<noteq> [] then Some (buildSSL l) else None)"

definition host_server :: "hostPathRules \<Rightarrow> string \<times> path_rules \<Rightarrow> PolicyKey VirtualServer go" where
  "host_server hpr hr =
     (let (h, rules) = hr in
      case hp_listenersForHost hpr h of
        None \<Rightarrow> Inl (Panic (''no listener found for hostname: '' @ h))
      | Some l \<Rightarrow>
          Inr \<lparr>vs_SSL = server_ssl l, vs_Hostname = h,
               vs_PathRules = set_path_rule_idx (sortPathRules (map (\<lambda>(k, r). r\<lparr>pr_MatchRules := sortMatchRules (pr_MatchRules r)\<rparr>) rules)),
               vs_Policies = [], vs_Port = hp_rulesPort hpr, vs_IsDefault = False\<rparr>)"

text \<open>The answer of a listener without routes, or for any hostname: a server without rules. The default server takes the TLS settings of the last wildcard listener.\<close>

definition needs_404_server :: "Listener \<Rightarrow> bool" where
  "needs_404_server l \<longleftrightarrow> l_Routes l = [] \<or> getListenerHostname (v1_Hostname (l_Source l)) = wildcardHostname"

definition empty_server :: "hostPathRules \<Rightarrow> Listener \<Rightarrow> PolicyKey VirtualServer" where
  "empty_server hpr l =
     \<lparr>vs_SSL = server_ssl l, vs_Hostname = getListenerHostname (v1_Hostname (l_Source l)), vs_PathRules = [], vs_Policies = [],
      vs_Port = hp_rulesPort hpr, vs_IsDefault = False\<rparr>"

definition default_ssl :: "Listener list \<Rightarrow> dp_SSL option" where
  "default_ssl ls =
     fold (\<lambda>l d. if getListenerHostname (v1_Hostname (l_Source l)) = wildcardHostname \<and> l_ResolvedSecrets l \<noteq> [] then Some (buildSSL l) else d) ls None"

text \<open>\<^verbatim>\<open>sort.Slice\<close> gives servers with the same hostname any order; the stable order stands for one of them.\<close>

definition hpr_buildServers :: "hostPathRules \<Rightarrow> PolicyKey VirtualServer list go" where
  "hpr_buildServers hpr =
     bind_go (map_go (host_server hpr) (hp_rulesPerHost hpr)) (\<lambda>servers.
       let servers = servers @ map (empty_server hpr) (filter needs_404_server (hp_httpsListeners hpr));
           servers = (if hp_listenersExist hpr then
               servers @ [\<lparr>vs_SSL = default_ssl (hp_httpsListeners hpr), vs_Hostname = [], vs_PathRules = [], vs_Policies = [],
                 vs_Port = hp_rulesPort hpr, vs_IsDefault = True\<rparr>]
             else servers) in
       Inr (slice_stable (\<lambda>a b. vs_Hostname a < vs_Hostname b) servers))"

type_synonym portPathRules = "(int \<times> hostPathRules) list"

definition ports_buildServers :: "portPathRules \<Rightarrow> PolicyKey VirtualServer list go" where
  "ports_buildServers p = bind_go (map_go (\<lambda>(port, rules). hpr_buildServers rules) p) (\<lambda>servers. Inr (concat servers))"

record servers_state =
  ss_http :: portPathRules
  ss_https :: portPathRules
  ss_hostnames :: "(int \<times> string list) list"
  ss_ids :: "string set"

definition upsert_port ::
    "graph_env \<Rightarrow> Gateway \<Rightarrow> Listener \<Rightarrow> portPathRules \<Rightarrow> string set \<Rightarrow> (portPathRules \<times> string set) go" where
  "upsert_port ge gateway l p ids =
     (let port = v1_Port (l_Source l) in
      bind_go (upsertListener ge gateway l (deref_or newHostPathRules (map_of p port), ids)) (\<lambda>(rules, ids).
        Inr (AList.update port rules p, ids)))"

definition add_listener :: "graph_env \<Rightarrow> Gateway \<Rightarrow> nat \<Rightarrow> servers_state \<Rightarrow> servers_state go" where
  "add_listener ge gateway i ss =
     (let l = g_heap gateway ! i; port = v1_Port (l_Source l) in
      if v1_Protocol (l_Source l) \<in> {TLSProtocolType, TCPProtocolType, UDPProtocolType} \<or> \<not> l_Valid l then Inr ss
      else case v1_Protocol (l_Source l) of
        HTTPProtocolType \<Rightarrow>
          bind_go (upsert_port ge gateway l (ss_http ss) (ss_ids ss)) (\<lambda>(p, ids). Inr (ss\<lparr>ss_http := p, ss_ids := ids\<rparr>))
      | HTTPSProtocolType \<Rightarrow>
          bind_go (upsert_port ge gateway l (ss_https ss) (ss_ids ss)) (\<lambda>(p, ids).
            Inr (ss\<lparr>ss_https := p, ss_ids := ids,
              ss_hostnames := AList.update port (deref_or [] (map_of (ss_hostnames ss) port) @ [deref_or [] (v1_Hostname (l_Source l))]) (ss_hostnames ss)\<rparr>))
      | _ \<Rightarrow> Inl (Panic ''assignment to entry in nil map''))"

definition dp_buildServers ::
    "graph_env \<Rightarrow> Gateway \<Rightarrow> (PolicyKey VirtualServer list \<times> PolicyKey VirtualServer list \<times> (int \<times> string list) list \<times> string set) go" where
  "dp_buildServers ge gateway =
     bind_go (fold_go (add_listener ge gateway) (g_Listeners gateway) \<lparr>ss_http = [], ss_https = [], ss_hostnames = [], ss_ids = {}\<rparr>) (\<lambda>ss.
     bind_go (ports_buildServers (ss_http ss)) (\<lambda>httpServers.
     bind_go (ports_buildServers (ss_https ss)) (\<lambda>sslServers.
       let pols = buildPolicies gateway (g_Policies gateway); set_pols = map (\<lambda>s. s\<lparr>vs_Policies := pols\<rparr>) in
       Inr (set_pols httpServers, set_pols sslServers, ss_hostnames ss, ss_ids ss))))"

end
