(* ===== verification/HostRulesCorrect.thy ===== *)
theory HostRulesCorrect
  imports HostRules
begin

text \<open>
  What \<^verbatim>\<open>hostPathRules\<close> collects: the rules of a hostname are the groups, by path and path type, of the matches of the routes
  attached to the listeners of the port. The lemmas follow the loops of \<^verbatim>\<open>upsertListener\<close> and \<^verbatim>\<open>upsertRoute\<close> from the inside out.
\<close>

section \<open>Contributions of the matches of a route\<close>

record entry =
  en_host :: string
  en_key :: pathAndType
  en_type :: PathType
  en_rule :: match_rule
  en_env :: rule_env

definition match_entry :: "rule_env \<Rightarrow> string \<Rightarrow> v1_HTTPRouteMatch \<Rightarrow> entry option" where
  "match_entry rl h m =
     (case v1r_Path m of
        None \<Rightarrow> None
      | Some p \<Rightarrow>
          (case v1p_Type p of
             None \<Rightarrow> None
           | Some t \<Rightarrow>
               (case (convertPathType t, convertMatch m) of
                  (Inr pt, Inr mt) \<Rightarrow>
                    Some \<lparr>en_host = h, en_key = (getPath (v1r_Path m), t), en_type = pt,
                      en_rule = \<lparr>mr_Filters = re_filters rl, mr_Source = re_source rl, mr_Match = mt, mr_BackendGroup = re_group rl\<rparr>, en_env = rl\<rparr>
                | _ \<Rightarrow> None)))"

text \<open>The path rule made of a sequence of contributions to the same hostname, path and type.\<close>

definition extend_rule :: "entry \<Rightarrow> PolicyKey path_rule option \<Rightarrow> PolicyKey path_rule option" where
  "extend_rule e r =
     (let r = deref_or \<lparr>pr_Path = fst (en_key e), pr_PathType = en_type e, pr_MatchRules = [], pr_Policies = re_policies (en_env e),
            pr_GRPC = False, pr_HasInferenceBackends = False\<rparr> r in
      Some (r\<lparr>pr_GRPC := re_grpc (en_env e), pr_HasInferenceBackends := (pr_HasInferenceBackends r \<or> re_inference (en_env e)),
        pr_MatchRules := pr_MatchRules r @ [en_rule e]\<rparr>))"

definition group_rule :: "entry list \<Rightarrow> string \<Rightarrow> pathAndType \<Rightarrow> PolicyKey path_rule option" where
  "group_rule es h key = fold extend_rule (filter (\<lambda>e. en_host e = h \<and> en_key e = key) es) None"

definition lookup_rule :: "hostPathRules \<Rightarrow> string \<Rightarrow> pathAndType \<Rightarrow> PolicyKey path_rule option" where
  "lookup_rule hpr h key = Option.bind (map_of (hp_rulesPerHost hpr) h) (\<lambda>rs. map_of rs key)"

definition grouped :: "hostPathRules \<Rightarrow> entry list \<Rightarrow> bool" where
  "grouped hpr es \<longleftrightarrow>
     distinct (map fst (hp_rulesPerHost hpr)) \<and> (\<forall>(h, rs) \<in> set (hp_rulesPerHost hpr). distinct (map fst rs)) \<and>
     (\<forall>e \<in> set es. convertPathType (snd (en_key e)) = Inr (en_type e)) \<and>
     (\<forall>h key. lookup_rule hpr h key = group_rule es h key)"

definition collects :: "hostPathRules \<Rightarrow> entry set \<Rightarrow> bool" where
  "collects hpr E \<longleftrightarrow> (\<exists>es. grouped hpr es \<and> set es = E)"

lemma bind_option_None: "Option.bind x f = None \<longleftrightarrow> x = None \<or> (\<exists>a. x = Some a \<and> f a = None)"
  by (cases x) auto

lemma group_rule_None_iff: "group_rule es h key = None \<longleftrightarrow> (\<forall>e \<in> set es. \<not> (en_host e = h \<and> en_key e = key))"
proof -
  have "fold extend_rule xs r = None \<longleftrightarrow> xs = [] \<and> r = None" for xs r
    by (induction xs arbitrary: r) (auto simp: extend_rule_def Let_def)
  then show ?thesis by (auto simp: group_rule_def filter_empty_conv)
qed

lemma group_rule_append:
  "group_rule (es @ [e]) h key = (if en_host e = h \<and> en_key e = key then extend_rule e (group_rule es h key) else group_rule es h key)"
  by (simp add: group_rule_def)

lemma group_rule_Some:
  assumes "group_rule es h key = Some r" and "\<forall>e \<in> set es. convertPathType (snd (en_key e)) = Inr (en_type e)"
  shows "pr_Path r = fst key" and "convertPathType (snd key) = Inr (pr_PathType r)"
    and "set (pr_MatchRules r) = en_rule ` {e \<in> set es. en_host e = h \<and> en_key e = key}"
proof -
  have "pr_Path r = fst key \<and> convertPathType (snd key) = Inr (pr_PathType r) \<and>
    set (pr_MatchRules r) = en_rule ` {e \<in> set es. en_host e = h \<and> en_key e = key}"
    using assms
  proof (induction es arbitrary: r rule: rev_induct)
    case (snoc e es)
    show ?case
    proof (cases "en_host e = h \<and> en_key e = key")
      case True
      then have r: "extend_rule e (group_rule es h key) = Some r" using snoc.prems by (simp add: group_rule_append)
      have eq: "{x \<in> set (es @ [e]). en_host x = h \<and> en_key x = key} = insert e {x \<in> set es. en_host x = h \<and> en_key x = key}" using True by auto
      show ?thesis
      proof (cases "group_rule es h key")
        case None
        then have none: "{x \<in> set es. en_host x = h \<and> en_key x = key} = {}" by (auto simp: group_rule_None_iff)
        have "r = \<lparr>pr_Path = fst key, pr_PathType = en_type e, pr_MatchRules = [en_rule e], pr_Policies = re_policies (en_env e),
            pr_GRPC = re_grpc (en_env e), pr_HasInferenceBackends = re_inference (en_env e)\<rparr>"
          using r None True by (simp add: extend_rule_def deref_or_def)
        moreover have "convertPathType (snd key) = Inr (en_type e)" using snoc.prems(2) True by auto
        ultimately show ?thesis unfolding eq none by simp
      next
        case (Some r')
        with snoc have "pr_Path r' = fst key \<and> convertPathType (snd key) = Inr (pr_PathType r') \<and>
          set (pr_MatchRules r') = en_rule ` {x \<in> set es. en_host x = h \<and> en_key x = key}" by simp
        moreover have "pr_Path r = pr_Path r'" "pr_PathType r = pr_PathType r'" "pr_MatchRules r = pr_MatchRules r' @ [en_rule e]"
          using r Some by (auto simp: extend_rule_def deref_or_def Let_def)
        ultimately show ?thesis unfolding eq by auto
      qed
    next
      case False
      then have "{x \<in> set (es @ [e]). en_host x = h \<and> en_key x = key} = {x \<in> set es. en_host x = h \<and> en_key x = key}" by auto
      then show ?thesis using snoc False by (simp add: group_rule_append)
    qed
  qed (simp add: group_rule_def)
  then show "pr_Path r = fst key" and "convertPathType (snd key) = Inr (pr_PathType r)"
    and "set (pr_MatchRules r) = en_rule ` {e \<in> set es. en_host e = h \<and> en_key e = key}" by blast+
qed

lemma set_update_subset: "set (AList.update k v al) \<subseteq> insert (k, v) (set al)"
  by (induction al) auto

lemma upsert_match_grouped:
  assumes "upsert_match rl h m hpr = Inr hpr'" and "grouped hpr es"
  shows "\<exists>e. match_entry rl h m = Some e \<and> grouped hpr' (es @ [e])"
proof -
  let ?rules = "deref_or [] (map_of (hp_rulesPerHost hpr) h)"
  obtain p t where p: "v1r_Path m = Some p" "v1p_Type p = Some t"
    using assms(1) by (auto simp: upsert_match_def bind_go_Inr_iff deref_def split: option.splits)
  let ?key = "(getPath (Some p), t)"
  have look: "lookup_rule hpr h ?key = map_of ?rules ?key" by (cases "map_of (hp_rulesPerHost hpr) h") (simp_all add: lookup_rule_def deref_or_def)
  have conv: "\<forall>e \<in> set es. convertPathType (snd (en_key e)) = Inr (en_type e)" using assms(2) by (simp add: grouped_def)
  let ?hr = "\<lambda>hostRule. (case map_of ?rules ?key of Some hostRule \<Rightarrow> Inr hostRule
      | None \<Rightarrow> bind_go (convertPathType t) (\<lambda>pt. Inr \<lparr>pr_Path = getPath (Some p), pr_PathType = pt, pr_MatchRules = [], pr_Policies = re_policies rl,
          pr_GRPC = False, pr_HasInferenceBackends = False\<rparr>)) = Inr hostRule"
  let ?hpr' = "\<lambda>hostRule mt. hpr' = hpr\<lparr>hp_rulesPerHost := AList.update h (AList.update ?key (hostRule\<lparr>pr_GRPC := re_grpc rl,
        pr_HasInferenceBackends := (pr_HasInferenceBackends hostRule \<or> re_inference rl),
        pr_MatchRules := pr_MatchRules hostRule @
          [\<lparr>mr_Filters = re_filters rl, mr_Source = re_source rl, mr_Match = mt, mr_BackendGroup = re_group rl\<rparr>]\<rparr>) ?rules) (hp_rulesPerHost hpr)\<rparr>"
  obtain hostRule mt where hr: "?hr hostRule" and mt: "convertMatch m = Inr mt" and hpr': "?hpr' hostRule mt"
  proof -
    have "\<exists>hostRule mt. ?hr hostRule \<and> convertMatch m = Inr mt \<and> ?hpr' hostRule mt"
      using assms(1) p by (simp add: upsert_match_def bind_go_Inr_iff deref_def Let_def eq_commute [of hpr'] cong: option.case_cong)
    then show thesis using that by blast
  qed
  have pt: "\<exists>pt. convertPathType t = Inr pt"
  proof (cases "map_of ?rules ?key")
    case (Some r)
    then have "group_rule es h ?key = Some r" using assms(2) look by (simp add: grouped_def)
    from group_rule_Some(2) [OF this conv] show ?thesis by simp
  qed (use hr in \<open>auto simp: bind_go_Inr_iff\<close>)
  then obtain pt where pt: "convertPathType t = Inr pt" ..
  define e where "e = \<lparr>en_host = h, en_key = ?key, en_type = pt,
    en_rule = \<lparr>mr_Filters = re_filters rl, mr_Source = re_source rl, mr_Match = mt, mr_BackendGroup = re_group rl\<rparr>, en_env = rl\<rparr>"
  have e: "match_entry rl h m = Some e" using p pt mt by (simp add: match_entry_def e_def)
  have new: "extend_rule e (map_of ?rules ?key) = Some (hostRule\<lparr>pr_GRPC := re_grpc rl,
        pr_HasInferenceBackends := (pr_HasInferenceBackends hostRule \<or> re_inference rl), pr_MatchRules := pr_MatchRules hostRule @ [en_rule e]\<rparr>)"
    using hr pt by (cases "map_of ?rules ?key") (auto simp: extend_rule_def e_def deref_or_def)
  have lk: "lookup_rule hpr' h' key' = (if h' = h \<and> key' = ?key then extend_rule e (map_of ?rules ?key) else lookup_rule hpr h' key')" for h' key'
    unfolding new lookup_rule_def hpr' by (cases "map_of (hp_rulesPerHost hpr) h") (simp_all add: update_conv' deref_or_def e_def)
  have "lookup_rule hpr' h' key' = group_rule (es @ [e]) h' key'" for h' key'
  proof -
    have "lookup_rule hpr h'' k'' = group_rule es h'' k''" for h'' k'' using assms(2) unfolding grouped_def by blast
    then show ?thesis by (auto simp: lk group_rule_append look [symmetric] e_def)
  qed
  moreover have "distinct (map fst (hp_rulesPerHost hpr'))" using assms(2) by (simp add: hpr' grouped_def distinct_update)
  moreover have "distinct (map fst ?rules)"
    using assms(2) by (auto simp: grouped_def deref_or_def split: option.split dest: map_of_SomeD)
  then have "\<forall>(k, rs) \<in> set (hp_rulesPerHost hpr'). distinct (map fst rs)"
    using assms(2) by (auto simp: hpr' grouped_def distinct_update dest!: set_update_subset [THEN subsetD])
  ultimately have "grouped hpr' (es @ [e])" using conv pt by (simp add: grouped_def e_def)
  with e show ?thesis by blast
qed

section \<open>Contributions of routes and listeners\<close>

lemma fold_go_collect:
  assumes "\<And>x s s' E. x \<in> set xs \<Longrightarrow> P s E \<Longrightarrow> f x s = Inr s' \<Longrightarrow> P s' (E \<union> C x)" and "fold_go f xs s = Inr s'" and "P s E"
  shows "P s' (E \<union> (\<Union>x \<in> set xs. C x))"
  using assms
proof (induction xs arbitrary: s E)
  case (Cons x xs)
  obtain t where t: "f x s = Inr t" "fold_go f xs t = Inr s'" using Cons.prems(2) by (auto simp: bind_go_Inr_iff)
  have "P t (E \<union> C x)" using Cons.prems(1) [of x] Cons.prems(3) t(1) by simp
  then have "P s' ((E \<union> C x) \<union> (\<Union>x \<in> set xs. C x))" using Cons.prems(1) t(2) by (intro Cons.IH) simp_all
  then show ?case by (simp add: Un_assoc)
qed simp

lemma create_filter_ids:
  "create_filter env f (r, ids) = (case create_filter env f (r, {}) of Inl p \<Rightarrow> Inl p | Inr (r', d) \<Rightarrow> Inr (r', ids \<union> d))"
proof -
  have keep: "bind_go m (\<lambda>r. Inr (r, ids)) = (case bind_go m (\<lambda>r. Inr (r, {})) of Inl p \<Rightarrow> Inl p | Inr (r', d) \<Rightarrow> Inr (r', ids \<union> d))"
    for m :: "HTTPFilters go" by (cases m) simp_all
  have "external_auth_filter env filt (r, ids) = (case external_auth_filter env filt (r, {}) of Inl p \<Rightarrow> Inl p | Inr (r', d) \<Rightarrow> Inr (r', ids \<union> d))" for filt
  proof (cases "find (\<lambda>br. br_IsExternalAuthBackend br \<and> br_Valid br) (fe_backendRefs env)")
    case (Some br)
    then show ?thesis
      by (cases "convertHTTPExternalAuthFilter (fe_policies env) filt br (fe_routeNsName env) (fe_ruleIdx env) (fe_gwNsName env)")
        (simp_all add: external_auth_filter_def deref_def split: option.split)
  qed (simp add: external_auth_filter_def)
  then show ?thesis unfolding create_filter_def by (cases "fl_FilterType f") (simp_all add: keep)
qed

lemma createHTTPFilters_ids:
  "createHTTPFilters env fs ids = (case createHTTPFilters env fs {} of Inl p \<Rightarrow> Inl p | Inr (r', d) \<Rightarrow> Inr (r', ids \<union> d))"
proof -
  have "fold_go (create_filter env) fs (r, ids) = (case fold_go (create_filter env) fs (r, {}) of Inl p \<Rightarrow> Inl p | Inr (r', d) \<Rightarrow> Inr (r', ids \<union> d))" for r ids
  proof (induction fs arbitrary: r ids)
    case (Cons f fs)
    show ?case
    proof (cases "create_filter env f (r, {})")
      case (Inl p)
      then show ?thesis by (simp add: create_filter_ids [of env f r ids])
    next
      case (Inr rd)
      obtain r1 d where rd: "rd = (r1, d)" by (cases rd)
      have "fold_go (create_filter env) (f # fs) (r, ids) = fold_go (create_filter env) fs (r1, ids \<union> d)"
        and "fold_go (create_filter env) (f # fs) (r, {}) = fold_go (create_filter env) fs (r1, d)"
        using Inr rd by (simp_all add: create_filter_ids [of env f r ids])
      then show ?thesis
        unfolding Cons.IH [of r1 "ids \<union> d"] Cons.IH [of r1 d]
        by (cases "fold_go (create_filter env) fs (r1, {})") (simp_all add: Un_assoc case_prod_beta)
    qed
  qed simp
  then show ?thesis unfolding createHTTPFilters_def by blast
qed

lemma rule_filters_ids:
  "rule_filters ge l route idx ids = Inr (fs, ids') \<Longrightarrow> \<exists>d. rule_filters ge l route idx {} = Inr (fs, d)"
  unfolding rule_filters_def Let_def using createHTTPFilters_ids [of _ _ ids] by (auto split: if_splits sum.splits)

definition rule_entries :: "graph_env \<Rightarrow> Gateway \<Rightarrow> Listener \<Rightarrow> L7Route \<Rightarrow> string list \<Rightarrow> nat \<Rightarrow> entry set" where
  "rule_entries ge gw l route hs idx =
     {e. rr_ValidMatches (l7_Rules route ! idx) \<and>
       (\<exists>filters d h m. rule_filters ge l route idx {} = Inr (filters, d) \<and> h \<in> set hs \<and> m \<in> set (rr_Matches (l7_Rules route ! idx)) \<and>
          match_entry (rule_env_of ge gw l route idx filters) h m = Some e)}"

definition route_entries :: "graph_env \<Rightarrow> Gateway \<Rightarrow> Listener \<Rightarrow> L7Route \<Rightarrow> entry set" where
  "route_entries ge gw l route =
     {e. \<exists>hs idx. accepted_hostnames (l7_ParentRefs route) (CreateParentRefListenerKeyFromListener l) = Inr hs \<and>
        idx < length (l7_Rules route) \<and> e \<in> rule_entries ge gw l route hs idx}"

definition listener_entries :: "graph_env \<Rightarrow> Gateway \<Rightarrow> Listener \<Rightarrow> entry set" where
  "listener_entries ge gw l =
     {e. \<exists>rk route. rk \<in> set (l_Routes l) \<and> ge_routes ge rk = Some route \<and> l7_Valid route \<and> e \<in> route_entries ge gw l route}"

text \<open>The state a listener starts with, except the rules.\<close>

definition same_port :: "hostPathRules \<Rightarrow> hostPathRules \<Rightarrow> bool" where
  "same_port a b \<longleftrightarrow> hp_rulesPort a = hp_rulesPort b \<and> hp_httpsListeners a = hp_httpsListeners b \<and> hp_listenersExist a = hp_listenersExist b"

lemma upsert_match_collects:
  assumes "upsert_match rl h m hpr = Inr hpr'" and "collects hpr E"
  shows "collects hpr' (E \<union> {e. match_entry rl h m = Some e})"
proof -
  obtain es where es: "grouped hpr es" "set es = E" using assms(2) by (auto simp: collects_def)
  obtain e where "match_entry rl h m = Some e" "grouped hpr' (es @ [e])" using upsert_match_grouped [OF assms(1) es(1)] by blast
  then show ?thesis unfolding collects_def using es(2) by (intro exI [of _ "es @ [e]"]) auto
qed

lemma upsert_match_port: "upsert_match rl h m hpr = Inr hpr' \<Longrightarrow> same_port hpr hpr'"
  by (auto simp: upsert_match_def bind_go_Inr_iff Let_def same_port_def)

lemma init_host_collects:
  assumes "collects hpr E"
  shows "collects (init_host l h hpr) E \<and> same_port hpr (init_host l h hpr)"
proof -
  have rules: "hp_rulesPerHost (init_host l h hpr) =
      (if map_of (hp_rulesPerHost hpr) h = None then AList.update h [] (hp_rulesPerHost hpr) else hp_rulesPerHost hpr)"
    by (auto simp: init_host_def Let_def split: option.split)
  have "lookup_rule (init_host l h hpr) h' key = lookup_rule hpr h' key" for h' key
    unfolding lookup_rule_def rules by (simp add: update_conv')
  moreover have "distinct (map fst (hp_rulesPerHost hpr)) \<Longrightarrow> distinct (map fst (hp_rulesPerHost (init_host l h hpr)))"
    unfolding rules by (simp add: distinct_update)
  moreover have "\<forall>(h, rs) \<in> set (hp_rulesPerHost hpr). distinct (map fst rs) \<Longrightarrow>
      \<forall>(h, rs) \<in> set (hp_rulesPerHost (init_host l h hpr)). distinct (map fst rs)"
    unfolding rules using set_update_subset [of h "[]" "hp_rulesPerHost hpr"] by auto
  moreover have "same_port hpr (init_host l h hpr)" by (simp add: init_host_def Let_def same_port_def split: option.split)
  ultimately show ?thesis using assms unfolding collects_def grouped_def by (metis (no_types, lifting))
qed

lemma same_port_trans: "same_port a b \<Longrightarrow> same_port b c \<Longrightarrow> same_port a c"
  by (simp add: same_port_def)

lemma upsert_rule_collects:
  assumes "upsert_rule ge gw l route hs idx (hpr, ids) = Inr (hpr', ids')" and "collects hpr E"
  shows "collects hpr' (E \<union> rule_entries ge gw l route hs idx) \<and> same_port hpr hpr'"
proof (cases "rr_ValidMatches (l7_Rules route ! idx)")
  case True
  let ?ms = "rr_Matches (l7_Rules route ! idx)" and ?P = "\<lambda>s E. collects s E \<and> same_port hpr s"
  obtain filters ids1 where fs: "rule_filters ge l route idx ids = Inr (filters, ids1)"
    and run: "fold_go (\<lambda>h. fold_go (upsert_match (rule_env_of ge gw l route idx filters) h) ?ms) hs hpr = Inr hpr'"
    using assms(1) True by (auto simp: upsert_rule_def Let_def bind_go_Inr_iff)
  obtain d where d: "rule_filters ge l route idx {} = Inr (filters, d)" using rule_filters_ids [OF fs] ..
  let ?rl = "rule_env_of ge gw l route idx filters"
  have one: "?P s' (E \<union> (\<Union>m \<in> set ?ms. {e. match_entry ?rl h m = Some e}))"
    if "?P s E" "fold_go (upsert_match ?rl h) ?ms s = Inr s'" for h s s' E
    using that(2,1) by (rule fold_go_collect [where P = ?P, rotated]) (blast intro: upsert_match_collects upsert_match_port same_port_trans)
  have "?P hpr' (E \<union> (\<Union>h \<in> set hs. \<Union>m \<in> set ?ms. {e. match_entry ?rl h m = Some e}))"
    using run by (rule fold_go_collect [where P = ?P, rotated]) (use one assms(2) in \<open>blast intro: same_port_def [THEN iffD2]\<close>)+
  moreover have "rule_entries ge gw l route hs idx = (\<Union>h \<in> set hs. \<Union>m \<in> set ?ms. {e. match_entry ?rl h m = Some e})"
    using True d by (auto simp: rule_entries_def)
  ultimately show ?thesis by simp
next
  case False
  then show ?thesis using assms by (simp add: upsert_rule_def rule_entries_def same_port_def)
qed

lemma upsertRoute_collects:
  assumes "upsertRoute ge gw l route (hpr, ids) = Inr (hpr', ids')" and "collects hpr E"
  shows "collects hpr' (E \<union> route_entries ge gw l route) \<and> same_port hpr hpr'"
proof -
  obtain hs where hs: "accepted_hostnames (l7_ParentRefs route) (CreateParentRefListenerKeyFromListener l) = Inr hs"
    and run: "fold_go (upsert_rule ge gw l route hs) [0..<length (l7_Rules route)] (fold (init_host l) hs hpr, ids) = Inr (hpr', ids')"
    using assms(1) by (auto simp: upsertRoute_def bind_go_Inr_iff)
  let ?P = "\<lambda>s E. collects (fst s) E \<and> same_port hpr (fst s)"
  have "collects (fold (init_host l) xs hpr) E \<and> same_port hpr (fold (init_host l) xs hpr)" for xs
    by (induction xs rule: rev_induct) (use assms(2) init_host_collects same_port_trans in \<open>auto simp: same_port_def\<close>)
  then have start: "?P (fold (init_host l) hs hpr, ids) E" by simp
  have "?P (hpr', ids') (E \<union> (\<Union>idx \<in> set [0..<length (l7_Rules route)]. rule_entries ge gw l route hs idx))"
  proof (rule fold_go_collect [where P = ?P, OF _ run start])
    fix idx s s' E assume "?P s E" and "upsert_rule ge gw l route hs idx s = Inr s'"
    then show "?P s' (E \<union> rule_entries ge gw l route hs idx)"
      using upsert_rule_collects [of ge gw l route hs idx "fst s" "snd s" "fst s'" "snd s'"] same_port_trans by auto
  qed
  moreover have "route_entries ge gw l route = (\<Union>idx \<in> set [0..<length (l7_Rules route)]. rule_entries ge gw l route hs idx)"
    using hs by (auto simp: route_entries_def)
  ultimately show ?thesis by simp
qed

lemma upsert_attached_collects:
  assumes "upsert_attached ge gw l rk s = Inr s'" and "collects (fst s) E"
  shows "collects (fst s') (E \<union> {e. \<exists>route. ge_routes ge rk = Some route \<and> l7_Valid route \<and> e \<in> route_entries ge gw l route}) \<and>
    same_port (fst s) (fst s')"
proof -
  obtain route where route: "ge_routes ge rk = Some route" and run: "(if \<not> l7_Valid route then Inr s else upsertRoute ge gw l route s) = Inr s'"
    using assms(1) by (auto simp: upsert_attached_def bind_go_Inr_iff deref_def split: option.splits)
  show ?thesis
  proof (cases "l7_Valid route")
    case True
    then show ?thesis using run route upsertRoute_collects [of ge gw l route "fst s" "snd s" "fst s'" "snd s'" E] assms(2) by simp
  next
    case False
    then show ?thesis using run route assms(2) by (simp add: same_port_def)
  qed
qed

text \<open>The rules of a port after the listeners \<open>ls\<close>.\<close>

definition port_state :: "graph_env \<Rightarrow> Gateway \<Rightarrow> int \<Rightarrow> Listener list \<Rightarrow> hostPathRules \<Rightarrow> bool" where
  "port_state ge gw port ls hpr \<longleftrightarrow>
     hp_rulesPort hpr = port \<and> hp_listenersExist hpr \<and>
     hp_httpsListeners hpr = filter (\<lambda>l. v1_Protocol (l_Source l) = HTTPSProtocolType) ls \<and>
     collects hpr (\<Union>l \<in> set ls. listener_entries ge gw l)"

lemma collects_new: "collects newHostPathRules {}"
  by (auto simp: collects_def grouped_def newHostPathRules_def lookup_rule_def group_rule_def)

lemma upsertListener_state:
  assumes run: "upsertListener ge gw l (hpr, ids) = Inr (hpr', ids')" and port: "v1_Port (l_Source l) = port"
    and start: "hpr = newHostPathRules \<and> ls = [] \<or> port_state ge gw port ls hpr"
  shows "port_state ge gw port (ls @ [l]) hpr'"
proof -
  define h0 where "h0 = (let h = hpr\<lparr>hp_listenersExist := True, hp_rulesPort := port\<rparr> in
    if v1_Protocol (l_Source l) = HTTPSProtocolType then h\<lparr>hp_httpsListeners := hp_httpsListeners h @ [l]\<rparr> else h)"
  let ?E = "\<Union>l \<in> set ls. listener_entries ge gw l" and ?P = "\<lambda>s E. collects (fst s) E \<and> same_port h0 (fst s)"
  let ?C = "\<lambda>rk. {e. \<exists>route. ge_routes ge rk = Some route \<and> l7_Valid route \<and> e \<in> route_entries ge gw l route}"
  have loop: "fold_go (upsert_attached ge gw l) (l_Routes l) (h0, ids) = Inr (hpr', ids')"
    using run port by (simp add: upsertListener_def h0_def Let_def)
  have "hp_rulesPerHost h0 = hp_rulesPerHost hpr" by (simp add: h0_def Let_def)
  then have "collects h0 E \<longleftrightarrow> collects hpr E" for E by (simp add: collects_def grouped_def lookup_rule_def)
  moreover have "collects hpr ?E" using start collects_new by (elim disjE) (simp_all add: port_state_def)
  ultimately have P0: "?P (h0, ids) ?E" by (simp add: same_port_def)
  have "?P (hpr', ids') (?E \<union> (\<Union>rk \<in> set (l_Routes l). ?C rk))"
  proof (rule fold_go_collect [where P = ?P, OF _ loop P0])
    fix rk s s' E assume "?P s E" and "upsert_attached ge gw l rk s = Inr s'"
    then show "?P s' (E \<union> ?C rk)"
      using upsert_attached_collects [of ge gw l rk s s' E] same_port_trans [of h0 "fst s" "fst s'"] by simp
  qed
  moreover have "listener_entries ge gw l = (\<Union>rk \<in> set (l_Routes l). ?C rk)" by (auto simp: listener_entries_def)
  moreover have "hp_rulesPort h0 = port \<and> hp_listenersExist h0 \<and>
      hp_httpsListeners h0 = filter (\<lambda>l. v1_Protocol (l_Source l) = HTTPSProtocolType) (ls @ [l])"
    using start by (elim disjE) (simp_all add: h0_def Let_def port_state_def newHostPathRules_def)
  moreover have "(\<Union>l \<in> set (ls @ [l]). listener_entries ge gw l) = ?E \<union> listener_entries ge gw l" by auto
  ultimately show ?thesis unfolding port_state_def by (simp add: same_port_def)
qed

definition ports_state :: "graph_env \<Rightarrow> Gateway \<Rightarrow> Listener list \<Rightarrow> portPathRules \<Rightarrow> bool" where
  "ports_state ge gw ls p \<longleftrightarrow>
     distinct (map fst p) \<and> fst ` set p = (\<lambda>l. v1_Port (l_Source l)) ` set ls \<and>
     (\<forall>(port, hpr) \<in> set p. port_state ge gw port (filter (\<lambda>l. v1_Port (l_Source l) = port) ls) hpr)"

lemma upsert_port_state:
  assumes run: "upsert_port ge gw l p ids = Inr (p', ids')" and st: "ports_state ge gw ls p"
  shows "ports_state ge gw (ls @ [l]) p'"
proof -
  define port where "port = v1_Port (l_Source l)"
  let ?at = "\<lambda>port ls. filter (\<lambda>l. v1_Port (l_Source l) = port) ls"
  obtain rules where up: "upsertListener ge gw l (deref_or newHostPathRules (map_of p port), ids) = Inr (rules, ids')"
    and p': "p' = AList.update port rules p"
    using run by (auto simp: upsert_port_def Let_def bind_go_Inr_iff port_def)
  have old: "port_state ge gw q (?at q ls) hpr" if "(q, hpr) \<in> set p" for q hpr using st that unfolding ports_state_def by blast
  have "deref_or newHostPathRules (map_of p port) = newHostPathRules \<and> ?at port ls = [] \<or>
      port_state ge gw port (?at port ls) (deref_or newHostPathRules (map_of p port))"
  proof (cases "map_of p port")
    case None
    then have "port \<notin> (\<lambda>l. v1_Port (l_Source l)) ` set ls" using st by (simp add: map_of_eq_None_iff ports_state_def)
    then show ?thesis using None by (auto simp: filter_empty_conv)
  next
    case (Some hpr)
    then show ?thesis using old [OF map_of_SomeD [OF Some]] by simp
  qed
  then have new: "port_state ge gw port (?at port ls @ [l]) rules" by (rule upsertListener_state [OF up port_def [symmetric]])
  have "\<forall>(q, hpr) \<in> set p'. port_state ge gw q (?at q (ls @ [l])) hpr"
  proof clarify
    fix q hpr assume "(q, hpr) \<in> set p'"
    then have "map_of p' q = Some hpr" using st unfolding p' by (intro map_of_is_SomeI) (simp_all add: distinct_update ports_state_def)
    then have q: "(if q = port then Some rules else map_of p q) = Some hpr" by (simp add: p' update_conv')
    show "port_state ge gw q (?at q (ls @ [l])) hpr"
    proof (cases "q = port")
      case True
      then show ?thesis using new q by (simp add: port_def)
    next
      case False
      then have "(q, hpr) \<in> set p" using q by (simp add: map_of_SomeD)
      then show ?thesis using old False by (simp add: port_def)
    qed
  qed
  moreover have "fst ` set p' = insert port (fst ` set p)" 
    unfolding p' dom_map_of_conv_image_fst [symmetric] by (simp add: update_conv')
  moreover have "distinct (map fst p')" using st by (simp add: ports_state_def p' distinct_update)
  ultimately show ?thesis using st unfolding ports_state_def port_def by simp
qed

end
