(* ===== verification/VirtualServers.thy ===== *)
theory VirtualServers
  imports HostRulesCorrect
begin

text \<open>
  What the virtual servers of the data plane contain. The properties say that every match of every valid rule of an attached route
  is in the server of each hostname it was accepted for and that nothing else is, that a server has one rule per path and type,
  and when the backend groups of two routes get the same key.
\<close>

section \<open>From rules to servers\<close>

definition no_idx :: "match_rule \<Rightarrow> match_rule" where
  "no_idx mr = mr\<lparr>mr_BackendGroup := (mr_BackendGroup mr)\<lparr>bg_PathRuleIdx := 0\<rparr>\<rparr>"

lemma map_go_all2: "map_go f xs = Inr ys \<Longrightarrow> list_all2 (\<lambda>x y. f x = Inr y) xs ys"
proof (induction xs arbitrary: ys rule: rev_induct)
  case (snoc x xs)
  obtain zs y where "map_go f xs = Inr zs" "f x = Inr y" "ys = zs @ [y]"
    using snoc.prems by (auto simp: map_go_def fold_go_append bind_go_Inr_iff)
  then show ?case using snoc.IH by (simp add: list_all2_appendI)
qed (simp add: map_go_def)

lemma set_path_rule_idx_nth:
  "length (set_path_rule_idx rs) = length rs"
  "i < length rs \<Longrightarrow> set_path_rule_idx rs ! i =
     (rs ! i)\<lparr>pr_MatchRules := map (\<lambda>mr. mr\<lparr>mr_BackendGroup := (mr_BackendGroup mr)\<lparr>bg_PathRuleIdx := i\<rparr>\<rparr>) (pr_MatchRules (rs ! i))\<rparr>"
  by (simp_all add: set_path_rule_idx_def)

lemma set_path_rule_idx_keys:
  "map (\<lambda>r. (pr_Path r, pr_PathType r)) (set_path_rule_idx rs) = map (\<lambda>r. (pr_Path r, pr_PathType r)) rs"
  by (rule nth_equalityI) (simp_all add: set_path_rule_idx_nth)

lemma set_path_rule_idx_contents:
  fixes rs :: "'p path_rule list"
  shows "(\<lambda>r. (pr_Path r, pr_PathType r, no_idx ` set (pr_MatchRules r))) ` set (set_path_rule_idx rs) =
    (\<lambda>r. (pr_Path r, pr_PathType r, no_idx ` set (pr_MatchRules r))) ` set rs"
proof -
  have "map (\<lambda>r. (pr_Path r, pr_PathType r, no_idx ` set (pr_MatchRules r))) (set_path_rule_idx rs) =
      map (\<lambda>r. (pr_Path r, pr_PathType r, no_idx ` set (pr_MatchRules r))) rs"
    by (rule nth_equalityI) (simp_all add: set_path_rule_idx_nth image_image no_idx_def)
  from arg_cong [where f = set, OF this] show ?thesis by simp
qed

text \<open>The contents of a path rule, whatever the order of its match rules and its place in the server.\<close>

definition contents :: "'p path_rule \<Rightarrow> string \<times> PathType \<times> match_rule set" where
  "contents r = (pr_Path r, pr_PathType r, no_idx ` set (pr_MatchRules r))"

lemma host_server_contents:
  assumes "host_server hpr (h, rules) = Inr v"
  shows "vs_Hostname v = h" and "vs_Port v = hp_rulesPort hpr" and "contents ` set (vs_PathRules v) = contents ` snd ` set rules"
    and "mset (map (\<lambda>r. (pr_Path r, pr_PathType r)) (vs_PathRules v)) = mset (map (\<lambda>kr. (pr_Path (snd kr), pr_PathType (snd kr))) rules)"
proof -
  let ?rs = "map (\<lambda>(k, r). r\<lparr>pr_MatchRules := sortMatchRules (pr_MatchRules r)\<rparr>) rules"
  have v: "vs_Hostname v = h \<and> vs_Port v = hp_rulesPort hpr \<and> vs_PathRules v = set_path_rule_idx (sortPathRules ?rs)"
    using assms by (auto simp: host_server_def split: option.splits)
  then show "vs_Hostname v = h" and "vs_Port v = hp_rulesPort hpr" by simp_all
  have "contents ` set (vs_PathRules v) = contents ` set ?rs"
    using v set_path_rule_idx_contents [of "sortPathRules ?rs"] by (simp add: contents_def [abs_def] sortPathRules_def)
  also have "\<dots> = contents ` snd ` set rules"
    by (auto simp: contents_def sortMatchRules_def image_image case_prod_beta image_iff)
  finally show "contents ` set (vs_PathRules v) = contents ` snd ` set rules" .
  have "mset (map (\<lambda>r. (pr_Path r, pr_PathType r)) (vs_PathRules v)) = mset (map (\<lambda>r. (pr_Path r, pr_PathType r)) ?rs)"
    using v by (simp only: set_path_rule_idx_keys sortPathRules_def mset_map mset_slice_stable)
  then show "mset (map (\<lambda>r. (pr_Path r, pr_PathType r)) (vs_PathRules v)) = mset (map (\<lambda>kr. (pr_Path (snd kr), pr_PathType (snd kr))) rules)"
    by (simp add: o_def case_prod_beta)
qed

definition rule_servers :: "hostPathRules \<Rightarrow> PolicyKey VirtualServer set" where
  "rule_servers hpr = {v. \<exists>hr \<in> set (hp_rulesPerHost hpr). host_server hpr hr = Inr v}"

lemma rule_servers_iff:
  "v \<in> rule_servers hpr \<longleftrightarrow> (\<exists>h rules. (h, rules) \<in> set (hp_rulesPerHost hpr) \<and> host_server hpr (h, rules) = Inr v)"
  by (auto simp: rule_servers_def)

lemma hpr_servers:
  assumes "hpr_buildServers hpr = Inr servers"
  shows "rule_servers hpr \<subseteq> set servers"
    and "v \<in> set servers \<Longrightarrow> v \<in> rule_servers hpr \<or> vs_PathRules v = []"
    and "v \<in> set servers \<Longrightarrow> vs_Port v = hp_rulesPort hpr"
    and "hr \<in> set (hp_rulesPerHost hpr) \<Longrightarrow> \<exists>v. host_server hpr hr = Inr v"
proof -
  let ?rest = "map (empty_server hpr) (filter needs_404_server (hp_httpsListeners hpr)) @
    (if hp_listenersExist hpr then [\<lparr>vs_SSL = default_ssl (hp_httpsListeners hpr), vs_Hostname = [], vs_PathRules = [], vs_Policies = [],
       vs_Port = hp_rulesPort hpr, vs_IsDefault = True\<rparr>] else [])"
  obtain vs where vs: "map_go (host_server hpr) (hp_rulesPerHost hpr) = Inr vs" and servers: "set servers = set vs \<union> set ?rest"
    using assms by (auto simp: hpr_buildServers_def bind_go_Inr_iff Let_def)
  note all2 = map_go_all2 [OF vs]
  have vs_set: "set vs = rule_servers hpr"
  proof (intro set_eqI iffI)
    fix v assume "v \<in> set vs"
    then show "v \<in> rule_servers hpr" using list_all2_right [OF all2] unfolding rule_servers_def by blast
  next
    fix v assume "v \<in> rule_servers hpr"
    then obtain hr where hr: "hr \<in> set (hp_rulesPerHost hpr)" "host_server hpr hr = Inr v" unfolding rule_servers_def by blast
    then obtain w where "w \<in> set vs" "host_server hpr hr = Inr w" using list_all2_left [OF all2] by blast
    then show "v \<in> set vs" using hr(2) by simp
  qed
  have rest: "vs_PathRules v = [] \<and> vs_Port v = hp_rulesPort hpr" if "v \<in> set ?rest" for v
    using that by (auto simp: empty_server_def split: if_splits)
  have port: "vs_Port v = hp_rulesPort hpr" if v: "v \<in> rule_servers hpr" for v
  proof -
    obtain h rules where "host_server hpr (h, rules) = Inr v" using v unfolding rule_servers_iff by blast
    then show ?thesis by (rule host_server_contents(2))
  qed
  show "rule_servers hpr \<subseteq> set servers" using servers vs_set by blast
  show "v \<in> set servers \<Longrightarrow> v \<in> rule_servers hpr \<or> vs_PathRules v = []" using servers vs_set rest by blast
  show "v \<in> set servers \<Longrightarrow> vs_Port v = hp_rulesPort hpr" using servers vs_set rest port by blast
  show "hr \<in> set (hp_rulesPerHost hpr) \<Longrightarrow> \<exists>v. host_server hpr hr = Inr v" using list_all2_left [OF all2] by blast
qed

definition in_rule :: "string \<Rightarrow> PathType \<Rightarrow> match_rule \<Rightarrow> 'p path_rule \<Rightarrow> bool" where
  "in_rule p t m r \<longleftrightarrow> pr_Path r = p \<and> pr_PathType r = t \<and> m \<in> no_idx ` set (pr_MatchRules r)"

lemma in_rule_contents: "contents r = contents q \<Longrightarrow> in_rule p t m r = in_rule p t m q"
  by (simp add: in_rule_def contents_def)

lemma in_rule_image:
  fixes A B :: "'p path_rule set"
  shows "contents ` A = contents ` B \<Longrightarrow> (\<exists>r \<in> A. in_rule p t m r) = (\<exists>r \<in> B. in_rule p t m r)"
proof -
  have half: "\<exists>r \<in> B. in_rule p t m r" if "contents ` A = contents ` B" and "r \<in> A" "in_rule p t m r" for A B :: "'p path_rule set" and r
  proof -
    have "contents r \<in> contents ` B" using that(1,2) by blast
    then obtain q where "q \<in> B" "contents r = contents q" by blast
    then show ?thesis using that(3) in_rule_contents by blast
  qed
  show "contents ` A = contents ` B \<Longrightarrow> (\<exists>r \<in> A. in_rule p t m r) = (\<exists>r \<in> B. in_rule p t m r)" using half [of A B] half [of B A] by auto
qed

lemma host_rules_lookup:
  assumes "grouped hpr es"
  shows "lookup_rule hpr h k = Some r \<longleftrightarrow> (\<exists>rules. (h, rules) \<in> set (hp_rulesPerHost hpr) \<and> (k, r) \<in> set rules)"
proof -
  have d: "distinct (map fst (hp_rulesPerHost hpr))" and ds: "\<And>rules. (h, rules) \<in> set (hp_rulesPerHost hpr) \<Longrightarrow> distinct (map fst rules)"
    using assms unfolding grouped_def by blast+
  have "lookup_rule hpr h k = Some r \<longleftrightarrow> (\<exists>rules. map_of (hp_rulesPerHost hpr) h = Some rules \<and> map_of rules k = Some r)"
    by (cases "map_of (hp_rulesPerHost hpr) h") (simp_all add: lookup_rule_def)
  also have "\<dots> \<longleftrightarrow> (\<exists>rules. (h, rules) \<in> set (hp_rulesPerHost hpr) \<and> (k, r) \<in> set rules)"
    using d ds map_of_eq_Some_iff map_of_eq_Some_iff [OF d] by metis
  finally show ?thesis .
qed

lemma group_rule_in_rule:
  assumes "\<forall>e \<in> set es. convertPathType (snd (en_key e)) = Inr (en_type e)"
  shows "(\<exists>k r. group_rule es h k = Some r \<and> in_rule p t m r) \<longleftrightarrow>
    (\<exists>e \<in> set es. en_host e = h \<and> fst (en_key e) = p \<and> en_type e = t \<and> no_idx (en_rule e) = m)"
proof
  assume "\<exists>k r. group_rule es h k = Some r \<and> in_rule p t m r"
  then obtain k r where r: "group_rule es h k = Some r" "in_rule p t m r" by blast
  then obtain e where "e \<in> set es" "en_host e = h" "en_key e = k" "no_idx (en_rule e) = m"
    using group_rule_Some(3) [OF r(1) assms] by (auto simp: in_rule_def)
  then show "\<exists>e \<in> set es. en_host e = h \<and> fst (en_key e) = p \<and> en_type e = t \<and> no_idx (en_rule e) = m"
    using group_rule_Some(1,2) [OF r(1) assms] r(2) assms by (intro bexI [of _ e]) (auto simp: in_rule_def)
next
  assume "\<exists>e \<in> set es. en_host e = h \<and> fst (en_key e) = p \<and> en_type e = t \<and> no_idx (en_rule e) = m"
  then obtain e where e: "e \<in> set es" "en_host e = h" "fst (en_key e) = p" "en_type e = t" "no_idx (en_rule e) = m" by blast
  then obtain r where r: "group_rule es h (en_key e) = Some r" using group_rule_None_iff [of es h "en_key e"] by fastforce
  then have "in_rule p t m r"
    using group_rule_Some [OF r assms] e assms by (auto simp: in_rule_def)
  then show "\<exists>k r. group_rule es h k = Some r \<and> in_rule p t m r" using r by blast
qed

lemma ex_snd: "(\<exists>y \<in> snd ` A. P y) \<longleftrightarrow> (\<exists>x y. (x, y) \<in> A \<and> P y)"
  by force

lemma hpr_complete:
  assumes "collects hpr E" and "hpr_buildServers hpr = Inr servers"
  shows "(\<exists>v \<in> set servers. vs_Hostname v = h \<and> (\<exists>r \<in> set (vs_PathRules v). in_rule p t m r)) \<longleftrightarrow>
    (\<exists>e \<in> E. en_host e = h \<and> fst (en_key e) = p \<and> en_type e = t \<and> no_idx (en_rule e) = m)"
proof -
  obtain es where es: "grouped hpr es" "set es = E" using assms(1) unfolding collects_def by blast
  have types: "\<forall>e \<in> set es. convertPathType (snd (en_key e)) = Inr (en_type e)" using es(1) unfolding grouped_def by blast
  have "(\<exists>v \<in> set servers. vs_Hostname v = h \<and> (\<exists>r \<in> set (vs_PathRules v). in_rule p t m r)) \<longleftrightarrow>
      (\<exists>rules. (h, rules) \<in> set (hp_rulesPerHost hpr) \<and> (\<exists>r \<in> snd ` set rules. in_rule p t m r))"
  proof
    assume "\<exists>v \<in> set servers. vs_Hostname v = h \<and> (\<exists>r \<in> set (vs_PathRules v). in_rule p t m r)"
    then obtain v where v: "v \<in> set servers" "vs_Hostname v = h" "\<exists>r \<in> set (vs_PathRules v). in_rule p t m r" by blast
    then have "vs_PathRules v \<noteq> []" by (metis empty_iff list.set(1))
    then have "v \<in> rule_servers hpr" using hpr_servers(2) [OF assms(2) v(1)] by blast
    then obtain h' rules where hr: "(h', rules) \<in> set (hp_rulesPerHost hpr)" "host_server hpr (h', rules) = Inr v"
      unfolding rule_servers_iff by blast
    then show "\<exists>rules. (h, rules) \<in> set (hp_rulesPerHost hpr) \<and> (\<exists>r \<in> snd ` set rules. in_rule p t m r)"
      using v(2,3) host_server_contents(1) [OF hr(2)] in_rule_image [OF host_server_contents(3) [OF hr(2)]] by blast
  next
    assume "\<exists>rules. (h, rules) \<in> set (hp_rulesPerHost hpr) \<and> (\<exists>r \<in> snd ` set rules. in_rule p t m r)"
    then obtain rules where hr: "(h, rules) \<in> set (hp_rulesPerHost hpr)" "\<exists>r \<in> snd ` set rules. in_rule p t m r" by blast
    then obtain v where v: "host_server hpr (h, rules) = Inr v" using hpr_servers(4) [OF assms(2)] by blast
    then have "v \<in> set servers" using hpr_servers(1) [OF assms(2)] hr(1) unfolding rule_servers_def by blast
    then show "\<exists>v \<in> set servers. vs_Hostname v = h \<and> (\<exists>r \<in> set (vs_PathRules v). in_rule p t m r)"
      using hr(2) host_server_contents(1) [OF v] in_rule_image [OF host_server_contents(3) [OF v]] by blast
  qed
  also have "\<dots> \<longleftrightarrow> (\<exists>k r. lookup_rule hpr h k = Some r \<and> in_rule p t m r)"
    unfolding host_rules_lookup [OF es(1)] ex_snd by blast
  also have "\<dots> \<longleftrightarrow> (\<exists>k r. group_rule es h k = Some r \<and> in_rule p t m r)" using es(1) by (simp add: grouped_def)
  finally show ?thesis unfolding group_rule_in_rule [OF types] es(2) .
qed

lemma convertPathType_inj: "convertPathType t = Inr x \<Longrightarrow> convertPathType u = Inr x \<Longrightarrow> t = u"
  by (cases t; cases u) (auto simp: convertPathType_def)

lemma hpr_keys:
  assumes "collects hpr E" and "hpr_buildServers hpr = Inr servers" and "v \<in> set servers"
  shows "distinct (map (\<lambda>r. (pr_Path r, pr_PathType r)) (vs_PathRules v))"
proof (cases "vs_PathRules v = []")
  case False
  obtain es where es: "grouped hpr es" using assms(1) unfolding collects_def by blast
  have types: "\<forall>e \<in> set es. convertPathType (snd (en_key e)) = Inr (en_type e)" using es(1) unfolding grouped_def by blast
  obtain h rules where hr: "(h, rules) \<in> set (hp_rulesPerHost hpr)" "host_server hpr (h, rules) = Inr v"
    using hpr_servers(2) [OF assms(2,3)] False unfolding rule_servers_iff by blast
  have rule: "pr_Path r = fst k \<and> convertPathType (snd k) = Inr (pr_PathType r)" if "(k, r) \<in> set rules" for k r
  proof -
    have "group_rule es h k = Some r" using host_rules_lookup [OF es, of h k r] hr(1) that es unfolding grouped_def by auto
    then show ?thesis using group_rule_Some(1,2) types by blast
  qed
  have "distinct (map fst rules)" using es hr(1) unfolding grouped_def by blast
  moreover have "inj_on (\<lambda>kr. (pr_Path (snd kr), pr_PathType (snd kr))) (set rules)"
  proof (rule inj_onI)
    fix x y assume xy: "x \<in> set rules" "y \<in> set rules" "(pr_Path (snd x), pr_PathType (snd x)) = (pr_Path (snd y), pr_PathType (snd y))"
    then have "fst x = fst y"
      using rule [of "fst x" "snd x"] rule [of "fst y" "snd y"] convertPathType_inj [of "snd (fst x)" _ "snd (fst y)"] by (auto intro: prod_eqI)
    then show "x = y" using xy(1,2) \<open>distinct (map fst rules)\<close> by (metis distinct_map inj_onD)
  qed
  ultimately have "distinct (map (\<lambda>kr. (pr_Path (snd kr), pr_PathType (snd kr))) rules)" by (simp add: distinct_map)
  then show ?thesis using host_server_contents(4) [OF hr(2)] mset_eq_imp_distinct_iff by blast
qed simp

section \<open>All listeners of a Gateway\<close>

definition served_listeners :: "Gateway \<Rightarrow> ProtocolType \<Rightarrow> nat list \<Rightarrow> Listener list" where
  "served_listeners gw proto is = filter (\<lambda>l. l_Valid l \<and> v1_Protocol (l_Source l) = proto) (map ((!) (g_heap gw)) is)"

definition gateway_state :: "graph_env \<Rightarrow> Gateway \<Rightarrow> nat list \<Rightarrow> servers_state \<Rightarrow> bool" where
  "gateway_state ge gw is ss \<longleftrightarrow>
     ports_state ge gw (served_listeners gw HTTPProtocolType is) (ss_http ss) \<and>
     ports_state ge gw (served_listeners gw HTTPSProtocolType is) (ss_https ss)"

lemma add_listener_state:
  assumes run: "add_listener ge gw i ss = Inr ss'" and st: "gateway_state ge gw is ss"
  shows "gateway_state ge gw (is @ [i]) ss'"
proof -
  let ?l = "g_heap gw ! i"
  have snoc: "served_listeners gw proto (is @ [i]) =
      served_listeners gw proto is @ (if l_Valid ?l \<and> v1_Protocol (l_Source ?l) = proto then [?l] else [])" for proto
    by (simp add: served_listeners_def)
  consider "v1_Protocol (l_Source ?l) \<notin> {HTTPProtocolType, HTTPSProtocolType} \<or> \<not> l_Valid ?l" "ss' = ss"
    | p ids where "l_Valid ?l" "v1_Protocol (l_Source ?l) = HTTPProtocolType"
        "upsert_port ge gw ?l (ss_http ss) (ss_ids ss) = Inr (p, ids)" "ss_http ss' = p" "ss_https ss' = ss_https ss"
    | p ids where "l_Valid ?l" "v1_Protocol (l_Source ?l) = HTTPSProtocolType"
        "upsert_port ge gw ?l (ss_https ss) (ss_ids ss) = Inr (p, ids)" "ss_https ss' = p" "ss_http ss' = ss_http ss"
    using run by (cases "v1_Protocol (l_Source ?l)") (auto simp: add_listener_def Let_def bind_go_Inr_iff split: if_splits)
  then show ?thesis
  proof cases
    case 1
    then show ?thesis using st unfolding gateway_state_def snoc by auto
  next
    case 2
    then show ?thesis using st upsert_port_state [OF 2(3)] unfolding gateway_state_def snoc by simp
  next
    case 3
    then show ?thesis using st upsert_port_state [OF 3(3)] unfolding gateway_state_def snoc by simp
  qed
qed

lemma add_listeners_state:
  "fold_go (add_listener ge gw) is \<lparr>ss_http = [], ss_https = [], ss_hostnames = [], ss_ids = {}\<rparr> = Inr ss \<Longrightarrow> gateway_state ge gw is ss"
proof (induction "is" arbitrary: ss rule: rev_induct)
  case Nil
  then show ?case by (auto simp: gateway_state_def ports_state_def served_listeners_def)
next
  case (snoc i "is")
  then show ?case using add_listener_state by (auto simp: fold_go_append bind_go_Inr_iff)
qed

lemma ports_buildServers_set:
  assumes "ports_buildServers p = Inr servers"
  shows "v \<in> set servers \<longleftrightarrow> (\<exists>port hpr vs. (port, hpr) \<in> set p \<and> hpr_buildServers hpr = Inr vs \<and> v \<in> set vs)"
proof -
  obtain vss where "map_go (\<lambda>(port, rules). hpr_buildServers rules) p = Inr vss" and servers: "servers = concat vss"
    using assms by (auto simp: ports_buildServers_def bind_go_Inr_iff)
  note all2 = map_go_all2 [OF this(1)]
  have "vs \<in> set vss \<longleftrightarrow> (\<exists>port hpr. (port, hpr) \<in> set p \<and> hpr_buildServers hpr = Inr vs)" for vs
  proof
    assume "vs \<in> set vss"
    then show "\<exists>port hpr. (port, hpr) \<in> set p \<and> hpr_buildServers hpr = Inr vs" by (rule list_all2_right [OF all2]) auto
  next
    assume "\<exists>port hpr. (port, hpr) \<in> set p \<and> hpr_buildServers hpr = Inr vs"
    then obtain port hpr where ph: "(port, hpr) \<in> set p" "hpr_buildServers hpr = Inr vs" by blast
    then show "vs \<in> set vss" using list_all2_left [OF all2 ph(1)] by auto
  qed
  then show ?thesis unfolding servers set_concat by blast
qed

text \<open>Some server of the port and hostname has the match rule under the path and type.\<close>

definition serves :: "'p VirtualServer list \<Rightarrow> int \<Rightarrow> string \<Rightarrow> string \<Rightarrow> PathType \<Rightarrow> match_rule \<Rightarrow> bool" where
  "serves servers port h p t m \<longleftrightarrow>
     (\<exists>v \<in> set servers. vs_Port v = port \<and> vs_Hostname v = h \<and> (\<exists>r \<in> set (vs_PathRules v). in_rule p t m r))"

lemma ports_complete:
  assumes servers: "ports_buildServers ps = Inr servers" and st: "ports_state ge gw ls ps"
  shows "serves servers port h p t m \<longleftrightarrow>
    (\<exists>l \<in> set ls. v1_Port (l_Source l) = port \<and>
      (\<exists>e \<in> listener_entries ge gw l. en_host e = h \<and> fst (en_key e) = p \<and> en_type e = t \<and> no_idx (en_rule e) = m))"
proof -
  let ?at = "\<lambda>q. filter (\<lambda>l. v1_Port (l_Source l) = q) ls"
  let ?R = "\<lambda>q. \<exists>l \<in> set ls. v1_Port (l_Source l) = q \<and>
      (\<exists>e \<in> listener_entries ge gw l. en_host e = h \<and> fst (en_key e) = p \<and> en_type e = t \<and> no_idx (en_rule e) = m)"
  have state: "port_state ge gw q (?at q) hpr" if "(q, hpr) \<in> set ps" for q hpr using st that unfolding ports_state_def by blast
  have built: "\<exists>vs. hpr_buildServers hpr = Inr vs" if "(q, hpr) \<in> set ps" for q hpr
  proof -
    obtain vss where "map_go (\<lambda>(port, rules). hpr_buildServers rules) ps = Inr vss" using servers by (auto simp: ports_buildServers_def bind_go_Inr_iff)
    from list_all2_left [OF map_go_all2 [OF this] that] show ?thesis by auto
  qed
  have one: "(\<exists>v \<in> set vs. vs_Hostname v = h \<and> (\<exists>r \<in> set (vs_PathRules v). in_rule p t m r)) \<longleftrightarrow> ?R q"
    and port: "\<forall>v \<in> set vs. vs_Port v = q" if "(q, hpr) \<in> set ps" "hpr_buildServers hpr = Inr vs" for q hpr vs
  proof -
    have "collects hpr (\<Union>l \<in> set (?at q). listener_entries ge gw l)" and q: "hp_rulesPort hpr = q"
      using state [OF that(1)] unfolding port_state_def by blast+
    from hpr_complete [OF this(1) that(2)]
    show "(\<exists>v \<in> set vs. vs_Hostname v = h \<and> (\<exists>r \<in> set (vs_PathRules v). in_rule p t m r)) \<longleftrightarrow> ?R q" by auto
    show "\<forall>v \<in> set vs. vs_Port v = q" using hpr_servers(3) [OF that(2)] q by blast
  qed
  show ?thesis
  proof
    assume "serves servers port h p t m"
    then obtain v where v: "v \<in> set servers" "vs_Port v = port" "vs_Hostname v = h" "\<exists>r \<in> set (vs_PathRules v). in_rule p t m r"
      unfolding serves_def by blast
    then obtain q hpr vs where q: "(q, hpr) \<in> set ps" "hpr_buildServers hpr = Inr vs" "v \<in> set vs"
      using ports_buildServers_set [OF servers] by blast
    have "q = port" using port [OF q(1,2)] q(3) v(2) by simp
    moreover have "?R q" using one [OF q(1,2)] q(3) v(3,4) by blast
    ultimately show "?R port" by simp
  next
    assume r: "?R port"
    then have "port \<in> fst ` set ps" using st unfolding ports_state_def by blast
    then obtain hpr where hpr: "(port, hpr) \<in> set ps" by force
    then obtain vs where vs: "hpr_buildServers hpr = Inr vs" using built by blast
    then obtain v where v: "v \<in> set vs" "vs_Hostname v = h" "\<exists>r \<in> set (vs_PathRules v). in_rule p t m r"
      using one [OF hpr vs] r by blast
    moreover have "vs_Port v = port" using port [OF hpr vs] v(1) by blast
    ultimately show "serves servers port h p t m"
      unfolding serves_def using hpr vs ports_buildServers_set [OF servers, of v] by blast
  qed
qed

lemma serves_policies: "serves (map (\<lambda>s. s\<lparr>vs_Policies := pols\<rparr>) servers) port h p t m \<longleftrightarrow> serves servers port h p t m"
  by (simp add: serves_def)

text \<open>What a listener should answer, read off the graph.\<close>

definition offers ::
    "graph_env \<Rightarrow> Gateway \<Rightarrow> ProtocolType \<Rightarrow> Listener \<Rightarrow> int \<Rightarrow> string \<Rightarrow> string \<Rightarrow> PathType \<Rightarrow> match_rule \<Rightarrow> bool" where
  "offers ge gw proto l port h p t mr \<longleftrightarrow>
     l_Valid l \<and> v1_Protocol (l_Source l) = proto \<and> v1_Port (l_Source l) = port \<and>
     (\<exists>rk route hs idx filters d m path ty mt.
        rk \<in> set (l_Routes l) \<and> ge_routes ge rk = Some route \<and> l7_Valid route \<and>
        accepted_hostnames (l7_ParentRefs route) (CreateParentRefListenerKeyFromListener l) = Inr hs \<and> h \<in> set hs \<and>
        idx < length (l7_Rules route) \<and> rr_ValidMatches (l7_Rules route ! idx) \<and> m \<in> set (rr_Matches (l7_Rules route ! idx)) \<and>
        v1r_Path m = Some path \<and> p = getPath (Some path) \<and> v1p_Type path = Some ty \<and> convertPathType ty = Inr t \<and> convertMatch m = Inr mt \<and>
        rule_filters ge l route idx {} = Inr (filters, d) \<and>
        mr = \<lparr>mr_Filters = filters, mr_Source = l7_Source route, mr_Match = mt,
              mr_BackendGroup = fst (newBackendGroup (ge_policies ge) (ge_services ge) (rr_BackendRefs (l7_Rules route ! idx))
                (l_GatewayName l) (object_key (l7_Source route)) idx)\<rparr>)"

lemma match_entry_Some:
  "match_entry rl h m = Some e \<longleftrightarrow>
     (\<exists>path ty t mt. v1r_Path m = Some path \<and> v1p_Type path = Some ty \<and> convertPathType ty = Inr t \<and> convertMatch m = Inr mt \<and>
        e = \<lparr>en_host = h, en_key = (getPath (Some path), ty), en_type = t,
             en_rule = \<lparr>mr_Filters = re_filters rl, mr_Source = re_source rl, mr_Match = mt, mr_BackendGroup = re_group rl\<rparr>, en_env = rl\<rparr>)"
  by (auto simp: match_entry_def split: option.splits sum.splits)

lemma rule_env_of_simps:
  "re_filters (rule_env_of ge gw l route idx filters) = filters" "re_source (rule_env_of ge gw l route idx filters) = l7_Source route"
  "re_group (rule_env_of ge gw l route idx filters) = fst (newBackendGroup (ge_policies ge) (ge_services ge)
     (rr_BackendRefs (l7_Rules route ! idx)) (l_GatewayName l) (object_key (l7_Source route)) idx)"
  by (simp_all add: rule_env_of_def case_prod_beta)

lemma no_idx_new: "no_idx \<lparr>mr_Filters = f, mr_Source = s, mr_Match = mt, mr_BackendGroup = fst (newBackendGroup a b c d e g)\<rparr> =
    \<lparr>mr_Filters = f, mr_Source = s, mr_Match = mt, mr_BackendGroup = fst (newBackendGroup a b c d e g)\<rparr>"
  by (simp add: no_idx_def newBackendGroup_def Let_def)

lemma rule_entries_match:
  "(\<exists>e \<in> rule_entries ge gw l route hs idx. en_host e = h \<and> fst (en_key e) = p \<and> en_type e = t \<and> no_idx (en_rule e) = mr) \<longleftrightarrow>
   rr_ValidMatches (l7_Rules route ! idx) \<and> h \<in> set hs \<and>
   (\<exists>filters d m path ty mt. m \<in> set (rr_Matches (l7_Rules route ! idx)) \<and> v1r_Path m = Some path \<and> p = getPath (Some path) \<and>
      v1p_Type path = Some ty \<and> convertPathType ty = Inr t \<and> convertMatch m = Inr mt \<and> rule_filters ge l route idx {} = Inr (filters, d) \<and>
      mr = \<lparr>mr_Filters = filters, mr_Source = l7_Source route, mr_Match = mt,
              mr_BackendGroup = fst (newBackendGroup (ge_policies ge) (ge_services ge) (rr_BackendRefs (l7_Rules route ! idx))
                (l_GatewayName l) (object_key (l7_Source route)) idx)\<rparr>)" (is "?L \<longleftrightarrow> ?R")
proof
  assume ?L
  then obtain e where e: "e \<in> rule_entries ge gw l route hs idx" and eq: "en_host e = h" "fst (en_key e) = p" "en_type e = t" "no_idx (en_rule e) = mr"
    by blast
  from e obtain filters d h' m where m: "rr_ValidMatches (l7_Rules route ! idx)" "rule_filters ge l route idx {} = Inr (filters, d)"
    "h' \<in> set hs" "m \<in> set (rr_Matches (l7_Rules route ! idx))" "match_entry (rule_env_of ge gw l route idx filters) h' m = Some e"
    unfolding rule_entries_def by blast
  from m(5) obtain path ty t' mt where p: "v1r_Path m = Some path" "v1p_Type path = Some ty" "convertPathType ty = Inr t'" "convertMatch m = Inr mt"
    and e_eq: "e = \<lparr>en_host = h', en_key = (getPath (Some path), ty), en_type = t',
       en_rule = \<lparr>mr_Filters = filters, mr_Source = l7_Source route, mr_Match = mt,
              mr_BackendGroup = fst (newBackendGroup (ge_policies ge) (ge_services ge) (rr_BackendRefs (l7_Rules route ! idx))
                (l_GatewayName l) (object_key (l7_Source route)) idx)\<rparr>, en_env = rule_env_of ge gw l route idx filters\<rparr>"
    unfolding match_entry_Some rule_env_of_simps by blast
  have "h' = h" "getPath (Some path) = p" "t' = t"
    and "mr = \<lparr>mr_Filters = filters, mr_Source = l7_Source route, mr_Match = mt,
              mr_BackendGroup = fst (newBackendGroup (ge_policies ge) (ge_services ge) (rr_BackendRefs (l7_Rules route ! idx))
                (l_GatewayName l) (object_key (l7_Source route)) idx)\<rparr>"
    using eq unfolding e_eq by (simp_all add: no_idx_new)
  then show ?R using m(1-4) p by blast
next
  assume ?R
  then obtain filters d m path ty mt where m: "rr_ValidMatches (l7_Rules route ! idx)" "h \<in> set hs" "m \<in> set (rr_Matches (l7_Rules route ! idx))"
    "v1r_Path m = Some path" "p = getPath (Some path)" "v1p_Type path = Some ty" "convertPathType ty = Inr t" "convertMatch m = Inr mt"
    "rule_filters ge l route idx {} = Inr (filters, d)"
    and mr: "mr = \<lparr>mr_Filters = filters, mr_Source = l7_Source route, mr_Match = mt,
              mr_BackendGroup = fst (newBackendGroup (ge_policies ge) (ge_services ge) (rr_BackendRefs (l7_Rules route ! idx))
                (l_GatewayName l) (object_key (l7_Source route)) idx)\<rparr>" by blast
  define e where "e = \<lparr>en_host = h, en_key = (p, ty), en_type = t, en_rule = mr, en_env = rule_env_of ge gw l route idx filters\<rparr>"
  have "match_entry (rule_env_of ge gw l route idx filters) h m = Some e"
    unfolding match_entry_Some rule_env_of_simps e_def mr using m by blast
  then have "e \<in> rule_entries ge gw l route hs idx" using m(1,2,3,9) unfolding rule_entries_def by blast
  moreover have "no_idx mr = mr" unfolding mr by (rule no_idx_new)
  ultimately show ?L by (intro bexI [of _ e]) (simp_all add: e_def)
qed

lemma offers_entries:
  "offers ge gw proto l port h p t mr \<longleftrightarrow>
     l_Valid l \<and> v1_Protocol (l_Source l) = proto \<and> v1_Port (l_Source l) = port \<and>
     (\<exists>e \<in> listener_entries ge gw l. en_host e = h \<and> fst (en_key e) = p \<and> en_type e = t \<and> no_idx (en_rule e) = mr)"
proof -
  have "(\<exists>e \<in> listener_entries ge gw l. en_host e = h \<and> fst (en_key e) = p \<and> en_type e = t \<and> no_idx (en_rule e) = mr) \<longleftrightarrow>
    (\<exists>rk route hs idx. rk \<in> set (l_Routes l) \<and> ge_routes ge rk = Some route \<and> l7_Valid route \<and>
       accepted_hostnames (l7_ParentRefs route) (CreateParentRefListenerKeyFromListener l) = Inr hs \<and> idx < length (l7_Rules route) \<and>
       (\<exists>e \<in> rule_entries ge gw l route hs idx. en_host e = h \<and> fst (en_key e) = p \<and> en_type e = t \<and> no_idx (en_rule e) = mr))"
    unfolding listener_entries_def route_entries_def by blast
  then show ?thesis unfolding offers_def rule_entries_match by blast
qed

lemma buildServers_parts:
  assumes "dp_buildServers ge gw = Inr (http, ssl, hostnames, ids)"
  obtains ss hs ts where "gateway_state ge gw (g_Listeners gw) ss" and "ports_buildServers (ss_http ss) = Inr hs"
    and "ports_buildServers (ss_https ss) = Inr ts" and "http = map (\<lambda>s. s\<lparr>vs_Policies := buildPolicies gw (g_Policies gw)\<rparr>) hs"
    and "ssl = map (\<lambda>s. s\<lparr>vs_Policies := buildPolicies gw (g_Policies gw)\<rparr>) ts"
proof -
  obtain ss hs ts where "fold_go (add_listener ge gw) (g_Listeners gw) \<lparr>ss_http = [], ss_https = [], ss_hostnames = [], ss_ids = {}\<rparr> = Inr ss"
    "ports_buildServers (ss_http ss) = Inr hs" "ports_buildServers (ss_https ss) = Inr ts"
    "http = map (\<lambda>s. s\<lparr>vs_Policies := buildPolicies gw (g_Policies gw)\<rparr>) hs" "ssl = map (\<lambda>s. s\<lparr>vs_Policies := buildPolicies gw (g_Policies gw)\<rparr>) ts"
    using assms by (auto simp: dp_buildServers_def bind_go_Inr_iff Let_def)
  then show thesis using that [OF add_listeners_state] by blast
qed

lemma served_offers:
  "(\<exists>l \<in> set (served_listeners gw proto is). v1_Port (l_Source l) = port \<and>
      (\<exists>e \<in> listener_entries ge gw l. en_host e = h \<and> fst (en_key e) = p \<and> en_type e = t \<and> no_idx (en_rule e) = m)) \<longleftrightarrow>
   (\<exists>i \<in> set is. offers ge gw proto (g_heap gw ! i) port h p t m)"
  unfolding offers_entries served_listeners_def by auto

lemma serves_offers:
  assumes "dp_buildServers ge gw = Inr (http, ssl, hostnames, ids)"
  shows "serves http port h p t m \<longleftrightarrow> (\<exists>i \<in> set (g_Listeners gw). offers ge gw HTTPProtocolType (g_heap gw ! i) port h p t m)"
    and "serves ssl port h p t m \<longleftrightarrow> (\<exists>i \<in> set (g_Listeners gw). offers ge gw HTTPSProtocolType (g_heap gw ! i) port h p t m)"
proof -
  obtain ss hs ts where st: "gateway_state ge gw (g_Listeners gw) ss" and hs: "ports_buildServers (ss_http ss) = Inr hs"
    and ts: "ports_buildServers (ss_https ss) = Inr ts" and eq: "http = map (\<lambda>s. s\<lparr>vs_Policies := buildPolicies gw (g_Policies gw)\<rparr>) hs"
    "ssl = map (\<lambda>s. s\<lparr>vs_Policies := buildPolicies gw (g_Policies gw)\<rparr>) ts"
    using assms by (rule buildServers_parts)
  have st_http: "ports_state ge gw (served_listeners gw HTTPProtocolType (g_Listeners gw)) (ss_http ss)"
    and st_ssl: "ports_state ge gw (served_listeners gw HTTPSProtocolType (g_Listeners gw)) (ss_https ss)"
    using st unfolding gateway_state_def by blast+
  show "serves http port h p t m \<longleftrightarrow> (\<exists>i \<in> set (g_Listeners gw). offers ge gw HTTPProtocolType (g_heap gw ! i) port h p t m)"
    unfolding eq serves_policies served_offers [symmetric] using hs st_http by (rule ports_complete)
  show "serves ssl port h p t m \<longleftrightarrow> (\<exists>i \<in> set (g_Listeners gw). offers ge gw HTTPSProtocolType (g_heap gw ! i) port h p t m)"
    unfolding eq serves_policies served_offers [symmetric] using ts st_ssl by (rule ports_complete)
qed

text \<open>The rules of a server are numbered, one per path and type, and none is empty.\<close>

definition numbered :: "'p VirtualServer \<Rightarrow> bool" where
  "numbered v \<longleftrightarrow> distinct (map (\<lambda>r. (pr_Path r, pr_PathType r)) (vs_PathRules v)) \<and>
     (\<forall>i < length (vs_PathRules v). \<forall>mr \<in> set (pr_MatchRules (vs_PathRules v ! i)). bg_PathRuleIdx (mr_BackendGroup mr) = i) \<and>
     (\<forall>r \<in> set (vs_PathRules v). pr_MatchRules r \<noteq> [])"

lemma hpr_nonempty:
  assumes "collects hpr E" and "hpr_buildServers hpr = Inr servers" and "v \<in> set servers" and "r \<in> set (vs_PathRules v)"
  shows "pr_MatchRules r \<noteq> []"
proof -
  obtain es where es: "grouped hpr es" using assms(1) unfolding collects_def by blast
  have types: "\<forall>e \<in> set es. convertPathType (snd (en_key e)) = Inr (en_type e)" using es(1) unfolding grouped_def by blast
  have "vs_PathRules v \<noteq> []" using assms(4) by (metis empty_iff list.set(1))
  then obtain h rules where hr: "(h, rules) \<in> set (hp_rulesPerHost hpr)" "host_server hpr (h, rules) = Inr v"
    using hpr_servers(2) [OF assms(2,3)] unfolding rule_servers_iff by blast
  have "contents r \<in> contents ` snd ` set rules" using assms(4) unfolding host_server_contents(3) [OF hr(2), symmetric] by blast
  then obtain k q where q: "(k, q) \<in> set rules" "contents r = contents q" by auto
  then have some: "group_rule es h k = Some q" using host_rules_lookup [OF es, of h k q] hr(1) es unfolding grouped_def by auto
  then obtain e where "e \<in> set es" "en_host e = h" "en_key e = k" using group_rule_None_iff [of es h k] by force
  then have "set (pr_MatchRules q) \<noteq> {}" unfolding group_rule_Some(3) [OF some types] by blast
  then show ?thesis using q(2) by (auto simp: contents_def)
qed

lemma hpr_numbered:
  assumes "collects hpr E" and "hpr_buildServers hpr = Inr servers" and "v \<in> set servers"
  shows "numbered v"
proof (cases "vs_PathRules v = []")
  case False
  obtain h rules where "host_server hpr (h, rules) = Inr v"
    using hpr_servers(2) [OF assms(2,3)] False unfolding rule_servers_iff by blast
  then have "\<exists>rs. vs_PathRules v = set_path_rule_idx rs" by (auto simp: host_server_def split: option.splits)
  then obtain rs where rs: "vs_PathRules v = set_path_rule_idx rs" by blast
  have "\<forall>i < length (vs_PathRules v). \<forall>mr \<in> set (pr_MatchRules (vs_PathRules v ! i)). bg_PathRuleIdx (mr_BackendGroup mr) = i"
    unfolding rs by (auto simp: set_path_rule_idx_nth)
  then show ?thesis using hpr_keys [OF assms] hpr_nonempty [OF assms] unfolding numbered_def by blast
qed (simp add: numbered_def)

lemma ports_numbered:
  assumes "ports_buildServers ps = Inr servers" and "ports_state ge gw ls ps" and "v \<in> set servers"
  shows "numbered v"
proof -
  obtain port hpr vs where v: "(port, hpr) \<in> set ps" "hpr_buildServers hpr = Inr vs" "v \<in> set vs"
    using assms(1,3) ports_buildServers_set by blast
  then have "\<exists>E. collects hpr E" using assms(2) unfolding ports_state_def port_state_def by blast
  then show ?thesis using hpr_numbered v(2,3) by blast
qed

lemma servers_numbered:
  assumes "dp_buildServers ge gw = Inr (http, ssl, hostnames, ids)" and "v \<in> set (http @ ssl)"
  shows "numbered v"
proof -
  obtain ss hs ts where st: "gateway_state ge gw (g_Listeners gw) ss" and hs: "ports_buildServers (ss_http ss) = Inr hs"
    and ts: "ports_buildServers (ss_https ss) = Inr ts" and eq: "http = map (\<lambda>s. s\<lparr>vs_Policies := buildPolicies gw (g_Policies gw)\<rparr>) hs"
    "ssl = map (\<lambda>s. s\<lparr>vs_Policies := buildPolicies gw (g_Policies gw)\<rparr>) ts"
    using assms(1) by (rule buildServers_parts)
  obtain w where w: "w \<in> set hs \<or> w \<in> set ts" and v: "v = w\<lparr>vs_Policies := buildPolicies gw (g_Policies gw)\<rparr>"
    using assms(2) unfolding eq by auto
  have "numbered w" using w st ports_numbered [OF hs] ports_numbered [OF ts] unfolding gateway_state_def by blast
  then show ?thesis by (simp add: v numbered_def)
qed

section \<open>Backend groups\<close>

lemma update_keys:
  "inj_on key (set gs) \<Longrightarrow> map_of (fold (\<lambda>g. AList.update (key g) g) gs []) k = Some g \<longleftrightarrow> g \<in> set gs \<and> key g = k"
proof (induction gs rule: rev_induct)
  case (snoc x xs)
  then have IH: "map_of (fold (\<lambda>g. AList.update (key g) g) xs []) k = Some g \<longleftrightarrow> g \<in> set xs \<and> key g = k"
    and x: "g \<in> set xs \<Longrightarrow> key g = key x \<Longrightarrow> g = x" by (simp_all add: inj_on_def)
  show ?case
  proof (cases "key x = k")
    case True
    then show ?thesis using x by (auto simp: update_conv')
  next
    case False
    then show ?thesis using IH by (auto simp: update_conv')
  qed
qed simp

lemma update_groups:
  assumes "inj_on key (set gs)"
  shows "snd ` set (fold (\<lambda>g. AList.update (key g) g) gs []) = set gs"
proof -
  have d: "distinct (map fst (fold (\<lambda>g. AList.update (key g) g) gs []))"
    by (induction gs rule: rev_induct) (simp_all add: distinct_update)
  have "(k, g) \<in> set (fold (\<lambda>g. AList.update (key g) g) gs []) \<longleftrightarrow> g \<in> set gs \<and> key g = k" for k g
    unfolding map_of_eq_Some_iff [OF d, symmetric] by (rule update_keys [OF assms])
  then have "g \<in> snd ` set (fold (\<lambda>g. AList.update (key g) g) gs []) \<longleftrightarrow> g \<in> set gs" for g by (force simp: image_iff)
  then show ?thesis by blast
qed

text \<open>The group of a match rule of a server: made of a rule of an attached route, numbered as the path rule.\<close>

definition route_group :: "graph_env \<Rightarrow> NamespacedName \<Rightarrow> L7Route \<Rightarrow> nat \<Rightarrow> BackendGroup" where
  "route_group ge name route idx =
     fst (newBackendGroup (ge_policies ge) (ge_services ge) (rr_BackendRefs (l7_Rules route ! idx)) name (object_key (l7_Source route)) idx)"

lemma server_group_route:
  assumes run: "dp_buildServers ge gw = Inr (http, ssl, hostnames, ids)" and g: "g \<in> set (concat (map server_groups (http @ ssl)))"
    and names: "\<forall>i \<in> set (g_Listeners gw). l_GatewayName (g_heap gw ! i) = name"
  shows "\<exists>rk route idx. ge_routes ge rk = Some route \<and> g = (route_group ge name route idx)\<lparr>bg_PathRuleIdx := bg_PathRuleIdx g\<rparr>"
proof -
  obtain v r mr where v: "v \<in> set (http @ ssl)" and r: "r \<in> set (vs_PathRules v)" and mr: "mr \<in> set (pr_MatchRules r)" and g_eq: "g = mr_BackendGroup mr"
    using g by (auto simp: server_groups_def)
  have "in_rule (pr_Path r) (pr_PathType r) (no_idx mr) r" using mr by (simp add: in_rule_def)
  then have "serves http (vs_Port v) (vs_Hostname v) (pr_Path r) (pr_PathType r) (no_idx mr) \<or>
      serves ssl (vs_Port v) (vs_Hostname v) (pr_Path r) (pr_PathType r) (no_idx mr)"
    using v r unfolding serves_def set_append by blast
  then obtain i proto where i: "i \<in> set (g_Listeners gw)"
    and "offers ge gw proto (g_heap gw ! i) (vs_Port v) (vs_Hostname v) (pr_Path r) (pr_PathType r) (no_idx mr)"
    unfolding serves_offers [OF run] by blast
  then obtain rk route idx f s mt where route: "ge_routes ge rk = Some route"
    and eq: "no_idx mr = \<lparr>mr_Filters = f, mr_Source = s, mr_Match = mt, mr_BackendGroup = route_group ge (l_GatewayName (g_heap gw ! i)) route idx\<rparr>"
    unfolding offers_def route_group_def by blast
  have "(mr_BackendGroup mr)\<lparr>bg_PathRuleIdx := 0\<rparr> = route_group ge name route idx"
    using arg_cong [OF eq, of mr_BackendGroup] names i by (simp add: no_idx_def)
  from arg_cong [OF this, of "\<lambda>b. b\<lparr>bg_PathRuleIdx := bg_PathRuleIdx g\<rparr>"]
  have "g = (route_group ge name route idx)\<lparr>bg_PathRuleIdx := bg_PathRuleIdx g\<rparr>" by (simp add: g_eq)
  then show ?thesis using route by blast
qed

lemma groups_inj:
  assumes run: "dp_buildServers ge gw = Inr (http, ssl, hostnames, ids)" and names: "\<forall>i \<in> set (g_Listeners gw). l_GatewayName (g_heap gw ! i) = name"
    and unique: "\<And>rk rk' route route'. ge_routes ge rk = Some route \<Longrightarrow> ge_routes ge rk' = Some route' \<Longrightarrow>
      object_key (l7_Source route) = object_key (l7_Source route') \<Longrightarrow> route = route'"
  shows "inj_on group_key (set (concat (map server_groups (http @ ssl))))"
proof (rule inj_onI)
  fix a b assume a: "a \<in> set (concat (map server_groups (http @ ssl)))" and b: "b \<in> set (concat (map server_groups (http @ ssl)))"
    and key: "group_key a = group_key b"
  obtain rk route idx where ra: "ge_routes ge rk = Some route" "a = (route_group ge name route idx)\<lparr>bg_PathRuleIdx := bg_PathRuleIdx a\<rparr>"
    using server_group_route [OF run a names] by blast
  obtain rk' route' idx' where rb: "ge_routes ge rk' = Some route'" "b = (route_group ge name route' idx')\<lparr>bg_PathRuleIdx := bg_PathRuleIdx b\<rparr>"
    using server_group_route [OF run b names] by blast
  have "bg_Source a = object_key (l7_Source route)" "bg_RuleIdx a = idx" "bg_Source b = object_key (l7_Source route')" "bg_RuleIdx b = idx'"
    by (subst ra(2), simp add: route_group_def newBackendGroup_def Let_def)+ (subst rb(2), simp add: route_group_def newBackendGroup_def Let_def)+
  then have "route = route'" "idx = idx'" "bg_PathRuleIdx a = bg_PathRuleIdx b"
    using key unique [OF ra(1) rb(1)] by (simp_all add: group_key_def)
  then show "a = b" using ra(2) rb(2) by simp
qed

section \<open>Properties\<close>

text \<open>
  C2. The virtual servers say what the routes say. Some server of a port has, for a hostname, a path and a path type, a certain match
  rule if and only if a valid HTTP (for the TLS servers, HTTPS) listener of that port has an attached valid route that was accepted on the
  listener for that hostname, and a rule of the route with valid matches has a match with that path and type, and the
  match rule carries the converted match, the filters of the rule and the group of its backends. Nothing is lost when listeners, routes and rules share
  a hostname or a path, and nothing else is served. The number of the path rule in the backend group is left out.
\<close>

theorem virtual_servers_complete:
  assumes "dp_buildServers ge gw = Inr (http, ssl, hostnames, ids)"
  shows "(serves http port h p t mr \<longleftrightarrow> (\<exists>i \<in> set (g_Listeners gw). offers ge gw HTTPProtocolType (g_heap gw ! i) port h p t mr)) \<and>
    (serves ssl port h p t mr \<longleftrightarrow> (\<exists>i \<in> set (g_Listeners gw). offers ge gw HTTPSProtocolType (g_heap gw ! i) port h p t mr))"
  using serves_offers [OF assms] by blast

text \<open>
  C16. Every virtual server has at most one path rule for a path and path type, whatever routes contribute to it, and the backend groups of its
  i-th path rule carry the number i.
\<close>

theorem virtual_servers_numbered:
  assumes "dp_buildServers ge gw = Inr (http, ssl, hostnames, ids)" and "v \<in> set (http @ ssl)"
  shows "distinct (map (\<lambda>r. (pr_Path r, pr_PathType r)) (vs_PathRules v)) \<and>
    (\<forall>i < length (vs_PathRules v). \<forall>mr \<in> set (pr_MatchRules (vs_PathRules v ! i)). bg_PathRuleIdx (mr_BackendGroup mr) = i)"
  using servers_numbered [OF assms] by (simp add: numbered_def)

text \<open>
  C17. The backend groups, from which the traffic splits are generated, are exactly the groups of the match rules of all servers, provided
  no two routes of the graph have the same namespace and name. The key of a group has no route kind: an
  HTTPRoute and a GRPCRoute with the same name share keys and one of their groups is lost (lemma \<open>backend_group_lost\<close>).
\<close>

theorem backend_groups_kept:
  assumes "dp_buildServers ge gw = Inr (http, ssl, hostnames, ids)"
    and "\<forall>i \<in> set (g_Listeners gw). l_GatewayName (g_heap gw ! i) = name"
    and "\<And>rk rk' route route'. ge_routes ge rk = Some route \<Longrightarrow> ge_routes ge rk' = Some route' \<Longrightarrow>
      object_key (l7_Source route) = object_key (l7_Source route') \<Longrightarrow> route = route'"
  shows "set (buildBackendGroups (http @ ssl)) =
    {mr_BackendGroup mr | v r mr. v \<in> set (http @ ssl) \<and> r \<in> set (vs_PathRules v) \<and> mr \<in> set (pr_MatchRules r)}"
proof -
  have "set (buildBackendGroups (http @ ssl)) = set (concat (map server_groups (http @ ssl)))"
    using update_groups [OF groups_inj [OF assms]] by (simp add: buildBackendGroups_def)
  also have "\<dots> = {mr_BackendGroup mr | v r mr. v \<in> set (http @ ssl) \<and> r \<in> set (vs_PathRules v) \<and> mr \<in> set (pr_MatchRules r)}"
    unfolding server_groups_def by auto
  finally show ?thesis .
qed

section \<open>A graph\<close>

text \<open>A Gateway with one HTTP listener, and routes with one rule for the path /coffee.\<close>

definition cafe_backend :: "string \<Rightarrow> BackendRef" where
  "cafe_backend svc =
     \<lparr>br_BackendTLSPolicy = None, br_EndpointPickerConfig = \<lparr>epc_EndpointPickerRef = None, epc_NsName = ''''\<rparr>, br_InvalidForGateways = Map.empty,
      br_SessionPersistence = None, br_SvcNsName = nsname ''web'' svc,
      br_ServicePort = \<lparr>sp_Name = '''', sp_Port = 80, sp_TargetPort = IntVal 80, sp_AppProtocol = None\<rparr>, br_Weight = 1, br_Valid = True,
      br_IsMirrorBackend = False, br_IsExternalAuthBackend = False, br_IsInferencePool = False\<rparr>"

definition cafe_route :: "string \<Rightarrow> RouteType \<Rightarrow> string \<Rightarrow> string list \<Rightarrow> L7Route" where
  "cafe_route name kind hostname svcs =
     \<lparr>l7_Source = \<lparr>om_CreationTimestamp = 0, om_Namespace = ''web'', om_Name = name\<rparr>, l7_Generation = 1, l7_RouteType = kind,
      l7_Hostnames = [hostname],
      l7_Rules = [\<lparr>rr_RouteBackendRefs = [], rr_BackendRefs = map cafe_backend svcs,
        rr_Matches = [\<lparr>v1r_Path = Some \<lparr>v1p_Type = Some PathMatchPathPrefix, v1p_Value = Some ''/coffee''\<rparr>, v1r_Headers = [], v1r_QueryParams = [],
          v1r_Method = None\<rparr>],
        rr_Filters = \<lparr>rrf_Filters = [], rrf_Valid = True\<rparr>, rr_ValidMatches = True\<rparr>],
      l7_ParentRefs = [\<lparr>pf_Attachment = Some \<lparr>at_AcceptedHostnames = [(CreateParentRefListenerKey (nsname ''web'' ''gateway'') ''http'', [hostname])],
          at_FailedConditions = [], at_ListenerPort = 80, at_Attached = True\<rparr>,
        pf_SectionName = None, pf_Port = None, pf_EffectiveNginxProxy = None, pf_NamespacedName = nsname ''web'' ''gateway'',
        pf_GatewayNsName = nsname ''web'' ''gateway'', pf_Kind = ''Gateway'', pf_Idx = 0\<rparr>],
      l7_Policies = [], l7_Conditions = [], l7_Valid = True, l7_Attachable = True\<rparr>"

definition cafe_key :: "string \<Rightarrow> RouteType \<Rightarrow> RouteKey" where
  "cafe_key name kind = \<lparr>rk_NamespacedName = nsname ''web'' name, rk_RouteType = kind\<rparr>"

definition cafe_graph :: "(RouteKey \<times> L7Route) list \<Rightarrow> graph_env" where
  "cafe_graph routes = \<lparr>ge_routes = map_of routes, ge_services = Map.empty, ge_secrets = Map.empty, ge_policies = []\<rparr>"

definition cafe_gateway :: "RouteKey list \<Rightarrow> Gateway" where
  "cafe_gateway routes =
     \<lparr>g_Source = \<lparr>gw_Meta = \<lparr>om_CreationTimestamp = 0, om_Namespace = ''web'', om_Name = ''gateway''\<rparr>, gw_Generation = 1,
        gw_GatewayClassName = ''nginx'', gw_Listeners = [], gw_Addresses = [], gw_TLS = None, gw_AllowedListeners = None\<rparr>,
      g_EffectiveNginxProxy = None,
      g_ListenerFactory = \<lparr>lf_port = createPortConflictResolver, lf_tlsListenersByPort = (\<lambda>_. []), lf_existingKeys = {}, lf_protectedPorts = Map.empty\<rparr>,
      g_heap = [\<lparr>l_Name = ''http'', l_GatewayName = nsname ''web'' ''gateway'', l_ListenerSetName = noName,
        l_Source = \<lparr>v1_Name = ''http'', v1_Hostname = None, v1_Port = 80, v1_Protocol = HTTPProtocolType, v1_TLS = None, v1_AllowedRoutes = None\<rparr>,
        l_AllowedRouteLabelSelector = None, l_Routes = routes, l_L4Routes = [], l_ValidationMode = AllowValidOnly, l_CACertificateRefs = [],
        l_ResolvedSecrets = [], l_Conditions = [], l_SupportedKinds = [], l_Valid = True, l_Attachable = True\<rparr>],
      g_Listeners = [0], g_AttachedListenerSets = [], g_Policies = [], g_Conditions = [], g_Valid = True\<rparr>"

text \<open>The groups of the servers, and those that are kept.\<close>

definition groups_run :: "(RouteKey \<times> L7Route) list \<Rightarrow> (NamespacedName \<times> string list) list \<times> (NamespacedName \<times> string list) list" where
  "groups_run routes =
     (case dp_buildServers (cafe_graph routes) (cafe_gateway (map fst routes)) of
        Inl _ \<Rightarrow> ([], [])
      | Inr (http, ssl, _) \<Rightarrow>
          let show_group = (\<lambda>g. (bg_Source g, map b_UpstreamName (bg_Backends g))) in
          (map show_group (concat (map server_groups (http @ ssl))), map show_group (buildBackendGroups (http @ ssl))))"

lemma backend_group_lost:
  "groups_run [(cafe_key ''cafe'' RouteTypeHTTP, cafe_route ''cafe'' RouteTypeHTTP ''a.example.com'' [''tea'', ''milk'']),
      (cafe_key ''cafe'' RouteTypeGRPC, cafe_route ''cafe'' RouteTypeGRPC ''b.example.com'' [''coffee'', ''water''])] =
   ([(nsname ''web'' ''cafe'', [''web_tea_80'', ''web_milk_80'']), (nsname ''web'' ''cafe'', [''web_coffee_80'', ''web_water_80''])],
    [(nsname ''web'' ''cafe'', [''web_coffee_80'', ''web_water_80''])])"
  by code_simp

abbreviation two_routes :: "(RouteKey \<times> L7Route) list" where
  "two_routes \<equiv> [(cafe_key ''coffee'' RouteTypeHTTP, cafe_route ''coffee'' RouteTypeHTTP ''a.example.com'' [''coffee'']),
     (cafe_key ''tea'' RouteTypeHTTP, cafe_route ''tea'' RouteTypeHTTP ''a.example.com'' [''tea''])]"

lemma two_routes_run:
  obtains http ssl hostnames ids where "dp_buildServers (cafe_graph two_routes) (cafe_gateway (map fst two_routes)) = Inr (http, ssl, hostnames, ids)"
    and "map (\<lambda>v. (vs_Port v, vs_Hostname v, map (\<lambda>r. (pr_Path r, pr_PathType r, length (pr_MatchRules r))) (vs_PathRules v))) http =
      [(80, [], []), (80, ''a.example.com'', [(''/coffee'', PathTypePrefix, 2)])]" and "ssl = []"
    and "serves http 80 ''a.example.com'' ''/coffee'' PathTypePrefix (no_idx (pr_MatchRules (vs_PathRules (http ! 1) ! 0) ! 1))"
proof -
  have "case dp_buildServers (cafe_graph two_routes) (cafe_gateway (map fst two_routes)) of Inl _ \<Rightarrow> False
    | Inr (http, ssl, _) \<Rightarrow> map (\<lambda>v. (vs_Port v, vs_Hostname v, map (\<lambda>r. (pr_Path r, pr_PathType r, length (pr_MatchRules r))) (vs_PathRules v))) http =
      [(80, [], []), (80, ''a.example.com'', [(''/coffee'', PathTypePrefix, 2)])] \<and> length ssl = 0" by code_simp
  then obtain http ssl hostnames ids where run: "dp_buildServers (cafe_graph two_routes) (cafe_gateway (map fst two_routes)) = Inr (http, ssl, hostnames, ids)"
    and http: "map (\<lambda>v. (vs_Port v, vs_Hostname v, map (\<lambda>r. (pr_Path r, pr_PathType r, length (pr_MatchRules r))) (vs_PathRules v))) http =
      [(80, [], []), (80, ''a.example.com'', [(''/coffee'', PathTypePrefix, 2)])]" and ssl: "ssl = []"
    by (auto split: sum.splits)
  have "serves http 80 ''a.example.com'' ''/coffee'' PathTypePrefix (no_idx (pr_MatchRules (vs_PathRules (http ! 1) ! 0) ! 1))"
    using http by (auto simp: serves_def in_rule_def map_eq_Cons_conv)
  then show thesis by (rule that [OF run http ssl])
qed

theorem virtual_servers_complete_witness:
  "\<exists>http ssl hostnames ids mr. dp_buildServers (cafe_graph two_routes) (cafe_gateway (map fst two_routes)) = Inr (http, ssl, hostnames, ids) \<and>
     serves http 80 ''a.example.com'' ''/coffee'' PathTypePrefix mr \<and>
     offers (cafe_graph two_routes) (cafe_gateway (map fst two_routes)) HTTPProtocolType (g_heap (cafe_gateway (map fst two_routes)) ! 0)
       80 ''a.example.com'' ''/coffee'' PathTypePrefix mr"
proof -
  obtain http ssl hostnames ids where run: "dp_buildServers (cafe_graph two_routes) (cafe_gateway (map fst two_routes)) = Inr (http, ssl, hostnames, ids)"
    and s: "serves http 80 ''a.example.com'' ''/coffee'' PathTypePrefix (no_idx (pr_MatchRules (vs_PathRules (http ! 1) ! 0) ! 1))"
    by (rule two_routes_run)
  have "g_Listeners (cafe_gateway (map fst two_routes)) = [0]" by (simp add: cafe_gateway_def)
  with s virtual_servers_complete [OF run, of 80 "''a.example.com''" "''/coffee''" PathTypePrefix "no_idx (pr_MatchRules (vs_PathRules (http ! 1) ! 0) ! 1)"]
  have "offers (cafe_graph two_routes) (cafe_gateway (map fst two_routes)) HTTPProtocolType (g_heap (cafe_gateway (map fst two_routes)) ! 0)
       80 ''a.example.com'' ''/coffee'' PathTypePrefix (no_idx (pr_MatchRules (vs_PathRules (http ! 1) ! 0) ! 1))" by simp
  then show ?thesis using run s by blast
qed

theorem virtual_servers_numbered_witness:
  "\<exists>http ssl hostnames ids. dp_buildServers (cafe_graph two_routes) (cafe_gateway (map fst two_routes)) = Inr (http, ssl, hostnames, ids) \<and>
     length http = 2 \<and> length (pr_MatchRules (vs_PathRules (http ! 1) ! 0)) = 2 \<and>
     distinct (map (\<lambda>r. (pr_Path r, pr_PathType r)) (vs_PathRules (http ! 1)))"
proof -
  obtain http ssl hostnames ids where run: "dp_buildServers (cafe_graph two_routes) (cafe_gateway (map fst two_routes)) = Inr (http, ssl, hostnames, ids)"
    and http: "map (\<lambda>v. (vs_Port v, vs_Hostname v, map (\<lambda>r. (pr_Path r, pr_PathType r, length (pr_MatchRules r))) (vs_PathRules v))) http =
      [(80, [], []), (80, ''a.example.com'', [(''/coffee'', PathTypePrefix, 2)])]"
    by (rule two_routes_run)
  have "length http = 2" "length (pr_MatchRules (vs_PathRules (http ! 1) ! 0)) = 2" using http by (auto simp: map_eq_Cons_conv)
  moreover have "http ! 1 \<in> set (http @ ssl)" using calculation by simp
  ultimately show ?thesis using run virtual_servers_numbered [OF run] by blast
qed

theorem backend_groups_kept_witness:
  "\<exists>http ssl hostnames ids. dp_buildServers (cafe_graph two_routes) (cafe_gateway (map fst two_routes)) = Inr (http, ssl, hostnames, ids) \<and>
     mr_BackendGroup (pr_MatchRules (vs_PathRules (http ! 1) ! 0) ! 1) \<in> set (buildBackendGroups (http @ ssl))"
proof -
  obtain http ssl hostnames ids where run: "dp_buildServers (cafe_graph two_routes) (cafe_gateway (map fst two_routes)) = Inr (http, ssl, hostnames, ids)"
    and http: "map (\<lambda>v. (vs_Port v, vs_Hostname v, map (\<lambda>r. (pr_Path r, pr_PathType r, length (pr_MatchRules r))) (vs_PathRules v))) http =
      [(80, [], []), (80, ''a.example.com'', [(''/coffee'', PathTypePrefix, 2)])]"
    by (rule two_routes_run)
  have "http ! 1 \<in> set (http @ ssl)" "vs_PathRules (http ! 1) ! 0 \<in> set (vs_PathRules (http ! 1))"
    "pr_MatchRules (vs_PathRules (http ! 1) ! 0) ! 1 \<in> set (pr_MatchRules (vs_PathRules (http ! 1) ! 0))"
    using http by (auto simp: map_eq_Cons_conv)
  moreover have "\<forall>i \<in> set (g_Listeners (cafe_gateway (map fst two_routes))).
      l_GatewayName (g_heap (cafe_gateway (map fst two_routes)) ! i) = nsname ''web'' ''gateway''" by (simp add: cafe_gateway_def)
  moreover have "route = route'" if "ge_routes (cafe_graph two_routes) rk = Some route" "ge_routes (cafe_graph two_routes) rk' = Some route'"
    "object_key (l7_Source route) = object_key (l7_Source route')" for rk rk' route route'
    using that by (auto simp: cafe_graph_def cafe_route_def split: if_splits)
  ultimately have "mr_BackendGroup (pr_MatchRules (vs_PathRules (http ! 1) ! 0) ! 1) \<in> set (buildBackendGroups (http @ ssl))"
    using backend_groups_kept [OF run, of "nsname ''web'' ''gateway''"] by blast
  then show ?thesis using run by blast
qed

end
