(* ===== verification/Spec2Isabelle.thy ===== *)
theory Spec2Isabelle
  imports Conditions Ordering RefGrant Hostnames GatewayAPI ListenerValidation Listeners ListenerConflicts ListenerSets Routes BackendRefs BackendTLSPolicies RouteBinding RouteAttachment RouteConflicts EventLoop
    HTTPMatches Dataplane Locations Servers RequestRouting LocationPaths ServersTotal Float64 SplitClients
    FilterAPI AuthZ Convert HostRules HostRulesCorrect VirtualServers
begin

text \<open>
  NGINX Gateway Fabric: a verification development.

  \<^bold>\<open>The program.\<close> NGINX Gateway Fabric is a Kubernetes controller. Users describe listeners, routes, filters and backends with
  the resources of the Gateway API, and the controller configures NGINX accordingly. A change of a resource becomes an event;
  the event loop (\<^verbatim>\<open>internal/framework/events\<close>) hands batches of events to a handler. The handler builds the graph
  (\<^verbatim>\<open>internal/controller/state/graph\<close>), in which listeners, routes, policies and backends are validated and connected, and every
  rejection is recorded as a status condition. From the graph it builds the configuration of the data plane
  (\<^verbatim>\<open>internal/controller/state/dataplane\<close>): virtual servers with path rules and match rules. From that it generates the
  configuration of NGINX (\<^verbatim>\<open>internal/controller/nginx/config\<close>): servers, locations, split clients and maps. Inside NGINX a
  JavaScript module (\<^verbatim>\<open>internal/controller/nginx/modules/src/httpmatches.js\<close>) decides between the rules of one path.

  \<^bold>\<open>Conventions.\<close> Definitions have the names of the functions and types they model. The record fields carry a short prefix
  of their struct. A long function is split into helper definitions, one for the body of a loop or a branch, which stand right before it. A panic, nil dereferences included, is \<^verbatim>\<open>Inl\<close> in the type \<open>'a go\<close>; loops over slices
  that may panic are \<open>fold_go\<close>. Pointers that are shared and changed (listeners, policies, the arrays of the event
  loop) are addresses of an explicit store. Code outside the repository is an argument: the validation helpers of
  Kubernetes (record \<open>k8s\<close>), regular expressions, the evaluation of maps by NGINX, the policy generators. What is assumed of
  it is a hypothesis of the theorem, and a witness with concrete functions accompanies it. Every function is
  total: loops over slices are structural recursion and the few others have a termination proof, so no fuel is needed; the
  event loop, which need not end, is a step relation.

  \<^bold>\<open>Shared theories.\<close>
  \<^item> \<^verbatim>\<open>Prelude\<close>: the result type, loops, strings, decimal numbers, first occurrences in lists.
  \<^item> \<^verbatim>\<open>Float64\<close>: \<^verbatim>\<open>int32\<close> with wrap-around and \<^verbatim>\<open>float64\<close> with rounding to 53 bits, and error bounds.
  \<^item> \<^verbatim>\<open>Ordering\<close>: \<^verbatim>\<open>ngfsort/sort.go\<close>, \<^verbatim>\<open>dataplane/sort.go\<close> and \<^verbatim>\<open>sort.SliceStable\<close>. The locale \<open>key_order\<close>
    gives, for each comparison function of the code, that the sorted list is determined by its elements.
  \<^item> \<^verbatim>\<open>GatewayAPI\<close>, \<^verbatim>\<open>FilterAPI\<close>, \<^verbatim>\<open>Routes\<close>, \<^verbatim>\<open>Dataplane\<close>: the data of the resources, the graph and the data plane.

  \<^bold>\<open>The graph.\<close>
  \<^item> \<^verbatim>\<open>Conditions\<close> (\<^verbatim>\<open>conditions/conditions.go\<close>): every condition constructor; deduplication keeps the last of each type.
  \<^item> \<^verbatim>\<open>RefGrant\<close> (\<^verbatim>\<open>reference_grant.go\<close>): a reference is allowed exactly when a grant says so.
  \<^item> \<^verbatim>\<open>Hostnames\<close> (\<^verbatim>\<open>route_common.go\<close>, \<^verbatim>\<open>gateway_listener.go\<close>): the accepted hostnames of a route on a listener
    stand for exactly the hosts both ask for; where overlap is not detected.
  \<^item> \<^verbatim>\<open>ListenerValidation\<close>, \<^verbatim>\<open>Listeners\<close>, \<^verbatim>\<open>ListenerConflicts\<close>, \<^verbatim>\<open>ListenerSets\<close> (\<^verbatim>\<open>gateway_listener.go\<close>, \<^verbatim>\<open>listenerset.go\<close>): validators,
    conflict resolvers behind the contract \<open>listener_resolver\<close>, building and merging of listeners. No two valid listeners of a Gateway
    conflict, merging a ListenerSet never harms the Gateway's own listeners, every rejection has a reason.
  \<^item> \<^verbatim>\<open>BackendRefs\<close>, \<^verbatim>\<open>BackendTLSPolicies\<close> (\<^verbatim>\<open>backend_refs.go\<close>): a valid backend exists and is permitted, an
    unresolved external authorization disables its rule, the choice of a policy does not depend on map order.
  \<^item> \<^verbatim>\<open>RouteBinding\<close>, \<^verbatim>\<open>RouteAttachment\<close>, \<^verbatim>\<open>RouteConflicts\<close> (\<^verbatim>\<open>route_common.go\<close>): binding attaches a route to exactly the listeners a
    declarative specification allows and reports truthfully; hostnames are isolated; layer 4 listeners
    are exclusive. The contract \<open>listener_store\<close> says what binding keeps of the store.

  \<^bold>\<open>The data plane.\<close>
  \<^item> \<^verbatim>\<open>AuthZ\<close> (\<^verbatim>\<open>configuration.go\<close>): the maps generated for the authorization rules of a token compute whether the rules hold;
    a rule that joins several claims can be bypassed.
  \<^item> \<^verbatim>\<open>Convert\<close> (\<^verbatim>\<open>convert.go\<close>, \<^verbatim>\<open>createHTTPFilters\<close>, \<^verbatim>\<open>mirror.go\<close>): conversion of matches and filters; bounds of the
    percentage of mirrored requests and its overflow.
  \<^item> \<^verbatim>\<open>HostRules\<close> (\<^verbatim>\<open>buildServers\<close>, \<^verbatim>\<open>hostPathRules\<close>, \<^verbatim>\<open>newBackendGroup\<close>, \<^verbatim>\<open>buildBackendGroups\<close>) with \<^verbatim>\<open>HostRulesCorrect\<close> and
    \<^verbatim>\<open>VirtualServers\<close>: the virtual servers contain exactly the match rules of the routes attached to the listeners,
    grouped by port, hostname, path and type; backend groups are kept unless two routes share a name.

  \<^bold>\<open>The generated configuration.\<close>
  \<^item> \<^verbatim>\<open>HTTPMatches\<close> (\<^verbatim>\<open>httpmatches.js\<close> and the encoding in \<^verbatim>\<open>servers.go\<close>): the module recovers the encoded matches and picks the
    first one a request satisfies.
  \<^item> \<^verbatim>\<open>Locations\<close>, \<^verbatim>\<open>Servers\<close> (\<^verbatim>\<open>servers.go\<close>): \<^verbatim>\<open>createServers\<close> and everything below it, with \<^verbatim>\<open>RequestRouting\<close> (a request
    reaches the location of the first match rule it satisfies), \<^verbatim>\<open>LocationPaths\<close> (no two locations of a server have the
    same path) and \<^verbatim>\<open>ServersTotal\<close> (when generation panics).
  \<^item> \<^verbatim>\<open>SplitClients\<close> (\<^verbatim>\<open>split_clients.go\<close> and its template): percentages add up to one hundred and follow the weights; a case
    in which a negative percentage is printed.

  \<^bold>\<open>The event loop.\<close> \<^verbatim>\<open>EventLoop\<close> (\<^verbatim>\<open>events/loop.go\<close>): in every interleaving each event is handled exactly once and in order although
    the batches reuse their arrays, every event is eventually handled, and shutdown waits for the running batch.

  \<^bold>\<open>Across the parts.\<close> The theorem below connects the data plane with the generated configuration: the virtual servers
  that \<^verbatim>\<open>buildServers\<close> makes of the graph have the form that the lemmas about locations ask for, so their locations never clash.

  \<^bold>\<open>Not modelled.\<close> The construction of routes from their resources, the attachment of NGF policies, and the validation of
  filters: their outcome is the input of the model. Upstreams, layer 4 and TLS servers and the base settings of the data
  plane. The text templates, except that of split clients: they are programs of \<^verbatim>\<open>text/template\<close>. The change processor and its
  stores, the resolvers, the handler, the status updater and the provisioner: they act through Kubernetes clients
  and reflection on Go types. The agent connection, the WAF bundle fetcher, telemetry, the manager and the
  command line: input and output. Generated code. Logging is left out everywhere. The range of exponents of doubles
  is left out; the numbers the code computes with stay far from its ends. Capacities of slices matter only in the event loop
  and are modelled there.
\<close>

lemma built_rules_wf:
  assumes run: "dp_buildServers ge gw = Inr (http, ssl, hostnames, ids)" and v: "v \<in> set (http @ ssl)"
    and paths: "\<And>rk route rule m. ge_routes ge rk = Some route \<Longrightarrow> rule \<in> set (l7_Rules route) \<Longrightarrow> m \<in> set (rr_Matches rule) \<Longrightarrow>
      absolute (getPath (v1r_Path m))"
  shows "wf_path_rules (vs_PathRules v)"
proof -
  have num: "numbered v" by (rule servers_numbered [OF run v])
  have "absolute (pr_Path r)" if r: "r \<in> set (vs_PathRules v)" for r
  proof -
    have "pr_MatchRules r \<noteq> []" using num r unfolding numbered_def by blast
    then obtain mr where "mr \<in> set (pr_MatchRules r)" by (cases "pr_MatchRules r") auto
    then have "in_rule (pr_Path r) (pr_PathType r) (no_idx mr) r" by (simp add: in_rule_def)
    then have "serves http (vs_Port v) (vs_Hostname v) (pr_Path r) (pr_PathType r) (no_idx mr) \<or>
        serves ssl (vs_Port v) (vs_Hostname v) (pr_Path r) (pr_PathType r) (no_idx mr)"
      using v r unfolding serves_def set_append by blast
    then obtain i proto where "offers ge gw proto (g_heap gw ! i) (vs_Port v) (vs_Hostname v) (pr_Path r) (pr_PathType r) (no_idx mr)"
      unfolding serves_offers [OF run] by blast
    then obtain rk route idx m where "ge_routes ge rk = Some route" "idx < length (l7_Rules route)"
      "m \<in> set (rr_Matches (l7_Rules route ! idx))" "pr_Path r = getPath (v1r_Path m)"
      unfolding offers_def by metis
    then show ?thesis using paths [of rk route "l7_Rules route ! idx" m] by simp
  qed
  then show ?thesis using num unfolding wf_path_rules_def numbered_def list_all_iff by blast
qed


definition no_policies :: "PolicyKey generator" where
  "no_policies = \<lparr>g_GenerateForServer = (\<lambda>_ _. []), g_GenerateForLocation = (\<lambda>_ _. []), g_GenerateForInternalLocation = (\<lambda>_. [])\<rparr>"

text \<open>The second server of the sample graph, with its locations.\<close>

definition cafe_locations :: "(PolicyKey VirtualServer \<times> Location list) option" where
  "cafe_locations =
     (case dp_buildServers (cafe_graph two_routes) (cafe_gateway (map fst two_routes)) of
        Inl _ \<Rightarrow> None
      | Inr (http, _) \<Rightarrow>
          (case createLocations (\<lambda>_ _. None) no_policies (env_of sample_conf ''0'' (http ! 1)) (http ! 1) of
             Inl _ \<Rightarrow> None
           | Inr (locs, _) \<Rightarrow> Some (http ! 1, locs)))"

lemma cafe_locations_run:
  "case cafe_locations of None \<Rightarrow> False
     | Some (v, locs) \<Rightarrow> map l_Path locs = [''/coffee/'', ''= /coffee'', ''/_ngf-internal-rule0-route0'', ''/_ngf-internal-rule0-route1'', ''= /''] \<and> oidc_uris_ok (vs_PathRules v) \<and>
         list_all (\<lambda>rule. \<not> pr_HasInferenceBackends rule) (vs_PathRules v) \<and>
         list_all (\<lambda>l. Option.is_none (l_AuthJWT l) \<and> Option.is_none (l_AuthExternalRequest l)) locs"
  by code_simp


end
